(* ===== verification/Prelude.thy ===== *)
theory Prelude
  imports Complex_Main "HOL-Library.Word"
begin

text \<open>
  Shared vocabulary of the development: the text operations of Python the program uses (on ASCII
  text, a string being a list of characters), decimal and hexadecimal rendering, and the generic
  tables that stand for database tables (lists of rows in insertion order, each row with a key).
  The collections \<open>table_simps\<close>, \<open>keeps\<close> and \<open>hoare\<close> are filled by the theories that follow.
\<close>

named_theorems table_simps "how reads of a table see an update or an insertion"

named_theorems keeps "actions that keep an invariant of the world, one rule per construct"

named_theorems hoare "Hoare rules of the action constructs"

type_synonym uuid = "128 word"

text \<open>Timestamps count microseconds, the resolution of Python's \<open>datetime\<close>.\<close>

type_synonym usec = int

abbreviation seconds :: "int \<Rightarrow> usec" where
  "seconds n \<equiv> n * 1000000"

section \<open>Text\<close>

definition is_space :: "char \<Rightarrow> bool" where
  "is_space c \<longleftrightarrow> of_char c \<in> {9, 10, 11, 12, 13, 28, 29, 30, 31, 32 :: nat}"

function words :: "string \<Rightarrow> string list" where
  "words [] = []"
| "words (c # cs) =
     (if is_space c then words cs
      else (c # takeWhile (\<lambda>x. \<not> is_space x) cs) # words (dropWhile (\<lambda>x. \<not> is_space x) cs))"
  by pat_completeness auto
termination by (relation "measure size") (auto simp: le_imp_less_Suc [OF length_dropWhile_le])

definition newline :: string where
  "newline = [CHR 0x0A]"

definition lstrip :: "string \<Rightarrow> string" where
  "lstrip s = dropWhile is_space s"

definition rstrip :: "string \<Rightarrow> string" where
  "rstrip s = rev (dropWhile is_space (rev s))"

definition strip :: "string \<Rightarrow> string" where
  "strip s = rstrip (lstrip s)"

text \<open>\<open>s.rstrip(chars)\<close> and \<open>s.strip(chars)\<close> for one character.\<close>

definition rstrip_chr :: "char \<Rightarrow> string \<Rightarrow> string" where
  "rstrip_chr c s = rev (dropWhile ((=) c) (rev s))"

definition strip_chr :: "char \<Rightarrow> string \<Rightarrow> string" where
  "strip_chr c s = rstrip_chr c (dropWhile ((=) c) s)"

definition to_lower :: "char \<Rightarrow> char" where
  "to_lower c = (let n = of_char c :: nat in if 65 \<le> n \<and> n \<le> 90 then char_of (n + 32) else c)"

definition to_upper :: "char \<Rightarrow> char" where
  "to_upper c = (let n = of_char c :: nat in if 97 \<le> n \<and> n \<le> 122 then char_of (n - 32) else c)"

definition lower :: "string \<Rightarrow> string" where
  "lower s = map to_lower s"

fun split_on :: "char \<Rightarrow> string \<Rightarrow> string list" where
  "split_on c [] = [[]]"
| "split_on c (x # xs) =
     (if x = c then [] # split_on c xs
      else (case split_on c xs of [] \<Rightarrow> [[x]] | p # ps \<Rightarrow> (x # p) # ps))"

fun join_with :: "string \<Rightarrow> string list \<Rightarrow> string" where
  "join_with sep [] = []"
| "join_with sep [p] = p"
| "join_with sep (p # q # ps) = p @ sep @ join_with sep (q # ps)"

definition starts_with :: "string \<Rightarrow> string \<Rightarrow> bool" where
  "starts_with p s \<longleftrightarrow> take (length p) s = p"

fun find_text :: "string \<Rightarrow> string \<Rightarrow> bool" where
  "find_text p [] = (p = [])"
| "find_text p (c # cs) = (starts_with p (c # cs) \<or> find_text p cs)"

text \<open>Decimal text of a natural number and of an integer.\<close>

definition digit_char :: "nat \<Rightarrow> char" where
  "digit_char d = char_of (if d < 10 then 48 + d else 87 + d)"

function show_base :: "nat \<Rightarrow> nat \<Rightarrow> string" where
  "show_base b n =
     (if b < 2 \<or> n < b then [digit_char n] else show_base b (n div b) @ [digit_char (n mod b)])"
  by pat_completeness auto
termination
  by (relation "measure snd") auto

declare show_base.simps [simp del]

definition show_nat :: "nat \<Rightarrow> string" where
  "show_nat n = show_base 10 n"

definition show_int :: "int \<Rightarrow> string" where
  "show_int i = (if i < 0 then ''-'' @ show_nat (nat (- i)) else show_nat (nat i))"

text \<open>\<open>pad_left w c s\<close> is the effect of a width and fill in a format specification.\<close>

definition pad_left :: "nat \<Rightarrow> char \<Rightarrow> string \<Rightarrow> string" where
  "pad_left w c s = replicate (w - length s) c @ s"

text \<open>\<open>UUID.hex\<close>: 32 lower-case hexadecimal digits.\<close>

definition uuid_hex :: "uuid \<Rightarrow> string" where
  "uuid_hex u = pad_left 32 (CHR ''0'') (show_base 16 (unat u))"

text \<open>\<open>str(UUID)\<close>: the same digits with hyphens.\<close>

definition uuid_str :: "uuid \<Rightarrow> string" where
  "uuid_str u =
     (let h = uuid_hex u in
      take 8 h @ ''-'' @ take 4 (drop 8 h) @ ''-'' @ take 4 (drop 12 h) @ ''-'' @
      take 4 (drop 16 h) @ ''-'' @ drop 20 h)"

lemma lower_lower [simp]: "lower (lower s) = lower s"
proof -
  have "to_lower (to_lower c) = to_lower c" for c
    by (auto simp: to_lower_def Let_def)
  then show ?thesis by (simp add: lower_def comp_def)
qed

lemma length_split_on [simp]: "split_on c s \<noteq> []"
  by (induction s) (auto split: list.splits)

lemma split_on_free: "c \<notin> set s \<Longrightarrow> split_on c s = [s]"
  by (induction s) auto

lemma split_on_append: "c \<notin> set s \<Longrightarrow> split_on c (s @ c # t) = s # split_on c t"
  by (induction s) auto

section \<open>Tables\<close>

text \<open>
  A database table is the list of its rows in insertion order; \<open>key\<close> is the primary-key column.
  \<open>tbl_get\<close> is \<open>session.get\<close>, \<open>tbl_upd\<close> an assignment to columns of a loaded row, \<open>tbl_add\<close> an
  insertion.
\<close>

definition tbl_get :: "('r \<Rightarrow> 'k) \<Rightarrow> 'k \<Rightarrow> 'r list \<Rightarrow> 'r option" where
  "tbl_get key k t = find (\<lambda>r. key r = k) t"

definition tbl_upd :: "('r \<Rightarrow> 'k) \<Rightarrow> 'k \<Rightarrow> ('r \<Rightarrow> 'r) \<Rightarrow> 'r list \<Rightarrow> 'r list" where
  "tbl_upd key k f t = map (\<lambda>r. if key r = k then f r else r) t"

definition tbl_add :: "'r \<Rightarrow> 'r list \<Rightarrow> 'r list" where
  "tbl_add r t = t @ [r]"

definition tbl_del :: "('r \<Rightarrow> bool) \<Rightarrow> 'r list \<Rightarrow> 'r list" where
  "tbl_del P t = filter (\<lambda>r. \<not> P r) t"

lemma tbl_get_Nil [table_simps]: "tbl_get key k [] = None"
  by (simp add: tbl_get_def)

lemma tbl_get_Cons [table_simps]:
  "tbl_get key k (r # t) = (if key r = k then Some r else tbl_get key k t)"
  by (simp add: tbl_get_def)

lemma tbl_get_Some: "tbl_get key k t = Some r \<Longrightarrow> r \<in> set t \<and> key r = k"
  by (induction t) (auto simp: table_simps split: if_splits)

lemma tbl_get_key: "tbl_get key k t = Some r \<Longrightarrow> key r = k"
  using tbl_get_Some by fast

lemma tbl_get_None: "tbl_get key k t = None \<longleftrightarrow> k \<notin> key ` set t"
  by (induction t) (auto simp: table_simps)

lemma tbl_get_upd_same:
  "(\<And>r. key r = k \<Longrightarrow> key (f r) = k) \<Longrightarrow> tbl_get key k (tbl_upd key k f t) = map_option f (tbl_get key k t)"
  by (induction t) (auto simp: tbl_upd_def table_simps)

lemma tbl_get_upd_other:
  "k \<noteq> k' \<Longrightarrow> (\<And>r. key r = k' \<Longrightarrow> key (f r) = k') \<Longrightarrow>
   tbl_get key k (tbl_upd key k' f t) = tbl_get key k t"
  by (induction t) (auto simp: tbl_upd_def table_simps)

lemma tbl_get_add:
  "tbl_get key k (tbl_add r t) =
     (case tbl_get key k t of Some x \<Rightarrow> Some x | None \<Rightarrow> if key r = k then Some r else None)"
  by (induction t) (auto simp: tbl_add_def table_simps)

lemma tbl_upd_keys:
  "(\<And>r. key r = k \<Longrightarrow> key (f r) = k) \<Longrightarrow> map key (tbl_upd key k f t) = map key t"
  by (induction t) (auto simp: tbl_upd_def)

lemma tbl_upd_set: "x \<in> set (tbl_upd key k f t) \<Longrightarrow> \<exists>r \<in> set t. x = r \<or> (key r = k \<and> x = f r)"
  by (auto simp: tbl_upd_def)

end
