(* ===== verification/Json.thy ===== *)
theory Json
  imports Prelude
begin

text \<open>
  Decoded JSON and the Python operations the program applies to it: truthiness, \<open>dict.get\<close>,
  \<open>isinstance\<close> tests, \<open>str()\<close> and \<open>int()\<close>. A JSON object is an association list in document
  order with distinct keys. Non-integer numbers are reals. Python's text of a float, a list or a
  dict (its \<open>repr\<close>) is not spelled out: it is the parameter \<open>repr\<close> of the functions that use it.
\<close>

datatype json =
  JNull
| JBool bool
| JInt int
| JReal real
| JStr string
| JList "json list"
| JObj "(string \<times> json) list"

definition jget :: "(string \<times> json) list \<Rightarrow> string \<Rightarrow> json" where
  "jget fs k = (case map_of fs k of Some v \<Rightarrow> v | None \<Rightarrow> JNull)"

definition jget_default :: "(string \<times> json) list \<Rightarrow> string \<Rightarrow> json \<Rightarrow> json" where
  "jget_default fs k d = (case map_of fs k of Some v \<Rightarrow> v | None \<Rightarrow> d)"

text \<open>\<open>bool(v)\<close>.\<close>

fun truthy :: "json \<Rightarrow> bool" where
  "truthy JNull = False"
| "truthy (JBool b) = b"
| "truthy (JInt i) = (i \<noteq> 0)"
| "truthy (JReal r) = (r \<noteq> 0)"
| "truthy (JStr s) = (s \<noteq> [])"
| "truthy (JList xs) = (xs \<noteq> [])"
| "truthy (JObj fs) = (fs \<noteq> [])"

text \<open>\<open>str(v)\<close>; \<open>repr\<close> renders the values whose text Python's \<open>repr\<close> decides.\<close>

fun py_str :: "(json \<Rightarrow> string) \<Rightarrow> json \<Rightarrow> string" where
  "py_str repr JNull = ''None''"
| "py_str repr (JBool b) = (if b then ''True'' else ''False'')"
| "py_str repr (JInt i) = show_int i"
| "py_str repr (JStr s) = s"
| "py_str repr v = repr v"

text \<open>\<open>str(v or d)\<close>.\<close>

definition str_or :: "(json \<Rightarrow> string) \<Rightarrow> json \<Rightarrow> string \<Rightarrow> string" where
  "str_or repr v d = (if truthy v then py_str repr v else d)"

text \<open>
  \<open>int(s)\<close> on text: optional surrounding white space, an optional sign, and digits that may be
  separated by single underscores. \<open>None\<close> is \<open>ValueError\<close>. The base is 10 or 16 in the program.
\<close>

definition digit_of :: "nat \<Rightarrow> char \<Rightarrow> nat option" where
  "digit_of b c =
     (let n = of_char c :: nat;
          d = (if 48 \<le> n \<and> n \<le> 57 then n - 48
               else if 97 \<le> n \<and> n \<le> 122 then n - 87
               else if 65 \<le> n \<and> n \<le> 90 then n - 55 else b)
      in if d < b then Some d else None)"

fun parse_digits :: "nat \<Rightarrow> nat \<Rightarrow> string \<Rightarrow> nat option" where
  "parse_digits b acc [] = Some acc"
| "parse_digits b acc (c # cs) =
     (if c = CHR ''_'' then
        (case cs of [] \<Rightarrow> None
         | d # ds \<Rightarrow> (case digit_of b d of None \<Rightarrow> None | Some v \<Rightarrow> parse_digits b (acc * b + v) ds))
      else (case digit_of b c of None \<Rightarrow> None | Some v \<Rightarrow> parse_digits b (acc * b + v) cs))"

definition parse_nat :: "nat \<Rightarrow> string \<Rightarrow> nat option" where
  "parse_nat b s =
     (case s of [] \<Rightarrow> None
      | c # cs \<Rightarrow> (case digit_of b c of None \<Rightarrow> None | Some v \<Rightarrow> parse_digits b v cs))"

definition drop_prefix16 :: "nat \<Rightarrow> string \<Rightarrow> string" where
  "drop_prefix16 b s =
     (if b = 16 \<and> take 2 (lower s) = ''0x'' then
        (case drop 2 s of c # cs \<Rightarrow> if c = CHR ''_'' then cs else c # cs | [] \<Rightarrow> [])
      else s)"

definition parse_int :: "nat \<Rightarrow> string \<Rightarrow> int option" where
  "parse_int b s =
     (case strip s of [] \<Rightarrow> None
      | c # cs \<Rightarrow>
          if c = CHR ''-'' then map_option (\<lambda>n. - int n) (parse_nat b (drop_prefix16 b cs))
          else if c = CHR ''+'' then map_option int (parse_nat b (drop_prefix16 b cs))
          else map_option int (parse_nat b (drop_prefix16 b (c # cs))))"

text \<open>
  \<open>int(v)\<close> on a decoded value. \<open>Inl True\<close> is \<open>TypeError\<close> (no conversion from this type),
  \<open>Inl False\<close> is \<open>ValueError\<close>.
\<close>

fun py_int :: "json \<Rightarrow> bool + int" where
  "py_int (JInt i) = Inr i"
| "py_int (JBool b) = Inr (if b then 1 else 0)"
| "py_int (JReal r) = Inr (if r < 0 then \<lceil>r\<rceil> else \<lfloor>r\<rfloor>)"
| "py_int (JStr s) = (case parse_int 10 s of Some i \<Rightarrow> Inr i | None \<Rightarrow> Inl False)"
| "py_int v = Inl True"

fun is_obj :: "json \<Rightarrow> bool" where
  "is_obj (JObj fs) = True"
| "is_obj v = False"

fun is_list :: "json \<Rightarrow> bool" where
  "is_list (JList xs) = True"
| "is_list v = False"

text \<open>
  \<open>isinstance(v, (int, float))\<close>: in Python a \<open>bool\<close> is an \<open>int\<close>.
\<close>

fun is_number :: "json \<Rightarrow> bool" where
  "is_number (JInt i) = True"
| "is_number (JReal r) = True"
| "is_number (JBool b) = True"
| "is_number v = False"

text \<open>\<open>v == w\<close> where numbers of different types compare by value (\<open>1 == True == 1.0\<close>).\<close>

fun num_val :: "json \<Rightarrow> real option" where
  "num_val (JInt i) = Some (of_int i)"
| "num_val (JReal r) = Some r"
| "num_val (JBool b) = Some (if b then 1 else 0)"
| "num_val v = None"

definition json_eq_int :: "json \<Rightarrow> int \<Rightarrow> bool" where
  "json_eq_int v i \<longleftrightarrow> num_val v = Some (of_int i)"

fun jset :: "(string \<times> json) list \<Rightarrow> string \<Rightarrow> json \<Rightarrow> (string \<times> json) list" where
  "jset [] k v = [(k, v)]"
| "jset ((k', v') # fs) k v = (if k' = k then (k, v) # fs else (k', v') # jset fs k v)"

lemma map_of_jset: "map_of (jset fs k v) = (map_of fs)(k \<mapsto> v)"
  by (induction fs k v rule: jset.induct) (auto simp: fun_eq_iff)

lemma jget_jset [simp]: "jget (jset fs k v) k' = (if k' = k then v else jget fs k')"
  by (simp add: jget_def map_of_jset)

lemma jget_Cons [simp]: "jget ((k, v) # fs) k' = (if k' = k then v else jget fs k')"
  by (simp add: jget_def)

lemma jget_Nil [simp]: "jget [] k = JNull"
  by (simp add: jget_def)

section \<open>Printing and reading numbers\<close>

lemma digit_of_digit_char: "d < b \<Longrightarrow> b \<le> 16 \<Longrightarrow> digit_of b (digit_char d) = Some d"
  by (auto simp: digit_of_def digit_char_def Let_def)

lemma digit_char_not_underscore: "d < 16 \<Longrightarrow> digit_char d \<noteq> CHR ''_''"
proof
  assume d: "d < 16" and "digit_char d = CHR ''_''"
  then have "of_char (digit_char d) = (95 :: nat)" by simp
  with d show False by (auto simp: digit_char_def split: if_splits)
qed

lemma parse_digits_append_digit:
  assumes "b \<le> 16" and "d < b" and "parse_digits b acc s = Some v"
  shows "parse_digits b acc (s @ [digit_char d]) = Some (v * b + d)"
  using assms
proof (induction b acc s rule: parse_digits.induct)
  case (1 b acc)
  then show ?case by (simp add: digit_of_digit_char digit_char_not_underscore)
next
  case (2 b acc c cs)
  then show ?case by (auto split: if_splits option.splits list.splits)
qed

lemma show_base_nonempty: "show_base b n \<noteq> []"
  by (subst show_base.simps) simp

lemma parse_nat_show_base:
  assumes "2 \<le> b" and "b \<le> 16"
  shows "parse_nat b (show_base b n) = Some n"
proof (induction n rule: less_induct)
  case (less n)
  show ?case
  proof (cases "n < b")
    case True
    with assms show ?thesis
      by (subst show_base.simps) (simp add: parse_nat_def digit_of_digit_char)
  next
    case False
    with assms have small: "n div b < n" by (intro div_less_dividend) auto
    then have IH: "parse_nat b (show_base b (n div b)) = Some (n div b)" by (rule less)
    obtain c cs where cc: "show_base b (n div b) = c # cs"
      using show_base_nonempty by (cases "show_base b (n div b)") auto
    from IH cc obtain v where v: "digit_of b c = Some v" "parse_digits b v cs = Some (n div b)"
      by (auto simp: parse_nat_def split: option.splits)
    have "parse_digits b v (cs @ [digit_char (n mod b)]) = Some (n div b * b + n mod b)"
      using assms v(2) by (intro parse_digits_append_digit) auto
    with False assms cc v(1) show ?thesis
      by (subst show_base.simps) (simp add: parse_nat_def)
  qed
qed

end
