(* ===== verification/Models.thy ===== *)
theory Models
  imports Enums Json
begin

text \<open>
  The persistent data of \<open>app/models\<close>: one record per table, in the columns of the source, and the
  database as the record of its tables. Nullable columns are options, timestamps are microseconds.
  \<open>created_at\<close> of the timestamp mixin is kept where a query orders by it; \<open>updated_at\<close> is never read
  and left out. The constraints the tables declare (checks, unique constraints and foreign keys)
  are the predicate \<open>db_ok\<close>; a flush or a commit that would violate them raises. Column widths
  (\<open>String(n)\<close>) are not modelled.
\<close>

section \<open>Rows\<close>

record provider_row =
  p_id :: uuid
  p_key :: string
  p_display_name :: string
  p_type :: provider_type
  p_is_active :: bool
  p_credential_backend :: secret_backend
  p_credential_ref :: string
  p_default_region :: "string option"
  p_default_server_type :: "string option"
  p_default_image :: "string option"

record node_row =
  n_id :: uuid
  n_name :: string
  n_master_node_id :: string
  n_provider_id :: uuid
  n_current_host :: string
  n_current_port :: int
  n_state :: node_state
  n_state_changed_at :: usec
  n_operation_mode :: node_operation_mode
  n_monitoring_enabled :: bool
  n_consecutive_failures :: int
  n_consecutive_successes :: int
  n_last_checked_at :: "usec option"
  n_last_successful_check_at :: "usec option"
  n_lease_token :: "string option"
  n_lease_until :: "usec option"

record cred_row =
  cr_id :: uuid
  cr_node_id :: uuid
  cr_ssh_username :: string
  cr_ssh_port :: int
  cr_ssh_auth_method :: ssh_auth_method
  cr_secret_backend :: secret_backend
  cr_ssh_secret_ref :: string
  cr_ssh_public_key :: "string option"
  cr_panel_username :: "string option"
  cr_panel_password_ref :: "string option"
  cr_panel_password_backend :: "secret_backend option"
  cr_panel_base_path :: "string option"
  cr_api_token_ref :: "string option"
  cr_api_token_backend :: "secret_backend option"

record check_row =
  c_node_id :: uuid
  c_request_id :: "string option"
  c_target_host :: string
  c_target_port :: int
  c_outcome :: check_outcome
  c_success_count :: int
  c_failure_count :: int
  c_pending_count :: int
  c_malformed_count :: int
  c_total_nodes :: int
  c_details :: "json option"
  c_error_code :: "string option"
  c_error_message :: "string option"
  c_checked_at :: usec
  c_completed_at :: "usec option"

record vps_row =
  v_id :: uuid
  v_created_at :: usec
  v_provider_id :: uuid
  v_node_id :: uuid
  v_provider_server_id :: string
  v_role :: vps_role
  v_state :: vps_state
  v_host :: "string option"
  v_region :: "string option"
  v_server_type :: "string option"
  v_image :: "string option"

record job_row =
  j_id :: uuid
  j_created_at :: usec
  j_node_id :: uuid
  j_state :: job_state
  j_checkpoint :: checkpoint
  j_active_slot :: "bool option"
  j_is_dry_run :: bool
  j_trigger_mode :: trigger_mode
  j_request_key :: "string option"
  j_original_node_state :: "string option"
  j_attempt_count :: int
  j_max_attempts :: int
  j_old_vps_id :: "uuid option"
  j_new_vps_id :: "uuid option"
  j_last_error_code :: "string option"
  j_last_error_message :: "string option"
  j_lease_token :: "string option"
  j_lease_until :: "usec option"
  j_provisioning_requested_at :: "usec option"
  j_master_snapshot :: "json option"
  j_new_ip_verified_at :: "usec option"
  j_deployment_verified_at :: "usec option"
  j_master_updated_at :: "usec option"
  j_master_verified_at :: "usec option"
  j_final_health_verified_at :: "usec option"
  j_old_vps_deleted_at :: "usec option"
  j_started_at :: "usec option"
  j_completed_at :: "usec option"

record deployment_row =
  d_id :: uuid
  d_job_id :: uuid
  d_vps_id :: uuid
  d_attempt_number :: int
  d_state :: deployment_state
  d_started_at :: "usec option"
  d_completed_at :: "usec option"
  d_error_code :: "string option"
  d_error_message :: "string option"
  d_panel_username :: "string option"
  d_panel_port :: "int option"
  d_web_base_path :: "string option"
  d_access_url :: "string option"
  d_api_token_ref :: "string option"
  d_panel_password_ref :: "string option"
  d_db_type :: "string option"

text \<open>An event before it is flushed, which gives it its identifier, and its row.\<close>

record new_event =
  e_node_id :: "uuid option"
  e_job_id :: "uuid option"
  e_type :: event_type
  e_severity :: severity
  e_message :: string
  e_payload :: "json option"
  e_created_at :: usec

record event_row = new_event +
  e_id :: uuid

record setting_row =
  s_key :: string
  s_value :: json
  s_description :: "string option"

record db =
  t_providers :: "provider_row list"
  t_nodes :: "node_row list"
  t_creds :: "cred_row list"
  t_checks :: "check_row list"
  t_vps :: "vps_row list"
  t_jobs :: "job_row list"
  t_deployments :: "deployment_row list"
  t_events :: "event_row list"
  t_settings :: "setting_row list"

section \<open>Constraints\<close>

definition not_blank :: "string option \<Rightarrow> bool" where
  "not_blank v \<longleftrightarrow> (case v of None \<Rightarrow> True | Some s \<Rightarrow> s \<noteq> [])"

definition port_ok :: "int \<Rightarrow> bool" where
  "port_ok p \<longleftrightarrow> 1 \<le> p \<and> p \<le> 65535"

definition provider_checks :: "provider_row \<Rightarrow> bool" where
  "provider_checks p \<longleftrightarrow>
     p_key p \<noteq> [] \<and> p_display_name p \<noteq> [] \<and> p_credential_ref p \<noteq> [] \<and>
     not_blank (p_default_region p) \<and> not_blank (p_default_server_type p) \<and>
     not_blank (p_default_image p)"

definition node_checks :: "node_row \<Rightarrow> bool" where
  "node_checks n \<longleftrightarrow>
     n_name n \<noteq> [] \<and> n_master_node_id n \<noteq> [] \<and> n_current_host n \<noteq> [] \<and>
     port_ok (n_current_port n) \<and> 0 \<le> n_consecutive_failures n \<and> 0 \<le> n_consecutive_successes n"

definition cred_checks :: "cred_row \<Rightarrow> bool" where
  "cred_checks c \<longleftrightarrow>
     cr_ssh_username c \<noteq> [] \<and> port_ok (cr_ssh_port c) \<and> cr_ssh_secret_ref c \<noteq> []"

definition check_checks :: "check_row \<Rightarrow> bool" where
  "check_checks c \<longleftrightarrow>
     port_ok (c_target_port c) \<and> 0 \<le> c_success_count c \<and> 0 \<le> c_failure_count c \<and>
     0 \<le> c_pending_count c \<and> 0 \<le> c_malformed_count c \<and> 0 \<le> c_total_nodes c"

definition vps_checks :: "vps_row \<Rightarrow> bool" where
  "vps_checks v \<longleftrightarrow> not_blank (v_host v)"

definition job_checks :: "job_row \<Rightarrow> bool" where
  "job_checks j \<longleftrightarrow>
     0 \<le> j_attempt_count j \<and> 0 < j_max_attempts j \<and>
     (case j_original_node_state j of None \<Rightarrow> True
      | Some s \<Rightarrow> s \<in> {''unknown'', ''healthy'', ''degraded'', ''failed''})"

definition deployment_checks :: "deployment_row \<Rightarrow> bool" where
  "deployment_checks d \<longleftrightarrow>
     0 < d_attempt_number d \<and> (case d_panel_port d of None \<Rightarrow> True | Some p \<Rightarrow> port_ok p)"

text \<open>
  A unique constraint over nullable columns ignores the rows where one of them is null:
  \<open>unique_on\<close> compares only the keys that are present.
\<close>

definition unique_on :: "('r \<Rightarrow> 'k option) \<Rightarrow> 'r list \<Rightarrow> bool" where
  "unique_on f t \<longleftrightarrow> distinct (filter (\<lambda>k. k \<noteq> None) (map f t))"

definition providers_ok :: "db \<Rightarrow> bool" where
  "providers_ok d \<longleftrightarrow>
     distinct (map p_id (t_providers d)) \<and> distinct (map p_key (t_providers d)) \<and>
     list_all provider_checks (t_providers d)"

definition nodes_ok :: "db \<Rightarrow> bool" where
  "nodes_ok d \<longleftrightarrow>
     distinct (map n_id (t_nodes d)) \<and> distinct (map n_name (t_nodes d)) \<and>
     distinct (map n_master_node_id (t_nodes d)) \<and> list_all node_checks (t_nodes d) \<and>
     list_all (\<lambda>n. n_provider_id n \<in> set (map p_id (t_providers d))) (t_nodes d)"

definition creds_ok :: "db \<Rightarrow> bool" where
  "creds_ok d \<longleftrightarrow>
     distinct (map cr_id (t_creds d)) \<and> distinct (map cr_node_id (t_creds d)) \<and>
     list_all cred_checks (t_creds d) \<and>
     list_all (\<lambda>c. cr_node_id c \<in> set (map n_id (t_nodes d))) (t_creds d)"

definition checks_ok :: "db \<Rightarrow> bool" where
  "checks_ok d \<longleftrightarrow>
     list_all check_checks (t_checks d) \<and>
     list_all (\<lambda>c. c_node_id c \<in> set (map n_id (t_nodes d))) (t_checks d)"

definition vps_ok :: "db \<Rightarrow> bool" where
  "vps_ok d \<longleftrightarrow>
     distinct (map v_id (t_vps d)) \<and>
     distinct (map (\<lambda>v. (v_provider_id v, v_provider_server_id v)) (t_vps d)) \<and>
     list_all vps_checks (t_vps d) \<and>
     list_all (\<lambda>v. v_provider_id v \<in> set (map p_id (t_providers d)) \<and>
                   v_node_id v \<in> set (map n_id (t_nodes d))) (t_vps d)"

definition jobs_ok :: "db \<Rightarrow> bool" where
  "jobs_ok d \<longleftrightarrow>
     distinct (map j_id (t_jobs d)) \<and>
     unique_on (\<lambda>j. map_option (\<lambda>a. (j_node_id j, a)) (j_active_slot j)) (t_jobs d) \<and>
     unique_on j_request_key (t_jobs d) \<and> list_all job_checks (t_jobs d) \<and>
     list_all (\<lambda>j. j_node_id j \<in> set (map n_id (t_nodes d)) \<and>
                   set_option (j_old_vps_id j) \<subseteq> set (map v_id (t_vps d)) \<and>
                   set_option (j_new_vps_id j) \<subseteq> set (map v_id (t_vps d))) (t_jobs d)"

definition deployments_ok :: "db \<Rightarrow> bool" where
  "deployments_ok d \<longleftrightarrow>
     distinct (map d_id (t_deployments d)) \<and>
     distinct (map (\<lambda>x. (d_job_id x, d_attempt_number x)) (t_deployments d)) \<and>
     list_all deployment_checks (t_deployments d) \<and>
     list_all (\<lambda>x. d_job_id x \<in> set (map j_id (t_jobs d)) \<and>
                   d_vps_id x \<in> set (map v_id (t_vps d))) (t_deployments d)"

definition settings_ok :: "db \<Rightarrow> bool" where
  "settings_ok d \<longleftrightarrow>
     distinct (map s_key (t_settings d)) \<and> list_all (\<lambda>s. s_key s \<noteq> []) (t_settings d)"

definition db_ok :: "db \<Rightarrow> bool" where
  "db_ok d \<longleftrightarrow>
     providers_ok d \<and> nodes_ok d \<and> creds_ok d \<and> checks_ok d \<and> vps_ok d \<and> jobs_ok d \<and>
     deployments_ok d \<and> settings_ok d"

definition empty_db :: db where
  "empty_db = \<lparr>t_providers = [], t_nodes = [], t_creds = [], t_checks = [], t_vps = [], t_jobs = [],
     t_deployments = [], t_events = [], t_settings = []\<rparr>"

lemma unique_on_Nil [simp]: "unique_on f []"
  by (simp add: unique_on_def)

lemma unique_on_Cons [simp]:
  "unique_on f (r # t) \<longleftrightarrow> unique_on f t \<and> (f r \<noteq> None \<longrightarrow> f r \<notin> f ` set t)"
  by (auto simp: unique_on_def)

lemma unique_onD:
  "unique_on f t \<Longrightarrow> x \<in> set t \<Longrightarrow> y \<in> set t \<Longrightarrow> f x = Some k \<Longrightarrow> f y = Some k \<Longrightarrow> distinct t \<Longrightarrow> x = y"
  by (induction t) (auto simp: image_iff)

lemma distinct_key_unique:
  "distinct (map key t) \<Longrightarrow> x \<in> set t \<Longrightarrow> y \<in> set t \<Longrightarrow> key x = key y \<Longrightarrow> x = y"
  by (auto simp: distinct_map inj_on_def)

lemma tbl_get_unique:
  "distinct (map key t) \<Longrightarrow> r \<in> set t \<Longrightarrow> tbl_get key (key r) t = Some r"
  by (induction t) (auto simp: table_simps image_iff)

end
