(* ===== verification/Config.thy ===== *)
theory Config
  imports Prelude
begin

text \<open>
  \<open>app/core/config.py\<close>: the settings of the process. Every field is kept, with the source's name
  (\<open>host\<close> and \<open>port\<close> are \<open>bind_host\<close> and \<open>bind_port\<close>); the field ranges declared with \<open>Field(ge, le)\<close>
  are \<open>field_bounds\<close>, and \<open>validate_configuration\<close> is the model validator, with its message as error.
  Floating-point settings are reals. A settings object exists in the program only when both hold:
  \<open>valid_settings\<close>.
\<close>

record settings =
  environment :: string
  log_level :: string
  log_json :: bool
  bind_host :: string
  bind_port :: int
  dry_run :: bool
  allow_real_infrastructure_mutation :: bool
  allow_old_vps_deletion :: bool
  old_vps_delete_confirmation :: string
  max_replacement_attempts :: int
  max_temporary_servers :: int
  max_concurrent_replacements :: int
  database_url :: "string option"
  telegram_bot_token :: "string option"
  telegram_bot_enabled :: bool
  telegram_authorized_user_ids :: "int list"
  telegram_callback_secret :: "string option"
  telegram_notification_chat_id :: "int option"
  telegram_poll_timeout_seconds :: int
  telegram_progress_interval_seconds :: real
  telegram_notification_interval_seconds :: real
  api_health_timeout_seconds :: real
  api_health_max_concurrency :: int
  hetzner_api_token :: "string option"
  linode_api_token :: "string option"
  master_3xui_base_url :: "string option"
  master_3xui_connection_mode :: string
  master_3xui_local_base_url :: "string option"
  master_3xui_api_token :: "string option"
  master_3xui_username :: "string option"
  master_3xui_password :: "string option"
  master_3xui_verify_tls :: bool
  master_3xui_timeout_seconds :: real
  monitoring_scheduler_enabled :: bool
  check_interval_seconds :: int
  failure_threshold :: int
  recovery_threshold :: int
  check_host_base_url :: string
  check_host_country_code :: string
  check_host_nodes :: "string list"
  check_host_max_nodes :: int
  check_host_min_success_nodes :: int
  check_host_poll_interval_seconds :: real
  check_host_result_timeout_seconds :: real
  monitoring_lease_seconds :: int
  hetzner_api_base_url :: string
  linode_api_base_url :: string
  provisioning_timeout_seconds :: real
  provisioning_poll_interval_seconds :: real
  provider_reconcile_grace_seconds :: int
  replacement_worker_enabled :: bool
  replacement_worker_interval_seconds :: int
  worker_scheduler_enabled :: bool
  replacement_ip_check_port :: int
  replacement_vps_boot_grace_seconds :: int
  replacement_reachability_rounds :: int
  replacement_reachability_round_interval_seconds :: real
  replacement_reachability_required_consensus :: int
  replacement_external_check_max_nodes :: int
  replacement_external_check_min_success_nodes :: int
  replacement_job_lease_seconds :: int
  replacement_emergency_stop :: bool
  runtime_secret_dir :: string
  backup_dir :: string
  backup_retention_count :: int
  allow_database_restore :: bool
  ssh_ready_timeout_seconds :: real
  ssh_poll_interval_seconds :: real
  ssh_verify_host_key :: bool
  ssh_known_hosts_path :: "string option"
  three_xui_version :: "string option"
  three_xui_verify_tls :: bool

definition between :: "int \<Rightarrow> int \<Rightarrow> int \<Rightarrow> bool" where
  "between a b v \<longleftrightarrow> a \<le> v \<and> v \<le> b"

definition between_real :: "real \<Rightarrow> real \<Rightarrow> real \<Rightarrow> bool" where
  "between_real a b v \<longleftrightarrow> a \<le> v \<and> v \<le> b"

definition field_bounds :: "settings \<Rightarrow> bool" where
  "field_bounds s \<longleftrightarrow>
     environment s \<in> {''development'', ''test'', ''staging'', ''production''} \<and>
     log_level s \<in> {''DEBUG'', ''INFO'', ''WARNING'', ''ERROR'', ''CRITICAL''} \<and>
     between 1 65535 (bind_port s) \<and>
     between 1 60 (telegram_poll_timeout_seconds s) \<and>
     between_real (1/2) 30 (telegram_progress_interval_seconds s) \<and>
     between_real 1 300 (telegram_notification_interval_seconds s) \<and>
     between_real 1 60 (api_health_timeout_seconds s) \<and>
     between 1 32 (api_health_max_concurrency s) \<and>
     between_real 1 120 (master_3xui_timeout_seconds s) \<and>
     between 5 3600 (replacement_worker_interval_seconds s) \<and>
     between 1 365 (backup_retention_count s) \<and>
     between 1 50 (max_replacement_attempts s) \<and>
     between 1 100 (max_temporary_servers s) \<and>
     between 1 100 (max_concurrent_replacements s) \<and>
     between 10 86400 (check_interval_seconds s) \<and>
     between 1 100 (failure_threshold s) \<and>
     between 1 100 (recovery_threshold s) \<and>
     length (check_host_country_code s) = 2 \<and>
     between 1 25 (check_host_max_nodes s) \<and>
     between 1 25 (check_host_min_success_nodes s) \<and>
     between_real (1/5) 30 (check_host_poll_interval_seconds s) \<and>
     between_real 1 120 (check_host_result_timeout_seconds s) \<and>
     between 5 600 (monitoring_lease_seconds s) \<and>
     between_real 30 3600 (provisioning_timeout_seconds s) \<and>
     between_real (1/2) 60 (provisioning_poll_interval_seconds s) \<and>
     between 0 900 (provider_reconcile_grace_seconds s) \<and>
     between 1 65535 (replacement_ip_check_port s) \<and>
     between 0 900 (replacement_vps_boot_grace_seconds s) \<and>
     between 1 10 (replacement_reachability_rounds s) \<and>
     between_real 0 600 (replacement_reachability_round_interval_seconds s) \<and>
     between 1 10 (replacement_reachability_required_consensus s) \<and>
     between 1 25 (replacement_external_check_max_nodes s) \<and>
     between 1 25 (replacement_external_check_min_success_nodes s) \<and>
     between 30 3600 (replacement_job_lease_seconds s) \<and>
     between_real 10 1800 (ssh_ready_timeout_seconds s) \<and>
     between_real (1/2) 60 (ssh_poll_interval_seconds s) \<and>
     master_3xui_connection_mode s \<in> {''auto'', ''remote'', ''local-host''}"

definition confirmation_phrase :: string where
  "confirmation_phrase = ''DELETE_ONLY_VERIFIED_OLD_VPS''"

definition validate_telegram :: "settings \<Rightarrow> string option" where
  "validate_telegram s =
     (if \<not> telegram_bot_enabled s then None
      else if telegram_bot_token s = None then
        Some ''telegram_bot_token is required when telegram_bot_enabled=true''
      else if telegram_authorized_user_ids s = [] then
        Some ''telegram_authorized_user_ids cannot be empty when Telegram is enabled''
      else (case telegram_callback_secret s of
          None \<Rightarrow> Some ''telegram_callback_secret is required when Telegram is enabled''
        | Some k \<Rightarrow>
            if length k < 32 then Some ''telegram_callback_secret must be at least 32 characters''
            else None))"

definition validate_deletion :: "settings \<Rightarrow> string option" where
  "validate_deletion s =
     (if \<not> allow_old_vps_deletion s then None
      else if dry_run s then Some ''old VPS deletion cannot be enabled while DRY_RUN=true''
      else if \<not> allow_real_infrastructure_mutation s then
        Some ''old VPS deletion requires ASO_ALLOW_REAL_INFRASTRUCTURE_MUTATION=true''
      else if old_vps_delete_confirmation s \<noteq> confirmation_phrase then
        Some ''old VPS deletion requires exact confirmation phrase DELETE_ONLY_VERIFIED_OLD_VPS''
      else None)"

definition validate_production :: "settings \<Rightarrow> string option" where
  "validate_production s =
     (if environment s \<noteq> ''production'' then None
      else if \<not> three_xui_verify_tls s then Some ''production requires 3X-UI TLS verification''
      else if \<not> master_3xui_verify_tls s then Some ''production requires Master 3X-UI TLS verification''
      else None)"

definition validate_configuration :: "settings \<Rightarrow> string option" where
  "validate_configuration s =
     (if check_host_min_success_nodes s > check_host_max_nodes s then
        Some ''check_host_min_success_nodes cannot exceed check_host_max_nodes''
      else if replacement_external_check_min_success_nodes s > replacement_external_check_max_nodes s then
        Some ''replacement_external_check_min_success_nodes cannot exceed replacement_external_check_max_nodes''
      else if replacement_reachability_required_consensus s > replacement_reachability_rounds s then
        Some ''replacement_reachability_required_consensus cannot exceed replacement_reachability_rounds''
      else (case validate_telegram s of
          Some m \<Rightarrow> Some m
        | None \<Rightarrow> (case validate_deletion s of
              Some m \<Rightarrow> Some m
            | None \<Rightarrow> validate_production s)))"

definition valid_settings :: "settings \<Rightarrow> bool" where
  "valid_settings s \<longleftrightarrow> field_bounds s \<and> validate_configuration s = None"

text \<open>\<open>OperationalSettingsService.live_capability\<close>: the host gates for live execution.\<close>

definition live_capability :: "settings \<Rightarrow> bool \<times> string option" where
  "live_capability s =
     (if dry_run s then (False, Some ''Host is locked by ASO_DRY_RUN=true'')
      else if \<not> allow_real_infrastructure_mutation s then
        (False, Some ''Host is locked by ASO_ALLOW_REAL_INFRASTRUCTURE_MUTATION=false'')
      else if replacement_emergency_stop s then
        (False, Some ''Host is locked by ASO_REPLACEMENT_EMERGENCY_STOP=true'')
      else (True, None))"

section \<open>The default configuration\<close>

text \<open>The values of the class body, which the settings have when the environment is empty.\<close>

definition default_settings :: settings where
  "default_settings = \<lparr>
     environment = ''development'',
     log_level = ''INFO'',
     log_json = True,
     bind_host = ''0.0.0.0'',
     bind_port = 8000,
     dry_run = True,
     allow_real_infrastructure_mutation = False,
     allow_old_vps_deletion = False,
     old_vps_delete_confirmation = [],
     max_replacement_attempts = 5,
     max_temporary_servers = 3,
     max_concurrent_replacements = 2,
     database_url = None,
     telegram_bot_token = None,
     telegram_bot_enabled = False,
     telegram_authorized_user_ids = [],
     telegram_callback_secret = None,
     telegram_notification_chat_id = None,
     telegram_poll_timeout_seconds = 30,
     telegram_progress_interval_seconds = 2,
     telegram_notification_interval_seconds = 10,
     api_health_timeout_seconds = 12,
     api_health_max_concurrency = 8,
     hetzner_api_token = None,
     linode_api_token = None,
     master_3xui_base_url = None,
     master_3xui_connection_mode = ''auto'',
     master_3xui_local_base_url = None,
     master_3xui_api_token = None,
     master_3xui_username = None,
     master_3xui_password = None,
     master_3xui_verify_tls = True,
     master_3xui_timeout_seconds = 20,
     monitoring_scheduler_enabled = False,
     check_interval_seconds = 60,
     failure_threshold = 3,
     recovery_threshold = 2,
     check_host_base_url = ''https://check-host.net'',
     check_host_country_code = ''ir'',
     check_host_nodes = [],
     check_host_max_nodes = 5,
     check_host_min_success_nodes = 3,
     check_host_poll_interval_seconds = 1,
     check_host_result_timeout_seconds = 10,
     monitoring_lease_seconds = 45,
     hetzner_api_base_url = ''https://api.hetzner.cloud/v1'',
     linode_api_base_url = ''https://api.linode.com/v4'',
     provisioning_timeout_seconds = 300,
     provisioning_poll_interval_seconds = 3,
     provider_reconcile_grace_seconds = 30,
     replacement_worker_enabled = False,
     replacement_worker_interval_seconds = 15,
     worker_scheduler_enabled = False,
     replacement_ip_check_port = 22,
     replacement_vps_boot_grace_seconds = 180,
     replacement_reachability_rounds = 5,
     replacement_reachability_round_interval_seconds = 60,
     replacement_reachability_required_consensus = 3,
     replacement_external_check_max_nodes = 5,
     replacement_external_check_min_success_nodes = 3,
     replacement_job_lease_seconds = 1800,
     replacement_emergency_stop = True,
     runtime_secret_dir = ''.runtime-secrets'',
     backup_dir = ''.backups'',
     backup_retention_count = 14,
     allow_database_restore = False,
     ssh_ready_timeout_seconds = 180,
     ssh_poll_interval_seconds = 3,
     ssh_verify_host_key = False,
     ssh_known_hosts_path = None,
     three_xui_version = None,
     three_xui_verify_tls = True\<rparr>"

lemma default_settings_valid: "valid_settings default_settings"
  by (simp add: valid_settings_def field_bounds_def between_def between_real_def
      validate_configuration_def validate_telegram_def validate_deletion_def
      validate_production_def default_settings_def)

end
