(* ===== verification/World.thy ===== *)
theory World
  imports Models Config
begin

text \<open>
  What the program runs in. An \<open>act\<close> is a Python coroutine: given the environment it maps the world
  to a result or a raised exception, and the world after it. The world is the committed database, the
  view of the open session, and the mutable objects of the process; the environment answers what the
  process cannot decide itself (HTTP and SSH replies, clock, random identifiers, the transactions
  other processes commit between two sessions of this one).

  Every call that leaves the process is logged with the database as it was committed at that moment,
  so that a property can say what had been made durable before, for example, a server was deleted.
\<close>

section \<open>Exceptions\<close>

text \<open>The exception classes of \<open>app/\<close> and of Python that the modelled code raises or tells apart.\<close>

datatype exn_class =
  AsoError | ConfigurationError | SafetyViolationError
| ReplacementError | ReplacementBusyError | ReplacementDeferredError | ReplacementConfigurationError
| InvalidReplacementTransitionError | InvalidNodeStateTransitionError | InvalidDeploymentTransitionError
| ProviderError | ProviderAuthenticationError | ProviderNotFoundError | ProviderConflictError
| ProviderRateLimitError | ProviderTransientError | ProviderTimeoutError
| Master3XUiError | MasterTransientError | MasterAuthenticationError | MasterNodeVerificationError
| CheckHostError
| ValueError | TypeError | RuntimeError | KeyError | AttributeError | TimeoutError | OSError
| IntegrityError | TransportError | HTTPStatusError | BadRequest | OtherError

fun class_name :: "exn_class \<Rightarrow> string" where
  "class_name AsoError = ''AsoError''"
| "class_name ConfigurationError = ''ConfigurationError''"
| "class_name SafetyViolationError = ''SafetyViolationError''"
| "class_name ReplacementError = ''ReplacementError''"
| "class_name ReplacementBusyError = ''ReplacementBusyError''"
| "class_name ReplacementDeferredError = ''ReplacementDeferredError''"
| "class_name ReplacementConfigurationError = ''ReplacementConfigurationError''"
| "class_name InvalidReplacementTransitionError = ''InvalidReplacementTransitionError''"
| "class_name InvalidNodeStateTransitionError = ''InvalidNodeStateTransitionError''"
| "class_name InvalidDeploymentTransitionError = ''InvalidDeploymentTransitionError''"
| "class_name ProviderError = ''ProviderError''"
| "class_name ProviderAuthenticationError = ''ProviderAuthenticationError''"
| "class_name ProviderNotFoundError = ''ProviderNotFoundError''"
| "class_name ProviderConflictError = ''ProviderConflictError''"
| "class_name ProviderRateLimitError = ''ProviderRateLimitError''"
| "class_name ProviderTransientError = ''ProviderTransientError''"
| "class_name ProviderTimeoutError = ''ProviderTimeoutError''"
| "class_name Master3XUiError = ''Master3XUiError''"
| "class_name MasterTransientError = ''MasterTransientError''"
| "class_name MasterAuthenticationError = ''MasterAuthenticationError''"
| "class_name MasterNodeVerificationError = ''MasterNodeVerificationError''"
| "class_name CheckHostError = ''CheckHostError''"
| "class_name ValueError = ''ValueError''"
| "class_name TypeError = ''TypeError''"
| "class_name RuntimeError = ''RuntimeError''"
| "class_name KeyError = ''KeyError''"
| "class_name AttributeError = ''AttributeError''"
| "class_name TimeoutError = ''TimeoutError''"
| "class_name OSError = ''OSError''"
| "class_name IntegrityError = ''IntegrityError''"
| "class_name TransportError = ''TransportError''"
| "class_name HTTPStatusError = ''HTTPStatusError''"
| "class_name BadRequest = ''BadRequest''"
| "class_name OtherError = ''OtherError''"

text \<open>
  The direct base class, where it is one of these. \<open>TransportError\<close> stands for the classes
  \<open>httpx.TimeoutException\<close> and \<open>httpx.NetworkError\<close>, which the program always catches together;
  \<open>OtherError\<close> for every other exception of a library.
\<close>

fun parent :: "exn_class \<Rightarrow> exn_class option" where
  "parent ConfigurationError = Some AsoError"
| "parent SafetyViolationError = Some AsoError"
| "parent ReplacementError = Some AsoError"
| "parent ReplacementBusyError = Some ReplacementError"
| "parent ReplacementDeferredError = Some ReplacementError"
| "parent ReplacementConfigurationError = Some ReplacementError"
| "parent InvalidReplacementTransitionError = Some AsoError"
| "parent InvalidNodeStateTransitionError = Some AsoError"
| "parent InvalidDeploymentTransitionError = Some AsoError"
| "parent ProviderError = Some AsoError"
| "parent ProviderAuthenticationError = Some ProviderError"
| "parent ProviderNotFoundError = Some ProviderError"
| "parent ProviderConflictError = Some ProviderError"
| "parent ProviderRateLimitError = Some ProviderError"
| "parent ProviderTransientError = Some ProviderError"
| "parent ProviderTimeoutError = Some ProviderTransientError"
| "parent Master3XUiError = Some AsoError"
| "parent MasterTransientError = Some Master3XUiError"
| "parent MasterAuthenticationError = Some Master3XUiError"
| "parent MasterNodeVerificationError = Some Master3XUiError"
| "parent CheckHostError = Some AsoError"
| "parent TimeoutError = Some OSError"
| "parent _ = None"

text \<open>\<open>issubclass\<close>: the class hierarchy is at most four deep.\<close>

fun isa_upto :: "nat \<Rightarrow> exn_class \<Rightarrow> exn_class \<Rightarrow> bool" where
  "isa_upto 0 c d = (c = d)"
| "isa_upto (Suc k) c d = (c = d \<or> (case parent c of None \<Rightarrow> False | Some b \<Rightarrow> isa_upto k b d))"

definition isa :: "exn_class \<Rightarrow> exn_class \<Rightarrow> bool" where
  "isa = isa_upto 3"

datatype exn = Exn (exn_kind: exn_class) (exn_msg: string)

definition catches :: "exn_class list \<Rightarrow> exn \<Rightarrow> bool" where
  "catches cs x \<longleftrightarrow> list_ex (isa (exn_kind x)) cs"

section \<open>External calls\<close>

record http_req =
  hr_method :: string
  hr_url :: string
  hr_params :: "(string \<times> string) list"
  hr_headers :: "(string \<times> string) list"
  hr_body :: "json option"

datatype http_body = EmptyBody | BadJson | JsonBody json

text \<open>
  What a request comes to: a response; a time-out or network error, with the name of its class; or
  another \<open>httpx.HTTPError\<close> (for instance a protocol error), with the name of its class and its text.
\<close>

datatype http_outcome = HttpResp int http_body | HttpTransport string | HttpRaise string string

record ssh_target =
  sp_host :: string
  sp_port :: int
  sp_username :: string
  sp_auth :: ssh_auth_method
  sp_secret :: string
  sp_verify_host_key :: bool
  sp_known_hosts :: "string option"

record command_result =
  cmd_stdout :: string
  cmd_stderr :: string
  cmd_exit :: int

datatype ssh_outcome = SshDone command_result | SshRaise exn

datatype ext = ExtHttp http_req | ExtSsh ssh_target string | ExtTcp string int

text \<open>
  What the bot asks of the chat, with the labels and the data of the buttons under a text; the last one
  starts the task that follows a replacement job in a chat, for a user. Whether the
  library carries it out or raises is a parameter.
\<close>

type_synonym keyboard = "(string \<times> string) list list"

datatype chat_call =
  Answer "string option" bool | EditQuery string keyboard | Reply string keyboard
| ChatMessage string keyboard | SendTo int string | EditSent string | DeleteMessage
| StartProgress int uuid int

text \<open>Faults of the file operations of one secret write.\<close>

datatype fs_fault = FsOk | FsMkdir | FsChmodDir | FsTemp | FsWrite | FsChmodFile

section \<open>The objects of the process\<close>

record provider_server =
  ps_id :: string
  ps_name :: string
  ps_status :: server_status
  ps_ipv4 :: "string option"
  ps_region :: "string option"
  ps_server_type :: "string option"
  ps_image :: "string option"

text \<open>
  A provider adapter object. The HTTP adapters have no mutable state; a dry-run adapter owns a
  dictionary of servers, which lives in the world under the number of the object.
\<close>

datatype adapter = Hetzner string string | Linode string string | DryRun provider_type nat

record master_state =
  ms_active_route :: nat
  ms_route_selected :: bool
  ms_local_verified :: bool
  ms_authenticated :: bool

record world =
  w_db :: db
  w_ses :: db
  w_sessions :: nat
  w_tick :: nat
  w_trace :: "(db \<times> ext) list"
  w_adapters :: "((uuid \<times> bool) \<times> adapter) list"
  w_dry :: "(string \<times> provider_server) list list"
  w_master :: master_state
  w_files :: "(string \<times> string) list"
  w_chat :: "chat_call list"
  w_wizard :: "(string \<times> json) list option"

record env =
  env_settings :: settings
  env_op_settings :: bool
  env_http :: "ext list \<Rightarrow> http_req \<Rightarrow> http_outcome"
  env_ssh :: "ext list \<Rightarrow> ssh_target \<Rightarrow> string \<Rightarrow> ssh_outcome"
  env_tcp :: "ext list \<Rightarrow> string \<Rightarrow> int \<Rightarrow> bool"
  env_lock :: "nat \<Rightarrow> bool"
  env_clock :: "nat \<Rightarrow> usec"
  env_mono :: "nat \<Rightarrow> real"
  env_uuid :: "nat \<Rightarrow> uuid"
  env_others :: "nat \<Rightarrow> db \<Rightarrow> db"
  env_repr :: "json \<Rightarrow> string"
  env_getenv :: "string \<Rightarrow> string option"
  env_path :: "string \<Rightarrow> string"
  env_fs :: "nat \<Rightarrow> fs_fault"
  env_chat :: "nat \<Rightarrow> chat_call \<Rightarrow> exn option"

type_synonym 'a act = "env \<Rightarrow> world \<Rightarrow> (exn + 'a) \<times> world"

definition fresh_world :: "db \<Rightarrow> world" where
  "fresh_world d = \<lparr>w_db = d, w_ses = d, w_sessions = 0, w_tick = 0, w_trace = [], w_adapters = [],
     w_dry = [], w_master = \<lparr>ms_active_route = 0, ms_route_selected = False,
       ms_local_verified = False, ms_authenticated = False\<rparr>, w_files = [], w_chat = [], w_wizard = None\<rparr>"

section \<open>Control\<close>

definition ret :: "'a \<Rightarrow> 'a act" where
  "ret a e w = (Inr a, w)"

definition raise :: "exn_class \<Rightarrow> string \<Rightarrow> 'a act" where
  "raise c m e w = (Inl (Exn c m), w)"

definition reraise :: "exn \<Rightarrow> 'a act" where
  "reraise x e w = (Inl x, w)"

definition bind :: "'a act \<Rightarrow> ('a \<Rightarrow> 'b act) \<Rightarrow> 'b act" where
  "bind m f e w =
     (case m e w of (Inl x, w') \<Rightarrow> (Inl x, w') | (Inr a, w') \<Rightarrow> f a e w')"

definition andthen :: "'a act \<Rightarrow> 'b act \<Rightarrow> 'b act" where
  "andthen m k = bind m (\<lambda>_. k)"

text \<open>\<open>try: m except cs as x: h(x)\<close>; \<open>except Exception\<close> is \<open>catch_all\<close>.\<close>

definition catch :: "exn_class list \<Rightarrow> 'a act \<Rightarrow> (exn \<Rightarrow> 'a act) \<Rightarrow> 'a act" where
  "catch cs m h e w =
     (case m e w of
        (Inl x, w') \<Rightarrow> if catches cs x then h x e w' else (Inl x, w')
      | (Inr a, w') \<Rightarrow> (Inr a, w'))"

definition catch_all :: "'a act \<Rightarrow> (exn \<Rightarrow> 'a act) \<Rightarrow> 'a act" where
  "catch_all m h e w =
     (case m e w of (Inl x, w') \<Rightarrow> h x e w' | (Inr a, w') \<Rightarrow> (Inr a, w'))"

text \<open>\<open>try: m finally: k\<close>: an exception of \<open>k\<close> replaces the outcome of \<open>m\<close>.\<close>

definition try_finally :: "'a act \<Rightarrow> unit act \<Rightarrow> 'a act" where
  "try_finally m k e w =
     (case m e w of (r, w') \<Rightarrow>
        (case k e w' of (Inl y, w'') \<Rightarrow> (Inl y, w'') | (Inr _, w'') \<Rightarrow> (r, w'')))"

definition lift :: "exn + 'a \<Rightarrow> 'a act" where
  "lift r e w = (r, w)"

definition guard_raise :: "bool \<Rightarrow> exn_class \<Rightarrow> string \<Rightarrow> unit act" where
  "guard_raise b c m = (if b then raise c m else ret ())"

definition require_some :: "'a option \<Rightarrow> exn_class \<Rightarrow> string \<Rightarrow> 'a act" where
  "require_some v c m = (case v of None \<Rightarrow> raise c m | Some a \<Rightarrow> ret a)"

definition whenM :: "bool \<Rightarrow> unit act \<Rightarrow> unit act" where
  "whenM b m = (if b then m else ret ())"

definition settings_of :: "settings act" where
  "settings_of e w = (Inr (env_settings e), w)"

definition ask_env :: "(env \<Rightarrow> 'a) \<Rightarrow> 'a act" where
  "ask_env f e w = (Inr (f e), w)"

definition mapM :: "('a \<Rightarrow> 'b act) \<Rightarrow> 'a list \<Rightarrow> 'b list act" where
  "mapM f xs = foldr (\<lambda>x k. bind (f x) (\<lambda>y. bind k (\<lambda>ys. ret (y # ys)))) xs (ret [])"

section \<open>The clock, random identifiers, sleeping\<close>

definition now :: "usec act" where
  "now e w = (Inr (env_clock e (w_tick w)), w\<lparr>w_tick := Suc (w_tick w)\<rparr>)"

text \<open>\<open>time.monotonic()\<close>, in seconds.\<close>

definition mono :: "real act" where
  "mono e w = (Inr (env_mono e (w_tick w)), w\<lparr>w_tick := Suc (w_tick w)\<rparr>)"

definition new_uuid :: "uuid act" where
  "new_uuid e w = (Inr (env_uuid e (w_tick w)), w\<lparr>w_tick := Suc (w_tick w)\<rparr>)"

definition sleep :: "real \<Rightarrow> unit act" where
  "sleep s e w = (Inr (), w\<lparr>w_tick := Suc (w_tick w)\<rparr>)"

definition fs_oracle :: "fs_fault act" where
  "fs_oracle e w = (Inr (env_fs e (w_tick w)), w\<lparr>w_tick := Suc (w_tick w)\<rparr>)"

section \<open>External calls\<close>

definition log_ext :: "ext \<Rightarrow> unit act" where
  "log_ext x e w = (Inr (), w\<lparr>w_trace := (w_db w, x) # w_trace w\<rparr>)"

definition http :: "http_req \<Rightarrow> http_outcome act" where
  "http r e w =
     (Inr (env_http e (map snd (w_trace w)) r), w\<lparr>w_trace := (w_db w, ExtHttp r) # w_trace w\<rparr>)"

definition ssh_run :: "ssh_target \<Rightarrow> string \<Rightarrow> command_result act" where
  "ssh_run t c e w =
     (case env_ssh e (map snd (w_trace w)) t c of
        SshDone r \<Rightarrow> (Inr r, w\<lparr>w_trace := (w_db w, ExtSsh t c) # w_trace w\<rparr>)
      | SshRaise x \<Rightarrow> (Inl x, w\<lparr>w_trace := (w_db w, ExtSsh t c) # w_trace w\<rparr>))"

definition tcp_probe :: "string \<Rightarrow> int \<Rightarrow> bool act" where
  "tcp_probe h p e w =
     (Inr (env_tcp e (map snd (w_trace w)) h p), w\<lparr>w_trace := (w_db w, ExtTcp h p) # w_trace w\<rparr>)"

section \<open>Sessions\<close>

text \<open>
  \<open>async with database.session()\<close>: the session starts on the database as other processes have left
  it, sees its own changes, and loses at its end those it has not committed. Objects keep their values
  after the commit (\<open>expire_on_commit=False\<close>). A transaction of another process is applied at the
  start of a session; one that commits between the statements of an open session is not modelled.
\<close>

definition open_session :: "unit act" where
  "open_session e w =
     (let d = env_others e (w_sessions w) (w_db w) in
      (Inr (), w\<lparr>w_db := d, w_ses := d, w_sessions := Suc (w_sessions w)\<rparr>))"

definition close_session :: "unit act" where
  "close_session e w = (Inr (), w\<lparr>w_ses := w_db w\<rparr>)"

definition session :: "'a act \<Rightarrow> 'a act" where
  "session m = andthen open_session (try_finally m close_session)"

definition get_ses :: "db act" where
  "get_ses e w = (Inr (w_ses w), w)"

definition mod_ses :: "(db \<Rightarrow> db) \<Rightarrow> unit act" where
  "mod_ses f e w = (Inr (), w\<lparr>w_ses := f (w_ses w)\<rparr>)"

text \<open>A flush sends the pending changes to the database, which checks its constraints.\<close>

definition flush :: "unit act" where
  "flush e w =
     (if db_ok (w_ses w) then (Inr (), w) else (Inl (Exn IntegrityError ''constraint violated''), w))"

definition commit :: "unit act" where
  "commit e w =
     (if db_ok (w_ses w) then (Inr (), w\<lparr>w_db := w_ses w\<rparr>)
      else (Inl (Exn IntegrityError ''constraint violated''), w))"

end
