(* ===== verification/OldVpsGuard.thy ===== *)
theory OldVpsGuard
  imports World
begin

text \<open>
  \<open>app/replacement/safety.py\<close>: the gate around the deletion of the old server. \<open>old_vps_missing\<close> is
  the list of gates the guard finds closed, in its order; it lets the deletion pass when the list is
  empty.
\<close>

definition gate_list ::
    "job_row \<Rightarrow> deployment_row \<Rightarrow> vps_row \<Rightarrow> vps_row \<Rightarrow> (bool \<times> string) list" where
  "gate_list job d new_vps old_vps =
     [(j_old_vps_id job \<noteq> Some (v_id old_vps), ''old_vps_job_identity''),
      (v_node_id old_vps \<noteq> j_node_id job, ''old_vps_node_identity''),
      (v_role old_vps \<noteq> CURRENT, ''old_vps_current_role''),
      (v_state old_vps = VPS_DELETED, ''old_vps_not_deleted''),
      (v_node_id new_vps \<noteq> j_node_id job, ''new_vps_node_identity''),
      (v_role new_vps \<noteq> REPLACEMENT, ''new_vps_replacement_role''),
      (d_job_id d \<noteq> j_id job, ''deployment_job_identity''),
      (d_vps_id d \<noteq> v_id new_vps, ''deployment_vps_identity''),
      (v_provider_id new_vps = v_provider_id old_vps \<and>
         v_provider_server_id new_vps = v_provider_server_id old_vps, ''distinct_provider_identity''),
      (j_new_vps_id job = None \<or> j_new_vps_id job \<noteq> Some (v_id new_vps), ''new_vps''),
      (v_id new_vps = v_id old_vps, ''distinct_new_vps''),
      (v_state new_vps \<noteq> VPS_RUNNING \<or> v_host new_vps = None \<or> v_host new_vps = Some [],
         ''new_vps_running''),
      (j_new_ip_verified_at job = None, ''new_ip_verified''),
      (d_state d \<noteq> SUCCEEDED, ''deployment_succeeded''),
      (j_deployment_verified_at job = None, ''deployment_verified''),
      (j_master_updated_at job = None, ''master_updated''),
      (j_master_verified_at job = None, ''master_verified''),
      (j_final_health_verified_at job = None, ''final_health_verified'')]"

definition old_vps_missing :: "job_row \<Rightarrow> deployment_row \<Rightarrow> vps_row \<Rightarrow> vps_row \<Rightarrow> string list" where
  "old_vps_missing job d new_vps old_vps = map snd (filter fst (gate_list job d new_vps old_vps))"

definition assert_can_delete :: "job_row \<Rightarrow> deployment_row \<Rightarrow> vps_row \<Rightarrow> vps_row \<Rightarrow> exn + unit" where
  "assert_can_delete job d new_vps old_vps =
     (case old_vps_missing job d new_vps old_vps of
        [] \<Rightarrow> Inr ()
      | m # ms \<Rightarrow> Inl (Exn SafetyViolationError
          (''old VPS deletion denied; missing durable gates: '' @ join_with '', '' (m # ms))))"

text \<open>What must be durable before the old server may go, stated on its own.\<close>

definition deletion_gates :: "job_row \<Rightarrow> deployment_row \<Rightarrow> vps_row \<Rightarrow> vps_row \<Rightarrow> bool" where
  "deletion_gates job d new_vps old_vps \<longleftrightarrow>
     j_old_vps_id job = Some (v_id old_vps) \<and> j_new_vps_id job = Some (v_id new_vps) \<and>
     v_id new_vps \<noteq> v_id old_vps \<and>
     (v_provider_id new_vps, v_provider_server_id new_vps)
       \<noteq> (v_provider_id old_vps, v_provider_server_id old_vps) \<and>
     v_node_id old_vps = j_node_id job \<and> v_node_id new_vps = j_node_id job \<and>
     v_role old_vps = CURRENT \<and> v_role new_vps = REPLACEMENT \<and>
     v_state old_vps \<noteq> VPS_DELETED \<and> v_state new_vps = VPS_RUNNING \<and>
     (\<exists>h. v_host new_vps = Some h \<and> h \<noteq> []) \<and>
     d_job_id d = j_id job \<and> d_vps_id d = v_id new_vps \<and> d_state d = SUCCEEDED \<and>
     j_new_ip_verified_at job \<noteq> None \<and> j_deployment_verified_at job \<noteq> None \<and>
     j_master_updated_at job \<noteq> None \<and> j_master_verified_at job \<noteq> None \<and>
     j_final_health_verified_at job \<noteq> None"

lemma missing_Nil_iff: "old_vps_missing job d nv ov = [] \<longleftrightarrow> deletion_gates job d nv ov"
  by (auto simp: old_vps_missing_def gate_list_def deletion_gates_def filter_empty_conv
      not_None_eq)

lemma assert_can_delete_iff: "assert_can_delete job d nv ov = Inr () \<longleftrightarrow> deletion_gates job d nv ov"
  by (auto simp: assert_can_delete_def missing_Nil_iff [symmetric] split: list.splits)

lemma assert_can_delete_cases:
  "assert_can_delete job d nv ov = Inr () \<or>
   (\<exists>s. assert_can_delete job d nv ov = Inl (Exn SafetyViolationError s))"
  by (auto simp: assert_can_delete_def split: list.splits)

end
