(* ===== verification/Hoare.thy ===== *)
theory Hoare
  imports World
begin

text \<open>
  Two ways of reasoning about actions. \<open>wp\<close> is the weakest precondition of an action for a
  postcondition on results and one on exceptions; its equations compute through a straight-line body.
  \<open>keeps e I m\<close> says that \<open>m\<close> keeps the invariant \<open>I\<close> of the world, however it ends; its rules go by
  the constructs, and the continuation of a \<open>bind\<close> may use that its argument was returned by the first
  action in a world that satisfied \<open>I\<close>. The locale \<open>world_inv\<close> collects what the primitive actions
  need of an invariant.
\<close>

section \<open>Weakest preconditions\<close>

definition wp :: "'a act \<Rightarrow> ('a \<Rightarrow> world \<Rightarrow> bool) \<Rightarrow> (exn \<Rightarrow> world \<Rightarrow> bool) \<Rightarrow> env \<Rightarrow> world \<Rightarrow> bool" where
  "wp m Q E e w = (case m e w of (Inl x, w') \<Rightarrow> E x w' | (Inr a, w') \<Rightarrow> Q a w')"

definition opened :: "env \<Rightarrow> world \<Rightarrow> world" where
  "opened e w =
     (let d = env_others e (w_sessions w) (w_db w) in
      w\<lparr>w_db := d, w_ses := d, w_sessions := Suc (w_sessions w)\<rparr>)"

definition closed :: "world \<Rightarrow> world" where
  "closed w = w\<lparr>w_ses := w_db w\<rparr>"

lemma wp_ret [hoare]: "wp (ret a) Q E e w = Q a w"
  by (simp add: wp_def ret_def)

lemma wp_raise [hoare]: "wp (raise c s) Q E e w = E (Exn c s) w"
  by (simp add: wp_def raise_def)

lemma wp_reraise [hoare]: "wp (reraise x) Q E e w = E x w"
  by (simp add: wp_def reraise_def)

lemma wp_lift [hoare]:
  "wp (lift r) Q E e w = (case r of Inl x \<Rightarrow> E x w | Inr a \<Rightarrow> Q a w)"
  by (simp add: wp_def lift_def)

lemma wp_bind [hoare]: "wp (bind m f) Q E e w = wp m (\<lambda>a. wp (f a) Q E e) E e w"
  by (simp add: wp_def bind_def split: prod.splits sum.splits)

lemma wp_andthen [hoare]: "wp (andthen m k) Q E e w = wp m (\<lambda>_. wp k Q E e) E e w"
  by (simp add: andthen_def wp_bind)

lemma wp_catch [hoare]:
  "wp (catch cs m h) Q E e w =
     wp m Q (\<lambda>x w'. if catches cs x then wp (h x) Q E e w' else E x w') e w"
  by (simp add: wp_def catch_def split: prod.splits sum.splits)

lemma wp_catch_all [hoare]:
  "wp (catch_all m h) Q E e w = wp m Q (\<lambda>x. wp (h x) Q E e) e w"
  by (simp add: wp_def catch_all_def split: prod.splits sum.splits)

lemma wp_try_finally [hoare]:
  "wp (try_finally m k) Q E e w =
     wp m (\<lambda>a. wp k (\<lambda>_. Q a) E e) (\<lambda>x. wp k (\<lambda>_. E x) E e) e w"
  by (simp add: wp_def try_finally_def split: prod.splits sum.splits)

lemma wp_guard_raise [hoare]:
  "wp (guard_raise b c s) Q E e w = (if b then E (Exn c s) w else Q () w)"
  by (simp add: guard_raise_def hoare)

lemma wp_require_some [hoare]:
  "wp (require_some v c s) Q E e w = (case v of None \<Rightarrow> E (Exn c s) w | Some a \<Rightarrow> Q a w)"
  by (simp add: require_some_def hoare split: option.splits)

lemma wp_whenM [hoare]: "wp (whenM b m) Q E e w = (if b then wp m Q E e w else Q () w)"
  by (simp add: whenM_def hoare)

lemma wp_settings_of [hoare]: "wp settings_of Q E e w = Q (env_settings e) w"
  by (simp add: wp_def settings_of_def)

lemma wp_ask_env [hoare]: "wp (ask_env f) Q E e w = Q (f e) w"
  by (simp add: wp_def ask_env_def)

lemma wp_now [hoare]:
  "wp now Q E e w = Q (env_clock e (w_tick w)) (w\<lparr>w_tick := Suc (w_tick w)\<rparr>)"
  by (simp add: wp_def now_def)

lemma wp_mono_clock [hoare]:
  "wp mono Q E e w = Q (env_mono e (w_tick w)) (w\<lparr>w_tick := Suc (w_tick w)\<rparr>)"
  by (simp add: wp_def mono_def)

lemma wp_new_uuid [hoare]:
  "wp new_uuid Q E e w = Q (env_uuid e (w_tick w)) (w\<lparr>w_tick := Suc (w_tick w)\<rparr>)"
  by (simp add: wp_def new_uuid_def)

lemma wp_sleep [hoare]: "wp (sleep s) Q E e w = Q () (w\<lparr>w_tick := Suc (w_tick w)\<rparr>)"
  by (simp add: wp_def sleep_def)

lemma wp_fs_oracle [hoare]:
  "wp fs_oracle Q E e w = Q (env_fs e (w_tick w)) (w\<lparr>w_tick := Suc (w_tick w)\<rparr>)"
  by (simp add: wp_def fs_oracle_def)

lemma wp_get_ses [hoare]: "wp get_ses Q E e w = Q (w_ses w) w"
  by (simp add: wp_def get_ses_def)

lemma wp_mod_ses [hoare]: "wp (mod_ses f) Q E e w = Q () (w\<lparr>w_ses := f (w_ses w)\<rparr>)"
  by (simp add: wp_def mod_ses_def)

lemma wp_flush [hoare]:
  "wp flush Q E e w =
     (if db_ok (w_ses w) then Q () w else E (Exn IntegrityError ''constraint violated'') w)"
  by (simp add: wp_def flush_def)

lemma wp_commit [hoare]:
  "wp commit Q E e w =
     (if db_ok (w_ses w) then Q () (w\<lparr>w_db := w_ses w\<rparr>)
      else E (Exn IntegrityError ''constraint violated'') w)"
  by (simp add: wp_def commit_def)

lemma wp_session [hoare]:
  "wp (session m) Q E e w =
     wp m (\<lambda>a w'. Q a (closed w')) (\<lambda>x w'. E x (closed w')) e (opened e w)"
  by (simp add: wp_def session_def andthen_def bind_def open_session_def close_session_def
      try_finally_def opened_def closed_def Let_def split: prod.splits sum.splits)

lemma wp_case_option [hoare]:
  "wp (case v of None \<Rightarrow> m | Some a \<Rightarrow> f a) Q E e w =
     (case v of None \<Rightarrow> wp m Q E e w | Some a \<Rightarrow> wp (f a) Q E e w)"
  by (cases v) simp_all

lemma wp_if [hoare]:
  "wp (if b then m else m') Q E e w = (if b then wp m Q E e w else wp m' Q E e w)"
  by simp

lemma wp_mono:
  "wp m Q E e w \<Longrightarrow> (\<And>a w'. Q a w' \<Longrightarrow> Q' a w') \<Longrightarrow> (\<And>x w'. E x w' \<Longrightarrow> E' x w') \<Longrightarrow> wp m Q' E' e w"
  by (auto simp: wp_def split: prod.splits sum.splits)

lemma wp_conj:
  "wp m Q E e w \<Longrightarrow> wp m Q' E' e w \<Longrightarrow> wp m (\<lambda>a w'. Q a w' \<and> Q' a w') (\<lambda>x w'. E x w' \<and> E' x w') e w"
  by (auto simp: wp_def split: prod.splits sum.splits)

lemma wpD_Inr: "wp m Q E e w \<Longrightarrow> m e w = (Inr a, w') \<Longrightarrow> Q a w'"
  by (simp add: wp_def)

lemma wpD_Inl: "wp m Q E e w \<Longrightarrow> m e w = (Inl x, w') \<Longrightarrow> E x w'"
  by (simp add: wp_def)

lemma wp_snd: "wp m (\<lambda>_. P) (\<lambda>_. P) e w \<Longrightarrow> P (snd (m e w))"
  by (auto simp: wp_def split: prod.splits sum.splits)

section \<open>Invariants\<close>

definition keeps :: "env \<Rightarrow> (world \<Rightarrow> bool) \<Rightarrow> 'a act \<Rightarrow> bool" where
  "keeps e I m \<longleftrightarrow> (\<forall>w. I w \<longrightarrow> I (snd (m e w)))"

definition returns :: "env \<Rightarrow> (world \<Rightarrow> bool) \<Rightarrow> 'a act \<Rightarrow> 'a \<Rightarrow> bool" where
  "returns e I m a \<longleftrightarrow> (\<exists>w w'. I w \<and> m e w = (Inr a, w'))"

lemma keepsD: "keeps e I m \<Longrightarrow> I w \<Longrightarrow> I (snd (m e w))"
  by (simp add: keeps_def)

lemma keeps_wp: "keeps e I m \<Longrightarrow> I w \<Longrightarrow> wp m (\<lambda>_. I) (\<lambda>_. I) e w"
  by (auto simp: keeps_def wp_def split: prod.splits sum.splits dest: spec [of _ w])

lemma wp_keeps: "(\<And>w. I w \<Longrightarrow> wp m (\<lambda>_. I) (\<lambda>_. I) e w) \<Longrightarrow> keeps e I m"
  by (auto simp: keeps_def intro: wp_snd)

lemma returnsI: "I w \<Longrightarrow> m e w = (Inr a, w') \<Longrightarrow> returns e I m a"
  by (auto simp: returns_def)

lemma returns_wp:
  "returns e I m a \<Longrightarrow> (\<And>w. I w \<Longrightarrow> wp m (\<lambda>a _. P a) (\<lambda>_ _. True) e w) \<Longrightarrow> P a"
  unfolding returns_def by (metis wpD_Inr)

lemma returns_ret [simp]: "returns e I (ret a) b \<Longrightarrow> b = a"
  by (auto simp: returns_def ret_def)

lemma keeps_ret [keeps]: "keeps e I (ret a)"
  by (simp add: keeps_def ret_def)

lemma keeps_raise [keeps]: "keeps e I (raise c s)"
  by (simp add: keeps_def raise_def)

lemma keeps_reraise [keeps]: "keeps e I (reraise x)"
  by (simp add: keeps_def reraise_def)

lemma keeps_lift [keeps]: "keeps e I (lift r)"
  by (simp add: keeps_def lift_def)

lemma keeps_bind [keeps]:
  assumes m: "keeps e I m" and f: "\<And>a. returns e I m a \<Longrightarrow> keeps e I (f a)"
  shows "keeps e I (bind m f)"
proof (unfold keeps_def, intro allI impI)
  fix w assume w: "I w"
  show "I (snd (bind m f e w))"
  proof (cases "m e w")
    case (Pair r w')
    with m w have w': "I w'" by (auto dest: keepsD [of e I m w])
    show ?thesis
    proof (cases r)
      case Inl
      with Pair w' show ?thesis by (simp add: bind_def)
    next
      case (Inr a)
      with Pair w have "returns e I m a" by (auto intro: returnsI)
      from keepsD [OF f [OF this] w'] Pair Inr show ?thesis by (simp add: bind_def)
    qed
  qed
qed

lemma keeps_andthen [keeps]: "keeps e I m \<Longrightarrow> keeps e I k \<Longrightarrow> keeps e I (andthen m k)"
  by (simp add: andthen_def keeps_bind)

lemma keeps_catch [keeps]:
  "keeps e I m \<Longrightarrow> (\<And>x. catches cs x \<Longrightarrow> keeps e I (h x)) \<Longrightarrow> keeps e I (catch cs m h)"
  by (intro wp_keeps) (auto simp: hoare intro!: wp_mono [OF keeps_wp] dest: keeps_wp)

lemma keeps_catch_all [keeps]:
  "keeps e I m \<Longrightarrow> (\<And>x. keeps e I (h x)) \<Longrightarrow> keeps e I (catch_all m h)"
  by (intro wp_keeps) (auto simp: hoare intro!: wp_mono [OF keeps_wp] dest: keeps_wp)

lemma keeps_try_finally [keeps]:
  "keeps e I m \<Longrightarrow> keeps e I k \<Longrightarrow> keeps e I (try_finally m k)"
  by (intro wp_keeps) (auto simp: hoare intro!: wp_mono [OF keeps_wp] dest: keeps_wp)

lemma keeps_guard_raise [keeps]: "keeps e I (guard_raise b c s)"
  by (simp add: guard_raise_def keeps)

lemma keeps_require_some [keeps]: "keeps e I (require_some v c s)"
  by (simp add: require_some_def keeps split: option.splits)

lemma keeps_whenM [keeps]: "(b \<Longrightarrow> keeps e I m) \<Longrightarrow> keeps e I (whenM b m)"
  by (simp add: whenM_def keeps)

lemma keeps_settings_of [keeps]: "keeps e I settings_of"
  by (simp add: keeps_def settings_of_def)

lemma keeps_ask_env [keeps]: "keeps e I (ask_env f)"
  by (simp add: keeps_def ask_env_def)

lemma keeps_get_ses [keeps]: "keeps e I get_ses"
  by (simp add: keeps_def get_ses_def)

lemma keeps_flush [keeps]: "keeps e I flush"
  by (simp add: keeps_def flush_def)

lemma keeps_if [keeps]:
  "(b \<Longrightarrow> keeps e I m) \<Longrightarrow> (\<not> b \<Longrightarrow> keeps e I m') \<Longrightarrow> keeps e I (if b then m else m')"
  by simp

lemma keeps_case_option [keeps]:
  "(v = None \<Longrightarrow> keeps e I m) \<Longrightarrow> (\<And>a. v = Some a \<Longrightarrow> keeps e I (f a)) \<Longrightarrow>
   keeps e I (case v of None \<Rightarrow> m | Some a \<Rightarrow> f a)"
  by (cases v) simp_all

lemma keeps_case_sum [keeps]:
  "(\<And>a. v = Inl a \<Longrightarrow> keeps e I (f a)) \<Longrightarrow> (\<And>b. v = Inr b \<Longrightarrow> keeps e I (g b)) \<Longrightarrow>
   keeps e I (case v of Inl a \<Rightarrow> f a | Inr b \<Rightarrow> g b)"
  by (cases v) simp_all

lemma keeps_case_prod [keeps]:
  "(\<And>a b. v = (a, b) \<Longrightarrow> keeps e I (f a b)) \<Longrightarrow> keeps e I (case v of (a, b) \<Rightarrow> f a b)"
  by (cases v) simp

lemma keeps_let [keeps]: "(\<And>x. x = v \<Longrightarrow> keeps e I (f x)) \<Longrightarrow> keeps e I (let x = v in f x)"
  by simp

lemma keeps_mapM [keeps]: "(\<And>x. x \<in> set xs \<Longrightarrow> keeps e I (f x)) \<Longrightarrow> keeps e I (mapM f xs)"
  by (induction xs) (simp_all add: mapM_def keeps)

text \<open>What an action can return, started in a world with the invariant.\<close>

definition yields :: "env \<Rightarrow> (world \<Rightarrow> bool) \<Rightarrow> 'a act \<Rightarrow> ('a \<Rightarrow> bool) \<Rightarrow> bool" where
  "yields e I m P \<longleftrightarrow> (\<forall>a. returns e I m a \<longrightarrow> P a)"

lemma yieldsD: "yields e I m P \<Longrightarrow> returns e I m a \<Longrightarrow> P a"
  by (simp add: yields_def)

lemma yields_bind [keeps]:
  assumes "keeps e I m" and "\<And>a. returns e I m a \<Longrightarrow> yields e I (f a) P"
  shows "yields e I (bind m f) P"
proof (unfold yields_def, intro allI impI)
  fix b assume "returns e I (bind m f) b"
  then obtain w w' where w: "I w" "bind m f e w = (Inr b, w')" unfolding returns_def by blast
  obtain r w1 where m: "m e w = (r, w1)" by (cases "m e w")
  with w(2) obtain a where a: "r = Inr a" "f a e w1 = (Inr b, w')"
    by (cases r) (simp_all add: bind_def)
  have "I w1" using keepsD [OF assms(1) w(1)] m by simp
  with a(2) have "returns e I (f a) b" by (intro returnsI)
  moreover have "returns e I m a" using w(1) m a(1) by (intro returnsI) simp_all
  ultimately show "P b" using assms(2) by (blast dest: yieldsD)
qed

lemma yields_andthen [keeps]: "keeps e I m \<Longrightarrow> yields e I k P \<Longrightarrow> yields e I (andthen m k) P"
  by (simp add: andthen_def yields_bind)

lemma yields_ret [keeps]: "P a \<Longrightarrow> yields e I (ret a) P"
  unfolding yields_def by (intro allI impI) (drule returns_ret, simp)

lemma yields_raise [keeps]: "yields e I (raise c s :: 'a act) P"
proof (unfold yields_def, intro allI impI)
  fix a :: 'a assume "returns e I (raise c s) a"
  then obtain w w' where "raise c s e w = (Inr a, w')" unfolding returns_def by blast
  then show "P a" by (simp add: raise_def)
qed

lemma yields_if [keeps]:
  "(b \<Longrightarrow> yields e I m P) \<Longrightarrow> (\<not> b \<Longrightarrow> yields e I m' P) \<Longrightarrow> yields e I (if b then m else m') P"
  by simp

lemma yields_case_option [keeps]:
  "(v = None \<Longrightarrow> yields e I m P) \<Longrightarrow> (\<And>a. v = Some a \<Longrightarrow> yields e I (f a) P) \<Longrightarrow>
   yields e I (case v of None \<Rightarrow> m | Some a \<Rightarrow> f a) P"
  by (cases v) simp_all

section \<open>Invariants of the world\<close>

locale world_inv =
  fixes e :: env and I :: "world \<Rightarrow> bool"
  assumes tick: "\<And>w n. I w \<Longrightarrow> I (w\<lparr>w_tick := n\<rparr>)"
    and opens: "\<And>w. I w \<Longrightarrow> I (opened e w)"
    and closes: "\<And>w. I w \<Longrightarrow> I (closed w)"
    and commits: "\<And>w. I w \<Longrightarrow> db_ok (w_ses w) \<Longrightarrow> I (w\<lparr>w_db := w_ses w\<rparr>)"
begin

lemma keeps_now [keeps]: "keeps e I now"
  by (simp add: keeps_def now_def tick)

lemma keeps_new_uuid [keeps]: "keeps e I new_uuid"
  by (simp add: keeps_def new_uuid_def tick)

lemma keeps_sleep [keeps]: "keeps e I (sleep s)"
  by (simp add: keeps_def sleep_def tick)

lemma keeps_mono [keeps]: "keeps e I mono"
  by (simp add: keeps_def mono_def tick)

lemma keeps_fs_oracle [keeps]: "keeps e I fs_oracle"
  by (simp add: keeps_def fs_oracle_def tick)

lemma keeps_commit [keeps]: "keeps e I commit"
  by (simp add: keeps_def commit_def commits)

lemma keeps_session [keeps]: "keeps e I m \<Longrightarrow> keeps e I (session m)"
  by (intro wp_keeps)
    (auto simp: hoare intro!: wp_mono [OF keeps_wp] opens closes)

lemma yields_session [keeps]: "yields e I m P \<Longrightarrow> yields e I (session m) P"
proof (unfold yields_def, intro allI impI)
  fix a assume m: "\<forall>a. returns e I m a \<longrightarrow> P a" and "returns e I (session m) a"
  then obtain w w' where w: "I w" "session m e w = (Inr a, w')" unfolding returns_def by blast
  obtain r w1 where w1: "m e (opened e w) = (r, w1)" by (cases "m e (opened e w)")
  with w(2) have "r = Inr a"
    by (simp add: session_def andthen_def bind_def open_session_def close_session_def try_finally_def
        opened_def Let_def)
  with opens [OF w(1)] w1 have "returns e I m a" by (intro returnsI) simp_all
  with m show "P a" by blast
qed

end

section \<open>Calls that leave the database alone\<close>

text \<open>
  \<open>net d s ad R tr\<close> holds of a world whose committed database is \<open>d\<close>, whose session view is \<open>s\<close>,
  whose cached adapters are \<open>ad\<close>, and which has since the log \<open>tr\<close> made only external calls that satisfy \<open>R\<close>. An action that keeps it for
  every \<open>d\<close>, \<open>s\<close>, \<open>ad\<close> and \<open>tr\<close> changes neither database nor cache, and calls nothing else.
\<close>

definition net ::
    "db \<Rightarrow> db \<Rightarrow> ((uuid \<times> bool) \<times> adapter) list \<Rightarrow> (ext \<Rightarrow> bool) \<Rightarrow> (db \<times> ext) list \<Rightarrow> world \<Rightarrow> bool" where
  "net d s ad R tr w \<longleftrightarrow> w_db w = d \<and> w_ses w = s \<and> w_adapters w = ad \<and>
     (\<exists>new. w_trace w = new @ tr \<and> (\<forall>x \<in> set new. fst x = d \<and> R (snd x)))"

definition calls_only :: "(ext \<Rightarrow> bool) \<Rightarrow> 'a act \<Rightarrow> bool" where
  "calls_only R m \<longleftrightarrow> (\<forall>e d s ad tr. keeps e (net d s ad R tr) m)"

lemma net_start: "net (w_db w) (w_ses w) (w_adapters w) R (w_trace w) w"
  by (simp add: net_def)

lemma calls_onlyD: "calls_only R m \<Longrightarrow> keeps e (net d s ad R tr) m"
  by (simp add: calls_only_def)

lemma calls_only_trace:
  assumes "calls_only R m"
  shows "w_db (snd (m e w)) = w_db w" and "w_ses (snd (m e w)) = w_ses w"
    and "w_adapters (snd (m e w)) = w_adapters w"
    and "\<exists>new. w_trace (snd (m e w)) = new @ w_trace w \<and> (\<forall>x \<in> set new. fst x = w_db w \<and> R (snd x))"
proof -
  have "net (w_db w) (w_ses w) (w_adapters w) R (w_trace w) (snd (m e w))"
    by (rule keepsD [OF calls_onlyD [OF assms] net_start])
  then show "w_db (snd (m e w)) = w_db w" and "w_ses (snd (m e w)) = w_ses w"
    and "w_adapters (snd (m e w)) = w_adapters w"
    and "\<exists>new. w_trace (snd (m e w)) = new @ w_trace w \<and> (\<forall>x \<in> set new. fst x = w_db w \<and> R (snd x))"
    by (simp_all add: net_def)
qed

lemma calls_only_mono: "calls_only R m \<Longrightarrow> (\<And>x. R x \<Longrightarrow> R' x) \<Longrightarrow> calls_only R' m"
  unfolding calls_only_def
proof (intro allI)
  fix e d s ad tr
  assume m: "\<forall>e d s ad tr. keeps e (net d s ad R tr) m" and R: "\<And>x. R x \<Longrightarrow> R' x"
  show "keeps e (net d s ad R' tr) m"
  proof (unfold keeps_def, intro allI impI)
    fix w assume w: "net d s ad R' tr w"
    then obtain new where new: "w_db w = d" "w_ses w = s" "w_adapters w = ad" "w_trace w = new @ tr"
      "\<forall>x \<in> set new. fst x = d \<and> R' (snd x)" by (auto simp: net_def)
    have "net d s ad R (w_trace w) w" using new by (simp add: net_def)
    with m have "net d s ad R (w_trace w) (snd (m e w))" by (blast dest: keepsD)
    then obtain new' where new': "w_db (snd (m e w)) = d" "w_ses (snd (m e w)) = s"
      "w_adapters (snd (m e w)) = ad" "w_trace (snd (m e w)) = new' @ w_trace w"
      "\<forall>x \<in> set new'. fst x = d \<and> R (snd x)"
      by (auto simp: net_def)
    have "\<forall>x \<in> set (new' @ new). fst x = d \<and> R' (snd x)"
      using new(5) new'(5) R by (metis Un_iff set_append)
    with new new' show "net d s ad R' tr (snd (m e w))"
      unfolding net_def by (metis append_assoc)
  qed
qed

lemma calls_only_bind [keeps]:
  "calls_only R m \<Longrightarrow> (\<And>a. calls_only R (f a)) \<Longrightarrow> calls_only R (bind m f)"
  by (simp add: calls_only_def keeps_bind)

lemma calls_only_andthen [keeps]: "calls_only R m \<Longrightarrow> calls_only R k \<Longrightarrow> calls_only R (andthen m k)"
  by (simp add: calls_only_def keeps_andthen)

lemma calls_only_catch [keeps]:
  "calls_only R m \<Longrightarrow> (\<And>x. calls_only R (h x)) \<Longrightarrow> calls_only R (catch cs m h)"
  by (simp add: calls_only_def keeps_catch)

lemma calls_only_catch_all [keeps]:
  "calls_only R m \<Longrightarrow> (\<And>x. calls_only R (h x)) \<Longrightarrow> calls_only R (catch_all m h)"
  by (simp add: calls_only_def keeps_catch_all)

lemma calls_only_basic [keeps]:
  "calls_only R (ret a)" "calls_only R (raise c t)" "calls_only R (reraise x)" "calls_only R (lift v)"
  "calls_only R (guard_raise b c t)" "calls_only R (require_some o' c t)" "calls_only R settings_of"
  "calls_only R (ask_env g)"
  by (simp_all add: calls_only_def keeps)

lemma calls_only_tick [keeps]:
  "calls_only R now" "calls_only R mono" "calls_only R new_uuid" "calls_only R (sleep r)"
  "calls_only R fs_oracle"
  by (simp_all add: calls_only_def keeps_def net_def now_def mono_def new_uuid_def sleep_def
      fs_oracle_def)

lemma calls_only_if [keeps]:
  "(b \<Longrightarrow> calls_only R m) \<Longrightarrow> (\<not> b \<Longrightarrow> calls_only R m') \<Longrightarrow> calls_only R (if b then m else m')"
  by simp

lemma calls_only_whenM [keeps]: "(b \<Longrightarrow> calls_only R m) \<Longrightarrow> calls_only R (whenM b m)"
  by (simp add: whenM_def keeps)

lemma calls_only_case_option [keeps]:
  "calls_only R m \<Longrightarrow> (\<And>a. calls_only R (f a)) \<Longrightarrow>
   calls_only R (case v of None \<Rightarrow> m | Some a \<Rightarrow> f a)"
  by (cases v) simp_all

lemma calls_only_case_list [keeps]:
  "calls_only R m \<Longrightarrow> (\<And>x xs. calls_only R (f x xs)) \<Longrightarrow>
   calls_only R (case v of [] \<Rightarrow> m | x # xs \<Rightarrow> f x xs)"
  by (cases v) simp_all

lemma calls_only_let [keeps]: "(\<And>x. calls_only R (f x)) \<Longrightarrow> calls_only R (let x = v in f x)"
  by simp

lemma calls_only_http [keeps]: "R (ExtHttp r) \<Longrightarrow> calls_only R (http r)"
  by (auto simp: calls_only_def keeps_def net_def http_def)

lemma calls_only_ssh [keeps]: "R (ExtSsh t c) \<Longrightarrow> calls_only R (ssh_run t c)"
  by (auto simp: calls_only_def keeps_def net_def ssh_run_def split: ssh_outcome.splits)

lemma calls_only_tcp [keeps]: "R (ExtTcp h p) \<Longrightarrow> calls_only R (tcp_probe h p)"
  by (auto simp: calls_only_def keeps_def net_def tcp_probe_def)

text \<open>Which calls delete something.\<close>

definition is_delete :: "ext \<Rightarrow> bool" where
  "is_delete x \<longleftrightarrow> (case x of ExtHttp r \<Rightarrow> hr_method r = ''DELETE'' | _ \<Rightarrow> False)"

end
