(* ===== verification/Machine.thy ===== *)
theory Machine
  imports Hoare
begin

text \<open>
  The contract the three state machines of the program share (nodes, replacement jobs, deployments):
  a step to a target succeeds exactly along the edges of the machine's graph, moves the row to the
  target, and otherwise raises without touching the row. What a client needs of a machine is proved
  once here: which runs succeed, where they end, and, for a machine whose edges climb a rank, how
  many moves a row can make.
\<close>

text \<open>An optional \<open>occurred_at\<close>: a \<open>datetime\<close> with or without a time zone.\<close>

datatype stamp = Aware usec | Naive usec

text \<open>\<open>occurred_at or datetime.now(UTC)\<close>, and the check that it is aware.\<close>

definition stamp_or :: "stamp option \<Rightarrow> usec \<Rightarrow> exn + usec" where
  "stamp_or s t =
     (case s of None \<Rightarrow> Inr t
      | Some (Aware u) \<Rightarrow> Inr u
      | Some (Naive _) \<Rightarrow> Inl (Exn ValueError ''occurred_at must be timezone-aware''))"

locale state_machine =
  fixes state_of :: "'r \<Rightarrow> 's" and edge :: "'s \<Rightarrow> 's \<Rightarrow> bool"
    and step :: "usec \<Rightarrow> 's \<Rightarrow> 'r \<Rightarrow> exn + 'r"
  assumes step_moves: "step t target r = Inr r' \<Longrightarrow> state_of r' = target"
    and step_enabled: "(\<exists>r'. step t target r = Inr r') \<longleftrightarrow> edge (state_of r) target"
begin

fun run :: "(usec \<times> 's) list \<Rightarrow> 'r \<Rightarrow> exn + 'r" where
  "run [] r = Inr r"
| "run ((t, target) # ms) r = (case step t target r of Inl x \<Rightarrow> Inl x | Inr r' \<Rightarrow> run ms r')"

fun path :: "'s \<Rightarrow> 's list \<Rightarrow> bool" where
  "path s [] = True"
| "path s (t # ts) \<longleftrightarrow> edge s t \<and> path t ts"

lemma step_edge: "step t target r = Inr r' \<Longrightarrow> edge (state_of r) target"
  using step_enabled by blast

lemma run_iff_path: "(\<exists>r'. run ms r = Inr r') \<longleftrightarrow> path (state_of r) (map snd ms)"
proof (induction ms r rule: run.induct)
  case (1 r)
  then show ?case by simp
next
  case (2 t target ms r)
  then show ?case
    using step_enabled [of t target r] step_moves [of t target r]
    by (cases "step t target r") auto
qed

lemma run_ends: "run ms r = Inr r' \<Longrightarrow> state_of r' = last (state_of r # map snd ms)"
proof (induction ms r rule: run.induct)
  case (1 r)
  then show ?case by simp
next
  case (2 t target ms r)
  then show ?case
    using step_moves [of t target r] by (auto split: sum.splits)
qed

lemma run_rtranclp: "run ms r = Inr r' \<Longrightarrow> edge\<^sup>*\<^sup>* (state_of r) (state_of r')"
proof (induction ms r rule: run.induct)
  case (1 r)
  then show ?case by simp
next
  case (2 t target ms r)
  then show ?case
    using step_edge [of t target r] step_moves [of t target r]
    by (auto split: sum.splits intro: converse_rtranclp_into_rtranclp)
qed

text \<open>A state with one way in is reached only through the state before it.\<close>

lemma path_before:
  "path s ts \<Longrightarrow> t \<in> set ts \<Longrightarrow> t \<noteq> s \<Longrightarrow> (\<And>u. edge u t \<Longrightarrow> u \<noteq> t \<Longrightarrow> u = p) \<Longrightarrow> p \<in> set (s # ts)"
  by (induction s ts rule: path.induct) auto

lemma absorbing_run:
  assumes "\<And>t. edge (state_of r) t \<Longrightarrow> t = state_of r" and "run ms r = Inr r'"
  shows "state_of r' = state_of r"
  using assms
proof (induction ms r rule: run.induct)
  case (1 r)
  then show ?case by simp
next
  case (2 t target ms r)
  from 2(3) obtain r1 where r1: "step t target r = Inr r1" "run ms r1 = Inr r'"
    by (auto split: sum.splits)
  then have "state_of r1 = state_of r" using step_moves step_edge 2(2) by metis
  with 2 r1 show ?case by simp
qed

end

text \<open>A machine whose proper moves climb: no row can move more often than there are ranks left.\<close>

locale ranked_machine = state_machine state_of edge step
  for state_of :: "'r \<Rightarrow> 's" and edge and step +
  fixes rank :: "'s \<Rightarrow> nat"
  assumes climbs: "edge s t \<Longrightarrow> rank s < rank t"
begin

lemma run_bounded: "run ms r = Inr r' \<Longrightarrow> rank (state_of r) + length ms \<le> rank (state_of r')"
proof (induction ms r rule: run.induct)
  case (1 r)
  then show ?case by simp
next
  case (2 t target ms r)
  then obtain r1 where r1: "step t target r = Inr r1" "run ms r1 = Inr r'"
    by (auto split: sum.splits)
  with 2 climbs [OF step_edge [OF r1(1)]] step_moves [OF r1(1)] show ?case by simp
qed

end

end
