(* ===== verification/NodeState.thy ===== *)
theory NodeState
  imports Machine
begin

text \<open>
  \<open>app/services/node_state.py\<close>: the graph of node states and the three operations that change the
  state of a node. Each operation is a function of the row: it returns the changed row, or the
  exception, which leaves the row as it was.
\<close>

fun allowed_targets :: "node_state \<Rightarrow> node_state set" where
  "allowed_targets UNKNOWN = {HEALTHY, DEGRADED, NODE_FAILED_STATE, DISABLED}"
| "allowed_targets HEALTHY = {DEGRADED, DISABLED}"
| "allowed_targets DEGRADED = {HEALTHY, NODE_FAILED_STATE, DISABLED}"
| "allowed_targets NODE_FAILED_STATE = {HEALTHY, REPLACING, DISABLED}"
| "allowed_targets REPLACING = {NODE_DEPLOYING, NODE_FAILED_STATE, DISABLED}"
| "allowed_targets NODE_DEPLOYING = {NODE_VERIFYING, REPLACING, NODE_FAILED_STATE, DISABLED}"
| "allowed_targets NODE_VERIFYING = {HEALTHY, REPLACING, NODE_FAILED_STATE, DISABLED}"
| "allowed_targets DISABLED = {UNKNOWN}"

definition can_transition :: "node_state \<Rightarrow> node_state \<Rightarrow> bool" where
  "can_transition current target \<longleftrightarrow> target = current \<or> target \<in> allowed_targets current"

definition workflow_states :: "node_state set" where
  "workflow_states = {REPLACING, NODE_DEPLOYING, NODE_VERIFYING}"

text \<open>\<open>Node._apply_state_transition\<close>.\<close>

definition apply_state_transition :: "node_state \<Rightarrow> usec \<Rightarrow> node_row \<Rightarrow> node_row" where
  "apply_state_transition s t n = n\<lparr>n_state := s, n_state_changed_at := t\<rparr>"

definition node_transition ::
    "usec \<Rightarrow> stamp option \<Rightarrow> node_state \<Rightarrow> node_row \<Rightarrow> exn + bool \<times> node_row" where
  "node_transition clock occurred_at target node =
     (let current = n_state node in
      if target = current then Inr (False, node)
      else if target \<notin> allowed_targets current then
        Inl (Exn InvalidNodeStateTransitionError
          (''Invalid node state transition: '' @ node_state_value current @ '' -> '' @
           node_state_value target))
      else (case stamp_or occurred_at clock of
          Inl x \<Rightarrow> Inl x
        | Inr t \<Rightarrow> Inr (True, apply_state_transition target t node)))"

definition transition_forced_replacement ::
    "usec \<Rightarrow> stamp option \<Rightarrow> node_row \<Rightarrow> exn + bool \<times> node_row" where
  "transition_forced_replacement clock occurred_at node =
     (if n_state node = DISABLED then
        Inl (Exn InvalidNodeStateTransitionError
          ''Force repair is not allowed while the node is disabled'')
      else if n_state node \<in> workflow_states then
        Inl (Exn InvalidNodeStateTransitionError
          (''Force repair cannot start from active workflow state: '' @
           node_state_value (n_state node)))
      else if n_state node = REPLACING then Inr (False, node)
      else (case stamp_or occurred_at clock of
          Inl x \<Rightarrow> Inl x
        | Inr t \<Rightarrow> Inr (True, apply_state_transition REPLACING t node)))"

definition restorable_states :: "node_state set" where
  "restorable_states = {UNKNOWN, HEALTHY, DEGRADED, NODE_FAILED_STATE}"

definition restore_after_forced_replacement ::
    "usec \<Rightarrow> stamp option \<Rightarrow> node_state \<Rightarrow> node_row \<Rightarrow> exn + bool \<times> node_row" where
  "restore_after_forced_replacement clock occurred_at original_state node =
     (if original_state \<notin> restorable_states then
        Inl (Exn InvalidNodeStateTransitionError
          (''Invalid forced-repair restore target: '' @ node_state_value original_state))
      else if n_state node \<notin> workflow_states then
        (if n_state node = original_state then Inr (False, node)
         else Inl (Exn InvalidNodeStateTransitionError
           (''Cannot restore forced repair from state: '' @ node_state_value (n_state node))))
      else (case stamp_or occurred_at clock of
          Inl x \<Rightarrow> Inl x
        | Inr t \<Rightarrow> Inr (True, apply_state_transition original_state t node)))"

section \<open>The contract\<close>

definition node_step :: "usec \<Rightarrow> node_state \<Rightarrow> node_row \<Rightarrow> exn + node_row" where
  "node_step t target node = map_sum id snd (node_transition t None target node)"

interpretation node_machine: state_machine n_state can_transition node_step
  by unfold_locales
    (auto simp: node_step_def node_transition_def can_transition_def apply_state_transition_def
      stamp_or_def Let_def split: if_splits)

lemma apply_state_transition_id [simp]:
  "n_id (apply_state_transition s t n) = n_id n"
  "n_state (apply_state_transition s t n) = s"
  by (simp_all add: apply_state_transition_def)

lemma node_transition_cases:
  "node_transition clock None target node =
     (if target = n_state node then Inr (False, node)
      else if target \<in> allowed_targets (n_state node)
        then Inr (True, node\<lparr>n_state := target, n_state_changed_at := clock\<rparr>)
      else Inl (Exn InvalidNodeStateTransitionError
          (''Invalid node state transition: '' @ node_state_value (n_state node) @ '' -> '' @
           node_state_value target)))"
  by (simp add: node_transition_def Let_def stamp_or_def apply_state_transition_def)

lemma node_transition_False: "node_transition c oa target n = Inr (False, n') \<Longrightarrow> n' = n"
  by (auto simp: node_transition_def Let_def split: if_splits sum.splits)

lemma node_transition_naive:
  "node_transition c (Some (Naive t)) target n = Inr (b, n') \<Longrightarrow> \<not> b \<and> n' = n"
  by (auto simp: node_transition_def Let_def stamp_or_def split: if_splits)

text \<open>
  The workflow states can be entered from outside only at \<open>REPLACING\<close>, and by the ordinary graph only
  from a failed node.
\<close>

lemma enter_workflow:
  "t \<in> allowed_targets s \<Longrightarrow> t \<in> workflow_states \<Longrightarrow> s \<notin> workflow_states \<Longrightarrow>
   s = NODE_FAILED_STATE \<and> t = REPLACING"
  by (cases s; cases t) (simp_all add: workflow_states_def)

end
