(* ===== verification/ReplState.thy ===== *)
theory ReplState
  imports Machine
begin

text \<open>
  \<open>app/replacement/state.py\<close>: the checkpoint graph of a replacement job and the one operation that
  moves a job along it. \<open>job_consistent\<close> is what the operation maintains between the columns of a job.
\<close>

definition terminal :: "checkpoint \<Rightarrow> bool" where
  "terminal c \<longleftrightarrow> c \<in> {COMPLETED, FAILED, CANCELLED}"

fun forward :: "checkpoint \<Rightarrow> checkpoint set" where
  "forward CREATED = {PROVISIONING}"
| "forward PROVISIONING = {PROVISIONED}"
| "forward PROVISIONED = {CHECKING_IP, TEMP_CLEANUP}"
| "forward CHECKING_IP = {IP_VERIFIED, TEMP_CLEANUP}"
| "forward TEMP_CLEANUP = {PROVISIONING}"
| "forward IP_VERIFIED = {DEPLOYING}"
| "forward DEPLOYING = {NODE_VERIFIED}"
| "forward NODE_VERIFIED = {MASTER_UPDATING}"
| "forward MASTER_UPDATING = {MASTER_UPDATED}"
| "forward MASTER_UPDATED = {MASTER_VERIFYING}"
| "forward MASTER_VERIFYING = {MASTER_VERIFIED}"
| "forward MASTER_VERIFIED = {FINAL_CHECK}"
| "forward FINAL_CHECK = {FINAL_VERIFIED}"
| "forward FINAL_VERIFIED = {OLD_VPS_CLEANUP}"
| "forward OLD_VPS_CLEANUP = {COMPLETED}"
| "forward COMPLETED = {}"
| "forward FAILED = {}"
| "forward CANCELLED = {}"

definition repl_allowed :: "checkpoint \<Rightarrow> checkpoint set" where
  "repl_allowed c = (if terminal c then forward c else forward c \<union> {FAILED, CANCELLED})"

fun state_for :: "checkpoint \<Rightarrow> job_state" where
  "state_for CREATED = JS_PENDING"
| "state_for PROVISIONING = JS_PROVISIONING"
| "state_for PROVISIONED = JS_PROVISIONING"
| "state_for CHECKING_IP = JS_CHECKING_IP"
| "state_for TEMP_CLEANUP = JS_CLEANING_UP"
| "state_for IP_VERIFIED = JS_CHECKING_IP"
| "state_for DEPLOYING = JS_DEPLOYING"
| "state_for NODE_VERIFIED = JS_VERIFYING"
| "state_for MASTER_UPDATING = JS_UPDATING_MASTER"
| "state_for MASTER_UPDATED = JS_UPDATING_MASTER"
| "state_for MASTER_VERIFYING = JS_VERIFYING"
| "state_for MASTER_VERIFIED = JS_VERIFYING"
| "state_for FINAL_CHECK = JS_VERIFYING"
| "state_for FINAL_VERIFIED = JS_VERIFYING"
| "state_for OLD_VPS_CLEANUP = JS_CLEANING_UP"
| "state_for COMPLETED = JS_COMPLETED"
| "state_for FAILED = JS_FAILED"
| "state_for CANCELLED = JS_CANCELLED"

definition repl_can_transition :: "checkpoint \<Rightarrow> checkpoint \<Rightarrow> bool" where
  "repl_can_transition current target \<longleftrightarrow> target = current \<or> target \<in> repl_allowed current"

text \<open>The assignments of a successful transition.\<close>

definition enter_checkpoint :: "checkpoint \<Rightarrow> usec \<Rightarrow> job_row \<Rightarrow> job_row" where
  "enter_checkpoint target t job =
     (let j1 = job\<lparr>j_checkpoint := target, j_state := state_for target\<rparr>;
          j2 = (if j_started_at j1 = None \<and> target \<noteq> CREATED then j1\<lparr>j_started_at := Some t\<rparr> else j1)
      in if terminal target then j2\<lparr>j_completed_at := Some t, j_active_slot := None\<rparr> else j2)"

definition repl_transition ::
    "usec \<Rightarrow> stamp option \<Rightarrow> checkpoint \<Rightarrow> job_row \<Rightarrow> exn + bool \<times> job_row" where
  "repl_transition clock occurred_at target job =
     (let current = j_checkpoint job in
      if target = current then Inr (False, job)
      else if target \<notin> repl_allowed current then
        Inl (Exn InvalidReplacementTransitionError
          (''invalid replacement transition: '' @ checkpoint_value current @ '' -> '' @
           checkpoint_value target))
      else (case stamp_or occurred_at clock of
          Inl x \<Rightarrow> Inl x
        | Inr t \<Rightarrow> Inr (True, enter_checkpoint target t job)))"

section \<open>The contract\<close>

definition repl_step :: "usec \<Rightarrow> checkpoint \<Rightarrow> job_row \<Rightarrow> exn + job_row" where
  "repl_step t target job = map_sum id snd (repl_transition t None target job)"

lemma enter_checkpoint_simps [simp]:
  "j_checkpoint (enter_checkpoint c t j) = c"
  "j_state (enter_checkpoint c t j) = state_for c"
  "j_id (enter_checkpoint c t j) = j_id j"
  "j_node_id (enter_checkpoint c t j) = j_node_id j"
  "j_is_dry_run (enter_checkpoint c t j) = j_is_dry_run j"
  "j_trigger_mode (enter_checkpoint c t j) = j_trigger_mode j"
  "j_request_key (enter_checkpoint c t j) = j_request_key j"
  "j_original_node_state (enter_checkpoint c t j) = j_original_node_state j"
  "j_attempt_count (enter_checkpoint c t j) = j_attempt_count j"
  "j_max_attempts (enter_checkpoint c t j) = j_max_attempts j"
  "j_old_vps_id (enter_checkpoint c t j) = j_old_vps_id j"
  "j_new_vps_id (enter_checkpoint c t j) = j_new_vps_id j"
  "j_lease_token (enter_checkpoint c t j) = j_lease_token j"
  "j_lease_until (enter_checkpoint c t j) = j_lease_until j"
  "j_master_snapshot (enter_checkpoint c t j) = j_master_snapshot j"
  "j_new_ip_verified_at (enter_checkpoint c t j) = j_new_ip_verified_at j"
  "j_deployment_verified_at (enter_checkpoint c t j) = j_deployment_verified_at j"
  "j_master_updated_at (enter_checkpoint c t j) = j_master_updated_at j"
  "j_master_verified_at (enter_checkpoint c t j) = j_master_verified_at j"
  "j_final_health_verified_at (enter_checkpoint c t j) = j_final_health_verified_at j"
  "j_old_vps_deleted_at (enter_checkpoint c t j) = j_old_vps_deleted_at j"
  by (simp_all add: enter_checkpoint_def Let_def)

interpretation repl_machine: state_machine j_checkpoint repl_can_transition repl_step
  by unfold_locales
    (auto simp: repl_step_def repl_transition_def repl_can_transition_def stamp_or_def Let_def
      split: if_splits)

section \<open>Consistency of a job\<close>

definition job_consistent :: "job_row \<Rightarrow> bool" where
  "job_consistent j \<longleftrightarrow>
     j_state j = state_for (j_checkpoint j) \<and>
     j_active_slot j = (if terminal (j_checkpoint j) then None else Some True) \<and>
     (j_completed_at j \<noteq> None \<longleftrightarrow> terminal (j_checkpoint j)) \<and>
     (j_checkpoint j \<noteq> CREATED \<longrightarrow> j_started_at j \<noteq> None)"

lemma terminal_repl_allowed: "terminal c \<Longrightarrow> repl_allowed c = {}"
  by (auto simp: terminal_def repl_allowed_def)

lemma repl_allowed_not_created: "target \<in> repl_allowed c \<Longrightarrow> target \<noteq> CREATED"
  by (cases c) (auto simp: repl_allowed_def terminal_def split: if_splits)

lemma repl_transition_Inr:
  "repl_transition clock oa target job = Inr (b, job') \<Longrightarrow>
   (target = j_checkpoint job \<and> \<not> b \<and> job' = job) \<or>
   (b \<and> target \<in> repl_allowed (j_checkpoint job) \<and> target \<noteq> j_checkpoint job \<and>
    \<not> terminal (j_checkpoint job) \<and> (\<exists>t. job' = enter_checkpoint target t job))"
  by (auto simp: repl_transition_def Let_def terminal_repl_allowed split: if_splits sum.splits)

lemma enter_checkpoint_completed:
  "j_completed_at (enter_checkpoint c t j) = (if terminal c then Some t else j_completed_at j)"
  "j_active_slot (enter_checkpoint c t j) = (if terminal c then None else j_active_slot j)"
  "j_started_at (enter_checkpoint c t j) =
     (if j_started_at j = None \<and> c \<noteq> CREATED then Some t else j_started_at j)"
  by (simp_all add: enter_checkpoint_def Let_def)

lemma enter_checkpoint_consistent:
  "job_consistent j \<Longrightarrow> \<not> terminal (j_checkpoint j) \<Longrightarrow> job_consistent (enter_checkpoint c t j)"
  by (auto simp: job_consistent_def enter_checkpoint_completed)

lemma repl_transition_consistent:
  assumes "repl_transition clock oa target job = Inr (b, job')" and "job_consistent job"
  shows "job_consistent job'"
  using repl_transition_Inr [OF assms(1)] assms(2) enter_checkpoint_consistent by blast

lemma repl_transition_cases:
  "repl_transition clock None target job =
     (if target = j_checkpoint job then Inr (False, job)
      else if target \<in> repl_allowed (j_checkpoint job) then Inr (True, enter_checkpoint target clock job)
      else Inl (Exn InvalidReplacementTransitionError
          (''invalid replacement transition: '' @ checkpoint_value (j_checkpoint job) @ '' -> '' @
           checkpoint_value target)))"
  by (simp add: repl_transition_def Let_def stamp_or_def)

section \<open>What a completed job has passed\<close>

text \<open>The checkpoints whose only way in, apart from staying, is one other checkpoint.\<close>

fun before :: "checkpoint \<Rightarrow> checkpoint" where
  "before COMPLETED = OLD_VPS_CLEANUP"
| "before OLD_VPS_CLEANUP = FINAL_VERIFIED"
| "before FINAL_VERIFIED = FINAL_CHECK"
| "before FINAL_CHECK = MASTER_VERIFIED"
| "before MASTER_VERIFIED = MASTER_VERIFYING"
| "before MASTER_VERIFYING = MASTER_UPDATED"
| "before MASTER_UPDATED = MASTER_UPDATING"
| "before MASTER_UPDATING = NODE_VERIFIED"
| "before NODE_VERIFIED = DEPLOYING"
| "before DEPLOYING = IP_VERIFIED"
| "before IP_VERIFIED = CHECKING_IP"
| "before CHECKING_IP = PROVISIONED"
| "before PROVISIONED = PROVISIONING"
| "before c = c"

definition success_chain :: "checkpoint list" where
  "success_chain =
     [PROVISIONED, CHECKING_IP, IP_VERIFIED, DEPLOYING, NODE_VERIFIED, MASTER_UPDATING,
      MASTER_UPDATED, MASTER_VERIFYING, MASTER_VERIFIED, FINAL_CHECK, FINAL_VERIFIED,
      OLD_VPS_CLEANUP, COMPLETED]"

lemma single_predecessor:
  "t \<in> set success_chain \<Longrightarrow> repl_can_transition u t \<Longrightarrow> u \<noteq> t \<Longrightarrow> u = before t"
  by (cases u; cases t)
    (simp_all add: success_chain_def repl_can_transition_def repl_allowed_def terminal_def)

lemma path_has_before:
  assumes "repl_machine.path CREATED ts" and "t \<in> set ts" and "t \<in> set success_chain"
  shows "before t \<in> set ts"
proof -
  have "t \<noteq> CREATED" and "before t \<noteq> CREATED"
    using assms(3) by (auto simp: success_chain_def)
  then show ?thesis
    using repl_machine.path_before [OF assms(1,2), of "before t"] single_predecessor [OF assms(3)]
    by auto
qed

lemma completed_path_has_all:
  assumes p: "repl_machine.path CREATED ts" and "COMPLETED \<in> set ts"
  shows "set success_chain \<subseteq> set ts"
proof -
  note step = path_has_before [OF p]
  have "OLD_VPS_CLEANUP \<in> set ts" using step [OF assms(2)] by (simp add: success_chain_def)
  moreover from this have "FINAL_VERIFIED \<in> set ts" using step by (fastforce simp: success_chain_def)
  moreover from this have "FINAL_CHECK \<in> set ts" using step by (fastforce simp: success_chain_def)
  moreover from this have "MASTER_VERIFIED \<in> set ts" using step by (fastforce simp: success_chain_def)
  moreover from this have "MASTER_VERIFYING \<in> set ts" using step by (fastforce simp: success_chain_def)
  moreover from this have "MASTER_UPDATED \<in> set ts" using step by (fastforce simp: success_chain_def)
  moreover from this have "MASTER_UPDATING \<in> set ts" using step by (fastforce simp: success_chain_def)
  moreover from this have "NODE_VERIFIED \<in> set ts" using step by (fastforce simp: success_chain_def)
  moreover from this have "DEPLOYING \<in> set ts" using step by (fastforce simp: success_chain_def)
  moreover from this have "IP_VERIFIED \<in> set ts" using step by (fastforce simp: success_chain_def)
  moreover from this have "CHECKING_IP \<in> set ts" using step by (fastforce simp: success_chain_def)
  moreover from this have "PROVISIONED \<in> set ts" using step by (fastforce simp: success_chain_def)
  ultimately show ?thesis using assms(2) by (auto simp: success_chain_def)
qed

end
