(* ===== verification/DeployState.thy ===== *)
theory DeployState
  imports Machine
begin

text \<open>
  \<open>app/deployment/state.py\<close>: the states of one deployment attempt. Unlike the other machines it
  refuses to re-enter the current state, and every move climbs, so an attempt makes at most five.
\<close>

fun dep_allowed :: "deployment_state \<Rightarrow> deployment_state set" where
  "dep_allowed DEP_PENDING = {WAITING_SSH, DEP_FAILED}"
| "dep_allowed WAITING_SSH = {BOOTSTRAPPING, DEP_FAILED}"
| "dep_allowed BOOTSTRAPPING = {INSTALLING, DEP_FAILED}"
| "dep_allowed INSTALLING = {DEP_VERIFYING, DEP_FAILED}"
| "dep_allowed DEP_VERIFYING = {SUCCEEDED, DEP_FAILED}"
| "dep_allowed SUCCEEDED = {}"
| "dep_allowed DEP_FAILED = {}"

text \<open>An explicit \<open>occurred_at\<close> is taken as it is, without the check for a time zone.\<close>

definition stamp_usec :: "stamp \<Rightarrow> usec" where
  "stamp_usec s = (case s of Aware t \<Rightarrow> t | Naive t \<Rightarrow> t)"

definition dep_transition ::
    "usec \<Rightarrow> stamp option \<Rightarrow> deployment_state \<Rightarrow> deployment_row \<Rightarrow> exn + deployment_row" where
  "dep_transition clock occurred_at target d =
     (let current = d_state d in
      if target \<notin> dep_allowed current then
        Inl (Exn InvalidDeploymentTransitionError
          (''invalid deployment transition: '' @ deployment_state_value current @ '' -> '' @
           deployment_state_value target))
      else
        (let t = (case occurred_at of None \<Rightarrow> clock | Some s \<Rightarrow> stamp_usec s);
             d1 = (if d_started_at d = None \<and> target \<noteq> DEP_PENDING
                   then d\<lparr>d_started_at := Some t\<rparr> else d);
             d2 = d1\<lparr>d_state := target\<rparr>
         in Inr (if target \<in> {SUCCEEDED, DEP_FAILED} then d2\<lparr>d_completed_at := Some t\<rparr> else d2)))"

fun dep_rank :: "deployment_state \<Rightarrow> nat" where
  "dep_rank DEP_PENDING = 0"
| "dep_rank WAITING_SSH = 1"
| "dep_rank BOOTSTRAPPING = 2"
| "dep_rank INSTALLING = 3"
| "dep_rank DEP_VERIFYING = 4"
| "dep_rank SUCCEEDED = 5"
| "dep_rank DEP_FAILED = 5"

definition dep_edge :: "deployment_state \<Rightarrow> deployment_state \<Rightarrow> bool" where
  "dep_edge s t \<longleftrightarrow> t \<in> dep_allowed s"

definition dep_step :: "usec \<Rightarrow> deployment_state \<Rightarrow> deployment_row \<Rightarrow> exn + deployment_row" where
  "dep_step t target d = dep_transition t None target d"

interpretation dep_machine: ranked_machine d_state dep_edge dep_step dep_rank
proof unfold_locales
  fix t target r r'
  show "dep_step t target r = Inr r' \<Longrightarrow> d_state r' = target"
    by (auto simp: dep_step_def dep_transition_def Let_def split: if_splits)
  show "(\<exists>r'. dep_step t target r = Inr r') \<longleftrightarrow> dep_edge (d_state r) target"
    by (auto simp: dep_step_def dep_transition_def Let_def dep_edge_def)
next
  fix s t
  show "dep_edge s t \<Longrightarrow> dep_rank s < dep_rank t"
    by (cases s; cases t) (simp_all add: dep_edge_def)
qed

definition deployment_consistent :: "deployment_row \<Rightarrow> bool" where
  "deployment_consistent d \<longleftrightarrow>
     (d_state d \<noteq> DEP_PENDING \<longrightarrow> d_started_at d \<noteq> None) \<and>
     (d_completed_at d \<noteq> None \<longleftrightarrow> d_state d \<in> {SUCCEEDED, DEP_FAILED})"

lemma dep_transition_frame:
  "dep_transition c oa target d = Inr d' \<Longrightarrow>
   d_id d' = d_id d \<and> d_job_id d' = d_job_id d \<and> d_vps_id d' = d_vps_id d \<and>
   d_attempt_number d' = d_attempt_number d \<and> d_state d' = target \<and>
   d_panel_port d' = d_panel_port d"
  by (auto simp: dep_transition_def Let_def split: if_splits)

lemma dep_transition_consistent:
  "dep_transition c oa target d = Inr d' \<Longrightarrow> deployment_consistent d \<Longrightarrow> deployment_consistent d'"
  by (cases "d_state d")
    (auto simp: dep_transition_def Let_def deployment_consistent_def split: if_splits)

end
