(* ===== verification/Repositories.thy ===== *)
theory Repositories
  imports NodeState ReplState DeployState "HOL-Library.Char_ord" "HOL-Library.List_Lexorder"
begin

text \<open>
  \<open>app/database/repositories\<close>: the queries and statements of every repository, as functions of the
  database, and the actions that run them in the open session. \<open>ORDER BY\<close> is a stable sort, text in
  the order of its characters. The two leases, of a job and of a node, have one contract: the locale
  \<open>lease\<close>, interpreted on both.
\<close>

section \<open>Rows of the database\<close>

definition get_provider :: "uuid \<Rightarrow> db \<Rightarrow> provider_row option" where
  "get_provider i d = tbl_get p_id i (t_providers d)"

definition get_node :: "uuid \<Rightarrow> db \<Rightarrow> node_row option" where
  "get_node i d = tbl_get n_id i (t_nodes d)"

definition get_vps :: "uuid \<Rightarrow> db \<Rightarrow> vps_row option" where
  "get_vps i d = tbl_get v_id i (t_vps d)"

definition get_job :: "uuid \<Rightarrow> db \<Rightarrow> job_row option" where
  "get_job i d = tbl_get j_id i (t_jobs d)"

definition get_deployment :: "uuid \<Rightarrow> db \<Rightarrow> deployment_row option" where
  "get_deployment i d = tbl_get d_id i (t_deployments d)"

definition set_nodes :: "(node_row list \<Rightarrow> node_row list) \<Rightarrow> db \<Rightarrow> db" where
  "set_nodes f d = d\<lparr>t_nodes := f (t_nodes d)\<rparr>"

definition set_creds :: "(cred_row list \<Rightarrow> cred_row list) \<Rightarrow> db \<Rightarrow> db" where
  "set_creds f d = d\<lparr>t_creds := f (t_creds d)\<rparr>"

definition set_vps :: "(vps_row list \<Rightarrow> vps_row list) \<Rightarrow> db \<Rightarrow> db" where
  "set_vps f d = d\<lparr>t_vps := f (t_vps d)\<rparr>"

definition set_jobs :: "(job_row list \<Rightarrow> job_row list) \<Rightarrow> db \<Rightarrow> db" where
  "set_jobs f d = d\<lparr>t_jobs := f (t_jobs d)\<rparr>"

definition set_deployments :: "(deployment_row list \<Rightarrow> deployment_row list) \<Rightarrow> db \<Rightarrow> db" where
  "set_deployments f d = d\<lparr>t_deployments := f (t_deployments d)\<rparr>"

definition set_checks :: "(check_row list \<Rightarrow> check_row list) \<Rightarrow> db \<Rightarrow> db" where
  "set_checks f d = d\<lparr>t_checks := f (t_checks d)\<rparr>"

definition set_events :: "(event_row list \<Rightarrow> event_row list) \<Rightarrow> db \<Rightarrow> db" where
  "set_events f d = d\<lparr>t_events := f (t_events d)\<rparr>"

definition set_settings :: "(setting_row list \<Rightarrow> setting_row list) \<Rightarrow> db \<Rightarrow> db" where
  "set_settings f d = d\<lparr>t_settings := f (t_settings d)\<rparr>"

lemmas db_setters = set_nodes_def set_creds_def set_vps_def set_jobs_def set_deployments_def
  set_checks_def set_events_def set_settings_def

lemmas db_getters = get_provider_def get_node_def get_vps_def get_job_def get_deployment_def

section \<open>Queries\<close>

text \<open>Providers.\<close>

definition provider_by_key :: "string \<Rightarrow> db \<Rightarrow> provider_row option" where
  "provider_by_key k d = find (\<lambda>p. p_key p = k) (t_providers d)"

definition list_providers :: "db \<Rightarrow> provider_row list" where
  "list_providers d = sort_key p_key (t_providers d)"

text \<open>Nodes.\<close>

definition list_monitoring_enabled :: "db \<Rightarrow> node_row list" where
  "list_monitoring_enabled d =
     sort_key n_name (filter (\<lambda>n. n_monitoring_enabled n \<and> n_operation_mode n \<noteq> MODE_DISABLED) (t_nodes d))"

definition list_failed :: "nat \<Rightarrow> db \<Rightarrow> node_row list" where
  "list_failed limit d =
     take limit (sort_key n_name (filter (\<lambda>n. n_state n = NODE_FAILED_STATE) (t_nodes d)))"

definition list_auto_repair_failed :: "nat \<Rightarrow> db \<Rightarrow> node_row list" where
  "list_auto_repair_failed limit d =
     take limit (sort_key n_name (filter (\<lambda>n. n_state n = NODE_FAILED_STATE \<and>
       n_operation_mode n = AUTO_REPAIR \<and> n_monitoring_enabled n) (t_nodes d)))"

definition list_nodes :: "nat \<Rightarrow> db \<Rightarrow> node_row list" where
  "list_nodes limit d = take limit (sort_key n_name (t_nodes d))"

definition node_by_name :: "string \<Rightarrow> db \<Rightarrow> node_row option" where
  "node_by_name name d = find (\<lambda>n. lower (n_name n) = lower name) (t_nodes d)"

text \<open>The groups with a row, in the order of the enumeration.\<close>

definition count_by_state :: "db \<Rightarrow> (string \<times> nat) list" where
  "count_by_state d =
     filter (\<lambda>(s, k). 0 < k)
       (map (\<lambda>s. (node_state_value s, length (filter (\<lambda>n. n_state n = s) (t_nodes d)))) node_states)"

definition cred_for_node :: "uuid \<Rightarrow> db \<Rightarrow> cred_row option" where
  "cred_for_node i d = find (\<lambda>c. cr_node_id c = i) (t_creds d)"

definition recent_checks :: "uuid \<Rightarrow> nat \<Rightarrow> db \<Rightarrow> check_row list" where
  "recent_checks i limit d =
     take limit (sort_key (\<lambda>c. - c_checked_at c) (filter (\<lambda>c. c_node_id c = i) (t_checks d)))"

text \<open>Jobs.\<close>

definition active_for_node :: "uuid \<Rightarrow> db \<Rightarrow> job_row option" where
  "active_for_node i d = find (\<lambda>j. j_node_id j = i \<and> j_active_slot j = Some True) (t_jobs d)"

definition job_by_request_key :: "string \<Rightarrow> db \<Rightarrow> job_row option" where
  "job_by_request_key k d = find (\<lambda>j. j_request_key j = Some k) (t_jobs d)"

definition active_jobs :: "db \<Rightarrow> job_row list" where
  "active_jobs d = filter (\<lambda>j. j_active_slot j = Some True) (t_jobs d)"

definition count_active_jobs :: "db \<Rightarrow> int" where
  "count_active_jobs d = int (length (active_jobs d))"

definition list_active_jobs :: "nat \<Rightarrow> db \<Rightarrow> job_row list" where
  "list_active_jobs limit d = take limit (sort_key j_created_at (active_jobs d))"

definition first_row :: "'r list \<Rightarrow> 'r option" where
  "first_row t = (case t of [] \<Rightarrow> None | r # _ \<Rightarrow> Some r)"

definition latest_job_for_node :: "uuid \<Rightarrow> db \<Rightarrow> job_row option" where
  "latest_job_for_node i d =
     first_row (sort_key (\<lambda>j. - j_created_at j) (filter (\<lambda>j. j_node_id j = i) (t_jobs d)))"

definition list_recent_jobs :: "nat \<Rightarrow> db \<Rightarrow> job_row list" where
  "list_recent_jobs limit d = take limit (sort_key (\<lambda>j. - j_created_at j) (t_jobs d))"

text \<open>Servers.\<close>

definition current_vps_for_node :: "uuid \<Rightarrow> db \<Rightarrow> vps_row option" where
  "current_vps_for_node i d =
     first_row (sort_key (\<lambda>v. - v_created_at v)
       (filter (\<lambda>v. v_node_id v = i \<and> v_role v = CURRENT \<and> v_state v \<noteq> VPS_DELETED) (t_vps d)))"

definition count_active_replacements :: "db \<Rightarrow> int" where
  "count_active_replacements d =
     int (length (filter (\<lambda>v. v_role v = REPLACEMENT \<and> v_state v \<noteq> VPS_DELETED) (t_vps d)))"

definition count_active_vps :: "db \<Rightarrow> int" where
  "count_active_vps d = int (length (filter (\<lambda>v. v_state v \<noteq> VPS_DELETED) (t_vps d)))"

definition vps_by_provider_identity :: "uuid \<Rightarrow> string \<Rightarrow> db \<Rightarrow> vps_row option" where
  "vps_by_provider_identity p s d =
     find (\<lambda>v. v_provider_id v = p \<and> v_provider_server_id v = s) (t_vps d)"

text \<open>Deployments, events, settings.\<close>

definition deployment_for_attempt :: "uuid \<Rightarrow> int \<Rightarrow> db \<Rightarrow> deployment_row option" where
  "deployment_for_attempt i k d =
     find (\<lambda>x. d_job_id x = i \<and> d_attempt_number x = k) (t_deployments d)"

definition latest_deployment_for_job :: "uuid \<Rightarrow> db \<Rightarrow> deployment_row option" where
  "latest_deployment_for_job i d =
     first_row (sort_key (\<lambda>x. - d_attempt_number x) (filter (\<lambda>x. d_job_id x = i) (t_deployments d)))"

definition recent_events_for_node :: "uuid \<Rightarrow> nat \<Rightarrow> db \<Rightarrow> event_row list" where
  "recent_events_for_node i limit d =
     take limit (sort_key (\<lambda>x. - e_created_at x) (filter (\<lambda>x. e_node_id x = Some i) (t_events d)))"

text \<open>The order of the cursor: by time, then by identifier, which the database compares bytewise.\<close>

definition event_le :: "event_row \<Rightarrow> event_row \<Rightarrow> bool" where
  "event_le x y \<longleftrightarrow>
     e_created_at x < e_created_at y \<or> (e_created_at x = e_created_at y \<and> e_id x \<le> e_id y)"

fun insert_event :: "event_row \<Rightarrow> event_row list \<Rightarrow> event_row list" where
  "insert_event x [] = [x]"
| "insert_event x (y # ys) = (if event_le x y then x # y # ys else y # insert_event x ys)"

definition sort_events :: "event_row list \<Rightarrow> event_row list" where
  "sort_events t = foldr insert_event t []"

definition list_recent_events :: "nat \<Rightarrow> db \<Rightarrow> event_row list" where
  "list_recent_events limit d = take limit (rev (sort_events (t_events d)))"

definition event_after :: "usec option \<Rightarrow> uuid option \<Rightarrow> event_row \<Rightarrow> bool" where
  "event_after created_at event_id x =
     (case created_at of None \<Rightarrow> True
      | Some t \<Rightarrow> (case event_id of None \<Rightarrow> t < e_created_at x
          | Some i \<Rightarrow> t < e_created_at x \<or> (e_created_at x = t \<and> i < e_id x)))"

definition list_events_after :: "usec option \<Rightarrow> uuid option \<Rightarrow> nat \<Rightarrow> db \<Rightarrow> event_row list" where
  "list_events_after created_at event_id limit d =
     take limit (sort_events (filter (event_after created_at event_id) (t_events d)))"

definition setting_by_key :: "string \<Rightarrow> db \<Rightarrow> setting_row option" where
  "setting_by_key k d = find (\<lambda>s. s_key s = k) (t_settings d)"

text \<open>The rows of \<open>SettingRepository.set_value\<close>: an insertion or an update in place.\<close>

definition put_setting :: "string \<Rightarrow> json \<Rightarrow> string option \<Rightarrow> db \<Rightarrow> db" where
  "put_setting k v desc d =
     (case setting_by_key k d of
        None \<Rightarrow> set_settings (tbl_add \<lparr>s_key = k, s_value = v, s_description = desc\<rparr>) d
      | Some _ \<Rightarrow> set_settings (tbl_upd s_key k
          (\<lambda>s. case desc of None \<Rightarrow> s\<lparr>s_value := v\<rparr>
               | Some _ \<Rightarrow> s\<lparr>s_value := v, s_description := desc\<rparr>)) d)"

section \<open>Leases\<close>

text \<open>An \<open>UPDATE ... WHERE\<close>: the number of rows it hits and the table after it.\<close>

definition update_where :: "('r \<Rightarrow> bool) \<Rightarrow> ('r \<Rightarrow> 'r) \<Rightarrow> 'r list \<Rightarrow> nat \<times> 'r list" where
  "update_where P f t = (length (filter P t), map (\<lambda>r. if P r then f r else r) t)"

definition workflow_lease_free :: "uuid \<Rightarrow> string \<Rightarrow> usec \<Rightarrow> job_row \<Rightarrow> bool" where
  "workflow_lease_free i token t j \<longleftrightarrow>
     j_id j = i \<and> j_active_slot j = Some True \<and>
     (case j_lease_until j of None \<Rightarrow> True | Some u \<Rightarrow> u \<le> t \<or> j_lease_token j = Some token)"

definition try_acquire_workflow_lease ::
    "uuid \<Rightarrow> string \<Rightarrow> usec \<Rightarrow> usec \<Rightarrow> db \<Rightarrow> bool \<times> db" where
  "try_acquire_workflow_lease i token t until d =
     (case update_where (workflow_lease_free i token t)
         (\<lambda>j. j\<lparr>j_lease_token := Some token, j_lease_until := Some until\<rparr>) (t_jobs d) of
        (k, jobs) \<Rightarrow> (k = 1, d\<lparr>t_jobs := jobs\<rparr>))"

definition release_workflow_lease :: "uuid \<Rightarrow> string \<Rightarrow> db \<Rightarrow> db" where
  "release_workflow_lease i token d =
     set_jobs (\<lambda>t. snd (update_where (\<lambda>j. j_id j = i \<and> j_lease_token j = Some token)
       (\<lambda>j. j\<lparr>j_lease_token := None, j_lease_until := None\<rparr>) t)) d"

definition monitoring_lease_free :: "uuid \<Rightarrow> usec \<Rightarrow> node_row \<Rightarrow> bool" where
  "monitoring_lease_free i t n \<longleftrightarrow>
     n_id n = i \<and> n_monitoring_enabled n \<and> n_operation_mode n \<noteq> MODE_DISABLED \<and>
     (case n_lease_until n of None \<Rightarrow> True | Some u \<Rightarrow> u \<le> t)"

definition try_acquire_monitoring_lease ::
    "uuid \<Rightarrow> string \<Rightarrow> usec \<Rightarrow> usec \<Rightarrow> db \<Rightarrow> bool \<times> db" where
  "try_acquire_monitoring_lease i token t until d =
     (case update_where (monitoring_lease_free i t)
         (\<lambda>n. n\<lparr>n_lease_token := Some token, n_lease_until := Some until\<rparr>) (t_nodes d) of
        (k, nodes) \<Rightarrow> (k = 1, d\<lparr>t_nodes := nodes\<rparr>))"

definition release_monitoring_lease :: "uuid \<Rightarrow> string \<Rightarrow> db \<Rightarrow> db" where
  "release_monitoring_lease i token d =
     set_nodes (\<lambda>t. snd (update_where (\<lambda>n. n_id n = i \<and> n_lease_token n = Some token)
       (\<lambda>n. n\<lparr>n_lease_token := None, n_lease_until := None\<rparr>) t)) d"

datatype lease_op = Acquire string usec usec | Release string

locale lease =
  fixes ok :: "'s \<Rightarrow> bool" and holder :: "'s \<Rightarrow> (string option \<times> usec) option"
    and acquire :: "string \<Rightarrow> usec \<Rightarrow> usec \<Rightarrow> 's \<Rightarrow> bool \<times> 's" and release :: "string \<Rightarrow> 's \<Rightarrow> 's"
  assumes acquire_ok: "ok s \<Longrightarrow> ok (snd (acquire tok t u s))"
    and release_ok: "ok s \<Longrightarrow> ok (release tok s)"
    and acquired: "ok s \<Longrightarrow> acquire tok t u s = (True, s') \<Longrightarrow> holder s' = Some (Some tok, u)"
    and blocked: "ok s \<Longrightarrow> holder s = Some (k, v) \<Longrightarrow> k \<noteq> Some tok \<Longrightarrow> t < v \<Longrightarrow>
      acquire tok t u s = (False, s)"
    and released: "ok s \<Longrightarrow> holder s = Some (Some tok, v) \<Longrightarrow> holder (release tok s) = None"
    and not_mine: "ok s \<Longrightarrow> holder s = Some (k, v) \<Longrightarrow> k \<noteq> Some tok \<Longrightarrow>
      holder (release tok s) = Some (k, v)"
begin

fun perform :: "lease_op \<Rightarrow> 's \<Rightarrow> bool \<times> 's" where
  "perform (Acquire tok t u) s = acquire tok t u s"
| "perform (Release tok) s = (True, release tok s)"

fun perform_all :: "lease_op list \<Rightarrow> 's \<Rightarrow> bool list \<times> 's" where
  "perform_all [] s = ([], s)"
| "perform_all (x # xs) s =
     (case perform x s of (b, s') \<Rightarrow> (case perform_all xs s' of (bs, s'') \<Rightarrow> (b # bs, s'')))"

fun foreign :: "string option \<Rightarrow> usec \<Rightarrow> lease_op \<Rightarrow> bool" where
  "foreign k v (Acquire tok t u) \<longleftrightarrow> k \<noteq> Some tok \<and> t < v"
| "foreign k v (Release tok) \<longleftrightarrow> k \<noteq> Some tok"

lemma foreign_step:
  assumes "ok s" and "holder s = Some (k, v)" and "foreign k v x"
  shows "holder (snd (perform x s)) = Some (k, v) \<and> ok (snd (perform x s)) \<and>
    (\<forall>tok t u. x = Acquire tok t u \<longrightarrow> \<not> fst (perform x s))"
  using assms by (cases x) (simp_all add: blocked not_mine release_ok)

text \<open>
  Until it expires or its holder lets go, a lease excludes everybody else, whatever they try and in
  whatever order.
\<close>

lemma exclusive:
  "ok s \<Longrightarrow> holder s = Some (k, v) \<Longrightarrow> list_all (foreign k v) xs \<Longrightarrow>
   holder (snd (perform_all xs s)) = Some (k, v) \<and>
   (\<forall>i < length xs. \<forall>tok t u. xs ! i = Acquire tok t u \<longrightarrow> \<not> fst (perform_all xs s) ! i)"
proof (induction xs arbitrary: s)
  case Nil
  then show ?case by simp
next
  case (Cons x xs)
  obtain b s' where p: "perform x s = (b, s')" by (cases "perform x s")
  have st: "holder s' = Some (k, v)" "ok s'" "\<forall>tok t u. x = Acquire tok t u \<longrightarrow> \<not> b"
    using foreign_step [of s k v x] Cons.prems p by auto
  with Cons.IH [of s'] Cons.prems p show ?case
    by (auto simp: nth_Cons split: prod.splits nat.splits)
qed

end

definition job_holder :: "uuid \<Rightarrow> db \<Rightarrow> (string option \<times> usec) option" where
  "job_holder i d =
     (case get_job i d of None \<Rightarrow> None
      | Some j \<Rightarrow> map_option (\<lambda>u. (j_lease_token j, u)) (j_lease_until j))"

definition node_holder :: "uuid \<Rightarrow> db \<Rightarrow> (string option \<times> usec) option" where
  "node_holder i d =
     (case get_node i d of None \<Rightarrow> None
      | Some n \<Rightarrow> map_option (\<lambda>u. (n_lease_token n, u)) (n_lease_until n))"

lemma filter_key_le_1: "distinct (map key t) \<Longrightarrow> length (filter (\<lambda>r. key r = k \<and> P r) t) \<le> 1"
proof (induction t)
  case (Cons r t)
  have "key r = k \<Longrightarrow> filter (\<lambda>r. key r = k \<and> P r) t = []"
    using Cons.prems by (auto simp: filter_empty_conv) (metis image_eqI)
  with Cons show ?case by auto
qed simp

text \<open>An update of at most the rows with one key, seen through that key.\<close>

lemma update_where_get:
  assumes "distinct (map key t)" and "\<And>r. P r \<Longrightarrow> key r = k" and "\<And>r. key (f r) = key r"
  shows "tbl_get key k (snd (update_where P f t)) =
           map_option (\<lambda>r. if P r then f r else r) (tbl_get key k t)"
    and "fst (update_where P f t) = (case tbl_get key k t of Some r \<Rightarrow> if P r then 1 else 0 | None \<Rightarrow> 0)"
    and "map key (snd (update_where P f t)) = map key t"
proof -
  show "map key (snd (update_where P f t)) = map key t"
    using assms(3) by (auto simp: update_where_def)
  show "tbl_get key k (snd (update_where P f t)) =
           map_option (\<lambda>r. if P r then f r else r) (tbl_get key k t)"
    using assms by (induction t) (auto simp: update_where_def table_simps)
  have "P r \<Longrightarrow> key r = k" for r by (rule assms(2))
  with assms(1) show "fst (update_where P f t) =
      (case tbl_get key k t of Some r \<Rightarrow> if P r then 1 else 0 | None \<Rightarrow> 0)"
  proof (induction t)
    case (Cons r t)
    have "key r = k \<Longrightarrow> filter P t = []"
      using Cons.prems by (auto simp: filter_empty_conv) (metis image_eqI)
    with Cons show ?case by (auto simp: update_where_def table_simps)
  qed (simp add: update_where_def table_simps)
qed

lemma update_where_none: "fst (update_where P f t) = 0 \<Longrightarrow> snd (update_where P f t) = t"
  by (auto simp: update_where_def filter_empty_conv intro: map_idI)

lemma job_lease_acquire:
  assumes "distinct (map j_id (t_jobs d))" and "try_acquire_workflow_lease i tok t u d = (b, d')"
  shows "map j_id (t_jobs d') = map j_id (t_jobs d)"
    and "b \<longleftrightarrow> (\<exists>j. get_job i d = Some j \<and> workflow_lease_free i tok t j)"
    and "get_job i d' = map_option (\<lambda>j. if workflow_lease_free i tok t j
           then j\<lparr>j_lease_token := Some tok, j_lease_until := Some u\<rparr> else j) (get_job i d)"
    and "\<not> b \<Longrightarrow> d' = d"
proof -
  let ?P = "workflow_lease_free i tok t"
  let ?f = "\<lambda>j. j\<lparr>j_lease_token := Some tok, j_lease_until := Some u\<rparr>"
  have id: "\<And>j. ?P j \<Longrightarrow> j_id j = i" by (simp add: workflow_lease_free_def)
  note upd = update_where_get [of j_id "t_jobs d" ?P i ?f, OF assms(1) id]
  have d': "d' = d\<lparr>t_jobs := snd (update_where ?P ?f (t_jobs d))\<rparr>"
    and b: "b \<longleftrightarrow> fst (update_where ?P ?f (t_jobs d)) = 1"
    using assms(2) by (auto simp: try_acquire_workflow_lease_def split: prod.splits)
  show "map j_id (t_jobs d') = map j_id (t_jobs d)" using upd(3) d' by simp
  show bb: "b \<longleftrightarrow> (\<exists>j. get_job i d = Some j \<and> ?P j)"
    using upd(2) b by (auto simp: get_job_def split: option.splits)
  show "get_job i d' = map_option (\<lambda>j. if ?P j then ?f j else j) (get_job i d)"
    using upd(1) d' by (simp add: get_job_def)
  show "d' = d" if "\<not> b"
  proof -
    have "fst (update_where ?P ?f (t_jobs d)) = 0"
      using upd(2) that bb by (auto simp: get_job_def split: option.splits)
    from update_where_none [OF this] d' show ?thesis by simp
  qed
qed

lemma job_lease_release:
  assumes "distinct (map j_id (t_jobs d))"
  shows "map j_id (t_jobs (release_workflow_lease i tok d)) = map j_id (t_jobs d)"
    and "get_job i (release_workflow_lease i tok d) =
      map_option (\<lambda>j. if j_lease_token j = Some tok
        then j\<lparr>j_lease_token := None, j_lease_until := None\<rparr> else j) (get_job i d)"
proof -
  let ?P = "\<lambda>j. j_id j = i \<and> j_lease_token j = Some tok"
  let ?f = "\<lambda>j. j\<lparr>j_lease_token := None, j_lease_until := None\<rparr>"
  note upd = update_where_get [of j_id "t_jobs d" ?P i ?f, OF assms]
  show "map j_id (t_jobs (release_workflow_lease i tok d)) = map j_id (t_jobs d)"
    using upd(3) by (simp add: release_workflow_lease_def set_jobs_def)
  show "get_job i (release_workflow_lease i tok d) =
      map_option (\<lambda>j. if j_lease_token j = Some tok then ?f j else j) (get_job i d)"
    using upd(1) by (cases "tbl_get j_id i (t_jobs d)")
      (auto simp: release_workflow_lease_def set_jobs_def get_job_def dest: tbl_get_key)
qed

interpretation job_lease: lease "\<lambda>d. distinct (map j_id (t_jobs d))" "job_holder i"
  "\<lambda>tok t u. try_acquire_workflow_lease i tok t u" "release_workflow_lease i"
proof unfold_locales
  fix s s' :: db and tok t u k v
  assume ok: "distinct (map j_id (t_jobs s))"
  obtain b d' where a: "try_acquire_workflow_lease i tok t u s = (b, d')"
    by (cases "try_acquire_workflow_lease i tok t u s")
  note A = job_lease_acquire [OF ok a] and R = job_lease_release [OF ok, of i tok]
  show "distinct (map j_id (t_jobs (snd (try_acquire_workflow_lease i tok t u s))))"
    using A(1) a ok by simp
  show "distinct (map j_id (t_jobs (release_workflow_lease i tok s)))" using R(1) ok by simp
  show "try_acquire_workflow_lease i tok t u s = (True, s') \<Longrightarrow> job_holder i s' = Some (Some tok, u)"
    using A(2,3) a by (auto simp: job_holder_def)
  show "job_holder i s = Some (k, v) \<Longrightarrow> k \<noteq> Some tok \<Longrightarrow> t < v \<Longrightarrow>
      try_acquire_workflow_lease i tok t u s = (False, s)"
    using A(2,4) a
    by (auto simp: job_holder_def workflow_lease_free_def split: option.splits)
  show "job_holder i s = Some (Some tok, v) \<Longrightarrow> job_holder i (release_workflow_lease i tok s) = None"
    using R(2) by (auto simp: job_holder_def split: option.splits)
  show "job_holder i s = Some (k, v) \<Longrightarrow> k \<noteq> Some tok \<Longrightarrow>
      job_holder i (release_workflow_lease i tok s) = Some (k, v)"
    using R(2) by (auto simp: job_holder_def split: option.splits)
qed

lemma node_lease_acquire:
  assumes "distinct (map n_id (t_nodes d))" and "try_acquire_monitoring_lease i tok t u d = (b, d')"
  shows "map n_id (t_nodes d') = map n_id (t_nodes d)"
    and "b \<longleftrightarrow> (\<exists>n. get_node i d = Some n \<and> monitoring_lease_free i t n)"
    and "get_node i d' = map_option (\<lambda>n. if monitoring_lease_free i t n
           then n\<lparr>n_lease_token := Some tok, n_lease_until := Some u\<rparr> else n) (get_node i d)"
    and "\<not> b \<Longrightarrow> d' = d"
proof -
  let ?P = "monitoring_lease_free i t"
  let ?f = "\<lambda>n. n\<lparr>n_lease_token := Some tok, n_lease_until := Some u\<rparr>"
  have id: "\<And>n. ?P n \<Longrightarrow> n_id n = i" by (simp add: monitoring_lease_free_def)
  note upd = update_where_get [of n_id "t_nodes d" ?P i ?f, OF assms(1) id]
  have d': "d' = d\<lparr>t_nodes := snd (update_where ?P ?f (t_nodes d))\<rparr>"
    and b: "b \<longleftrightarrow> fst (update_where ?P ?f (t_nodes d)) = 1"
    using assms(2) by (auto simp: try_acquire_monitoring_lease_def split: prod.splits)
  show "map n_id (t_nodes d') = map n_id (t_nodes d)" using upd(3) d' by simp
  show bb: "b \<longleftrightarrow> (\<exists>n. get_node i d = Some n \<and> ?P n)"
    using upd(2) b by (auto simp: get_node_def split: option.splits)
  show "get_node i d' = map_option (\<lambda>n. if ?P n then ?f n else n) (get_node i d)"
    using upd(1) d' by (simp add: get_node_def)
  show "d' = d" if "\<not> b"
  proof -
    have "fst (update_where ?P ?f (t_nodes d)) = 0"
      using upd(2) that bb by (auto simp: get_node_def split: option.splits)
    from update_where_none [OF this] d' show ?thesis by simp
  qed
qed

lemma node_lease_release:
  assumes "distinct (map n_id (t_nodes d))"
  shows "map n_id (t_nodes (release_monitoring_lease i tok d)) = map n_id (t_nodes d)"
    and "get_node i (release_monitoring_lease i tok d) =
      map_option (\<lambda>n. if n_lease_token n = Some tok
        then n\<lparr>n_lease_token := None, n_lease_until := None\<rparr> else n) (get_node i d)"
proof -
  let ?P = "\<lambda>n. n_id n = i \<and> n_lease_token n = Some tok"
  let ?f = "\<lambda>n. n\<lparr>n_lease_token := None, n_lease_until := None\<rparr>"
  note upd = update_where_get [of n_id "t_nodes d" ?P i ?f, OF assms]
  show "map n_id (t_nodes (release_monitoring_lease i tok d)) = map n_id (t_nodes d)"
    using upd(3) by (simp add: release_monitoring_lease_def set_nodes_def)
  show "get_node i (release_monitoring_lease i tok d) =
      map_option (\<lambda>n. if n_lease_token n = Some tok then ?f n else n) (get_node i d)"
    using upd(1) by (cases "tbl_get n_id i (t_nodes d)")
      (auto simp: release_monitoring_lease_def set_nodes_def get_node_def dest: tbl_get_key)
qed

interpretation node_lease: lease "\<lambda>d. distinct (map n_id (t_nodes d))" "node_holder i"
  "\<lambda>tok t u. try_acquire_monitoring_lease i tok t u" "release_monitoring_lease i"
proof unfold_locales
  fix s s' :: db and tok t u k v
  assume ok: "distinct (map n_id (t_nodes s))"
  obtain b d' where a: "try_acquire_monitoring_lease i tok t u s = (b, d')"
    by (cases "try_acquire_monitoring_lease i tok t u s")
  note A = node_lease_acquire [OF ok a] and R = node_lease_release [OF ok, of i tok]
  show "distinct (map n_id (t_nodes (snd (try_acquire_monitoring_lease i tok t u s))))"
    using A(1) a ok by simp
  show "distinct (map n_id (t_nodes (release_monitoring_lease i tok s)))" using R(1) ok by simp
  show "try_acquire_monitoring_lease i tok t u s = (True, s') \<Longrightarrow> node_holder i s' = Some (Some tok, u)"
    using A(2,3) a by (auto simp: node_holder_def)
  show "node_holder i s = Some (k, v) \<Longrightarrow> k \<noteq> Some tok \<Longrightarrow> t < v \<Longrightarrow>
      try_acquire_monitoring_lease i tok t u s = (False, s)"
    using A(2,4) a
    by (auto simp: node_holder_def monitoring_lease_free_def split: option.splits)
  show "node_holder i s = Some (Some tok, v) \<Longrightarrow> node_holder i (release_monitoring_lease i tok s) = None"
    using R(2) by (auto simp: node_holder_def split: option.splits)
  show "node_holder i s = Some (k, v) \<Longrightarrow> k \<noteq> Some tok \<Longrightarrow>
      node_holder i (release_monitoring_lease i tok s) = Some (k, v)"
    using R(2) by (auto simp: node_holder_def split: option.splits)
qed

section \<open>Actions in the open session\<close>

definition query :: "(db \<Rightarrow> 'a) \<Rightarrow> 'a act" where
  "query f e w = (Inr (f (w_ses w)), w)"

lemma wp_query [hoare]: "wp (query f) Q E e w = Q (f (w_ses w)) w"
  by (simp add: wp_def query_def)

lemma keeps_query [keeps]: "keeps e I (query f)"
  by (simp add: keeps_def query_def)

definition upd_node :: "uuid \<Rightarrow> (node_row \<Rightarrow> node_row) \<Rightarrow> unit act" where
  "upd_node i f = mod_ses (set_nodes (tbl_upd n_id i f))"

definition upd_cred :: "uuid \<Rightarrow> (cred_row \<Rightarrow> cred_row) \<Rightarrow> unit act" where
  "upd_cred i f = mod_ses (set_creds (tbl_upd cr_id i f))"

definition upd_vps :: "uuid \<Rightarrow> (vps_row \<Rightarrow> vps_row) \<Rightarrow> unit act" where
  "upd_vps i f = mod_ses (set_vps (tbl_upd v_id i f))"

definition upd_job :: "uuid \<Rightarrow> (job_row \<Rightarrow> job_row) \<Rightarrow> unit act" where
  "upd_job i f = mod_ses (set_jobs (tbl_upd j_id i f))"

definition upd_deployment :: "uuid \<Rightarrow> (deployment_row \<Rightarrow> deployment_row) \<Rightarrow> unit act" where
  "upd_deployment i f = mod_ses (set_deployments (tbl_upd d_id i f))"

text \<open>\<open>SqlAlchemyRepository.add\<close>: add the row and flush.\<close>

definition add_row :: "(db \<Rightarrow> db) \<Rightarrow> unit act" where
  "add_row f = andthen (mod_ses f) flush"

definition add_vps :: "vps_row \<Rightarrow> unit act" where
  "add_vps v = add_row (set_vps (tbl_add v))"

definition add_job :: "job_row \<Rightarrow> unit act" where
  "add_job j = add_row (set_jobs (tbl_add j))"

definition add_deployment :: "deployment_row \<Rightarrow> unit act" where
  "add_deployment x = add_row (set_deployments (tbl_add x))"

definition add_check :: "check_row \<Rightarrow> unit act" where
  "add_check c = add_row (set_checks (tbl_add c))"

text \<open>The flush gives an event its identifier.\<close>

definition event_of :: "new_event \<Rightarrow> uuid \<Rightarrow> event_row" where
  "event_of x i =
     \<lparr>e_node_id = e_node_id x, e_job_id = e_job_id x, e_type = e_type x, e_severity = e_severity x,
      e_message = e_message x, e_payload = e_payload x, e_created_at = e_created_at x, e_id = i\<rparr>"

definition add_event_row :: "new_event \<Rightarrow> unit act" where
  "add_event_row x = bind new_uuid (\<lambda>i. add_row (set_events (tbl_add (event_of x i))))"

definition set_value :: "string \<Rightarrow> json \<Rightarrow> string option \<Rightarrow> unit act" where
  "set_value k v desc = add_row (put_setting k v desc)"

definition acquire_workflow_lease :: "uuid \<Rightarrow> string \<Rightarrow> usec \<Rightarrow> usec \<Rightarrow> bool act" where
  "acquire_workflow_lease i token t until e w =
     (case try_acquire_workflow_lease i token t until (w_ses w) of
        (b, d) \<Rightarrow> (Inr b, w\<lparr>w_ses := d\<rparr>))"

definition acquire_monitoring_lease :: "uuid \<Rightarrow> string \<Rightarrow> usec \<Rightarrow> usec \<Rightarrow> bool act" where
  "acquire_monitoring_lease i token t until e w =
     (case try_acquire_monitoring_lease i token t until (w_ses w) of
        (b, d) \<Rightarrow> (Inr b, w\<lparr>w_ses := d\<rparr>))"

text \<open>
  A transition of a row loaded in the session. The row is present: its object was loaded by the caller
  in the same session; the other branch stands for an object that is gone.
\<close>

definition transition_row ::
    "(db \<Rightarrow> 'r option) \<Rightarrow> (usec \<Rightarrow> 'r \<Rightarrow> exn + 'r) \<Rightarrow> ('r \<Rightarrow> unit act) \<Rightarrow> unit act" where
  "transition_row get step put =
     bind (query get) (\<lambda>o1. case o1 of
        None \<Rightarrow> raise RuntimeError ''the row is not loaded''
      | Some r \<Rightarrow> bind now (\<lambda>t. bind (lift (step t r)) put))"

definition job_transition :: "uuid \<Rightarrow> checkpoint \<Rightarrow> unit act" where
  "job_transition i target =
     transition_row (get_job i) (\<lambda>t j. repl_step t target j) (\<lambda>j. upd_job i (\<lambda>_. j))"

definition node_transition_to :: "uuid \<Rightarrow> node_state \<Rightarrow> unit act" where
  "node_transition_to i target =
     transition_row (get_node i) (\<lambda>t n. node_step t target n) (\<lambda>n. upd_node i (\<lambda>_. n))"

definition node_force_replacing :: "uuid \<Rightarrow> unit act" where
  "node_force_replacing i =
     transition_row (get_node i) (\<lambda>t n. map_sum id snd (transition_forced_replacement t None n))
       (\<lambda>n. upd_node i (\<lambda>_. n))"

definition node_restore :: "uuid \<Rightarrow> node_state \<Rightarrow> unit act" where
  "node_restore i original =
     transition_row (get_node i)
       (\<lambda>t n. map_sum id snd (restore_after_forced_replacement t None original n))
       (\<lambda>n. upd_node i (\<lambda>_. n))"

definition deployment_transition :: "uuid \<Rightarrow> deployment_state \<Rightarrow> unit act" where
  "deployment_transition i target =
     transition_row (get_deployment i) (\<lambda>t d. dep_step t target d) (\<lambda>d. upd_deployment i (\<lambda>_. d))"

end
