(* ===== verification/Uuid.thy ===== *)
theory Uuid
  imports Json
begin

text \<open>
  \<open>uuid.UUID(hex=text)\<close> of the standard library: the text without every \<open>urn:\<close>, then every
  \<open>uuid:\<close>, the braces around it and every hyphen must be 32 characters that \<open>int\<close> reads in base 16,
  and the number must be one of 128 bits. An identifier reads back from its digits.
\<close>

function remove_all :: "string \<Rightarrow> string \<Rightarrow> string" where
  "remove_all sub [] = []"
| "remove_all sub (c # cs) =
     (if sub \<noteq> [] \<and> starts_with sub (c # cs) then remove_all sub (drop (length sub) (c # cs))
      else c # remove_all sub cs)"
  by pat_completeness auto
termination by (relation "measure (\<lambda>(sub, s). length s)") (auto simp: neq_Nil_conv)

definition strip_braces :: "string \<Rightarrow> string" where
  "strip_braces s =
     (let brace = (\<lambda>c. c = CHR ''{'' \<or> c = CHR ''}'') in
      rev (dropWhile brace (rev (dropWhile brace s))))"

definition parse_uuid :: "string \<Rightarrow> uuid option" where
  "parse_uuid text =
     (let h = filter (\<lambda>c. c \<noteq> CHR ''-'') (strip_braces (remove_all ''uuid:'' (remove_all ''urn:'' text))) in
      if length h \<noteq> 32 then None
      else (case parse_int 16 h of
          None \<Rightarrow> None
        | Some v \<Rightarrow> (if 0 \<le> v \<and> v < 2 ^ 128 then Some (of_int v) else None)))"

text \<open>Hexadecimal digits, as the program writes them.\<close>

definition hex_digit :: "char \<Rightarrow> bool" where
  "hex_digit c \<longleftrightarrow> c \<in> set ''0123456789abcdef''"

lemma digit_char_hex: "d < 16 \<Longrightarrow> hex_digit (digit_char d)"
proof -
  assume "d < 16"
  then have "d \<in> {0..<16}" by simp
  moreover have "\<forall>k \<in> set [0..<16]. hex_digit (digit_char k)" by code_simp
  ultimately show ?thesis by simp
qed

lemma show_base_hex: "list_all hex_digit (show_base 16 n)"
proof (induction n rule: less_induct)
  case (less n)
  show ?case
  proof (cases "n < 16")
    case True
    then show ?thesis by (subst show_base.simps) (simp add: digit_char_hex)
  next
    case False
    then have "list_all hex_digit (show_base 16 (n div 16))" by (intro less.IH) simp
    with False show ?thesis by (subst show_base.simps) (simp add: digit_char_hex)
  qed
qed

lemma hex_zero: "hex_digit (CHR ''0'')"
  by (simp add: hex_digit_def)

lemma padded_hex: "list_all hex_digit s \<Longrightarrow> list_all hex_digit (pad_left k (CHR ''0'') s)"
  by (auto simp: pad_left_def list_all_iff hex_zero)

lemma uuid_hex_digits: "list_all hex_digit (uuid_hex u)"
  unfolding uuid_hex_def by (rule padded_hex, rule show_base_hex)

lemma show_base_length: "0 < k \<Longrightarrow> 2 \<le> b \<Longrightarrow> n < b ^ k \<Longrightarrow> length (show_base b n) \<le> k"
proof (induction k arbitrary: n)
  case (Suc k)
  show ?case
  proof (cases "n < b")
    case True
    then show ?thesis by (subst show_base.simps) simp
  next
    case False
    then have "0 < k" using Suc.prems by (cases k) simp_all
    moreover have "n div b < b ^ k"
      using Suc.prems by (simp add: div_less_iff_less_mult mult.commute)
    ultimately have "length (show_base b (n div b)) \<le> k" using Suc.prems(2) by (intro Suc.IH)
    with False show ?thesis by (subst show_base.simps) simp
  qed
qed simp

lemma uuid_hex_length: "length (uuid_hex u) = 32"
proof -
  have "unat u < 16 ^ 32" using unsigned_less [of u, where ?'a = nat] by simp
  then have "length (show_base 16 (unat u)) \<le> 32" by (intro show_base_length) simp_all
  then show ?thesis by (simp add: uuid_hex_def pad_left_def)
qed

section \<open>Reading back\<close>

lemma hex_not: "hex_digit c \<Longrightarrow> \<not> hex_digit d \<Longrightarrow> c \<noteq> d"
  by auto

lemma remove_all_free: "x \<notin> set s \<Longrightarrow> remove_all (x # sub) s = s"
  by (induction s) (auto simp: starts_with_def)

lemma hex_free: "list_all hex_digit s \<Longrightarrow> \<not> hex_digit c \<Longrightarrow> c \<notin> set s"
  by (auto simp: list_all_iff)

lemma not_hex: "\<not> hex_digit (CHR ''u'')" "\<not> hex_digit (CHR ''-'')" "\<not> hex_digit (CHR ''{'')"
  "\<not> hex_digit (CHR ''}'')" "\<not> hex_digit (CHR ''+'')" "\<not> hex_digit (CHR ''.'')" "\<not> hex_digit (CHR '':'')"
  by (simp_all add: hex_digit_def)

lemma digits_of_zeros:
  "parse_digits b acc (replicate k (CHR ''0'') @ s) = parse_digits b (acc * b ^ k) s" if "0 < b"
proof (induction k arbitrary: acc)
  case (Suc k)
  have "digit_of b (CHR ''0'') = Some 0" using that by (simp add: digit_of_def)
  with Suc show ?case by (simp add: mult.assoc)
qed simp

lemma parse_nat_padded:
  assumes "2 \<le> b" and "b \<le> 16"
  shows "parse_nat b (pad_left k (CHR ''0'') (show_base b n)) = Some n"
proof -
  have plain: "parse_nat b (show_base b n) = Some n" using assms by (rule parse_nat_show_base)
  have zero: "digit_of b (CHR ''0'') = Some 0" using assms by (simp add: digit_of_def)
  show ?thesis
  proof (cases "k - length (show_base b n)")
    case 0
    with plain show ?thesis by (simp add: pad_left_def)
  next
    case (Suc m)
    obtain c cs where c: "show_base b n = c # cs" using show_base_nonempty [of b n] by (cases "show_base b n") auto
    have "digit_of b c = Some v \<Longrightarrow> parse_digits b 0 (c # cs) = parse_digits b v cs" for v
      using digit_char_not_underscore c plain by (auto simp: parse_nat_def digit_of_def split: option.splits)
    with plain c have "parse_digits b 0 (c # cs) = Some n"
      by (auto simp: parse_nat_def split: option.splits)
    with Suc c zero digits_of_zeros [of b 0 m "c # cs"] assms show ?thesis
      by (simp add: pad_left_def parse_nat_def)
  qed
qed

lemma hex_parse_int:
  assumes "list_all hex_digit s" and "s \<noteq> []" shows "parse_int 16 s = map_option int (parse_nat 16 s)"
proof -
  have spaces: "\<forall>d \<in> set ''0123456789abcdef''. \<not> is_space d" by code_simp
  have sp: "\<not> is_space c" if "hex_digit c" for c using that spaces unfolding hex_digit_def by blast
  have "dropWhile is_space s = s" using assms sp by (cases s) auto
  moreover have "dropWhile is_space (rev s) = rev s"
  proof (cases "rev s")
    case (Cons c cs)
    then have "c \<in> set s" by (metis list.set_intros(1) set_rev)
    with assms(1) sp Cons show ?thesis by (auto simp: list_all_iff)
  qed simp
  ultimately have strip: "strip s = s" by (simp add: strip_def lstrip_def rstrip_def)
  obtain c cs where s: "s = c # cs" using assms(2) by (cases s) auto
  have lowers: "\<forall>d \<in> set ''0123456789abcdef''. to_lower d \<noteq> CHR ''x''" by code_simp
  have "CHR ''x'' \<notin> set (lower s)"
  proof
    assume "CHR ''x'' \<in> set (lower s)"
    then obtain d where d: "d \<in> set s" "to_lower d = CHR ''x''" unfolding lower_def by force
    from assms(1) d(1) have "hex_digit d" unfolding list_all_iff by (rule bspec)
    with d(2) lowers show False unfolding hex_digit_def by blast
  qed
  then have "take 2 (lower s) \<noteq> ''0x''" by (metis in_set_takeD list.set_intros)
  then have "drop_prefix16 16 s = s" by (simp add: drop_prefix16_def)
  moreover have "c \<noteq> CHR ''-''" "c \<noteq> CHR ''+''" using assms(1) s not_hex by auto
  ultimately show ?thesis using strip s by (simp add: parse_int_def)
qed

lemma no_braces: "\<forall>c \<in> set s. c \<noteq> CHR ''{'' \<and> c \<noteq> CHR ''}'' \<Longrightarrow> strip_braces s = s"
proof -
  assume a: "\<forall>c \<in> set s. c \<noteq> CHR ''{'' \<and> c \<noteq> CHR ''}''"
  have "dropWhile (\<lambda>c. c = CHR ''{'' \<or> c = CHR ''}'') x = x" if "set x = set s" for x
    using a that by (cases x) auto
  then show ?thesis by (simp add: strip_braces_def)
qed

lemma uuid_str_chars: "set (uuid_str u) \<subseteq> insert (CHR ''-'') (set (uuid_hex u))"
  unfolding uuid_str_def Let_def by (auto dest: in_set_takeD in_set_dropD)

lemma uuid_str_digits: "filter (\<lambda>c. c \<noteq> CHR ''-'') (uuid_str u) = uuid_hex u"
proof -
  let ?h = "uuid_hex u"
  have dash: "filter (\<lambda>c. c \<noteq> CHR ''-'') s = s" if "set s \<subseteq> set ?h" for s
    unfolding filter_id_conv using that hex_free [OF uuid_hex_digits [of u] not_hex(2)] by blast
  have parts: "set (take n ?h) \<subseteq> set ?h" "set (drop n ?h) \<subseteq> set ?h" "set (take n (drop m ?h)) \<subseteq> set ?h" for n m
    by (auto dest: in_set_takeD in_set_dropD)
  have "filter (\<lambda>c. c \<noteq> CHR ''-'') (uuid_str u) =
      take 8 ?h @ take 4 (drop 8 ?h) @ take 4 (drop 12 ?h) @ take 4 (drop 16 ?h) @ drop 20 ?h"
    unfolding uuid_str_def Let_def by (simp add: dash [OF parts(1)] dash [OF parts(2)] dash [OF parts(3)])
  also have "\<dots> = ?h"
  proof -
    have "take 4 (drop k ?h) @ drop (k + 4) ?h = drop k ?h" for k
      using append_take_drop_id [of 4 "drop k ?h"] by (simp add: add.commute)
    from this [of 8] this [of 12] this [of 16] append_take_drop_id [of 8 ?h] show ?thesis by simp
  qed
  finally show ?thesis .
qed

lemma parse_uuid_hex: "parse_uuid (uuid_hex u) = Some u"
proof -
  note hex = uuid_hex_digits [of u]
  have u: "remove_all ''uuid:'' (remove_all ''urn:'' (uuid_hex u)) = uuid_hex u"
    using hex_free [OF hex not_hex(1)] by (simp add: remove_all_free)
  have braces: "strip_braces (uuid_hex u) = uuid_hex u"
    using hex_free [OF hex not_hex(3)] hex_free [OF hex not_hex(4)] by (intro no_braces) metis
  have dash: "filter (\<lambda>c. c \<noteq> CHR ''-'') (uuid_hex u) = uuid_hex u"
    using hex_free [OF hex not_hex(2)] by (simp add: filter_id_conv) (metis)
  have "uuid_hex u \<noteq> []" using uuid_hex_length [of u] by auto
  then have "parse_int 16 (uuid_hex u) = Some (int (unat u))"
    using hex_parse_int [OF hex] parse_nat_padded [of 16 32 "unat u"] by (simp add: uuid_hex_def)
  moreover have "int (unat u) < 2 ^ 128" using unsigned_less [of u, where ?'a = int] by simp
  ultimately show ?thesis
    unfolding parse_uuid_def u braces dash by (simp add: uuid_hex_length)
qed

lemma parse_uuid_str: "parse_uuid (uuid_str u) = Some u"
proof -
  note hex = uuid_hex_digits [of u]
  have free: "c \<notin> set (uuid_str u)" if "\<not> hex_digit c" "c \<noteq> CHR ''-''" for c
    using uuid_str_chars [of u] hex_free [OF hex that(1)] that(2) by blast
  have u: "remove_all ''uuid:'' (remove_all ''urn:'' (uuid_str u)) = uuid_str u"
    using free [OF not_hex(1)] by (simp add: remove_all_free)
  have braces: "strip_braces (uuid_str u) = uuid_str u"
    using free [OF not_hex(3)] free [OF not_hex(4)] by (intro no_braces) auto
  have "uuid_hex u \<noteq> []" using uuid_hex_length [of u] by auto
  then have "parse_int 16 (uuid_hex u) = Some (int (unat u))"
    using hex_parse_int [OF hex] parse_nat_padded [of 16 32 "unat u"] by (simp add: uuid_hex_def)
  moreover have "int (unat u) < 2 ^ 128" using unsigned_less [of u, where ?'a = int] by simp
  ultimately show ?thesis
    unfolding parse_uuid_def u braces uuid_str_digits by (simp add: uuid_hex_length)
qed

end
