(* ===== verification/Calendar.thy ===== *)
theory Calendar
  imports Uuid
begin

text \<open>
  Dates of the standard library, as far as the program prints and reads them: the proleptic Gregorian
  calendar of \<open>datetime\<close> (ordinal 1 is 0001-01-01), \<open>strftime\<close> and \<open>isoformat\<close> of a time in UTC, and
  \<open>fromisoformat\<close> for the texts \<open>isoformat\<close> writes, with or without an offset. The other spellings of
  ISO 8601 that \<open>fromisoformat\<close> reads as well are not among the texts the program stores. Reading back
  what was written gives the time again.
\<close>

section \<open>Ordinals\<close>

definition is_leap :: "int \<Rightarrow> bool" where
  "is_leap y \<longleftrightarrow> y mod 4 = 0 \<and> (y mod 100 \<noteq> 0 \<or> y mod 400 = 0)"

definition days_before_year :: "int \<Rightarrow> int" where
  "days_before_year y = (y - 1) * 365 + (y - 1) div 4 - (y - 1) div 100 + (y - 1) div 400"

definition month_lengths :: "bool \<Rightarrow> int list" where
  "month_lengths leap = [31, if leap then 29 else 28, 31, 30, 31, 30, 31, 31, 30, 31, 30, 31]"

definition days_before_month :: "bool \<Rightarrow> nat \<Rightarrow> int" where
  "days_before_month leap m = sum_list (take (m - 1) (month_lengths leap))"

record date =
  dt_year :: int
  dt_month :: nat
  dt_day :: int

definition date_ordinal :: "date \<Rightarrow> int" where
  "date_ordinal x =
     days_before_year (dt_year x) + days_before_month (is_leap (dt_year x)) (dt_month x) + dt_day x"

text \<open>The month and the day of a day of the year, counted from zero.\<close>

fun month_day :: "nat \<Rightarrow> int list \<Rightarrow> int \<Rightarrow> nat \<times> int" where
  "month_day m [] n = (m, n + 1)"
| "month_day m (l # ls) n = (if n < l then (m, n + 1) else month_day (Suc m) ls (n - l))"

definition date_of_ordinal :: "int \<Rightarrow> date" where
  "date_of_ordinal k =
     (let n = k - 1; n400 = n div 146097; r400 = n mod 146097;
          n100 = r400 div 36524; r100 = r400 mod 36524;
          n4 = r100 div 1461; r4 = r100 mod 1461;
          n1 = r4 div 365; r1 = r4 mod 365;
          year = n400 * 400 + n100 * 100 + n4 * 4 + n1 + 1 in
      if n1 = 4 \<or> n100 = 4 then \<lparr>dt_year = year - 1, dt_month = 12, dt_day = 31\<rparr>
      else (case month_day 1 (month_lengths (is_leap year)) r1 of
          (m, d) \<Rightarrow> \<lparr>dt_year = year, dt_month = m, dt_day = d\<rparr>))"

text \<open>The ordinal of 1970-01-01.\<close>

definition epoch_ordinal :: int where
  "epoch_ordinal = 719163"

section \<open>Texts\<close>

definition two_digits :: "int \<Rightarrow> string" where
  "two_digits n = pad_left 2 (CHR ''0'') (show_int n)"

definition date_text :: "date \<Rightarrow> string" where
  "date_text x =
     pad_left 4 (CHR ''0'') (show_int (dt_year x)) @ ''-'' @ two_digits (int (dt_month x)) @ ''-'' @
     two_digits (dt_day x)"

definition day_usec :: int where
  "day_usec = 86400 * 1000000"

definition utc_date :: "usec \<Rightarrow> date" where
  "utc_date t = date_of_ordinal (epoch_ordinal + t div day_usec)"

definition clock_text :: "usec \<Rightarrow> string" where
  "clock_text t =
     (let s = t mod day_usec div 1000000 in
      two_digits (s div 3600) @ '':'' @ two_digits (s div 60 mod 60) @ '':'' @ two_digits (s mod 60))"

text \<open>\<open>t.strftime("%Y-%m-%d %H:%M:%S")\<close> and \<open>t.isoformat()\<close>, for a time in UTC.\<close>

definition utc_text :: "usec \<Rightarrow> string" where
  "utc_text t = date_text (utc_date t) @ '' '' @ clock_text t"

definition isoformat :: "usec \<Rightarrow> string" where
  "isoformat t =
     date_text (utc_date t) @ ''T'' @ clock_text t @
     (if t mod 1000000 = 0 then []
      else ''.'' @ pad_left 6 (CHR ''0'') (show_int (t mod 1000000))) @ ''+00:00''"

text \<open>Digits of a fixed width.\<close>

definition fixed_int :: "nat \<Rightarrow> string \<Rightarrow> int option" where
  "fixed_int w s = (if length s = w \<and> list_all (\<lambda>c. digit_of 10 c \<noteq> None) s then map_option int (parse_nat 10 s) else None)"

definition read_date :: "string \<Rightarrow> date option" where
  "read_date s =
     (case (fixed_int 4 (take 4 s), fixed_int 2 (take 2 (drop 5 s)), fixed_int 2 (drop 8 s)) of
        (Some y, Some m, Some d) \<Rightarrow>
          (if length s = 10 \<and> s ! 4 = CHR ''-'' \<and> s ! 7 = CHR ''-'' \<and> 1 \<le> y \<and> 1 \<le> m \<and> m \<le> 12 \<and> 1 \<le> d \<and>
             d \<le> month_lengths (is_leap y) ! (nat m - 1)
           then Some \<lparr>dt_year = y, dt_month = nat m, dt_day = d\<rparr> else None)
      | _ \<Rightarrow> None)"

definition read_clock :: "string \<Rightarrow> int option" where
  "read_clock s =
     (case (fixed_int 2 (take 2 s), fixed_int 2 (take 2 (drop 3 s)), fixed_int 2 (drop 6 s)) of
        (Some h, Some m, Some sec) \<Rightarrow>
          (if length s = 8 \<and> s ! 2 = CHR '':'' \<and> s ! 5 = CHR '':'' \<and> h < 24 \<and> m < 60 \<and> sec < 60
           then Some (h * 3600 + m * 60 + sec) else None)
      | _ \<Rightarrow> None)"

text \<open>The microseconds and the offset that follow the seconds.\<close>

definition read_micros :: "string \<Rightarrow> (int \<times> string) option" where
  "read_micros s =
     (if starts_with ''.'' s then
        (case fixed_int 6 (take 6 (drop 1 s)) of None \<Rightarrow> None | Some u \<Rightarrow> Some (u, drop 7 s))
      else Some (0, s))"

definition read_offset :: "string \<Rightarrow> int option option" where
  "read_offset s =
     (if s = [] then Some None
      else (case (fixed_int 2 (take 2 (drop 1 s)), fixed_int 2 (drop 4 s)) of
          (Some h, Some m) \<Rightarrow>
            (if length s = 6 \<and> s ! 3 = CHR '':'' \<and> h < 24 \<and> m < 60 \<and> (hd s = CHR ''+'' \<or> hd s = CHR ''-'')
             then Some (Some ((if hd s = CHR ''-'' then - 1 else 1) * (h * 3600 + m * 60))) else None)
        | _ \<Rightarrow> None))"

text \<open>
  \<open>datetime.fromisoformat(s)\<close>, where a text without an offset is then taken in UTC, as the callers do.
\<close>

definition fromisoformat_utc :: "string \<Rightarrow> usec option" where
  "fromisoformat_utc s =
     (case (read_date (take 10 s), read_clock (take 8 (drop 11 s)), read_micros (drop 19 s)) of
        (Some x, Some sec, Some (u, rest)) \<Rightarrow>
          (case read_offset rest of
             None \<Rightarrow> None
           | Some off \<Rightarrow>
               Some ((date_ordinal x - epoch_ordinal) * day_usec + sec * 1000000 + u -
                 (case off of None \<Rightarrow> 0 | Some z \<Rightarrow> z * 1000000)))
      | _ \<Rightarrow> None)"

section \<open>Round trips\<close>

lemma month_day_sound:
  "0 \<le> n \<Longrightarrow> n < sum_list ls \<Longrightarrow> month_day (Suc m) ls n = (k, d) \<Longrightarrow>
   m < k \<and> k \<le> m + length ls \<and> 1 \<le> d \<and> d \<le> ls ! (k - Suc m) \<and> sum_list (take (k - Suc m) ls) + d = n + 1"
proof (induction ls arbitrary: m n)
  case (Cons l ls)
  show ?case
  proof (cases "n < l")
    case True
    with Cons.prems show ?thesis by auto
  next
    case False
    with Cons.prems have "month_day (Suc (Suc m)) ls (n - l) = (k, d)" "0 \<le> n - l" "n - l < sum_list ls" by auto
    from Cons.IH [OF this(2,3,1)] have IH: "Suc m < k \<and> k \<le> Suc m + length ls \<and> 1 \<le> d \<and> d \<le> ls ! (k - Suc (Suc m)) \<and>
      sum_list (take (k - Suc (Suc m)) ls) + d = n - l + 1" .
    then have "k - Suc m = Suc (k - Suc (Suc m))" by (metis Suc_diff_Suc)
    with IH show ?thesis by simp
  qed
qed simp

lemma days_before_year_split:
  assumes "0 \<le> b" "b \<le> 3" "0 \<le> c" "c \<le> 24" "0 \<le> d" "d \<le> 3"
  shows "days_before_year (a * 400 + b * 100 + c * 4 + d + 1) = a * 146097 + b * 36524 + c * 1461 + d * 365"
proof -
  let ?z = "a * 400 + b * 100 + c * 4 + d"
  have "?z div 4 = a * 100 + b * 25 + c" "?z div 100 = a * 4 + b" "?z div 400 = a" using assms by linarith+
  then show ?thesis by (simp add: days_before_year_def)
qed

lemma month_table: "sum_list (month_lengths l) = (if l then 366 else 365)" "length (month_lengths l) = 12"
  "sum_list (take 11 (month_lengths l)) = (if l then 335 else 334)" "month_lengths l ! 11 = 31"
  by (simp_all add: month_lengths_def numeral_eq_Suc)

lemma leap_400: "is_leap (400 * w)"
proof -
  have "400 * w = 4 * (100 * w)" by simp
  then have "400 * w mod 4 = 0" by (metis mod_mult_self1_is_0)
  then show ?thesis by (simp add: is_leap_def)
qed

lemma leap_4:
  assumes "0 \<le> c" "c \<le> 23" shows "is_leap (a * 400 + b * 100 + c * 4 + 4)"
proof -
  have eq: "a * 400 + b * 100 + c * 4 + 4 = (c * 4 + 4) + 100 * (a * 4 + b)"
    "a * 400 + b * 100 + c * 4 + 4 = 4 * (a * 100 + b * 25 + c + 1)" by simp_all
  have "(a * 400 + b * 100 + c * 4 + 4) mod 100 = c * 4 + 4" unfolding eq(1) mod_mult_self2
    using assms by (intro mod_pos_pos_trivial) simp_all
  moreover have "(a * 400 + b * 100 + c * 4 + 4) mod 4 = 0" unfolding eq(2) by (rule mod_mult_self1_is_0)
  ultimately show ?thesis using assms by (simp add: is_leap_def)
qed

lemma date_of_ordinal_sound:
  "date_ordinal (date_of_ordinal k) = k \<and> 1 \<le> dt_month (date_of_ordinal k) \<and> dt_month (date_of_ordinal k) \<le> 12 \<and>
   1 \<le> dt_day (date_of_ordinal k) \<and>
   dt_day (date_of_ordinal k) \<le> month_lengths (is_leap (dt_year (date_of_ordinal k))) ! (dt_month (date_of_ordinal k) - 1)"
proof -
  define a r b r' c r'' d i where "a = (k - 1) div 146097" and "r = (k - 1) mod 146097" and "b = r div 36524"
    and "r' = r mod 36524" and "c = r' div 1461" and "r'' = r' mod 1461" and "d = r'' div 365" and "i = r'' mod 365"
  note defs = this
  have k: "k - 1 = a * 146097 + b * 36524 + c * 1461 + d * 365 + i" by (simp add: defs)
  have bounds: "0 \<le> b" "b \<le> 4" "0 \<le> c" "c \<le> 24" "0 \<le> d" "d \<le> 4" "0 \<le> i" "i < 365"
    and last: "b = 4 \<Longrightarrow> c = 0 \<and> d = 0 \<and> i = 0" "d = 4 \<Longrightarrow> i = 0 \<and> c \<le> 23"
  proof -
    have r: "0 \<le> r" "r < 146097" "r = b * 36524 + r'" "0 \<le> r'" "r' < 36524" "r' = c * 1461 + r''" "0 \<le> r''" "r'' < 1461"
      "r'' = d * 365 + i" by (simp_all add: defs)
    show "0 \<le> i" "i < 365" by (simp_all add: defs)
    with r show "0 \<le> b" "b \<le> 4" "0 \<le> c" "c \<le> 24" "0 \<le> d" "d \<le> 4" by linarith+
    with r \<open>0 \<le> i\<close> show "b = 4 \<Longrightarrow> c = 0 \<and> d = 0 \<and> i = 0" "d = 4 \<Longrightarrow> i = 0 \<and> c \<le> 23" by linarith+
  qed
  let ?y = "a * 400 + b * 100 + c * 4 + d + 1"
  show ?thesis
  proof (cases "d = 4 \<or> b = 4")
    case True
    then have x: "date_of_ordinal k = \<lparr>dt_year = ?y - 1, dt_month = 12, dt_day = 31\<rparr>"
      unfolding date_of_ordinal_def Let_def by (simp add: defs)
    have "is_leap (?y - 1) \<and> days_before_year (?y - 1) + 366 = k"
    proof (cases "b = 4")
      case True
      have "?y - 1 = 400 * (a + 1)" using True last(1) by simp
      then have "is_leap (?y - 1)" by (simp only: leap_400)
      moreover have "days_before_year (a * 400 + 3 * 100 + 24 * 4 + 3 + 1) = a * 146097 + 3 * 36524 + 24 * 1461 + 3 * 365"
        by (rule days_before_year_split) simp_all
      ultimately show ?thesis using k True last(1) by simp
    next
      case b: False
      with True have d: "d = 4" by simp
      with last(2) have i: "i = 0" "c \<le> 23" by simp_all
      have "is_leap (?y - 1)" using leap_4 [OF bounds(3) i(2), of a b] d by (simp add: algebra_simps)
      moreover have "days_before_year (a * 400 + b * 100 + c * 4 + 3 + 1) = a * 146097 + b * 36524 + c * 1461 + 3 * 365"
        using bounds b by (intro days_before_year_split) simp_all
      ultimately show ?thesis using k d i(1) by simp
    qed
    then show ?thesis unfolding x
      by (simp add: date_ordinal_def days_before_month_def month_table)
  next
    case False
    then have small: "b \<le> 3" "d \<le> 3" using bounds by linarith+
    obtain m v where md: "month_day (Suc 0) (month_lengths (is_leap ?y)) i = (m, v)" by fastforce
    have x: "date_of_ordinal k = \<lparr>dt_year = ?y, dt_month = m, dt_day = v\<rparr>"
      using False md unfolding date_of_ordinal_def Let_def by (simp add: defs)
    have "i < sum_list (month_lengths (is_leap ?y))" using bounds(8) by (simp add: month_table)
    from month_day_sound [OF bounds(7) this md] show ?thesis
      using days_before_year_split [of b c d a] bounds small k unfolding x
      by (auto simp: date_ordinal_def days_before_month_def month_table)
  qed
qed

lemma pad_left_length: "length s \<le> w \<Longrightarrow> length (pad_left w c s) = w"
  by (simp add: pad_left_def)

lemma show_base_digits: "list_all (\<lambda>c. digit_of 10 c \<noteq> None) (show_base 10 n)"
proof (induction n rule: less_induct)
  case (less n)
  then show ?case
    by (cases "n < 10") (simp_all add: show_base.simps [of 10 n] digit_of_digit_char)
qed

lemma fixed_int_padded:
  assumes "0 \<le> n" and "n < 10 ^ w" and "0 < w"
  shows "length (pad_left w (CHR ''0'') (show_int n)) = w" and "fixed_int w (pad_left w (CHR ''0'') (show_int n)) = Some n"
proof -
  have s: "show_int n = show_base 10 (nat n)" using assms(1) by (simp add: show_int_def show_nat_def)
  have zero: "digit_of 10 (CHR ''0'') \<noteq> None" by (simp add: digit_of_def)
  have "nat n < 10 ^ w" using assms(1,2) by (simp add: nat_less_iff)
  then show l: "length (pad_left w (CHR ''0'') (show_int n)) = w"
    unfolding s using assms(3) by (intro pad_left_length show_base_length) simp_all
  have "list_all (\<lambda>c. digit_of 10 c \<noteq> None) (pad_left w (CHR ''0'') (show_int n))"
    using show_base_digits [of "nat n"] zero unfolding s pad_left_def by (auto simp: list_all_iff simp del: not_None_eq)
  then show "fixed_int w (pad_left w (CHR ''0'') (show_int n)) = Some n"
    using parse_nat_padded [of 10 w "nat n"] assms(1) unfolding fixed_int_def l by (simp add: s)
qed

lemma two_digits:
  assumes "0 \<le> n" and "n < 100"
  shows "length (two_digits n) = 2" and "fixed_int 2 (two_digits n) = Some n"
  using fixed_int_padded [of n 2] assms by (simp_all add: two_digits_def)

definition valid_date :: "date \<Rightarrow> bool" where
  "valid_date x \<longleftrightarrow> 1 \<le> dt_year x \<and> dt_year x \<le> 9999 \<and> 1 \<le> dt_month x \<and> dt_month x \<le> 12 \<and> 1 \<le> dt_day x \<and>
     dt_day x \<le> month_lengths (is_leap (dt_year x)) ! (dt_month x - 1)"

lemma month_length_small: "m < 12 \<Longrightarrow> month_lengths l ! m \<le> 31"
proof -
  assume "m < 12"
  then have "month_lengths l ! m \<in> set (month_lengths l)" by (intro nth_mem) (simp add: month_table)
  then show ?thesis by (auto simp: month_lengths_def split: if_splits)
qed

lemma two_list: "length s = 2 \<Longrightarrow> \<exists>a b. s = [a, b]"
  by (cases s; cases "tl s") auto

lemma date_text_reads:
  assumes "valid_date x"
  shows "length (date_text x) = 10" and "read_date (date_text x) = Some x"
proof -
  have "month_lengths (is_leap (dt_year x)) ! (dt_month x - 1) \<le> 31"
    by (rule month_length_small) (use assms in \<open>unfold valid_date_def, linarith\<close>)
  then have bounds: "0 \<le> dt_year x" "dt_year x < 10 ^ 4" "int (dt_month x) < 100" "0 \<le> dt_day x" "dt_day x < 100"
    "1 \<le> dt_year x" "1 \<le> dt_month x" "dt_month x \<le> 12" "1 \<le> dt_day x"
    "dt_day x \<le> month_lengths (is_leap (dt_year x)) ! (dt_month x - 1)"
    using assms by (simp_all add: valid_date_def)
  define y m d where "y = pad_left 4 (CHR ''0'') (show_int (dt_year x))" and "m = two_digits (int (dt_month x))"
    and "d = two_digits (dt_day x)"
  have y: "length y = 4" "fixed_int 4 y = Some (dt_year x)"
    using fixed_int_padded [OF bounds(1,2)] by (simp_all add: y_def)
  have m: "length m = 2" "fixed_int 2 m = Some (int (dt_month x))" using two_digits [of "int (dt_month x)"] bounds by (simp_all add: m_def)
  have d: "length d = 2" "fixed_int 2 d = Some (dt_day x)" using two_digits [of "dt_day x"] bounds by (simp_all add: d_def)
  have shape: "date_text x = y @ ''-'' @ m @ ''-'' @ d" by (simp add: date_text_def y_def m_def d_def)
  show "length (date_text x) = 10" using y m d by (simp add: shape)
  show "read_date (date_text x) = Some x"
    using y m d bounds by (simp add: shape read_date_def nth_append)
qed

lemma clock_parts: "s div 3600 * 3600 + s div 60 mod 60 * 60 + s mod 60 = (s :: int)"
proof -
  have "s div 3600 = s div 60 div 60" using zdiv_zmult2_eq [of 60 s 60] by simp
  moreover have "s div 60 div 60 * 60 + s div 60 mod 60 = s div 60" "s div 60 * 60 + s mod 60 = s" by (rule div_mult_mod_eq)+
  ultimately show ?thesis by linarith
qed

lemma clock_text_reads: "length (clock_text t) = 8" "read_clock (clock_text t) = Some (t mod day_usec div 1000000)"
proof -
  define s where "s = t mod day_usec div 1000000"
  have s: "0 \<le> s" "s < 86400" by (simp_all add: s_def day_usec_def)
  define h m k where "h = two_digits (s div 3600)" and "m = two_digits (s div 60 mod 60)" and "k = two_digits (s mod 60)"
  have b: "0 \<le> s div 3600" "s div 3600 < 24" "s div 60 mod 60 < 60" "0 \<le> s div 60 mod 60" using s by simp_all
  have h: "length h = 2" "fixed_int 2 h = Some (s div 3600)" using two_digits [of "s div 3600"] b by (simp_all add: h_def)
  have m: "length m = 2" "fixed_int 2 m = Some (s div 60 mod 60)" using two_digits [of "s div 60 mod 60"] b by (simp_all add: m_def)
  have k: "length k = 2" "fixed_int 2 k = Some (s mod 60)" using two_digits [of "s mod 60"] by (simp_all add: k_def)
  have shape: "clock_text t = h @ '':'' @ m @ '':'' @ k" by (simp add: clock_text_def Let_def h_def m_def k_def s_def)
  show "length (clock_text t) = 8" using h m k by (simp add: shape)
  show "read_clock (clock_text t) = Some (t mod day_usec div 1000000)"
    using h m k b clock_parts [of s] unfolding s_def [symmetric] by (simp add: shape read_clock_def nth_append)
qed

lemma split_sum: "a + r = t \<Longrightarrow> x + u = r \<Longrightarrow> a + x + u = (t :: int)"
  by simp

lemma isoformat_reads:
  assumes "1 \<le> dt_year (utc_date t)" and "dt_year (utc_date t) \<le> 9999"
  shows "fromisoformat_utc (isoformat t) = Some t"
proof -
  let ?x = "utc_date t" and ?u = "t mod 1000000"
  note sound = date_of_ordinal_sound [of "epoch_ordinal + t div day_usec", folded utc_date_def]
  have "valid_date ?x" using sound assms by (simp add: valid_date_def)
  note date = date_text_reads [OF this]
  define f where "f = (if ?u = 0 then [] else ''.'' @ pad_left 6 (CHR ''0'') (show_int ?u))"
  have shape: "isoformat t = date_text ?x @ ''T'' @ clock_text t @ f @ ''+00:00''" by (simp add: isoformat_def f_def)
  have u: "length (pad_left 6 (CHR ''0'') (show_int ?u)) = 6" "fixed_int 6 (pad_left 6 (CHR ''0'') (show_int ?u)) = Some ?u"
    using fixed_int_padded [of ?u 6] by simp_all
  have micros: "read_micros (f @ ''+00:00'') = Some (?u, ''+00:00'')"
    using u by (simp add: read_micros_def f_def starts_with_def)
  have offset: "read_offset ''+00:00'' = Some (Some 0)" by code_simp
  have "t mod day_usec mod 1000000 = ?u" by (rule mod_mod_cancel) (simp add: day_usec_def)
  then have "t mod day_usec div 1000000 * 1000000 + ?u = t mod day_usec"
    using div_mult_mod_eq [of "t mod day_usec" 1000000] by argo
  then have "t div day_usec * day_usec + t mod day_usec div 1000000 * 1000000 + ?u = t"
    by (rule split_sum [OF div_mult_mod_eq])
  moreover have "date_ordinal ?x = epoch_ordinal + t div day_usec" using sound by simp
  ultimately show ?thesis
    using date clock_text_reads [of t] micros offset by (simp add: fromisoformat_utc_def shape)
qed

end
