(* ===== verification/OpSettings.thy ===== *)
theory OpSettings
  imports Repositories Calendar
begin

text \<open>
  \<open>app/services/operational_settings.py\<close>: the runtime switches operators set in the database, and
  the host gates they can never override, and the cursor of the Telegram notifier.
\<close>

definition SYSTEM_PAUSED_KEY :: string where
  "SYSTEM_PAUSED_KEY = ''system.paused''"

definition TELEGRAM_EVENT_CURSOR_KEY :: string where
  "TELEGRAM_EVENT_CURSOR_KEY = ''telegram.event_cursor''"

definition RUNTIME_MONITORING_ENABLED_KEY :: string where
  "RUNTIME_MONITORING_ENABLED_KEY = ''runtime.monitoring_enabled''"

definition RUNTIME_REPLACEMENT_ENABLED_KEY :: string where
  "RUNTIME_REPLACEMENT_ENABLED_KEY = ''runtime.replacement_enabled''"

definition RUNTIME_EXECUTION_MODE_KEY :: string where
  "RUNTIME_EXECUTION_MODE_KEY = ''runtime.execution_mode''"

text \<open>\<open>a == b\<close> on decoded values that are not containers: numbers compare by value.\<close>

definition json_eq :: "json \<Rightarrow> json \<Rightarrow> bool" where
  "json_eq a b \<longleftrightarrow> (case (num_val a, num_val b) of (Some x, Some y) \<Rightarrow> x = y | _ \<Rightarrow> a = b)"

definition get_bool :: "string \<Rightarrow> bool \<Rightarrow> bool act" where
  "get_bool key d =
     session (bind (query (setting_by_key key)) (\<lambda>s.
       ret (case s of None \<Rightarrow> d | Some r \<Rightarrow> truthy (s_value r))))"

definition is_paused :: "bool act" where
  "is_paused = get_bool SYSTEM_PAUSED_KEY False"

definition monitoring_enabled :: "bool \<Rightarrow> bool act" where
  "monitoring_enabled d = get_bool RUNTIME_MONITORING_ENABLED_KEY d"

definition replacement_enabled :: "bool \<Rightarrow> bool act" where
  "replacement_enabled d = get_bool RUNTIME_REPLACEMENT_ENABLED_KEY d"

text \<open>The mode a stored value selects: anything but a valid mode is \<open>DRY_RUN\<close>.\<close>

definition mode_of_setting :: "(json \<Rightarrow> string) \<Rightarrow> setting_row option \<Rightarrow> execution_mode" where
  "mode_of_setting repr s =
     (case s of None \<Rightarrow> MODE_DRY_RUN
      | Some r \<Rightarrow> (case execution_mode_of (py_str repr (s_value r)) of
            None \<Rightarrow> MODE_DRY_RUN | Some m \<Rightarrow> m))"

definition runtime_execution_mode :: "execution_mode act" where
  "runtime_execution_mode =
     session (bind (query (setting_by_key RUNTIME_EXECUTION_MODE_KEY)) (\<lambda>s.
       bind (ask_env env_repr) (\<lambda>repr. ret (mode_of_setting repr s))))"

definition effective_dry_run :: "bool act" where
  "effective_dry_run =
     bind settings_of (\<lambda>s.
       if \<not> fst (live_capability s) then ret True
       else bind runtime_execution_mode (\<lambda>m. ret (m = MODE_DRY_RUN)))"

definition opt_int :: "int option \<Rightarrow> json" where
  "opt_int v = (case v of None \<Rightarrow> JNull | Some i \<Rightarrow> JInt i)"

definition set_paused :: "bool \<Rightarrow> int option \<Rightarrow> bool act" where
  "set_paused paused actor =
     session (bind (query (setting_by_key SYSTEM_PAUSED_KEY)) (\<lambda>current.
       (if (case current of None \<Rightarrow> False | Some r \<Rightarrow> truthy (s_value r)) = paused then ret False
        else
          andthen (set_value SYSTEM_PAUSED_KEY (JBool paused)
            (Some ''Global runtime pause flag controlled by authorized operators''))
          (bind now (\<lambda>t.
          andthen (add_event_row \<lparr>
              e_node_id = None, e_job_id = None,
              e_type = (if paused then SYSTEM_PAUSED else SYSTEM_RESUMED),
              e_severity = (if paused then SEV_WARNING else SEV_INFO),
              e_message = (if paused then ''System paused by authorized operator''
                           else ''System resumed by authorized operator''),
              e_payload = map_option (\<lambda>a. JObj [(''actor_user_id'', JInt a)]) actor,
              e_created_at = t\<rparr>)
          (andthen commit (ret True)))))))"

text \<open>
  \<open>get_event_cursor\<close> and \<open>set_event_cursor\<close>. The texts of the two fields are read as \<open>str\<close> gives them.
\<close>

definition cursor_text :: "json option \<Rightarrow> env \<Rightarrow> string option" where
  "cursor_text v e =
     (case v of None \<Rightarrow> None | Some j \<Rightarrow> if truthy j then Some (py_str (env_repr e) j) else None)"

definition read_cursor :: "json \<Rightarrow> env \<Rightarrow> usec option \<times> uuid option" where
  "read_cursor v e =
     (case v of
        JObj fs \<Rightarrow>
          (let created_at = map_option fromisoformat_utc (cursor_text (map_of fs ''created_at'') e);
               event_id = map_option parse_uuid (cursor_text (map_of fs ''event_id'') e) in
           if created_at = Some None \<or> event_id = Some None then (None, None)
           else (Option.bind created_at id, Option.bind event_id id))
      | _ \<Rightarrow> (None, None))"

definition get_event_cursor :: "(usec option \<times> uuid option) act" where
  "get_event_cursor =
     session (bind (query (setting_by_key TELEGRAM_EVENT_CURSOR_KEY)) (\<lambda>s.
       case s of None \<Rightarrow> ret (None, None) | Some r \<Rightarrow> ask_env (read_cursor (s_value r))))"

definition cursor_value :: "usec \<Rightarrow> uuid \<Rightarrow> json" where
  "cursor_value created_at event_id =
     JObj [(''created_at'', JStr (isoformat created_at)), (''event_id'', JStr (uuid_str event_id))]"

definition set_event_cursor :: "usec \<Rightarrow> uuid \<Rightarrow> unit act" where
  "set_event_cursor created_at event_id =
     session (andthen (set_value TELEGRAM_EVENT_CURSOR_KEY (cursor_value created_at event_id)
       (Some ''Last audit event processed by Telegram notifier'')) commit)"

definition set_runtime_value :: "string \<Rightarrow> json \<Rightarrow> string \<Rightarrow> int option \<Rightarrow> string \<Rightarrow> bool act" where
  "set_runtime_value key v description actor message =
     session (bind (query (setting_by_key key)) (\<lambda>current.
       (if (case current of None \<Rightarrow> False | Some r \<Rightarrow> json_eq (s_value r) v) then ret False
        else
          andthen (set_value key v (Some description))
          (bind now (\<lambda>t.
          andthen (add_event_row \<lparr>
              e_node_id = None, e_job_id = None, e_type = SETTING_CHANGED, e_severity = SEV_WARNING,
              e_message = message,
              e_payload = Some (JObj [(''key'', JStr key), (''actor_user_id'', opt_int actor)]),
              e_created_at = t\<rparr>)
          (andthen commit (ret True)))))))"

definition set_monitoring_enabled :: "bool \<Rightarrow> int option \<Rightarrow> bool act" where
  "set_monitoring_enabled enabled actor =
     set_runtime_value RUNTIME_MONITORING_ENABLED_KEY (JBool enabled)
       ''Runtime monitoring scheduler switch controlled by authorized operators'' actor
       (''Runtime monitoring '' @ (if enabled then ''enabled'' else ''disabled''))"

definition set_replacement_enabled :: "bool \<Rightarrow> int option \<Rightarrow> bool act" where
  "set_replacement_enabled enabled actor =
     set_runtime_value RUNTIME_REPLACEMENT_ENABLED_KEY (JBool enabled)
       ''Runtime automatic replacement switch controlled by authorized operators'' actor
       (''Runtime automatic replacement '' @ (if enabled then ''enabled'' else ''disabled''))"

definition set_execution_mode :: "execution_mode \<Rightarrow> int option \<Rightarrow> bool act" where
  "set_execution_mode m actor =
     bind settings_of (\<lambda>s.
       if m = LIVE \<and> \<not> fst (live_capability s) then
         raise SafetyViolationError
           (case snd (live_capability s) of
              Some r \<Rightarrow> (if r = [] then ''live execution is blocked by host safety gates'' else r)
            | None \<Rightarrow> ''live execution is blocked by host safety gates'')
       else
         set_runtime_value RUNTIME_EXECUTION_MODE_KEY (JStr (execution_mode_value m))
           ''Runtime replacement execution mode. Environment safety gates always take priority.''
           actor (''Runtime replacement mode changed to '' @ execution_mode_value m))"

record runtime_control_snapshot =
  rc_paused :: bool
  rc_monitoring_enabled :: bool
  rc_replacement_enabled :: bool
  rc_execution_mode :: execution_mode
  rc_effective_dry_run :: bool
  rc_worker_scheduler_available :: bool
  rc_live_capable :: bool
  rc_live_block_reason :: "string option"

definition runtime_snapshot :: "runtime_control_snapshot act" where
  "runtime_snapshot =
     bind settings_of (\<lambda>s.
     bind runtime_execution_mode (\<lambda>selected.
     bind is_paused (\<lambda>paused.
     bind (monitoring_enabled (monitoring_scheduler_enabled s)) (\<lambda>mon.
     bind (replacement_enabled (replacement_worker_enabled s)) (\<lambda>repl.
       ret \<lparr>rc_paused = paused, rc_monitoring_enabled = mon, rc_replacement_enabled = repl,
         rc_execution_mode = selected,
         rc_effective_dry_run = (\<not> fst (live_capability s) \<or> selected = MODE_DRY_RUN),
         rc_worker_scheduler_available = worker_scheduler_enabled s,
         rc_live_capable = fst (live_capability s),
         rc_live_block_reason = snd (live_capability s)\<rparr>)))))"

section \<open>What the switches do\<close>

lemma setting_by_key_put:
  "setting_by_key k (put_setting k' v desc d) =
     (if k = k' then
        (case setting_by_key k d of
           None \<Rightarrow> Some \<lparr>s_key = k, s_value = v, s_description = desc\<rparr>
         | Some r \<Rightarrow> Some (case desc of None \<Rightarrow> r\<lparr>s_value := v\<rparr>
             | Some _ \<Rightarrow> r\<lparr>s_value := v, s_description := desc\<rparr>))
      else setting_by_key k d)"
proof -
  let ?f = "\<lambda>s. case desc of None \<Rightarrow> s\<lparr>s_value := v\<rparr> | Some _ \<Rightarrow> s\<lparr>s_value := v, s_description := desc\<rparr>"
  have g: "setting_by_key i e = tbl_get s_key i (t_settings e)" for i e
    by (simp add: setting_by_key_def tbl_get_def)
  have key: "s_key (?f r) = s_key r" for r by (simp split: option.splits)
  show ?thesis
  proof (cases "setting_by_key k' d")
    case None
    then show ?thesis
      by (auto simp: put_setting_def g set_settings_def tbl_get_add split: option.splits)
  next
    case (Some r)
    then have "put_setting k' v desc d = set_settings (tbl_upd s_key k' ?f) d"
      by (simp add: put_setting_def)
    moreover have "tbl_get s_key k' (tbl_upd s_key k' ?f (t_settings d)) =
        map_option ?f (tbl_get s_key k' (t_settings d))"
      by (rule tbl_get_upd_same) (simp add: key)
    moreover have "k \<noteq> k' \<Longrightarrow> tbl_get s_key k (tbl_upd s_key k' ?f (t_settings d)) =
        tbl_get s_key k (t_settings d)"
      by (rule tbl_get_upd_other) (simp_all add: key)
    ultimately show ?thesis using Some
      by (auto simp: g set_settings_def split: option.splits)
  qed
qed

lemma wp_effective_dry_run_locked:
  "\<not> fst (live_capability (env_settings e)) \<Longrightarrow> wp effective_dry_run Q E e w = Q True w"
  by (simp add: effective_dry_run_def hoare)

lemma effective_dry_run_False:
  "effective_dry_run e w = (Inr False, w') \<Longrightarrow>
   \<not> dry_run (env_settings e) \<and> allow_real_infrastructure_mutation (env_settings e) \<and>
   \<not> replacement_emergency_stop (env_settings e)"
  by (auto simp: effective_dry_run_def bind_def settings_of_def live_capability_def ret_def
      split: if_splits)

end
