(* ===== verification/Health.thy ===== *)
theory Health
  imports NodeState
begin

text \<open>
  \<open>app/monitoring/types.py\<close> and \<open>app/monitoring/health.py\<close>: the summary of one round of probes, the
  quorum decision, and the debounced application of decisions to the counters and the state of a node.
\<close>

section \<open>Probes\<close>

record probe_result =
  pr_node :: string
  pr_status :: probe_status
  pr_latency :: "real option"
  pr_address :: "string option"
  pr_error :: "string option"

record check_summary =
  su_request_id :: string
  su_target :: string
  su_probes :: "probe_result list"

definition count_status :: "probe_status \<Rightarrow> check_summary \<Rightarrow> int" where
  "count_status s c = int (length (filter (\<lambda>p. pr_status p = s) (su_probes c)))"

definition success_count :: "check_summary \<Rightarrow> int" where
  "success_count c = count_status PROBE_SUCCESS c"

definition failure_count :: "check_summary \<Rightarrow> int" where
  "failure_count c = count_status PROBE_FAILURE c"

definition pending_count :: "check_summary \<Rightarrow> int" where
  "pending_count c = count_status PROBE_PENDING c"

definition malformed_count :: "check_summary \<Rightarrow> int" where
  "malformed_count c = count_status PROBE_MALFORMED c"

definition total_nodes :: "check_summary \<Rightarrow> int" where
  "total_nodes c = int (length (su_probes c))"

definition is_complete :: "check_summary \<Rightarrow> bool" where
  "is_complete c \<longleftrightarrow> pending_count c = 0"

section \<open>The quorum\<close>

definition evaluate :: "check_summary \<Rightarrow> int \<Rightarrow> exn + decision" where
  "evaluate c min_success =
     (if min_success < 1 then Inl (Exn ValueError ''min_success_nodes must be positive'')
      else if total_nodes c < min_success then Inr INDETERMINATE
      else if success_count c \<ge> min_success then Inr REACHABLE
      else if total_nodes c - failure_count c < min_success then Inr UNREACHABLE
      else Inr INDETERMINATE)"

text \<open>
  A completion of a summary settles its open probes (pending or malformed) as success or failure and
  leaves the settled ones alone.
\<close>

definition settles :: "probe_result \<Rightarrow> probe_result \<Rightarrow> bool" where
  "settles p q \<longleftrightarrow>
     pr_status q \<in> {PROBE_SUCCESS, PROBE_FAILURE} \<and>
     (pr_status p \<in> {PROBE_SUCCESS, PROBE_FAILURE} \<longrightarrow> pr_status q = pr_status p)"

definition completion :: "check_summary \<Rightarrow> check_summary \<Rightarrow> bool" where
  "completion c c' \<longleftrightarrow> list_all2 settles (su_probes c) (su_probes c')"

section \<open>Debouncing\<close>

record monitoring_policy =
  mp_failure_threshold :: int
  mp_recovery_threshold :: int
  mp_min_success_nodes :: int

definition make_policy :: "int \<Rightarrow> int \<Rightarrow> int \<Rightarrow> exn + monitoring_policy" where
  "make_policy f r m =
     (if f < 1 then Inl (Exn ValueError ''failure_threshold must be positive'')
      else if r < 1 then Inl (Exn ValueError ''recovery_threshold must be positive'')
      else if m < 1 then Inl (Exn ValueError ''min_success_nodes must be positive'')
      else Inr \<lparr>mp_failure_threshold = f, mp_recovery_threshold = r, mp_min_success_nodes = m\<rparr>)"

record health_result =
  hres_decision :: decision
  hres_previous :: node_state
  hres_current :: node_state
  hres_event :: "event_type option"

definition mutable_states :: "node_state set" where
  "mutable_states = {UNKNOWN, HEALTHY, DEGRADED, NODE_FAILED_STATE}"

text \<open>The branch for a reachable node, and the one for an unreachable node.\<close>

definition apply_reachable ::
    "monitoring_policy \<Rightarrow> usec \<Rightarrow> node_row \<Rightarrow> exn + event_type option \<times> node_row" where
  "apply_reachable p t node =
     (let previous = n_state node;
          n1 = node\<lparr>n_consecutive_failures := 0,
            n_consecutive_successes := n_consecutive_successes node + 1,
            n_last_successful_check_at := Some t\<rparr>;
          recovered = (previous \<noteq> HEALTHY \<and> n_consecutive_successes n1 \<ge> mp_recovery_threshold p)
      in if recovered then
           (case node_transition t (Some (Aware t)) HEALTHY n1 of
              Inl x \<Rightarrow> Inl x
            | Inr (_, n2) \<Rightarrow>
                Inr (if previous \<in> {DEGRADED, NODE_FAILED_STATE} then Some NODE_RECOVERED else None, n2))
         else Inr (None, n1))"

definition apply_unreachable ::
    "monitoring_policy \<Rightarrow> usec \<Rightarrow> node_row \<Rightarrow> exn + event_type option \<times> node_row" where
  "apply_unreachable p t node =
     (let previous = n_state node;
          n1 = node\<lparr>n_consecutive_successes := 0,
            n_consecutive_failures := n_consecutive_failures node + 1\<rparr>
      in if n_consecutive_failures n1 \<ge> mp_failure_threshold p then
           (if previous \<noteq> NODE_FAILED_STATE then
              (case node_transition t (Some (Aware t)) NODE_FAILED_STATE n1 of
                 Inl x \<Rightarrow> Inl x
               | Inr (_, n2) \<Rightarrow> Inr (Some NODE_FAILED, n2))
            else Inr (None, n1))
         else if previous \<in> {UNKNOWN, HEALTHY} then
           (case node_transition t (Some (Aware t)) DEGRADED n1 of
              Inl x \<Rightarrow> Inl x
            | Inr (_, n2) \<Rightarrow> Inr (Some NODE_DEGRADED, n2))
         else Inr (None, n1))"

definition health_apply ::
    "monitoring_policy \<Rightarrow> usec \<Rightarrow> stamp option \<Rightarrow> decision \<Rightarrow> node_row \<Rightarrow>
     exn + health_result \<times> node_row" where
  "health_apply p clock occurred_at d node =
     (case stamp_or occurred_at clock of
        Inl x \<Rightarrow> Inl x
      | Inr t \<Rightarrow>
          (let previous = n_state node; n0 = node\<lparr>n_last_checked_at := Some t\<rparr> in
           if previous \<notin> mutable_states \<or> d = INDETERMINATE then
             Inr (\<lparr>hres_decision = d, hres_previous = previous, hres_current = n_state n0,
               hres_event = None\<rparr>, n0)
           else
             (case (if d = REACHABLE then apply_reachable p t n0 else apply_unreachable p t n0) of
                Inl x \<Rightarrow> Inl x
              | Inr (ev, n2) \<Rightarrow>
                  Inr (\<lparr>hres_decision = d, hres_previous = previous, hres_current = n_state n2,
                    hres_event = ev\<rparr>, n2))))"

text \<open>A history of checks, oldest first.\<close>

primrec health_run :: "monitoring_policy \<Rightarrow> (usec \<times> decision) list \<Rightarrow> node_row \<Rightarrow> exn + node_row" where
  "health_run p [] n = Inr n"
| "health_run p (c # cs) n =
     (case health_apply p 0 (Some (Aware (fst c))) (snd c) n of
        Inl x \<Rightarrow> Inl x
      | Inr (_, n') \<Rightarrow> health_run p cs n')"

text \<open>
  The specification: of a history only the definite decisions count, and of those the run at its end.
\<close>

definition definite :: "decision list \<Rightarrow> decision list" where
  "definite ds = filter (\<lambda>d. d \<noteq> INDETERMINATE) ds"

definition trailing :: "decision \<Rightarrow> decision list \<Rightarrow> nat" where
  "trailing d ds = length (takeWhile ((=) d) (rev (definite ds)))"

text \<open>What a healthy node's counters satisfy when one failure is not enough to fail a node.\<close>

definition health_inv :: "node_row \<Rightarrow> bool" where
  "health_inv n \<longleftrightarrow>
     0 \<le> n_consecutive_failures n \<and> 0 \<le> n_consecutive_successes n \<and>
     (n_state n = HEALTHY \<longrightarrow> n_consecutive_failures n = 0)"

section \<open>Facts\<close>

lemma status_partition:
  "success_count c + failure_count c + pending_count c + malformed_count c = total_nodes c"
proof -
  have "length (filter (\<lambda>p. pr_status p = PROBE_SUCCESS) ps) +
      length (filter (\<lambda>p. pr_status p = PROBE_FAILURE) ps) +
      length (filter (\<lambda>p. pr_status p = PROBE_PENDING) ps) +
      length (filter (\<lambda>p. pr_status p = PROBE_MALFORMED) ps) = length ps" for ps :: "probe_result list"
    by (induction ps) (auto, metis probe_status.exhaust)
  from this [of "su_probes c"] show ?thesis
    by (simp add: success_count_def failure_count_def pending_count_def malformed_count_def
        total_nodes_def count_status_def)
qed

lemma settles_counts:
  assumes "list_all2 settles ps qs"
  shows "length (filter (\<lambda>p. pr_status p = PROBE_SUCCESS) ps)
           \<le> length (filter (\<lambda>p. pr_status p = PROBE_SUCCESS) qs)"
    and "length (filter (\<lambda>p. pr_status p = PROBE_SUCCESS) qs)
           \<le> length (filter (\<lambda>p. pr_status p \<noteq> PROBE_FAILURE) ps)"
    and "length ps = length qs"
  using assms by (induction rule: list_all2_induct) (auto simp: settles_def)

lemma failure_complement:
  "int (length (filter (\<lambda>p. pr_status p \<noteq> PROBE_FAILURE) (su_probes c))) = total_nodes c - failure_count c"
  using sum_length_filter_compl [of "\<lambda>p. pr_status p = PROBE_FAILURE" "su_probes c"]
  by (simp add: total_nodes_def failure_count_def count_status_def)

text \<open>The two extreme completions: every open probe succeeds, or every one fails.\<close>

definition settle_as :: "probe_status \<Rightarrow> check_summary \<Rightarrow> check_summary" where
  "settle_as s c = c\<lparr>su_probes := map (\<lambda>p. if pr_status p \<in> {PROBE_SUCCESS, PROBE_FAILURE} then p
     else p\<lparr>pr_status := s\<rparr>) (su_probes c)\<rparr>"

lemma settle_as_completion: "s \<in> {PROBE_SUCCESS, PROBE_FAILURE} \<Longrightarrow> completion c (settle_as s c)"
  by (auto simp: completion_def settle_as_def list.rel_map settles_def list_all2_same)

lemma settle_as_success:
  "success_count (settle_as PROBE_SUCCESS c) = total_nodes c - failure_count c"
proof -
  have "length (filter (\<lambda>p. pr_status p = PROBE_SUCCESS)
      (map (\<lambda>p. if pr_status p \<in> {PROBE_SUCCESS, PROBE_FAILURE} then p else p\<lparr>pr_status := PROBE_SUCCESS\<rparr>) ps)) =
      length (filter (\<lambda>p. pr_status p \<noteq> PROBE_FAILURE) ps)" for ps
    by (induction ps) auto
  then show ?thesis
    by (simp add: success_count_def count_status_def settle_as_def flip: failure_complement)
qed

lemma settle_as_failure: "success_count (settle_as PROBE_FAILURE c) = success_count c"
proof -
  have "length (filter (\<lambda>p. pr_status p = PROBE_SUCCESS)
      (map (\<lambda>p. if pr_status p \<in> {PROBE_SUCCESS, PROBE_FAILURE} then p else p\<lparr>pr_status := PROBE_FAILURE\<rparr>) ps)) =
      length (filter (\<lambda>p. pr_status p = PROBE_SUCCESS) ps)" for ps
    by (induction ps) auto
  then show ?thesis by (simp add: success_count_def count_status_def settle_as_def)
qed

lemma completion_bounds:
  "completion c c' \<Longrightarrow> success_count c \<le> success_count c' \<and>
     success_count c' \<le> total_nodes c - failure_count c"
  using settles_counts [of "su_probes c" "su_probes c'"] failure_complement [of c]
  by (simp add: completion_def success_count_def count_status_def)

lemma evaluate_UNREACHABLE:
  assumes "1 \<le> m" and "m \<le> total_nodes c"
  shows "evaluate c m = Inr UNREACHABLE \<longleftrightarrow> (\<forall>c'. completion c c' \<longrightarrow> success_count c' < m)"
proof
  assume "evaluate c m = Inr UNREACHABLE"
  then have "total_nodes c - failure_count c < m" by (simp add: evaluate_def split: if_splits)
  then show "\<forall>c'. completion c c' \<longrightarrow> success_count c' < m"
    using completion_bounds by fastforce
next
  assume all: "\<forall>c'. completion c c' \<longrightarrow> success_count c' < m"
  have "total_nodes c - failure_count c < m"
    using all settle_as_completion [of PROBE_SUCCESS c] settle_as_success [of c] by force
  moreover have "success_count c < m"
    using all settle_as_completion [of PROBE_FAILURE c] settle_as_failure [of c] by force
  ultimately show "evaluate c m = Inr UNREACHABLE" using assms by (simp add: evaluate_def)
qed

lemma evaluate_REACHABLE:
  assumes "1 \<le> m" and "m \<le> total_nodes c"
  shows "evaluate c m = Inr REACHABLE \<longleftrightarrow> (\<forall>c'. completion c c' \<longrightarrow> m \<le> success_count c')"
proof
  assume "evaluate c m = Inr REACHABLE"
  then have "m \<le> success_count c" by (simp add: evaluate_def split: if_splits)
  then show "\<forall>c'. completion c c' \<longrightarrow> m \<le> success_count c'"
    using completion_bounds by fastforce
next
  assume "\<forall>c'. completion c c' \<longrightarrow> m \<le> success_count c'"
  then have "m \<le> success_count c"
    using settle_as_completion [of PROBE_FAILURE c] settle_as_failure [of c] by force
  then show "evaluate c m = Inr REACHABLE" using assms by (simp add: evaluate_def)
qed

text \<open>One check of a node that is not in a workflow, when a single failure does not fail it.\<close>

lemma health_apply_ok:
  assumes "2 \<le> mp_failure_threshold p" and "health_inv n"
  shows "\<exists>r n'. health_apply p clock (Some (Aware t)) d n = Inr (r, n') \<and> health_inv n' \<and>
    n_id n' = n_id n \<and>
    (n_state n \<in> mutable_states \<longrightarrow> n_state n' \<in> mutable_states \<and>
      n_consecutive_failures n' =
        (case d of INDETERMINATE \<Rightarrow> n_consecutive_failures n | REACHABLE \<Rightarrow> 0
         | UNREACHABLE \<Rightarrow> n_consecutive_failures n + 1) \<and>
      n_consecutive_successes n' =
        (case d of INDETERMINATE \<Rightarrow> n_consecutive_successes n | UNREACHABLE \<Rightarrow> 0
         | REACHABLE \<Rightarrow> n_consecutive_successes n + 1))"
  using assms
  by (cases d; cases "n_state n")
    (auto simp: health_apply_def stamp_or_def Let_def mutable_states_def apply_reachable_def
      apply_unreachable_def node_transition_def apply_state_transition_def health_inv_def)

lemma definite_snoc:
  "definite (ds @ [d]) = (if d = INDETERMINATE then definite ds else definite ds @ [d])"
  by (simp add: definite_def)

lemma trailing_snoc:
  "trailing x (ds @ [d]) =
     (if d = INDETERMINATE then trailing x ds else if d = x then Suc (trailing x ds) else 0)"
  by (simp add: trailing_def definite_snoc)

lemma trailing_Nil [simp]: "trailing x [] = 0"
  by (simp add: trailing_def definite_def)

lemma health_run_snoc:
  "health_run p (cs @ [c]) n =
     (case health_run p cs n of
        Inl x \<Rightarrow> Inl x
      | Inr n' \<Rightarrow> map_sum id snd (health_apply p 0 (Some (Aware (fst c))) (snd c) n'))"
  by (induction cs arbitrary: n) (auto split: sum.splits prod.splits)

text \<open>
  From a node that has never been checked, the counters are the lengths of the runs at the end of the
  history, and enough equal decisions settle the state.
\<close>

lemma health_run_counters:
  assumes "2 \<le> mp_failure_threshold p" and "n_state n = UNKNOWN"
    and "n_consecutive_failures n = 0" and "n_consecutive_successes n = 0"
  shows "\<exists>n'. health_run p cs n = Inr n' \<and> health_inv n' \<and> n_state n' \<in> mutable_states \<and>
    n_consecutive_failures n' = int (trailing UNREACHABLE (map snd cs)) \<and>
    n_consecutive_successes n' = int (trailing REACHABLE (map snd cs))"
proof (induction cs rule: rev_induct)
  case Nil
  then show ?case using assms by (simp add: health_inv_def mutable_states_def)
next
  case (snoc c cs)
  then obtain n1 where n1: "health_run p cs n = Inr n1" "health_inv n1" "n_state n1 \<in> mutable_states"
    "n_consecutive_failures n1 = int (trailing UNREACHABLE (map snd cs))"
    "n_consecutive_successes n1 = int (trailing REACHABLE (map snd cs))" by blast
  from health_apply_ok [OF assms(1) n1(2), of 0 "fst c" "snd c"] obtain r n' where
    "health_apply p 0 (Some (Aware (fst c))) (snd c) n1 = Inr (r, n')" "health_inv n'"
    "n_state n' \<in> mutable_states"
    "n_consecutive_failures n' = (case snd c of INDETERMINATE \<Rightarrow> n_consecutive_failures n1
       | REACHABLE \<Rightarrow> 0 | UNREACHABLE \<Rightarrow> n_consecutive_failures n1 + 1)"
    "n_consecutive_successes n' = (case snd c of INDETERMINATE \<Rightarrow> n_consecutive_successes n1
       | UNREACHABLE \<Rightarrow> 0 | REACHABLE \<Rightarrow> n_consecutive_successes n1 + 1)"
    using n1(3) by blast
  with n1 show ?case
    by (cases "snd c") (simp_all add: health_run_snoc trailing_snoc)
qed

text \<open>The state a check leaves behind, by the length of the runs.\<close>

lemma health_apply_state:
  assumes "2 \<le> mp_failure_threshold p" and "1 \<le> mp_recovery_threshold p" and "health_inv n"
    and "n_state n \<in> mutable_states"
    and "health_apply p clock (Some (Aware t)) d n = Inr (r, n')"
  shows "d = UNREACHABLE \<Longrightarrow> n_state n' = NODE_FAILED_STATE \<longleftrightarrow>
      n_state n = NODE_FAILED_STATE \<or> mp_failure_threshold p \<le> n_consecutive_failures n'"
    and "d = REACHABLE \<Longrightarrow> n_state n' =
      (if mp_recovery_threshold p \<le> n_consecutive_successes n' then HEALTHY else n_state n)"
    and "d = INDETERMINATE \<Longrightarrow> n_state n' = n_state n"
  using assms
  by (cases "n_state n"; auto simp: health_apply_def stamp_or_def Let_def mutable_states_def
      apply_reachable_def apply_unreachable_def node_transition_def apply_state_transition_def
      health_inv_def split: if_splits)+

end
