(* ===== verification/Secrets.thy ===== *)
theory Secrets
  imports Hoare "HOL-Library.AList"
begin

text \<open>
  \<open>app/core/secrets.py\<close>: the resolution of secret references, and the file-backed store of generated
  secrets. The files are a map from paths to contents; \<open>env_path\<close> is \<open>Path.expanduser().resolve()\<close>.
  A write goes to a temporary file that replaces the target, so the target never holds a partial
  value: the fault oracle says at which step the file system fails.
\<close>

definition backend_error :: "secret_backend \<Rightarrow> string" where
  "backend_error b =
     ''secret backend '' @ [CHR 0x27] @ backend_value b @ [CHR 0x27] @
     '' is not implemented in this milestone''"

definition get_file :: "string \<Rightarrow> string option act" where
  "get_file path e w = (Inr (map_of (w_files w) path), w)"

definition put_file :: "string \<Rightarrow> string \<Rightarrow> unit act" where
  "put_file path content e w = (Inr (), w\<lparr>w_files := AList.update path content (w_files w)\<rparr>)"

definition del_file :: "string \<Rightarrow> unit act" where
  "del_file path e w = (Inr (), w\<lparr>w_files := AList.delete path (w_files w)\<rparr>)"

definition resolve_secret :: "secret_backend \<Rightarrow> string \<Rightarrow> string act" where
  "resolve_secret backend reference =
     (if strip reference = [] then raise ConfigurationError ''secret reference cannot be blank''
      else if backend = ENVIRONMENT then
        bind (ask_env (\<lambda>e. env_getenv e reference)) (\<lambda>v. case v of
          None \<Rightarrow> raise ConfigurationError
            (''secret environment reference is not configured: '' @ reference)
        | Some s \<Rightarrow> (if s = [] then raise ConfigurationError
              (''secret environment reference is not configured: '' @ reference)
            else ret s))
      else if backend = FILE then
        bind (ask_env (\<lambda>e. env_path e reference)) (\<lambda>path.
        bind (get_file path) (\<lambda>content. case content of
          None \<Rightarrow> raise ConfigurationError (''secret file reference cannot be read: '' @ reference)
        | Some s \<Rightarrow> (if strip s = [] then
              raise ConfigurationError (''secret file reference is empty: '' @ reference)
            else ret (strip s))))
      else raise ConfigurationError (backend_error backend))"

definition is_alnum :: "char \<Rightarrow> bool" where
  "is_alnum c =
     (let n = of_char c :: nat in
      48 \<le> n \<and> n \<le> 57 \<or> 65 \<le> n \<and> n \<le> 90 \<or> 97 \<le> n \<and> n \<le> 122)"

definition safe_text :: "string \<Rightarrow> string" where
  "safe_text s = filter (\<lambda>c. is_alnum c \<or> c = CHR ''-'' \<or> c = CHR ''_'') s"

definition secret_target :: "string \<Rightarrow> string \<Rightarrow> string \<Rightarrow> string" where
  "secret_target dir scope name =
     dir @ ''/'' @ safe_text scope @ ''--'' @ safe_text name @ ''.secret''"

definition write_secret :: "string \<Rightarrow> string \<Rightarrow> string \<Rightarrow> string act" where
  "write_secret scope name value =
     (if safe_text scope = [] \<or> safe_text name = [] then
        raise ConfigurationError ''runtime secret scope/name contains no safe characters''
      else
        bind (ask_env (\<lambda>e. env_path e (runtime_secret_dir (env_settings e)))) (\<lambda>dir.
        bind fs_oracle (\<lambda>fault.
          if fault = FsMkdir then raise OSError ''mkdir''
          else if fault = FsChmodDir then
            raise ConfigurationError ''runtime secret directory permissions cannot be secured''
          else if fault = FsTemp \<or> fault = FsWrite then raise OSError ''write''
          else andthen (put_file (secret_target dir scope name) value)
            (if fault = FsChmodFile then raise OSError ''chmod''
             else ret (secret_target dir scope name)))))"

definition delete_reference :: "string option \<Rightarrow> unit act" where
  "delete_reference reference =
     (case reference of None \<Rightarrow> ret ()
      | Some r \<Rightarrow> (if r = [] then ret ()
          else
            bind (ask_env (\<lambda>e. env_path e r)) (\<lambda>path.
            bind (ask_env (\<lambda>e. env_path e (runtime_secret_dir (env_settings e)))) (\<lambda>dir.
              if path \<noteq> dir \<and> \<not> starts_with (dir @ ''/'') path then
                raise ConfigurationError
                  ''refusing to delete a runtime secret outside configured directory''
              else del_file path))))"

section \<open>Storing and resolving\<close>

lemma wp_get_file [hoare]: "wp (get_file p) Q E e w = Q (map_of (w_files w) p) w"
  by (simp add: wp_def get_file_def)

lemma wp_put_file [hoare]:
  "wp (put_file p c) Q E e w = Q () (w\<lparr>w_files := AList.update p c (w_files w)\<rparr>)"
  by (simp add: wp_def put_file_def)

lemma wp_del_file [hoare]:
  "wp (del_file p) Q E e w = Q () (w\<lparr>w_files := AList.delete p (w_files w)\<rparr>)"
  by (simp add: wp_def del_file_def)

lemma keeps_resolve_secret [keeps]: "keeps e I (resolve_secret b r)"
  by (auto simp: resolve_secret_def get_file_def keeps_def bind_def ask_env_def raise_def ret_def
      split: option.splits)

end
