(* ===== verification/ProviderBase.thy ===== *)
theory ProviderBase
  imports Secrets OpSettings
begin

text \<open>
  \<open>app/providers\<close>, the parts shared by the adapters: the request and capacity types
  (\<open>types.py\<close>), the safety and retry policies (\<open>policy.py\<close>), and the HTTP call with its
  classification of answers (\<open>http.py\<close>). An error carries its class and message; the machine-readable
  \<open>code\<close> of \<open>ProviderError\<close>, which no caller reads, is left out.
\<close>

section \<open>Types\<close>

record create_request =
  cs_name :: string
  cs_region :: string
  cs_server_type :: string
  cs_image :: string
  cs_ssh_public_keys :: "string list"
  cs_root_password :: "string option"
  cs_user_data :: "string option"
  cs_labels :: "(string \<times> string) list"

record capacity =
  cap_active_temporary :: int
  cap_active_replacements :: int

definition validate_request :: "create_request \<Rightarrow> exn + unit" where
  "validate_request r =
     (case find (\<lambda>(f, v). strip v = [])
         [(''name'', cs_name r), (''region'', cs_region r), (''server_type'', cs_server_type r),
          (''image'', cs_image r)] of
        Some (f, v) \<Rightarrow> Inl (Exn ValueError (f @ '' cannot be blank''))
      | None \<Rightarrow> Inr ())"

section \<open>Policies\<close>

definition select_provider :: "provider_row list \<Rightarrow> uuid option \<Rightarrow> exn + provider_row" where
  "select_provider providers preferred =
     (let active = filter p_is_active providers in
      case preferred of
        Some i \<Rightarrow> (case find (\<lambda>p. p_id p = i) active of
            Some p \<Rightarrow> Inr p
          | None \<Rightarrow> Inl (Exn ConfigurationError ''preferred provider is not active or does not exist''))
      | None \<Rightarrow> (case sort_key p_key active of
            [] \<Rightarrow> Inl (Exn ConfigurationError ''no active provider is configured'')
          | p # _ \<Rightarrow> Inr p))"

text \<open>The limits of the policy object are the settings of the composition root.\<close>

definition validate_provisioning :: "settings \<Rightarrow> int \<Rightarrow> capacity \<Rightarrow> exn + unit" where
  "validate_provisioning s attempt_number c =
     (if attempt_number < 1 \<or> attempt_number > max_replacement_attempts s then
        Inl (Exn SafetyViolationError ''replacement attempt limit reached'')
      else if cap_active_temporary c \<ge> max_temporary_servers s then
        Inl (Exn SafetyViolationError ''temporary VPS limit reached'')
      else if cap_active_replacements c \<ge> max_concurrent_replacements s then
        Inl (Exn SafetyViolationError ''concurrent replacement limit reached'')
      else Inr ())"

definition retryable :: "exn_class \<Rightarrow> bool" where
  "retryable c \<longleftrightarrow> isa c ProviderRateLimitError \<or> isa c ProviderTransientError"

definition should_retry :: "int \<Rightarrow> exn_class \<Rightarrow> int \<Rightarrow> bool" where
  "should_retry max_attempts c attempt_number \<longleftrightarrow> retryable c \<and> attempt_number < max_attempts"

section \<open>JSON helpers\<close>

text \<open>\<open>v.get(..)\<close> exists only on objects.\<close>

definition as_dict :: "json \<Rightarrow> exn + (string \<times> json) list" where
  "as_dict v = (case v of JObj fs \<Rightarrow> Inr fs | _ \<Rightarrow> Inl (Exn AttributeError ''get''))"

text \<open>\<open>v or {}\<close>, \<open>v or []\<close>.\<close>

definition or_dict :: "json \<Rightarrow> json" where
  "or_dict v = (if truthy v then v else JObj [])"

text \<open>Iterating over \<open>v or []\<close> and calling \<open>.get\<close> on every item.\<close>

definition iter_dicts :: "json \<Rightarrow> exn + (string \<times> json) list list" where
  "iter_dicts v =
     (if \<not> truthy v then Inr []
      else (case v of
          JList xs \<Rightarrow> (case find (\<lambda>x. \<not> is_obj x) xs of
              Some _ \<Rightarrow> Inl (Exn AttributeError ''get'')
            | None \<Rightarrow> Inr (List.map_filter (\<lambda>x. case x of JObj fs \<Rightarrow> Some fs | _ \<Rightarrow> None) xs))
        | JStr _ \<Rightarrow> Inl (Exn AttributeError ''get'')
        | JObj _ \<Rightarrow> Inl (Exn AttributeError ''get'')
        | _ \<Rightarrow> Inl (Exn TypeError ''not iterable'')))"

text \<open>
  A field the adapters pass on as text or \<open>None\<close>. The documented APIs send text or null here; another
  kind of value is taken by its text.
\<close>

definition opt_text :: "(json \<Rightarrow> string) \<Rightarrow> json \<Rightarrow> string option" where
  "opt_text repr v = (case v of JNull \<Rightarrow> None | _ \<Rightarrow> Some (py_str repr v))"

definition opt_nonempty :: "string \<Rightarrow> string option" where
  "opt_nonempty s = (if s = [] then None else Some s)"

text \<open>\<open>json.dumps\<close> of a text.\<close>

definition escape_char :: "char \<Rightarrow> string" where
  "escape_char c =
     (let n = of_char c :: nat in
      if n = 34 then [CHR 92, CHR 34] else if n = 92 then [CHR 92, CHR 92]
      else if n = 10 then [CHR 92, CHR ''n''] else if n = 13 then [CHR 92, CHR ''r'']
      else if n = 9 then [CHR 92, CHR ''t''] else if n = 8 then [CHR 92, CHR ''b'']
      else if n = 12 then [CHR 92, CHR ''f'']
      else if n < 32 \<or> 126 < n then [CHR 92, CHR ''u''] @ pad_left 4 (CHR ''0'') (show_base 16 n)
      else [c])"

definition json_dumps_str :: "string \<Rightarrow> string" where
  "json_dumps_str s = [CHR 34] @ concat (map escape_char s) @ [CHR 34]"

section \<open>HTTP\<close>

record http_client =
  hc_base_url :: string
  hc_headers :: "(string \<times> string) list"
  hc_provider_name :: string

definition ok_statuses :: "int list" where
  "ok_statuses = [200, 201, 202, 204]"

text \<open>The class of the error for a status outside \<open>ok_statuses\<close>.\<close>

definition classify_status :: "int \<Rightarrow> exn_class" where
  "classify_status n =
     (if n = 401 \<or> n = 403 then ProviderAuthenticationError
      else if n = 404 then ProviderNotFoundError
      else if n = 409 then ProviderConflictError
      else if n = 429 then ProviderRateLimitError
      else if n \<ge> 500 then ProviderTransientError
      else ProviderError)"

definition decode_ok :: "string \<Rightarrow> http_body \<Rightarrow> exn + (string \<times> json) list" where
  "decode_ok name b =
     (case b of
        EmptyBody \<Rightarrow> Inr []
      | BadJson \<Rightarrow> Inl (Exn ProviderError (name @ '' API returned invalid JSON''))
      | JsonBody (JObj fs) \<Rightarrow> Inr fs
      | JsonBody v \<Rightarrow> Inr [(''data'', v)])"

text \<open>
  \<open>_request_json\<close>; \<open>extract_error\<close> is the adapter's \<open>_extract_error\<close>, which may itself raise on an
  unexpected document.
\<close>

definition request_json ::
    "http_client \<Rightarrow> (int \<Rightarrow> http_body \<Rightarrow> exn + string) \<Rightarrow> string \<Rightarrow> string \<Rightarrow> json option \<Rightarrow>
     (string \<times> string) list \<Rightarrow> (string \<times> string) list \<Rightarrow> (string \<times> json) list act" where
  "request_json c extract_error verb path body params headers =
     bind (http \<lparr>hr_method = verb, hr_url = rstrip_chr (CHR ''/'') (hc_base_url c) @ path,
       hr_params = params, hr_headers = hc_headers c @ headers, hr_body = body\<rparr>) (\<lambda>out.
     case out of
       HttpTransport _ \<Rightarrow>
         raise ProviderTransientError (hc_provider_name c @ '' API network request failed'')
     | HttpRaise _ s \<Rightarrow> raise OtherError s
     | HttpResp status b \<Rightarrow>
         (if status \<in> set ok_statuses then lift (decode_ok (hc_provider_name c) b)
          else bind (lift (extract_error status b)) (\<lambda>message. raise (classify_status status) message)))"

definition bearer_headers :: "string \<Rightarrow> (string \<times> string) list" where
  "bearer_headers token =
     [(''Authorization'', ''Bearer '' @ token), (''Content-Type'', ''application/json'')]"

section \<open>Facts\<close>

lemma wp_http [hoare]:
  "wp (http r) Q E e w =
     Q (env_http e (map snd (w_trace w)) r) (w\<lparr>w_trace := (w_db w, ExtHttp r) # w_trace w\<rparr>)"
  by (simp add: wp_def http_def)

lemma validate_provisioning_ok:
  "validate_provisioning s k c = Inr () \<longleftrightarrow>
     1 \<le> k \<and> k \<le> max_replacement_attempts s \<and> cap_active_temporary c < max_temporary_servers s \<and>
     cap_active_replacements c < max_concurrent_replacements s"
  by (auto simp: validate_provisioning_def)

lemma validate_request_ok:
  "validate_request r = Inr () \<longleftrightarrow>
     strip (cs_name r) \<noteq> [] \<and> strip (cs_region r) \<noteq> [] \<and> strip (cs_server_type r) \<noteq> [] \<and>
     strip (cs_image r) \<noteq> []"
  by (auto simp: validate_request_def)

end
