(* ===== verification/Url.thy ===== *)
theory Url
  imports Json World
begin

text \<open>
  \<open>urllib.parse.urlsplit\<close> and \<open>urlunsplit\<close> on ASCII text, with the derived attributes the program
  uses. Of the checks on a bracketed host only the balance of the brackets is kept.
\<close>

record url =
  u_scheme :: string
  u_netloc :: string
  u_path :: string
  u_query :: string
  u_fragment :: string

text \<open>\<open>s.partition(c)\<close>: before, whether found, after; \<open>rpartition\<close> splits at the last occurrence.\<close>

definition partition_at :: "char \<Rightarrow> string \<Rightarrow> string \<times> bool \<times> string" where
  "partition_at c s =
     (case dropWhile ((\<noteq>) c) s of
        [] \<Rightarrow> (s, False, [])
      | _ # rest \<Rightarrow> (takeWhile ((\<noteq>) c) s, True, rest))"

definition rpartition_at :: "char \<Rightarrow> string \<Rightarrow> string \<times> bool \<times> string" where
  "rpartition_at c s =
     (case dropWhile ((\<noteq>) c) (rev s) of
        [] \<Rightarrow> ([], False, s)
      | _ # front \<Rightarrow> (rev front, True, rev (takeWhile ((\<noteq>) c) (rev s))))"

definition is_alpha :: "char \<Rightarrow> bool" where
  "is_alpha c = (let n = of_char c :: nat in 65 \<le> n \<and> n \<le> 90 \<or> 97 \<le> n \<and> n \<le> 122)"

definition is_digit :: "char \<Rightarrow> bool" where
  "is_digit c = (let n = of_char c :: nat in 48 \<le> n \<and> n \<le> 57)"

definition is_scheme_char :: "char \<Rightarrow> bool" where
  "is_scheme_char c \<longleftrightarrow>
     is_alpha c \<or> is_digit c \<or> c = CHR ''+'' \<or> c = CHR ''-'' \<or> c = CHR ''.''"

text \<open>Leading control characters and blanks go, tabs and line ends go anywhere.\<close>

definition url_clean :: "string \<Rightarrow> string" where
  "url_clean s =
     filter (\<lambda>c. (of_char c :: nat) \<notin> {9, 10, 13}) (dropWhile (\<lambda>c. (of_char c :: nat) \<le> 32) s)"

definition split_scheme :: "string \<Rightarrow> string \<times> string" where
  "split_scheme s =
     (case partition_at (CHR '':'') s of
        (p, found, rest) \<Rightarrow>
          if found \<and> p \<noteq> [] \<and> is_alpha (hd p) \<and> list_all is_scheme_char p then (lower p, rest)
          else ([], s))"

definition split_netloc :: "string \<Rightarrow> string \<times> string" where
  "split_netloc s =
     (if starts_with ''//'' s then
        (let stop = (\<lambda>c. c = CHR ''/'' \<or> c = CHR ''?'' \<or> c = CHR ''#'') in
         (takeWhile (\<lambda>c. \<not> stop c) (drop 2 s), dropWhile (\<lambda>c. \<not> stop c) (drop 2 s)))
      else ([], s))"

definition urlsplit :: "string \<Rightarrow> exn + url" where
  "urlsplit s =
     (let (scheme, r0) = split_scheme (url_clean s); (netloc, r1) = split_netloc r0;
          (r2, _, fragment) = partition_at (CHR ''#'') r1; (path, _, query) = partition_at (CHR ''?'') r2
      in if (CHR ''['' \<in> set netloc) \<noteq> (CHR '']'' \<in> set netloc) then
           Inl (Exn ValueError ''Invalid IPv6 URL'')
         else Inr \<lparr>u_scheme = scheme, u_netloc = netloc, u_path = path, u_query = query,
           u_fragment = fragment\<rparr>)"

definition host_info :: "url \<Rightarrow> string \<times> string option" where
  "host_info u =
     (let (_, _, info) = rpartition_at (CHR ''@'') (u_netloc u);
          (_, br, bracketed) = partition_at (CHR ''['') info;
          (h, p) =
            (if br then
               (let (h, _, after_br) = partition_at (CHR '']'') bracketed;
                    (_, _, p) = partition_at (CHR '':'') after_br in (h, p))
             else (let (h, _, p) = partition_at (CHR '':'') info in (h, p)))
      in (h, if p = [] then None else Some p))"

definition url_hostname :: "url \<Rightarrow> string option" where
  "url_hostname u =
     (let h = fst (host_info u); (name, pct, zone) = partition_at (CHR ''%'') h in
      if h = [] then None else Some (lower name @ (if pct then ''%'' else []) @ zone))"

definition url_port :: "url \<Rightarrow> exn + int option" where
  "url_port u =
     (case snd (host_info u) of
        None \<Rightarrow> Inr None
      | Some p \<Rightarrow>
          (if list_all is_digit p then
             (case parse_int 10 p of
                Some n \<Rightarrow> if n \<le> 65535 then Inr (Some n) else Inl (Exn ValueError ''Port out of range 0-65535'')
              | None \<Rightarrow> Inl (Exn ValueError ''Port could not be cast to integer value''))
           else Inl (Exn ValueError ''Port could not be cast to integer value'')))"

definition user_info :: "url \<Rightarrow> string option \<times> string option" where
  "user_info u =
     (let (info, have, _) = rpartition_at (CHR ''@'') (u_netloc u);
          (name, have_pw, pw) = partition_at (CHR '':'') info
      in if have then (Some name, if have_pw then Some pw else None) else (None, None))"

definition urlunsplit_simple :: "string \<Rightarrow> string \<Rightarrow> string \<Rightarrow> string" where
  "urlunsplit_simple scheme netloc path =
     (let p = (if path \<noteq> [] \<and> take 1 path \<noteq> ''/'' then ''/'' @ path else path);
          body = (if netloc \<noteq> [] then ''//'' @ netloc @ p else path)
      in if scheme \<noteq> [] then scheme @ '':'' @ body else body)"

end
