(* ===== verification/MasterTypes.thy ===== *)
theory MasterTypes
  imports ProviderBase Url
begin

text \<open>
  \<open>app/master/types.py\<close> and \<open>app/master/routing.py\<close>: a node as the Master panel describes it, the
  mutation ASO sends for it, the snapshot kept for a rollback, and the routes to the panel. Decoding
  fails where Python's would: \<open>KeyError\<close> for a missing \<open>id\<close>, \<open>TypeError\<close> or \<open>ValueError\<close> for a
  value \<open>int()\<close> refuses.
\<close>

section \<open>Nodes and mutations\<close>

record master_node =
  mn_id :: int
  mn_name :: string
  mn_remark :: string
  mn_scheme :: string
  mn_address :: string
  mn_port :: int
  mn_base_path :: string
  mn_has_api_token :: bool
  mn_enable :: bool
  mn_allow_private_address :: bool
  mn_tls_verify_mode :: string
  mn_pinned_cert_sha256 :: string
  mn_inbound_sync_mode :: string
  mn_inbound_tags :: "string list"
  mn_outbound_tag :: string
  mn_guid :: string
  mn_status :: string
  mn_xray_state :: string
  mn_transitive :: bool

record mutation =
  mm_name :: string
  mm_remark :: string
  mm_scheme :: string
  mm_address :: string
  mm_port :: int
  mm_base_path :: string
  mm_api_token :: "string option"
  mm_clear_api_token :: bool
  mm_enable :: bool
  mm_allow_private_address :: bool
  mm_tls_verify_mode :: string
  mm_pinned_cert_sha256 :: string
  mm_inbound_sync_mode :: string
  mm_inbound_tags :: "string list"
  mm_outbound_tag :: string

definition int_of :: "json \<Rightarrow> exn + int" where
  "int_of v =
     (case py_int v of
        Inr i \<Rightarrow> Inr i
      | Inl True \<Rightarrow> Inl (Exn TypeError ''int() argument'')
      | Inl False \<Rightarrow> Inl (Exn ValueError ''invalid literal for int()''))"

definition or_zero :: "json \<Rightarrow> json" where
  "or_zero v = (if truthy v then v else JInt 0)"

text \<open>\<open>tuple(str(item) for item in (v or []))\<close>.\<close>

definition str_items :: "(json \<Rightarrow> string) \<Rightarrow> json \<Rightarrow> exn + string list" where
  "str_items repr v =
     (if \<not> truthy v then Inr []
      else (case v of
          JList xs \<Rightarrow> Inr (map (py_str repr) xs)
        | JStr s \<Rightarrow> Inr (map (\<lambda>c. [c]) s)
        | JObj fs \<Rightarrow> Inr (map fst fs)
        | _ \<Rightarrow> Inl (Exn TypeError ''not iterable'')))"

definition node_from_payload ::
    "(json \<Rightarrow> string) \<Rightarrow> (string \<times> json) list \<Rightarrow> exn + master_node" where
  "node_from_payload repr fs =
     (case map_of fs ''id'' of
        None \<Rightarrow> Inl (Exn KeyError ''id'')
      | Some idv \<Rightarrow> (case int_of idv of
          Inl x \<Rightarrow> Inl x
        | Inr i \<Rightarrow> (case int_of (or_zero (jget fs ''port'')) of
            Inl x \<Rightarrow> Inl x
          | Inr port \<Rightarrow> (case str_items repr (jget fs ''inboundTags'') of
              Inl x \<Rightarrow> Inl x
            | Inr tags \<Rightarrow>
                Inr \<lparr>mn_id = i,
                  mn_name = str_or repr (jget fs ''name'') [],
                  mn_remark = str_or repr (jget fs ''remark'') [],
                  mn_scheme = str_or repr (jget fs ''scheme'') ''http'',
                  mn_address = str_or repr (jget fs ''address'') [],
                  mn_port = port,
                  mn_base_path = str_or repr (jget fs ''basePath'') [],
                  mn_has_api_token = truthy (jget fs ''hasApiToken''),
                  mn_enable = truthy (jget_default fs ''enable'' (JBool True)),
                  mn_allow_private_address = truthy (jget_default fs ''allowPrivateAddress'' (JBool False)),
                  mn_tls_verify_mode = str_or repr (jget fs ''tlsVerifyMode'') ''verify'',
                  mn_pinned_cert_sha256 = str_or repr (jget fs ''pinnedCertSha256'') [],
                  mn_inbound_sync_mode = str_or repr (jget fs ''inboundSyncMode'') ''all'',
                  mn_inbound_tags = tags,
                  mn_outbound_tag = str_or repr (jget fs ''outboundTag'') [],
                  mn_guid = str_or repr (jget fs ''guid'') [],
                  mn_status = str_or repr (jget fs ''status'') [],
                  mn_xray_state = str_or repr (jget fs ''xrayState'') [],
                  mn_transitive = truthy (jget_default fs ''transitive'' (JBool False))\<rparr>))))"

definition safe_snapshot :: "master_node \<Rightarrow> json" where
  "safe_snapshot n =
     JObj [(''id'', JInt (mn_id n)), (''name'', JStr (mn_name n)), (''remark'', JStr (mn_remark n)),
       (''scheme'', JStr (mn_scheme n)), (''address'', JStr (mn_address n)),
       (''port'', JInt (mn_port n)), (''basePath'', JStr (mn_base_path n)),
       (''hasApiToken'', JBool (mn_has_api_token n)), (''enable'', JBool (mn_enable n)),
       (''allowPrivateAddress'', JBool (mn_allow_private_address n)),
       (''tlsVerifyMode'', JStr (mn_tls_verify_mode n)),
       (''pinnedCertSha256'', JStr (mn_pinned_cert_sha256 n)),
       (''inboundSyncMode'', JStr (mn_inbound_sync_mode n)),
       (''inboundTags'', JList (map JStr (mn_inbound_tags n))),
       (''outboundTag'', JStr (mn_outbound_tag n)), (''guid'', JStr (mn_guid n)),
       (''status'', JStr (mn_status n)), (''xrayState'', JStr (mn_xray_state n)),
       (''transitive'', JBool (mn_transitive n))]"

definition mutation_from_existing ::
    "master_node \<Rightarrow> string \<Rightarrow> string \<Rightarrow> int \<Rightarrow> string \<Rightarrow> string option \<Rightarrow> exn + mutation" where
  "mutation_from_existing n scheme address port base_path token =
     (if mn_transitive n then
        Inl (Exn ValueError ''transitive 3X-UI nodes are read-only and cannot be replaced'')
      else Inr \<lparr>mm_name = mn_name n, mm_remark = mn_remark n, mm_scheme = scheme, mm_address = address,
        mm_port = port, mm_base_path = base_path, mm_api_token = token, mm_clear_api_token = False,
        mm_enable = mn_enable n, mm_allow_private_address = mn_allow_private_address n,
        mm_tls_verify_mode = (if scheme \<noteq> ''https'' then ''verify'' else mn_tls_verify_mode n),
        mm_pinned_cert_sha256 = (if scheme \<noteq> ''https'' then [] else mn_pinned_cert_sha256 n),
        mm_inbound_sync_mode = mn_inbound_sync_mode n, mm_inbound_tags = mn_inbound_tags n,
        mm_outbound_tag = mn_outbound_tag n\<rparr>)"

definition mutation_from_snapshot ::
    "(json \<Rightarrow> string) \<Rightarrow> (string \<times> json) list \<Rightarrow> string option \<Rightarrow> exn + mutation" where
  "mutation_from_snapshot repr fs token =
     (case int_of (or_zero (jget fs ''port'')) of
        Inl x \<Rightarrow> Inl x
      | Inr port \<Rightarrow> (case str_items repr (jget fs ''inboundTags'') of
          Inl x \<Rightarrow> Inl x
        | Inr tags \<Rightarrow>
            Inr \<lparr>mm_name = str_or repr (jget fs ''name'') [],
              mm_remark = str_or repr (jget fs ''remark'') [],
              mm_scheme = str_or repr (jget fs ''scheme'') ''http'',
              mm_address = str_or repr (jget fs ''address'') [],
              mm_port = port,
              mm_base_path = str_or repr (jget fs ''basePath'') [],
              mm_api_token = token,
              mm_clear_api_token = False,
              mm_enable = truthy (jget_default fs ''enable'' (JBool True)),
              mm_allow_private_address = truthy (jget_default fs ''allowPrivateAddress'' (JBool False)),
              mm_tls_verify_mode = str_or repr (jget fs ''tlsVerifyMode'') ''verify'',
              mm_pinned_cert_sha256 = str_or repr (jget fs ''pinnedCertSha256'') [],
              mm_inbound_sync_mode = str_or repr (jget fs ''inboundSyncMode'') ''all'',
              mm_inbound_tags = tags,
              mm_outbound_tag = str_or repr (jget fs ''outboundTag'') []\<rparr>))"

definition as_payload :: "mutation \<Rightarrow> json" where
  "as_payload m =
     JObj ([(''name'', JStr (mm_name m)), (''remark'', JStr (mm_remark m)),
       (''scheme'', JStr (mm_scheme m)), (''address'', JStr (mm_address m)),
       (''port'', JInt (mm_port m)), (''basePath'', JStr (mm_base_path m)),
       (''enable'', JBool (mm_enable m)), (''allowPrivateAddress'', JBool (mm_allow_private_address m)),
       (''tlsVerifyMode'', JStr (mm_tls_verify_mode m)),
       (''pinnedCertSha256'', JStr (mm_pinned_cert_sha256 m)),
       (''inboundSyncMode'', JStr (mm_inbound_sync_mode m)),
       (''inboundTags'', JList (map JStr (mm_inbound_tags m))),
       (''outboundTag'', JStr (mm_outbound_tag m))] @
       (case mm_api_token m of None \<Rightarrow> [] | Some t \<Rightarrow> [(''apiToken'', JStr t)]) @
       (if mm_clear_api_token m then [(''clearApiToken'', JBool True)] else []))"

section \<open>Routes\<close>

record master_route =
  mr_base_url :: string
  mr_host_header :: "string option"
  mr_label :: string

definition truthy_text :: "string option \<Rightarrow> bool" where
  "truthy_text v \<longleftrightarrow> (case v of None \<Rightarrow> False | Some s \<Rightarrow> s \<noteq> [])"

definition normalize_master_base_url :: "string \<Rightarrow> exn + string" where
  "normalize_master_base_url value =
     (let text = rstrip_chr (CHR ''/'') (strip value) in
      if text = [] then Inl (Exn ValueError ''master 3X-UI base URL cannot be blank'')
      else (case urlsplit text of
          Inl x \<Rightarrow> Inl x
        | Inr u \<Rightarrow>
            (if u_scheme u \<notin> {''http'', ''https''} then
               Inl (Exn ValueError ''master 3X-UI base URL must use http or https'')
             else if url_hostname u = None then
               Inl (Exn ValueError ''master 3X-UI base URL must include a hostname'')
             else if truthy_text (fst (user_info u)) \<or> truthy_text (snd (user_info u)) then
               Inl (Exn ValueError ''master 3X-UI base URL must not contain credentials'')
             else if u_query u \<noteq> [] \<or> u_fragment u \<noteq> [] then
               Inl (Exn ValueError ''master 3X-UI base URL must not contain query/fragment components'')
             else Inr text)))"

definition derive_local_host_base_url :: "string \<Rightarrow> exn + string" where
  "derive_local_host_base_url base =
     (case normalize_master_base_url base of
        Inl x \<Rightarrow> Inl x
      | Inr canonical \<Rightarrow> (case urlsplit canonical of
          Inl x \<Rightarrow> Inl x
        | Inr u \<Rightarrow> (case url_port u of
            Inl x \<Rightarrow> Inl x
          | Inr port \<Rightarrow>
              Inr (rstrip_chr (CHR ''/'') (urlunsplit_simple (u_scheme u)
                (''host.docker.internal'' @ (case port of None \<Rightarrow> [] | Some p \<Rightarrow> '':'' @ show_int p))
                (u_path u))))))"

definition original_host_header :: "string \<Rightarrow> exn + string" where
  "original_host_header base =
     (case normalize_master_base_url base of
        Inl x \<Rightarrow> Inl x
      | Inr canonical \<Rightarrow> (case urlsplit canonical of
          Inl x \<Rightarrow> Inl x
        | Inr u \<Rightarrow> (case url_port u of
            Inl x \<Rightarrow> Inl x
          | Inr port \<Rightarrow>
              (let host = (case url_hostname u of None \<Rightarrow> [] | Some h \<Rightarrow> h);
                   default_port = (if u_scheme u = ''https'' then 443 else 80)
               in Inr (case port of
                   Some p \<Rightarrow> if p \<noteq> default_port then host @ '':'' @ show_int p else host
                 | None \<Rightarrow> host)))))"

definition build_master_routes ::
    "string \<Rightarrow> string \<Rightarrow> string option \<Rightarrow> exn + master_route list" where
  "build_master_routes base mode local_base =
     (case normalize_master_base_url base of
        Inl x \<Rightarrow> Inl x
      | Inr canonical \<Rightarrow>
          (case (case local_base of
              Some l \<Rightarrow> if l \<noteq> [] then normalize_master_base_url l else derive_local_host_base_url canonical
            | None \<Rightarrow> derive_local_host_base_url canonical) of
             Inl x \<Rightarrow> Inl x
           | Inr loc \<Rightarrow> (case original_host_header canonical of
               Inl x \<Rightarrow> Inl x
             | Inr header \<Rightarrow>
                 (let remote_route = \<lparr>mr_base_url = canonical, mr_host_header = None, mr_label = ''remote''\<rparr>;
                      local_route = \<lparr>mr_base_url = loc, mr_host_header = Some header,
                        mr_label = ''local-host''\<rparr>
                  in if mode = ''remote'' then Inr [remote_route]
                     else if mode = ''local-host'' then Inr [local_route]
                     else if mode = ''auto'' then
                       (if canonical = loc then Inr [remote_route] else Inr [remote_route, local_route])
                     else Inl (Exn ValueError (''unsupported master connection mode: '' @ mode))))))"

section \<open>Round trips\<close>

lemma str_items_JStr: "str_items repr (JList (map JStr xs)) = Inr xs"
  by (cases xs) (simp_all add: str_items_def comp_def)

lemma str_or_JStr: "str_or repr (JStr s) d = (if s = [] then d else s)"
  by (simp add: str_or_def)

lemma int_of_or_zero: "int_of (or_zero (JInt i)) = Inr i"
  by (cases "i = 0") (simp_all add: int_of_def or_zero_def)

end
