(* ===== verification/Master.thy ===== *)
theory Master
  imports MasterTypes
begin

text \<open>
  \<open>app/master/client.py\<close> and \<open>app/master/factory.py\<close>: the client of the Master panel, with its route
  selection, the transport fallback of the \<open>auto\<close> mode, authentication, and the verification of a
  node. The mutable fields of the client are the record \<open>master_state\<close> of the world. A time-out or
  network error of httpx is the exception \<open>TransportError\<close> until the client turns it into
  \<open>MasterTransientError\<close>.
\<close>

section \<open>Configuration\<close>

record master_conf =
  mc_routes :: "master_route list"
  mc_mode :: string
  mc_api_token :: "string option"
  mc_username :: "string option"
  mc_password :: "string option"

definition make_master ::
    "string \<Rightarrow> string \<Rightarrow> string option \<Rightarrow> string option \<Rightarrow> string option \<Rightarrow> string option \<Rightarrow> exn + master_conf" where
  "make_master base mode local_base token username password =
     (case build_master_routes base mode local_base of
        Inl x \<Rightarrow> Inl x
      | Inr routes \<Rightarrow> Inr \<lparr>mc_routes = routes, mc_mode = mode, mc_api_token = token,
          mc_username = username, mc_password = password\<rparr>)"

definition master_factory_create :: "settings \<Rightarrow> exn + master_conf" where
  "master_factory_create s =
     (case master_3xui_base_url s of
        None \<Rightarrow> Inl (Exn ConfigurationError ''ASO_MASTER_3XUI_BASE_URL is required'')
      | Some base \<Rightarrow>
          (if base = [] then Inl (Exn ConfigurationError ''ASO_MASTER_3XUI_BASE_URL is required'')
           else if master_3xui_api_token s = None \<and>
             (\<not> truthy_text (master_3xui_username s) \<or> master_3xui_password s = None) then
             Inl (Exn ConfigurationError
               ''configure ASO_MASTER_3XUI_API_TOKEN or master username/password'')
           else make_master base (master_3xui_connection_mode s) (master_3xui_local_base_url s)
             (master_3xui_api_token s) (master_3xui_username s) (master_3xui_password s)))"

text \<open>The client of the composition root (\<open>app/runtime.py\<close>): a placeholder on a dry-run host.\<close>

definition runtime_master :: "settings \<Rightarrow> exn + master_conf" where
  "runtime_master s =
     (if truthy_text (master_3xui_base_url s) then master_factory_create s
      else if dry_run s then
        make_master ''https://dry-run.invalid'' ''remote'' None (Some ''dry-run-placeholder'') None None
      else Inl (Exn ValueError ''Master 3X-UI configuration is required outside DRY_RUN''))"

definition master_conf_of :: "master_conf act" where
  "master_conf_of = bind settings_of (\<lambda>s. lift (runtime_master s))"

definition get_master :: "master_state act" where
  "get_master e w = (Inr (w_master w), w)"

definition mod_master :: "(master_state \<Rightarrow> master_state) \<Rightarrow> unit act" where
  "mod_master f e w = (Inr (), w\<lparr>w_master := f (w_master w)\<rparr>)"

definition route_at :: "master_conf \<Rightarrow> nat \<Rightarrow> master_route" where
  "route_at c n =
     (if n < length (mc_routes c) then mc_routes c ! n
      else \<lparr>mr_base_url = [], mr_host_header = None, mr_label = []\<rparr>)"

section \<open>Routes\<close>

definition request_route ::
    "master_route \<Rightarrow> string \<Rightarrow> string \<Rightarrow> json option \<Rightarrow> (string \<times> string) list \<Rightarrow> (int \<times> http_body) act" where
  "request_route r verb path body headers =
     bind (http \<lparr>hr_method = verb, hr_url = mr_base_url r @ path, hr_params = [],
       hr_headers = headers @ (case mr_host_header r of None \<Rightarrow> []
         | Some h \<Rightarrow> if h = [] then [] else [(''Host'', h)]), hr_body = body\<rparr>) (\<lambda>out.
     case out of
       HttpTransport s \<Rightarrow> raise TransportError s
     | HttpRaise _ s \<Rightarrow> raise OtherError s
     | HttpResp n b \<Rightarrow> ret (n, b))"

text \<open>\<open>_probe_tcp_route\<close>; an unusable port of the URL raises, as the attribute does.\<close>

definition probe_tcp_route :: "master_route \<Rightarrow> bool act" where
  "probe_tcp_route r =
     bind (lift (urlsplit (mr_base_url r))) (\<lambda>u.
     case url_hostname u of
       None \<Rightarrow> ret False
     | Some h \<Rightarrow> bind (lift (url_port u)) (\<lambda>p.
         tcp_probe h (case p of
             Some n \<Rightarrow> if n \<noteq> 0 then n else if u_scheme u = ''https'' then 443 else 80
           | None \<Rightarrow> if u_scheme u = ''https'' then 443 else 80)))"

definition select_auto_route :: "master_conf \<Rightarrow> unit act" where
  "select_auto_route c =
     bind get_master (\<lambda>ms.
     if ms_route_selected ms \<or> mc_mode c \<noteq> ''auto'' then ret ()
     else andthen (mod_master (\<lambda>m. m\<lparr>ms_route_selected := True\<rparr>))
       (if length (mc_routes c) < 2 then ret ()
        else bind (probe_tcp_route (route_at c 0)) (\<lambda>up.
          if up then mod_master (\<lambda>m. m\<lparr>ms_active_route := 0\<rparr>)
          else bind (probe_tcp_route (route_at c 1)) (\<lambda>up'.
            if up' then mod_master (\<lambda>m. m\<lparr>ms_active_route := 1\<rparr>)
            else mod_master (\<lambda>m. m\<lparr>ms_active_route := 0\<rparr>)))))"

text \<open>The classification of a status, shared by the two places that have it.\<close>

definition check_status :: "int \<Rightarrow> exn + unit" where
  "check_status n =
     (if n = 401 \<or> n = 403 then
        Inl (Exn MasterAuthenticationError ''master 3X-UI authentication failed'')
      else if n \<ge> 500 then Inl (Exn MasterTransientError (''master 3X-UI HTTP '' @ show_int n))
      else if n \<ge> 400 then Inl (Exn Master3XUiError (''master 3X-UI HTTP '' @ show_int n))
      else Inr ())"

definition decode_body :: "http_body \<Rightarrow> exn + json" where
  "decode_body b =
     (case b of JsonBody v \<Rightarrow> Inr v
      | _ \<Rightarrow> Inl (Exn Master3XUiError ''master 3X-UI returned invalid JSON''))"

definition master_msg :: "(string \<times> json) list \<Rightarrow> string \<Rightarrow> string act" where
  "master_msg fs d = bind (ask_env env_repr) (\<lambda>repr. ret (str_or repr (jget fs ''msg'') d))"

definition verify_local_route :: "master_route \<Rightarrow> (string \<times> string) list \<Rightarrow> unit act" where
  "verify_local_route r headers =
     bind (request_route r ''GET'' ''/panel/api/nodes/list'' None headers) (\<lambda>(n, b).
     andthen (lift (check_status n))
     (bind (lift (decode_body b)) (\<lambda>payload.
     andthen (case payload of
         JObj fs \<Rightarrow> (if jget fs ''success'' \<noteq> JBool True then
             bind (master_msg fs ''master API request failed'') (raise Master3XUiError)
           else ret ())
       | _ \<Rightarrow> ret ())
     (mod_master (\<lambda>m. m\<lparr>ms_local_verified := True\<rparr>)))))"

text \<open>
  The first route, and for a transport failure of it in \<open>auto\<close> mode the next one. The check of a
  local route before the first attempt stands outside the \<open>try\<close>, so its transport failures are not
  translated.
\<close>

definition fallback_request ::
    "master_conf \<Rightarrow> string \<Rightarrow> string \<Rightarrow> json option \<Rightarrow> (string \<times> string) list \<Rightarrow> bool \<Rightarrow> (int \<times> http_body) act" where
  "fallback_request c verb path body headers authenticated =
     bind get_master (\<lambda>ms.
     let next_index = Suc (ms_active_route ms) in
     if mc_mode c \<noteq> ''auto'' \<or> length (mc_routes c) \<le> next_index then
       raise MasterTransientError ''master 3X-UI network request failed''
     else
       bind (catch [TransportError]
           (andthen (whenM (authenticated \<and> \<not> ms_local_verified ms \<and> verb \<noteq> ''GET'')
               (verify_local_route (route_at c next_index) headers))
             (request_route (route_at c next_index) verb path body headers))
           (\<lambda>_. raise MasterTransientError ''master 3X-UI network request failed'')) (\<lambda>r.
       andthen (mod_master (\<lambda>m. m\<lparr>ms_active_route := next_index\<rparr>)) (ret r)))"

definition raw_request :: "string \<Rightarrow> string \<Rightarrow> json option \<Rightarrow> bool \<Rightarrow> json act" where
  "raw_request verb path body authenticated =
     bind master_conf_of (\<lambda>c.
     andthen (select_auto_route c)
     (bind get_master (\<lambda>ms.
     let headers = (case mc_api_token c of
           Some t \<Rightarrow> if authenticated then [(''Authorization'', ''Bearer '' @ t)] else []
         | None \<Rightarrow> []);
       route = route_at c (ms_active_route ms) in
     andthen (whenM (mr_label route = ''local-host'' \<and> authenticated \<and> \<not> ms_local_verified ms \<and>
         verb \<noteq> ''GET'') (verify_local_route route headers))
     (bind (catch [TransportError] (request_route route verb path body headers)
         (\<lambda>_. fallback_request c verb path body headers authenticated)) (\<lambda>(n, b).
     andthen (lift (check_status n))
     (bind (lift (decode_body b)) (\<lambda>payload.
     bind get_master (\<lambda>ms'.
     andthen (whenM (mr_label (route_at c (ms_active_route ms')) = ''local-host'' \<and> authenticated \<and>
         verb = ''GET'') (mod_master (\<lambda>m. m\<lparr>ms_local_verified := True\<rparr>)))
     (ret payload)))))))))"

definition authenticate :: "unit act" where
  "authenticate =
     bind master_conf_of (\<lambda>c.
     if mc_api_token c \<noteq> None then mod_master (\<lambda>m. m\<lparr>ms_authenticated := True\<rparr>)
     else (case (mc_username c, mc_password c) of
         (Some u, Some p) \<Rightarrow>
           (if u = [] then raise MasterAuthenticationError
              ''master authentication requires API token or username/password''
            else
              bind (raw_request ''POST'' ''/login''
                (Some (JObj [(''username'', JStr u), (''password'', JStr p)])) False) (\<lambda>payload.
              andthen (case payload of
                  JObj fs \<Rightarrow> (if jget fs ''success'' = JBool False then
                      bind (master_msg fs ''master login failed'') (raise MasterAuthenticationError)
                    else ret ())
                | _ \<Rightarrow> ret ())
              (mod_master (\<lambda>m. m\<lparr>ms_authenticated := True\<rparr>))))
       | _ \<Rightarrow> raise MasterAuthenticationError
           ''master authentication requires API token or username/password''))"

definition request_obj :: "string \<Rightarrow> string \<Rightarrow> json option \<Rightarrow> json act" where
  "request_obj verb path body =
     bind get_master (\<lambda>ms.
     andthen (whenM (\<not> ms_authenticated ms) authenticate)
     (bind (raw_request verb path body True) (\<lambda>payload.
     case payload of
       JObj fs \<Rightarrow>
         (case map_of fs ''success'' of
            None \<Rightarrow> ret payload
          | Some v \<Rightarrow> (if v \<noteq> JBool True then
                bind (master_msg fs ''master API request failed'') (raise Master3XUiError)
              else ret (jget fs ''obj'')))
     | _ \<Rightarrow> ret payload)))"

section \<open>Operations\<close>

definition decode_node :: "(string \<times> json) list \<Rightarrow> master_node act" where
  "decode_node fs = bind (ask_env env_repr) (\<lambda>repr. lift (node_from_payload repr fs))"

definition master_list_nodes :: "master_node list act" where
  "master_list_nodes =
     bind (request_obj ''GET'' ''/panel/api/nodes/list'' None) (\<lambda>obj.
     case obj of
       JList xs \<Rightarrow> mapM decode_node (List.map_filter (\<lambda>x. case x of JObj fs \<Rightarrow> Some fs | _ \<Rightarrow> None) xs)
     | _ \<Rightarrow> raise Master3XUiError ''master node list response is not an array'')"

definition master_get_node :: "int \<Rightarrow> master_node act" where
  "master_get_node i =
     bind (request_obj ''GET'' (''/panel/api/nodes/get/'' @ show_int i) None) (\<lambda>obj.
     case obj of
       JObj fs \<Rightarrow> decode_node fs
     | _ \<Rightarrow> raise Master3XUiError ''master node response is not an object'')"

definition obj_or_value :: "json \<Rightarrow> (string \<times> json) list" where
  "obj_or_value v = (case v of JObj fs \<Rightarrow> fs | _ \<Rightarrow> [(''value'', v)])"

definition master_test_node :: "mutation \<Rightarrow> (string \<times> json) list act" where
  "master_test_node m =
     bind (request_obj ''POST'' ''/panel/api/nodes/test'' (Some (as_payload m))) (\<lambda>obj.
       ret (obj_or_value obj))"

definition master_update_node :: "int \<Rightarrow> mutation \<Rightarrow> master_node act" where
  "master_update_node i m =
     andthen (request_obj ''POST'' (''/panel/api/nodes/update/'' @ show_int i) (Some (as_payload m)))
       (master_get_node i)"

definition master_probe_node :: "int \<Rightarrow> (string \<times> json) list act" where
  "master_probe_node i =
     bind (request_obj ''POST'' (''/panel/api/nodes/probe/'' @ show_int i) None) (\<lambda>obj.
       ret (obj_or_value obj))"

definition fingerprint_of :: "(json \<Rightarrow> string) \<Rightarrow> json \<Rightarrow> string option" where
  "fingerprint_of repr obj =
     (case obj of
        JStr s \<Rightarrow> Some s
      | JObj fs \<Rightarrow> map_option (\<lambda>k. py_str repr (jget fs k))
          (find (\<lambda>k. truthy (jget fs k)) [''fingerprint'', ''sha256'', ''certFingerprint''])
      | _ \<Rightarrow> None)"

definition certificate_fingerprint :: "mutation \<Rightarrow> string act" where
  "certificate_fingerprint m =
     bind (request_obj ''POST'' ''/panel/api/nodes/certFingerprint'' (Some (as_payload m))) (\<lambda>obj.
     bind (ask_env env_repr) (\<lambda>repr.
       require_some (fingerprint_of repr obj) Master3XUiError
         ''master certificate fingerprint response did not contain a fingerprint''))"

text \<open>The mismatches of \<open>verify_node\<close>, in its order.\<close>

definition mismatch :: "(json \<Rightarrow> string) \<Rightarrow> string \<Rightarrow> json \<Rightarrow> json \<Rightarrow> string list" where
  "mismatch repr field actual wanted =
     (if actual \<noteq> wanted then [field @ ''='' @ repr actual @ '', expected '' @ repr wanted] else [])"

definition probe_text :: "(json \<Rightarrow> string) \<Rightarrow> json \<Rightarrow> string \<Rightarrow> string" where
  "probe_text repr v d = lower (str_or repr v d)"

definition node_mismatches ::
    "(json \<Rightarrow> string) \<Rightarrow> (string \<times> json) list \<Rightarrow> master_node \<Rightarrow> mutation \<Rightarrow> string list" where
  "node_mismatches repr probe node m =
     (let status = probe_text repr (jget probe ''status'') (mn_status node);
          xray = probe_text repr (jget probe ''xrayState'') (mn_xray_state node) in
      mismatch repr ''scheme'' (JStr (mn_scheme node)) (JStr (mm_scheme m)) @
      mismatch repr ''address'' (JStr (mn_address node)) (JStr (mm_address m)) @
      mismatch repr ''port'' (JInt (mn_port node)) (JInt (mm_port m)) @
      mismatch repr ''basePath'' (JStr (mn_base_path node)) (JStr (mm_base_path m)) @
      mismatch repr ''enable'' (JBool (mn_enable node)) (JBool (mm_enable m)) @
      mismatch repr ''tlsVerifyMode'' (JStr (mn_tls_verify_mode node)) (JStr (mm_tls_verify_mode m)) @
      mismatch repr ''pinnedCertSha256'' (JStr (mn_pinned_cert_sha256 node))
        (JStr (mm_pinned_cert_sha256 m)) @
      (if mm_api_token m \<noteq> None \<and> \<not> mn_has_api_token node then [''hasApiToken=false''] else []) @
      (if status \<noteq> [] \<and> status \<noteq> ''online'' then [''status='' @ repr (JStr status)] else []) @
      (if xray \<noteq> [] \<and> xray \<noteq> ''running'' then [''xrayState='' @ repr (JStr xray)] else []))"

definition master_verify_node :: "int \<Rightarrow> mutation \<Rightarrow> master_node act" where
  "master_verify_node i m =
     bind (master_probe_node i) (\<lambda>probe.
     bind (master_get_node i) (\<lambda>node.
     bind (ask_env env_repr) (\<lambda>repr.
     case node_mismatches repr probe node m of
       [] \<Rightarrow> ret node
     | ms \<Rightarrow> raise MasterNodeVerificationError
         (''master node verification failed: '' @ join_with ''; '' ms))))"

section \<open>What the client calls\<close>

definition panel_call :: "ext \<Rightarrow> bool" where
  "panel_call x \<longleftrightarrow> (case x of
       ExtHttp r \<Rightarrow> hr_method r = ''GET'' \<or> hr_method r = ''POST''
     | ExtTcp _ _ \<Rightarrow> True | ExtSsh _ _ \<Rightarrow> False)"

lemma calls_only_master [keeps]: "calls_only R get_master" "calls_only R (mod_master f)"
  by (simp_all add: calls_only_def keeps_def net_def get_master_def mod_master_def)

lemma calls_only_conf [keeps]: "calls_only R master_conf_of"
  by (simp add: master_conf_of_def keeps)

lemma calls_only_case_pair [keeps]:
  "(\<And>a b. calls_only R (f a b)) \<Longrightarrow> calls_only R (case p of (a, b) \<Rightarrow> f a b)"
  by (cases p) simp

lemma calls_only_case_json_obj [keeps]:
  "(\<And>fs. calls_only R (f fs)) \<Longrightarrow> (\<And>u. calls_only R (g u)) \<Longrightarrow>
   calls_only R (case v of JObj fs \<Rightarrow> f fs | _ \<Rightarrow> g v)"
  by (cases v) simp_all

lemma calls_only_mapM [keeps]: "(\<And>x. calls_only R (f x)) \<Longrightarrow> calls_only R (mapM f xs)"
  by (simp add: calls_only_def keeps_mapM)

lemma request_route_calls [keeps]:
  "verb = ''GET'' \<or> verb = ''POST'' \<Longrightarrow> calls_only panel_call (request_route r verb path body h)"
  by (auto simp: request_route_def panel_call_def intro!: keeps split: http_outcome.splits)

lemma master_msg_calls [keeps]: "calls_only R (master_msg fs d)"
  by (simp add: master_msg_def keeps)

lemma verify_local_calls [keeps]: "calls_only panel_call (verify_local_route r h)"
  by (auto simp: verify_local_route_def intro!: keeps split: json.splits)

lemma probe_tcp_calls [keeps]: "calls_only panel_call (probe_tcp_route r)"
  by (simp add: probe_tcp_route_def keeps panel_call_def)

lemma raw_request_calls [keeps]:
  "verb = ''GET'' \<or> verb = ''POST'' \<Longrightarrow> calls_only panel_call (raw_request verb path body a)"
  by (auto simp: raw_request_def select_auto_route_def fallback_request_def Let_def intro!: keeps)

lemma authenticate_calls [keeps]: "calls_only panel_call authenticate"
  by (auto simp: authenticate_def intro!: keeps split: option.splits json.splits)

lemma request_obj_calls [keeps]:
  "verb = ''GET'' \<or> verb = ''POST'' \<Longrightarrow> calls_only panel_call (request_obj verb path body)"
  by (auto simp: request_obj_def intro!: keeps split: option.splits json.splits)

lemma decode_node_calls [keeps]: "calls_only R (decode_node fs)"
  by (simp add: decode_node_def keeps)

lemma master_get_node_calls [keeps]: "calls_only panel_call (master_get_node i)"
  by (auto simp: master_get_node_def intro!: keeps split: json.splits)

lemma master_ops_calls [keeps]:
  "calls_only panel_call (master_test_node m)" "calls_only panel_call (master_update_node i m)"
  "calls_only panel_call (certificate_fingerprint m)" "calls_only panel_call (master_probe_node i)"
  by (simp_all add: master_test_node_def master_update_node_def certificate_fingerprint_def
      master_probe_node_def keeps)

lemma master_verify_node_calls [keeps]: "calls_only panel_call (master_verify_node i m)"
  by (auto simp: master_verify_node_def intro!: keeps)

lemma panel_call_no_delete: "panel_call x \<Longrightarrow> \<not> is_delete x"
  by (auto simp: panel_call_def is_delete_def split: ext.splits)

end
