(* ===== verification/CheckHost.thy ===== *)
theory CheckHost
  imports Health Master
begin

text \<open>
  \<open>app/monitoring/check_host.py\<close>, the client of the Check-Host service, and
  \<open>app/replacement/reachability.py\<close>, which checks a candidate address with it. The polling loop runs
  on fuel: \<open>poll_fuel\<close> is enough when a sleep lasts as long as it was asked to.
\<close>

record check_request =
  rq_id :: string
  rq_link :: "string option"
  rq_nodes :: "string list"
  rq_target :: string

definition check_host_get :: "string \<Rightarrow> (string \<times> string) list \<Rightarrow> (string \<times> json) list act" where
  "check_host_get path params =
     bind settings_of (\<lambda>s.
     bind (http \<lparr>hr_method = ''GET'', hr_url = rstrip_chr (CHR ''/'') (check_host_base_url s) @ path,
       hr_params = params,
       hr_headers = [(''Accept'', ''application/json''), (''Accept'', ''application/json'')],
       hr_body = None\<rparr>) (\<lambda>out.
     let failed = (\<lambda>name. raise CheckHostError (''Check-Host request failed: '' @ name)) in
     case out of
       HttpTransport name \<Rightarrow> failed name
     | HttpRaise name _ \<Rightarrow> failed name
     | HttpResp n b \<Rightarrow>
         (if n < 200 \<or> 300 \<le> n then failed ''HTTPStatusError''
          else (case b of
              JsonBody (JObj fs) \<Rightarrow> ret fs
            | JsonBody _ \<Rightarrow> raise CheckHostError ''Check-Host response was not a JSON object''
            | _ \<Rightarrow> failed ''JSONDecodeError''))))"

definition node_country :: "(json \<Rightarrow> string) \<Rightarrow> (string \<times> json) list \<Rightarrow> string option" where
  "node_country repr details =
     (case jget details ''location'' of JList (x # _) \<Rightarrow> Some (lower (py_str repr x)) | _ \<Rightarrow> None)"

definition select_nodes ::
    "(json \<Rightarrow> string) \<Rightarrow> string option \<Rightarrow> string list \<Rightarrow> (string \<times> json) list \<Rightarrow> string list" where
  "select_nodes repr country exclude nodes =
     (let excluded = map (\<lambda>c. lower (strip c)) (filter (\<lambda>c. strip c \<noteq> []) exclude) in
      sort (List.map_filter (\<lambda>(name, v). case v of
          JObj details \<Rightarrow>
            (let c = node_country repr details in
             if c \<in> Some ` set excluded then None
             else if country = None \<or> c = map_option lower country then Some name else None)
        | _ \<Rightarrow> None) nodes))"

definition list_check_nodes :: "string option \<Rightarrow> string list \<Rightarrow> string list act" where
  "list_check_nodes country exclude =
     bind (check_host_get ''/nodes/hosts'' []) (\<lambda>payload.
     bind (ask_env env_repr) (\<lambda>repr.
     case jget payload ''nodes'' of
       JObj nodes \<Rightarrow> ret (select_nodes repr country exclude nodes)
     | _ \<Rightarrow> raise CheckHostError ''Check-Host nodes response did not contain a nodes mapping''))"

text \<open>\<open>tuple(dict.fromkeys(node.strip() for node in nodes if node.strip()))\<close>.\<close>

definition unique_nodes :: "string list \<Rightarrow> string list" where
  "unique_nodes nodes = rev (remdups (rev (filter (\<lambda>n. n \<noteq> []) (map strip nodes))))"

definition resolve_nodes :: "string list \<Rightarrow> string option \<Rightarrow> int \<Rightarrow> string list \<Rightarrow> string list act" where
  "resolve_nodes configured country max_nodes exclude =
     (if configured \<noteq> [] then
        (if unique_nodes configured = [] then
           raise CheckHostError ''Configured Check-Host node list is empty after normalization''
         else ret (take (nat max_nodes) (unique_nodes configured)))
      else
        bind (list_check_nodes country exclude) (\<lambda>discovered.
        if discovered = [] then
          (case country of
             None \<Rightarrow> raise CheckHostError ''No Check-Host nodes found for the requested node scope''
           | Some c \<Rightarrow> bind (ask_env env_repr) (\<lambda>repr.
               raise CheckHostError (''No Check-Host nodes found for country code '' @ repr (JStr c))))
        else ret (take (nat max_nodes) discovered)))"

definition create_tcp_check :: "string \<Rightarrow> int \<Rightarrow> string list \<Rightarrow> check_request act" where
  "create_tcp_check host0 port nodes =
     (let host = strip host0 in
      if host = [] then raise ValueError ''host must not be blank''
      else if \<not> port_ok port then raise ValueError ''port must be between 1 and 65535''
      else if unique_nodes nodes = [] then raise ValueError ''at least one Check-Host node is required''
      else
        (let target = host @ '':'' @ show_int port in
         bind (check_host_get ''/check-tcp''
           ((''host'', target) # map (\<lambda>n. (''node'', n)) (unique_nodes nodes))) (\<lambda>payload.
         bind (ask_env env_repr) (\<lambda>repr.
         if \<not> json_eq_int (jget payload ''ok'') 1 then
           raise CheckHostError ''Check-Host rejected the TCP check request''
         else if (case jget payload ''request_id'' of JStr _ \<Rightarrow> False | JInt _ \<Rightarrow> False
             | JBool _ \<Rightarrow> False | _ \<Rightarrow> True) then
           raise CheckHostError ''Check-Host response did not contain request_id''
         else (case jget payload ''nodes'' of
             JObj (n # ns) \<Rightarrow>
               ret \<lparr>rq_id = py_str repr (jget payload ''request_id''),
                 rq_link = (if truthy (jget payload ''permanent_link'')
                   then Some (py_str repr (jget payload ''permanent_link'')) else None),
                 rq_nodes = map fst (n # ns), rq_target = target\<rparr>
           | _ \<Rightarrow> raise CheckHostError ''Check-Host response did not contain selected nodes'')))))"

section \<open>Results\<close>

definition entry_success :: "(string \<times> json) list \<Rightarrow> bool" where
  "entry_success fs \<longleftrightarrow> is_number (jget fs ''time'') \<and> map_of fs ''error'' = None"

definition parse_node_result :: "(json \<Rightarrow> string) \<Rightarrow> string \<Rightarrow> json \<Rightarrow> probe_result" where
  "parse_node_result repr node raw =
     (let base = \<lparr>pr_node = node, pr_status = PROBE_MALFORMED, pr_latency = None, pr_address = None,
        pr_error = None\<rparr> in
      case raw of
        JNull \<Rightarrow> base\<lparr>pr_status := PROBE_PENDING\<rparr>
      | JList (x # xs) \<Rightarrow>
          (let entries = List.map_filter (\<lambda>v. case v of JObj fs \<Rightarrow> Some fs | _ \<Rightarrow> None) (x # xs) in
           case find entry_success entries of
             Some fs \<Rightarrow> base\<lparr>pr_status := PROBE_SUCCESS, pr_latency := num_val (jget fs ''time''),
               pr_address := (if truthy (jget fs ''address'')
                 then Some (py_str repr (jget fs ''address'')) else None)\<rparr>
           | None \<Rightarrow> (case find (\<lambda>fs. truthy (jget fs ''error'')) entries of
               Some fs \<Rightarrow> base\<lparr>pr_status := PROBE_FAILURE,
                 pr_error := Some (py_str repr (jget fs ''error''))\<rparr>
             | None \<Rightarrow> base))
      | _ \<Rightarrow> base)"

definition parse_tcp_result ::
    "(json \<Rightarrow> string) \<Rightarrow> check_request \<Rightarrow> (string \<times> json) list \<Rightarrow> check_summary" where
  "parse_tcp_result repr rq payload =
     \<lparr>su_request_id = rq_id rq, su_target = rq_target rq,
      su_probes = map (\<lambda>n. parse_node_result repr n (jget payload n)) (rq_nodes rq)\<rparr>"

definition get_result :: "check_request \<Rightarrow> check_summary act" where
  "get_result rq =
     bind (check_host_get (''/check-result/'' @ rq_id rq) []) (\<lambda>payload.
     bind (ask_env env_repr) (\<lambda>repr. ret (parse_tcp_result repr rq payload)))"

primrec poll_loop :: "nat \<Rightarrow> check_request \<Rightarrow> real \<Rightarrow> real \<Rightarrow> check_summary act" where
  "poll_loop 0 rq deadline interval = reraise (Exn OtherError ''out of fuel'')"
| "poll_loop (Suc k) rq deadline interval =
     bind (get_result rq) (\<lambda>summary.
     if is_complete summary then ret summary
     else bind mono (\<lambda>t.
       if t \<ge> deadline then ret summary
       else andthen (sleep interval) (poll_loop k rq deadline interval)))"

definition poll_fuel :: "real \<Rightarrow> real \<Rightarrow> nat" where
  "poll_fuel timeout interval = nat \<lceil>timeout / interval\<rceil> + 2"

definition poll_result :: "check_request \<Rightarrow> check_summary act" where
  "poll_result rq =
     bind settings_of (\<lambda>s.
     let timeout = check_host_result_timeout_seconds s; interval = check_host_poll_interval_seconds s in
     bind mono (\<lambda>t. poll_loop (poll_fuel timeout interval) rq (t + timeout) interval))"

section \<open>The candidate address\<close>

definition verify_with_nodes ::
    "string \<Rightarrow> string list \<Rightarrow> int \<Rightarrow> (decision \<times> check_summary) act" where
  "verify_with_nodes host nodes min_success =
     bind settings_of (\<lambda>s.
     bind (create_tcp_check host (replacement_ip_check_port s) nodes) (\<lambda>rq.
     bind (poll_result rq) (\<lambda>summary.
     bind (lift (evaluate summary min_success)) (\<lambda>d. ret (d, summary)))))"

definition verify_reachability :: "string \<Rightarrow> (decision \<times> check_summary) act" where
  "verify_reachability host =
     bind settings_of (\<lambda>s.
     bind (resolve_nodes (check_host_nodes s) (Some (check_host_country_code s)) (check_host_max_nodes s) [])
       (\<lambda>nodes. verify_with_nodes host nodes (check_host_min_success_nodes s)))"

definition verify_external :: "string \<Rightarrow> (decision \<times> check_summary) act" where
  "verify_external host =
     bind settings_of (\<lambda>s.
     bind (resolve_nodes [] None (replacement_external_check_max_nodes s) [check_host_country_code s])
       (\<lambda>nodes. verify_with_nodes host nodes (replacement_external_check_min_success_nodes s)))"

section \<open>What the client calls\<close>

definition get_call :: "ext \<Rightarrow> bool" where
  "get_call x \<longleftrightarrow> (case x of ExtHttp r \<Rightarrow> hr_method r = ''GET'' | _ \<Rightarrow> False)"

lemma check_host_get_calls [keeps]: "calls_only get_call (check_host_get path params)"
  by (auto simp: check_host_get_def get_call_def Let_def intro!: keeps
      split: http_outcome.splits http_body.splits json.splits)

lemma resolve_nodes_calls [keeps]: "calls_only get_call (resolve_nodes c k m x)"
  by (auto simp: resolve_nodes_def list_check_nodes_def intro!: keeps split: json.splits option.splits)

lemma create_tcp_check_calls [keeps]: "calls_only get_call (create_tcp_check h p ns)"
  by (auto simp: create_tcp_check_def Let_def intro!: keeps split: json.splits list.splits)

lemma get_result_calls [keeps]: "calls_only get_call (get_result rq)"
  by (simp add: get_result_def keeps)

lemma poll_loop_calls [keeps]: "calls_only get_call (poll_loop k rq d i)"
  by (induction k) (simp_all add: keeps)

lemma poll_result_calls [keeps]: "calls_only get_call (poll_result rq)"
  by (simp add: poll_result_def Let_def keeps)

lemma verify_with_nodes_calls [keeps]: "calls_only get_call (verify_with_nodes h ns m)"
  by (simp add: verify_with_nodes_def keeps)

lemma verify_reachability_calls [keeps]: "calls_only get_call (verify_reachability h)"
  by (simp add: verify_reachability_def keeps)

lemma verify_external_calls [keeps]: "calls_only get_call (verify_external h)"
  by (simp add: verify_external_def keeps)

lemma get_call_no_delete: "get_call x \<Longrightarrow> \<not> is_delete x"
  by (auto simp: get_call_def is_delete_def split: ext.splits)

text \<open>A probe that was found settled stays as the service reported it.\<close>

lemma parse_node_result_node: "pr_node (parse_node_result repr n raw) = n"
  by (auto simp: parse_node_result_def Let_def split: json.splits list.splits option.splits)

lemma parse_node_result_status:
  "pr_status (parse_node_result repr n raw) = PROBE_PENDING \<longleftrightarrow> raw = JNull"
  by (auto simp: parse_node_result_def Let_def split: json.splits list.splits option.splits)

end
