(* ===== verification/Sha256.thy ===== *)
theory Sha256
  imports Prelude
begin

text \<open>
  SHA-256 on a text, as \<open>hashlib.sha256(text.encode()).hexdigest()\<close> computes it: the padding, the
  message schedule and the compression of FIPS 180-4 over 32-bit words, for ASCII text. \<open>dry_run.py\<close>
  derives the identifiers of its simulated servers from it.
\<close>

unbundle bit_operations_syntax

definition rotr32 :: "nat \<Rightarrow> 32 word \<Rightarrow> 32 word" where
  "rotr32 n x = (drop_bit n x) OR (push_bit (32 - n) x)"

definition k256 :: "32 word list" where
  "k256 =
     [1116352408, 1899447441, 3049323471, 3921009573, 961987163, 1508970993,
      2453635748, 2870763221, 3624381080, 310598401, 607225278, 1426881987,
      1925078388, 2162078206, 2614888103, 3248222580, 3835390401, 4022224774,
      264347078, 604807628, 770255983, 1249150122, 1555081692, 1996064986,
      2554220882, 2821834349, 2952996808, 3210313671, 3336571891, 3584528711,
      113926993, 338241895, 666307205, 773529912, 1294757372, 1396182291,
      1695183700, 1986661051, 2177026350, 2456956037, 2730485921, 2820302411,
      3259730800, 3345764771, 3516065817, 3600352804, 4094571909, 275423344,
      430227734, 506948616, 659060556, 883997877, 958139571, 1322822218,
      1537002063, 1747873779, 1955562222, 2024104815, 2227730452, 2361852424,
      2428436474, 2756734187, 3204031479, 3329325298]"

definition h256 :: "32 word list" where
  "h256 =
     [1779033703, 3144134277, 1013904242, 2773480762, 1359893119, 2600822924,
      528734635, 1541459225]"

definition bytes_of :: "nat \<Rightarrow> nat \<Rightarrow> nat list" where
  "bytes_of k n = map (\<lambda>i. n div 256 ^ (k - 1 - i) mod 256) [0..<k]"

definition sha_pad :: "nat list \<Rightarrow> nat list" where
  "sha_pad bs =
     bs @ [128] @ replicate ((119 - length bs mod 64) mod 64) 0 @ bytes_of 8 (8 * length bs)"

definition be32 :: "nat list \<Rightarrow> 32 word" where
  "be32 bs = of_nat (foldl (\<lambda>a b. a * 256 + b) 0 bs)"

fun chunks :: "nat \<Rightarrow> nat \<Rightarrow> 'a list \<Rightarrow> 'a list list" where
  "chunks k 0 xs = []"
| "chunks k (Suc n) xs = take k xs # chunks k n (drop k xs)"

text \<open>The schedule, built with the latest word first.\<close>

fun extend_schedule :: "nat \<Rightarrow> 32 word list \<Rightarrow> 32 word list" where
  "extend_schedule 0 ws = ws"
| "extend_schedule (Suc n) ws =
     (let w15 = ws ! 14; w2 = ws ! 1;
          s0 = rotr32 7 w15 XOR rotr32 18 w15 XOR drop_bit 3 w15;
          s1 = rotr32 17 w2 XOR rotr32 19 w2 XOR drop_bit 10 w2
      in extend_schedule n ((ws ! 15 + s0 + ws ! 6 + s1) # ws))"

definition sha_round :: "32 word list \<Rightarrow> 32 word \<times> 32 word \<Rightarrow> 32 word list" where
  "sha_round v kw =
     (case v of
        [a, b, c, d, e, f, g, h] \<Rightarrow>
          (let s1 = rotr32 6 e XOR rotr32 11 e XOR rotr32 25 e;
               ch = (e AND f) XOR (NOT e AND g);
               t1 = h + s1 + ch + fst kw + snd kw;
               s0 = rotr32 2 a XOR rotr32 13 a XOR rotr32 22 a;
               maj = (a AND b) XOR (a AND c) XOR (b AND c)
           in [t1 + s0 + maj, a, b, c, d + t1, e, f, g])
      | _ \<Rightarrow> v)"

definition sha_block :: "32 word list \<Rightarrow> nat list \<Rightarrow> 32 word list" where
  "sha_block h block =
     (let ws = rev (extend_schedule 48 (rev (map be32 (chunks 4 16 block))))
      in map2 (+) h (foldl sha_round h (zip k256 ws)))"

definition sha256 :: "nat list \<Rightarrow> nat list" where
  "sha256 bs =
     (let p = sha_pad bs in
      concat (map (\<lambda>x. bytes_of 4 (unat x)) (foldl sha_block h256 (chunks 64 (length p div 64) p))))"

definition hex_byte :: "nat \<Rightarrow> string" where
  "hex_byte b = [digit_char (b div 16), digit_char (b mod 16)]"

definition sha256_hex :: "string \<Rightarrow> string" where
  "sha256_hex s = concat (map hex_byte (sha256 (map of_char s)))"

lemma bytes_of_length [simp]: "length (bytes_of k n) = k"
  by (simp add: bytes_of_def)

lemma pad_64: "(m + (9 + (119 - m mod 64) mod 64)) mod 64 = (0 :: nat)"
proof -
  have "(m + (9 + (119 - m mod 64) mod 64)) mod 64 = (m mod 64 + (9 + (119 - m mod 64))) mod 64"
    by (metis mod_add_left_eq mod_add_right_eq)
  also have "m mod 64 + (9 + (119 - m mod 64)) = 128"
    using mod_less_divisor [of 64 m] by linarith
  finally show ?thesis by simp
qed

lemma sha_pad_blocks: "length (sha_pad bs) mod 64 = 0"
proof -
  have "length (sha_pad bs) = length bs + (9 + (119 - length bs mod 64) mod 64)"
    by (simp add: sha_pad_def)
  then show ?thesis by (simp only: pad_64)
qed

end
