(* ===== verification/Providers.thy ===== *)
theory Providers
  imports ProviderBase Sha256
begin

text \<open>
  The provider adapters (\<open>hetzner.py\<close>, \<open>linode.py\<close>, \<open>dry_run.py\<close>), the operations every adapter has
  (\<open>base.py\<close>), the factory that decides between them (\<open>factory.py\<close>), the cache that keeps them apart
  per provider and execution mode (\<open>manager.py\<close>), and the provisioning service.
\<close>

section \<open>Hetzner\<close>

definition hetzner_client :: "string \<Rightarrow> string \<Rightarrow> http_client" where
  "hetzner_client token base =
     \<lparr>hc_base_url = base, hc_headers = bearer_headers token, hc_provider_name = ''hetzner''\<rparr>"

definition hetzner_extract_error :: "(json \<Rightarrow> string) \<Rightarrow> int \<Rightarrow> http_body \<Rightarrow> exn + string" where
  "hetzner_extract_error repr status b =
     (case (case b of JsonBody v \<Rightarrow> map_sum id (\<lambda>fs. or_dict (jget fs ''error'')) (as_dict v)
                    | _ \<Rightarrow> Inr (JObj [])) of
        Inl x \<Rightarrow> Inl x
      | Inr err \<Rightarrow> (case as_dict err of
            Inl x \<Rightarrow> Inl x
          | Inr fs \<Rightarrow> Inr (str_or repr (jget fs ''message'') ''hetzner API request failed'')))"

definition hetzner_map_status :: "string \<Rightarrow> server_status" where
  "hetzner_map_status v =
     (if v = ''running'' then SRV_RUNNING
      else if v = ''off'' then SRV_OFFLINE
      else if v \<in> {''initializing'', ''starting'', ''stopping'', ''migrating'', ''rebuilding''}
        then SRV_PROVISIONING
      else if v = ''deleting'' then SRV_DELETING
      else SRV_UNKNOWN)"

definition hetzner_image :: "(json \<Rightarrow> string) \<Rightarrow> json \<Rightarrow> string option" where
  "hetzner_image repr v =
     (case or_dict v of
        JObj fs \<Rightarrow> opt_nonempty (str_or repr
          (if truthy (jget fs ''id'') then jget fs ''id'' else jget fs ''name'') [])
      | i \<Rightarrow> Some (py_str repr i))"

definition hetzner_parse_server :: "(json \<Rightarrow> string) \<Rightarrow> json \<Rightarrow> exn + provider_server" where
  "hetzner_parse_server repr data =
     (case as_dict data of
        Inl x \<Rightarrow> Inl x
      | Inr fs \<Rightarrow>
          (if jget fs ''id'' = JNull then
             Inl (Exn ProviderError ''hetzner API response did not contain server id'')
           else
             (case as_dict (or_dict (jget fs ''public_net'')) of
                Inl x \<Rightarrow> Inl x
              | Inr pnet \<Rightarrow>
             (case as_dict (or_dict (jget pnet ''ipv4'')) of
                Inl x \<Rightarrow> Inl x
              | Inr ipv4 \<Rightarrow>
             (case as_dict (or_dict (jget fs ''location'')) of
                Inl x \<Rightarrow> Inl x
              | Inr location \<Rightarrow>
             (case as_dict (or_dict (jget fs ''server_type'')) of
                Inl x \<Rightarrow> Inl x
              | Inr stype \<Rightarrow>
                  Inr \<lparr>ps_id = py_str repr (jget fs ''id''),
                    ps_name = str_or repr (jget fs ''name'') (py_str repr (jget fs ''id'')),
                    ps_status = hetzner_map_status (str_or repr (jget fs ''status'') ''unknown''),
                    ps_ipv4 = opt_text repr (jget ipv4 ''ip''),
                    ps_region = opt_text repr (jget location ''name''),
                    ps_server_type = opt_text repr (jget stype ''name''),
                    ps_image = hetzner_image repr (jget fs ''image'')\<rparr>))))))"

definition hetzner_payload :: "create_request \<Rightarrow> json" where
  "hetzner_payload r =
     JObj ([(''name'', JStr (cs_name r)), (''server_type'', JStr (cs_server_type r)),
            (''image'', JStr (cs_image r)), (''location'', JStr (cs_region r))] @
       (if cs_ssh_public_keys r \<noteq> [] then [(''ssh_keys'', JList (map JStr (cs_ssh_public_keys r)))] else []) @
       (case cs_user_data r of None \<Rightarrow> []
        | Some u \<Rightarrow> if u = [] then [] else [(''user_data'', JStr u)]) @
       (if cs_labels r \<noteq> [] then [(''labels'', JObj (map (\<lambda>(k, v). (k, JStr v)) (cs_labels r)))] else []))"

definition hetzner_request ::
    "string \<Rightarrow> string \<Rightarrow> string \<Rightarrow> string \<Rightarrow> json option \<Rightarrow> (string \<times> string) list \<Rightarrow>
     (string \<times> json) list act" where
  "hetzner_request token base verb path body params =
     bind (ask_env env_repr) (\<lambda>repr.
       request_json (hetzner_client token base) (hetzner_extract_error repr) verb path body params [])"

definition parse_with ::
    "((json \<Rightarrow> string) \<Rightarrow> json \<Rightarrow> exn + provider_server) \<Rightarrow> json \<Rightarrow> provider_server act" where
  "parse_with p v = bind (ask_env env_repr) (\<lambda>repr. lift (p repr v))"

definition hetzner_probe_access :: "string \<Rightarrow> string \<Rightarrow> unit act" where
  "hetzner_probe_access token base =
     andthen (hetzner_request token base ''GET'' ''/servers'' None
       [(''page'', ''1''), (''per_page'', ''1'')]) (ret ())"

definition hetzner_create_server :: "string \<Rightarrow> string \<Rightarrow> create_request \<Rightarrow> provider_server act" where
  "hetzner_create_server token base r =
     andthen (lift (validate_request r))
     (bind (hetzner_request token base ''POST'' ''/servers'' (Some (hetzner_payload r)) [])
       (\<lambda>body. parse_with hetzner_parse_server (jget_default body ''server'' (JObj []))))"

definition hetzner_get_server :: "string \<Rightarrow> string \<Rightarrow> string \<Rightarrow> provider_server act" where
  "hetzner_get_server token base i =
     bind (hetzner_request token base ''GET'' (''/servers/'' @ i) None [])
       (\<lambda>body. parse_with hetzner_parse_server (jget_default body ''server'' (JObj [])))"

text \<open>The servers whose name (under the key \<open>k\<close>) is exactly the one looked for.\<close>

definition exact_matches ::
    "(json \<Rightarrow> string) \<Rightarrow> string \<Rightarrow> string \<Rightarrow> (string \<times> json) list list \<Rightarrow> (string \<times> json) list list" where
  "exact_matches repr k name items = filter (\<lambda>fs. str_or repr (jget fs k) [] = name) items"

definition pick_exact ::
    "((json \<Rightarrow> string) \<Rightarrow> json \<Rightarrow> exn + provider_server) \<Rightarrow> string \<Rightarrow> string \<Rightarrow> string \<Rightarrow> json \<Rightarrow>
     provider_server option act" where
  "pick_exact p k name ambiguous servers =
     bind (ask_env env_repr) (\<lambda>repr.
     bind (lift (iter_dicts servers)) (\<lambda>items.
       case exact_matches repr k name items of
         [] \<Rightarrow> ret None
       | [fs] \<Rightarrow> bind (parse_with p (JObj fs)) (\<lambda>s. ret (Some s))
       | _ \<Rightarrow> raise ProviderError ambiguous))"

definition hetzner_find_server :: "string \<Rightarrow> string \<Rightarrow> string \<Rightarrow> provider_server option act" where
  "hetzner_find_server token base name =
     bind (hetzner_request token base ''GET'' ''/servers'' None [(''name'', name)])
       (\<lambda>body. pick_exact hetzner_parse_server ''name'' name
         ''multiple Hetzner servers matched the recovery name'' (jget body ''servers''))"

definition hetzner_delete_server :: "string \<Rightarrow> string \<Rightarrow> string \<Rightarrow> unit act" where
  "hetzner_delete_server token base i =
     andthen (hetzner_request token base ''DELETE'' (''/servers/'' @ i) None []) (ret ())"

definition hetzner_reboot_server :: "string \<Rightarrow> string \<Rightarrow> string \<Rightarrow> unit act" where
  "hetzner_reboot_server token base i =
     andthen (hetzner_request token base ''POST'' (''/servers/'' @ i @ ''/actions/reboot'') None [])
       (ret ())"

section \<open>Linode\<close>

definition linode_client :: "string \<Rightarrow> string \<Rightarrow> http_client" where
  "linode_client token base =
     \<lparr>hc_base_url = base, hc_headers = bearer_headers token, hc_provider_name = ''linode''\<rparr>"

definition linode_extract_error :: "(json \<Rightarrow> string) \<Rightarrow> int \<Rightarrow> http_body \<Rightarrow> exn + string" where
  "linode_extract_error repr status b =
     Inr (case b of
       JsonBody (JObj fs) \<Rightarrow>
         (case jget fs ''errors'' of
            JList (JObj first # _) \<Rightarrow> str_or repr (jget first ''reason'') ''linode API request failed''
          | _ \<Rightarrow> ''linode API request failed'')
     | _ \<Rightarrow> ''linode API request failed'')"

definition linode_map_status :: "string \<Rightarrow> server_status" where
  "linode_map_status v =
     (if v = ''running'' then SRV_RUNNING
      else if v = ''offline'' then SRV_OFFLINE
      else if v \<in> {''provisioning'', ''booting'', ''rebooting'', ''shutting_down'', ''migrating''}
        then SRV_PROVISIONING
      else if v = ''deleting'' then SRV_DELETING
      else SRV_UNKNOWN)"

text \<open>\<open>str(ipv4[0]) if ipv4 else None\<close>, \<open>ipv4\<close> being \<open>data.get("ipv4") or []\<close>.\<close>

definition first_item :: "(json \<Rightarrow> string) \<Rightarrow> json \<Rightarrow> exn + string option" where
  "first_item repr v =
     (if \<not> truthy v then Inr None
      else (case v of
          JList (x # _) \<Rightarrow> Inr (Some (py_str repr x))
        | JStr (c # _) \<Rightarrow> Inr (Some [c])
        | JObj _ \<Rightarrow> Inl (Exn KeyError ''0'')
        | _ \<Rightarrow> Inl (Exn TypeError ''not subscriptable'')))"

definition linode_parse_server :: "(json \<Rightarrow> string) \<Rightarrow> json \<Rightarrow> exn + provider_server" where
  "linode_parse_server repr data =
     (case as_dict data of
        Inl x \<Rightarrow> Inl x
      | Inr fs \<Rightarrow>
          (if jget fs ''id'' = JNull then
             Inl (Exn ProviderError ''linode API response did not contain instance id'')
           else (case first_item repr (jget fs ''ipv4'') of
                Inl x \<Rightarrow> Inl x
              | Inr ip \<Rightarrow>
                  Inr \<lparr>ps_id = py_str repr (jget fs ''id''),
                    ps_name = str_or repr (jget fs ''label'') (py_str repr (jget fs ''id'')),
                    ps_status = linode_map_status (str_or repr (jget fs ''status'') ''unknown''),
                    ps_ipv4 = ip,
                    ps_region = opt_text repr (jget fs ''region''),
                    ps_server_type = opt_text repr (jget fs ''type''),
                    ps_image = (if truthy (jget fs ''image'')
                                then Some (py_str repr (jget fs ''image'')) else None)\<rparr>)))"

text \<open>\<open>base64.b64encode\<close>.\<close>

definition b64_char :: "nat \<Rightarrow> char" where
  "b64_char n = ''ABCDEFGHIJKLMNOPQRSTUVWXYZabcdefghijklmnopqrstuvwxyz0123456789+/'' ! (n mod 64)"

fun base64 :: "nat list \<Rightarrow> string" where
  "base64 [] = []"
| "base64 [a] = [b64_char (a div 4), b64_char (a mod 4 * 16), CHR ''='', CHR ''='']"
| "base64 [a, b] =
     [b64_char (a div 4), b64_char (a mod 4 * 16 + b div 16), b64_char (b mod 16 * 4), CHR ''='']"
| "base64 (a # b # c # xs) =
     b64_char (a div 4) # b64_char (a mod 4 * 16 + b div 16) # b64_char (b mod 16 * 4 + c div 64) #
     b64_char (c mod 64) # base64 xs"

definition linode_payload :: "create_request \<Rightarrow> json" where
  "linode_payload r =
     JObj ([(''label'', JStr (cs_name r)), (''region'', JStr (cs_region r)),
            (''type'', JStr (cs_server_type r)), (''image'', JStr (cs_image r)),
            (''booted'', JBool True)] @
       (if cs_ssh_public_keys r \<noteq> []
        then [(''authorized_keys'', JList (map JStr (cs_ssh_public_keys r)))] else []) @
       (case cs_root_password r of None \<Rightarrow> [] | Some p \<Rightarrow> [(''root_pass'', JStr p)]) @
       (case cs_user_data r of None \<Rightarrow> []
        | Some u \<Rightarrow> if u = [] then []
            else [(''metadata'', JObj [(''user_data'', JStr (base64 (map of_char u)))])]) @
       (if cs_labels r \<noteq> []
        then [(''tags'', JList (map (\<lambda>(k, v). JStr (k @ '':'' @ v)) (sort_key fst (cs_labels r))))]
        else []))"

definition linode_request ::
    "string \<Rightarrow> string \<Rightarrow> string \<Rightarrow> string \<Rightarrow> json option \<Rightarrow> (string \<times> string) list \<Rightarrow>
     (string \<times> string) list \<Rightarrow> (string \<times> json) list act" where
  "linode_request token base verb path body params headers =
     bind (ask_env env_repr) (\<lambda>repr.
       request_json (linode_client token base) (linode_extract_error repr) verb path body params headers)"

definition linode_probe_access :: "string \<Rightarrow> string \<Rightarrow> unit act" where
  "linode_probe_access token base =
     andthen (linode_request token base ''GET'' ''/linode/instances'' None [(''page_size'', ''25'')] [])
       (ret ())"

definition linode_create_server :: "string \<Rightarrow> string \<Rightarrow> create_request \<Rightarrow> provider_server act" where
  "linode_create_server token base r =
     andthen (lift (validate_request r))
     (andthen (guard_raise (cs_ssh_public_keys r = [] \<and> cs_root_password r = None) ConfigurationError
        ''linode create requires at least one SSH public key or a root password'')
     (bind (linode_request token base ''POST'' ''/linode/instances'' (Some (linode_payload r)) [] [])
       (\<lambda>body. parse_with linode_parse_server (JObj body))))"

definition linode_get_server :: "string \<Rightarrow> string \<Rightarrow> string \<Rightarrow> provider_server act" where
  "linode_get_server token base i =
     bind (linode_request token base ''GET'' (''/linode/instances/'' @ i) None [] [])
       (\<lambda>body. parse_with linode_parse_server (JObj body))"

definition linode_find_server :: "string \<Rightarrow> string \<Rightarrow> string \<Rightarrow> provider_server option act" where
  "linode_find_server token base name =
     bind (linode_request token base ''GET'' ''/linode/instances'' None [(''page_size'', ''100'')]
         [(''X-Filter'', ''{'' @ json_dumps_str ''label'' @ '': '' @ json_dumps_str name @ ''}'')])
       (\<lambda>body. pick_exact linode_parse_server ''label'' name
         ''multiple Linodes matched the recovery label'' (jget body ''data''))"

definition linode_delete_server :: "string \<Rightarrow> string \<Rightarrow> string \<Rightarrow> unit act" where
  "linode_delete_server token base i =
     andthen (linode_request token base ''DELETE'' (''/linode/instances/'' @ i) None [] []) (ret ())"

definition linode_reboot_server :: "string \<Rightarrow> string \<Rightarrow> string \<Rightarrow> unit act" where
  "linode_reboot_server token base i =
     andthen (linode_request token base ''POST'' (''/linode/instances/'' @ i @ ''/reboot'') None [] [])
       (ret ())"

section \<open>Dry run\<close>

definition dry_servers :: "nat \<Rightarrow> world \<Rightarrow> (string \<times> provider_server) list" where
  "dry_servers n w = (if n < length (w_dry w) then w_dry w ! n else [])"

definition get_dry :: "nat \<Rightarrow> (string \<times> provider_server) list act" where
  "get_dry n e w = (Inr (dry_servers n w), w)"

definition put_dry :: "nat \<Rightarrow> string \<Rightarrow> provider_server \<Rightarrow> unit act" where
  "put_dry n i s e w = (Inr (), w\<lparr>w_dry := (w_dry w)[n := AList.update i s (dry_servers n w)]\<rparr>)"

definition dry_server_id :: "provider_type \<Rightarrow> string \<Rightarrow> nat \<Rightarrow> string" where
  "dry_server_id pt name k =
     ''dry-'' @ provider_type_value pt @ ''-'' @
     take 12 (sha256_hex (provider_type_value pt @ '':'' @ name @ '':'' @ show_nat k))"

definition dry_ipv4 :: "nat \<Rightarrow> string" where
  "dry_ipv4 k = ''203.0.113.'' @ show_nat (10 + k mod 200)"

definition dry_create_server :: "provider_type \<Rightarrow> nat \<Rightarrow> create_request \<Rightarrow> provider_server act" where
  "dry_create_server pt n r =
     andthen (lift (validate_request r))
     (bind (get_dry n) (\<lambda>servers.
       let k = length servers;
           s = \<lparr>ps_id = dry_server_id pt (cs_name r) k, ps_name = cs_name r, ps_status = SRV_RUNNING,
                ps_ipv4 = Some (dry_ipv4 k), ps_region = Some (cs_region r),
                ps_server_type = Some (cs_server_type r), ps_image = Some (cs_image r)\<rparr>
       in andthen (put_dry n (ps_id s) s) (ret s)))"

definition dry_get_server :: "nat \<Rightarrow> string \<Rightarrow> provider_server act" where
  "dry_get_server n i =
     bind (get_dry n) (\<lambda>servers.
       require_some (map_of servers i) ProviderNotFoundError ''dry-run server does not exist'')"

definition dry_find_server :: "nat \<Rightarrow> string \<Rightarrow> provider_server option act" where
  "dry_find_server n name =
     bind (get_dry n) (\<lambda>servers.
       case filter (\<lambda>s. ps_name s = name \<and> ps_status s \<noteq> SRV_DELETED) (map snd servers) of
         [] \<Rightarrow> ret None
       | [s] \<Rightarrow> ret (Some s)
       | _ \<Rightarrow> raise RuntimeError ''dry-run provider has duplicate server names'')"

definition dry_delete_server :: "nat \<Rightarrow> string \<Rightarrow> unit act" where
  "dry_delete_server n i =
     bind (dry_get_server n i) (\<lambda>s. put_dry n i (s\<lparr>ps_status := SRV_DELETED\<rparr>))"

definition dry_reboot_server :: "nat \<Rightarrow> string \<Rightarrow> unit act" where
  "dry_reboot_server n i = andthen (dry_get_server n i) (ret ())"

section \<open>The adapter interface\<close>

fun probe_access :: "adapter \<Rightarrow> unit act" where
  "probe_access (Hetzner t b) = hetzner_probe_access t b"
| "probe_access (Linode t b) = linode_probe_access t b"
| "probe_access (DryRun pt n) = ret ()"

fun create_server :: "adapter \<Rightarrow> create_request \<Rightarrow> provider_server act" where
  "create_server (Hetzner t b) r = hetzner_create_server t b r"
| "create_server (Linode t b) r = linode_create_server t b r"
| "create_server (DryRun pt n) r = dry_create_server pt n r"

fun get_server :: "adapter \<Rightarrow> string \<Rightarrow> provider_server act" where
  "get_server (Hetzner t b) i = hetzner_get_server t b i"
| "get_server (Linode t b) i = linode_get_server t b i"
| "get_server (DryRun pt n) i = dry_get_server n i"

fun find_server_by_name :: "adapter \<Rightarrow> string \<Rightarrow> provider_server option act" where
  "find_server_by_name (Hetzner t b) name = hetzner_find_server t b name"
| "find_server_by_name (Linode t b) name = linode_find_server t b name"
| "find_server_by_name (DryRun pt n) name = dry_find_server n name"

fun delete_server :: "adapter \<Rightarrow> string \<Rightarrow> unit act" where
  "delete_server (Hetzner t b) i = hetzner_delete_server t b i"
| "delete_server (Linode t b) i = linode_delete_server t b i"
| "delete_server (DryRun pt n) i = dry_delete_server n i"

fun reboot_server :: "adapter \<Rightarrow> string \<Rightarrow> unit act" where
  "reboot_server (Hetzner t b) i = hetzner_reboot_server t b i"
| "reboot_server (Linode t b) i = linode_reboot_server t b i"
| "reboot_server (DryRun pt n) i = dry_reboot_server n i"

definition get_server_ip :: "adapter \<Rightarrow> string \<Rightarrow> string option act" where
  "get_server_ip a i = bind (get_server a i) (\<lambda>s. ret (ps_ipv4 s))"

text \<open>
  \<open>wait_until_ready\<close>: the loop polls until the deadline of the monotonic clock. The fuel bounds the
  number of polls; \<open>ready_fuel\<close> is enough when a sleep lasts as long as it was asked to (shown below),
  and running out of it is the exception marked \<open>out of fuel\<close>, which the code does not have.
\<close>

definition server_ready :: "provider_server \<Rightarrow> bool" where
  "server_ready s \<longleftrightarrow> ps_status s = SRV_RUNNING \<and> ps_ipv4 s \<noteq> None \<and> ps_ipv4 s \<noteq> Some []"

definition out_of_fuel :: exn where
  "out_of_fuel = Exn OtherError ''out of fuel''"

text \<open>\<open>f"{x:.0f}"\<close> rounds halves to even.\<close>

definition round_half_even :: "real \<Rightarrow> int" where
  "round_half_even r =
     (let f = \<lfloor>r\<rfloor>; d = r - of_int f in
      if d < 1/2 \<or> (d = 1/2 \<and> even f) then f else f + 1)"

definition ready_timeout_message :: "real \<Rightarrow> server_status option \<Rightarrow> string" where
  "ready_timeout_message timeout final =
     ''provider server did not become ready within '' @ show_int (round_half_even timeout) @ ''s'' @
     (case final of None \<Rightarrow> [] | Some s \<Rightarrow> ''; last status='' @ server_status_value s)"

primrec poll_ready ::
    "nat \<Rightarrow> (string \<Rightarrow> provider_server act) \<Rightarrow> string \<Rightarrow> real \<Rightarrow> real \<Rightarrow> real \<Rightarrow>
     server_status option \<Rightarrow> provider_server act" where
  "poll_ready 0 get i timeout interval deadline final = reraise out_of_fuel"
| "poll_ready (Suc k) get i timeout interval deadline final =
     bind mono (\<lambda>t.
       if t < deadline then
         bind (get i) (\<lambda>s.
           if server_ready s then ret s
           else if ps_status s \<in> {SRV_ERROR, SRV_DELETED} then
             raise ProviderTimeoutError
               (''provider server entered terminal state '' @ server_status_value (ps_status s))
           else andthen (sleep interval)
             (poll_ready k get i timeout interval deadline (Some (ps_status s))))
       else raise ProviderTimeoutError (ready_timeout_message timeout final))"

definition ready_fuel :: "real \<Rightarrow> real \<Rightarrow> nat" where
  "ready_fuel timeout interval = nat \<lceil>timeout / interval\<rceil> + 2"

definition wait_until_ready :: "adapter \<Rightarrow> string \<Rightarrow> real \<Rightarrow> real \<Rightarrow> provider_server act" where
  "wait_until_ready a i timeout interval =
     bind mono (\<lambda>t.
       poll_ready (ready_fuel timeout interval) (get_server a) i timeout interval (t + timeout) None)"

section \<open>Factory and manager\<close>

definition alloc_dry :: "provider_type \<Rightarrow> adapter act" where
  "alloc_dry pt e w = (Inr (DryRun pt (length (w_dry w))), w\<lparr>w_dry := w_dry w @ [[]]\<rparr>)"

text \<open>\<open>ProviderFactory.create\<close>; \<open>dry_run=None\<close> takes the setting.\<close>

definition factory_create :: "provider_row \<Rightarrow> bool option \<Rightarrow> adapter act" where
  "factory_create p dry =
     bind settings_of (\<lambda>s.
     let effective = (case dry of None \<Rightarrow> dry_run s | Some b \<Rightarrow> b) in
     if dry_run s \<or> effective then alloc_dry (p_type p)
     else if \<not> allow_real_infrastructure_mutation s then
       raise SafetyViolationError
         ''real provider mutations require ASO_ALLOW_REAL_INFRASTRUCTURE_MUTATION=true''
     else if replacement_emergency_stop s then
       raise SafetyViolationError
         ''real provider mutations are blocked by ASO_REPLACEMENT_EMERGENCY_STOP=true''
     else bind (resolve_secret (p_credential_backend p) (p_credential_ref p)) (\<lambda>token.
       ret (case p_type p of
              HETZNER \<Rightarrow> Hetzner token (hetzner_api_base_url s)
            | LINODE \<Rightarrow> Linode token (linode_api_base_url s))))"

definition cached_adapter :: "uuid \<times> bool \<Rightarrow> adapter option act" where
  "cached_adapter key e w = (Inr (map_of (w_adapters w) key), w)"

definition cache_adapter :: "uuid \<times> bool \<Rightarrow> adapter \<Rightarrow> unit act" where
  "cache_adapter key a e w = (Inr (), w\<lparr>w_adapters := AList.update key a (w_adapters w)\<rparr>)"

definition manager_get :: "provider_row \<Rightarrow> bool option \<Rightarrow> adapter act" where
  "manager_get p dry =
     bind settings_of (\<lambda>s.
     let effective = (case dry of None \<Rightarrow> dry_run s | Some b \<Rightarrow> b); key = (p_id p, effective) in
     bind (cached_adapter key) (\<lambda>c. case c of
       Some a \<Rightarrow> ret a
     | None \<Rightarrow> bind (factory_create p (Some effective)) (\<lambda>a.
         andthen (cache_adapter key a) (ret a))))"

section \<open>Provisioning\<close>

definition create_temporary :: "adapter \<Rightarrow> create_request \<Rightarrow> int \<Rightarrow> capacity \<Rightarrow> provider_server act" where
  "create_temporary a r attempt_number c =
     bind settings_of (\<lambda>s.
     andthen (lift (validate_provisioning s attempt_number c)) (create_server a r))"

definition provisioning_wait :: "adapter \<Rightarrow> string \<Rightarrow> provider_server act" where
  "provisioning_wait a i =
     bind settings_of (\<lambda>s.
       wait_until_ready a i (provisioning_timeout_seconds s) (provisioning_poll_interval_seconds s))"

definition delete_temporary :: "adapter \<Rightarrow> string \<Rightarrow> unit act" where
  "delete_temporary a i = delete_server a i"

section \<open>The contract of an adapter\<close>

text \<open>
  What the orchestrator relies on, whatever the provider: an operation reads and writes nothing but
  its provider (\<open>sends\<close> are the calls the adapter can make at all), and only \<open>delete\<close> deletes, and
  only the server it was asked to.
\<close>

locale provider_adapter =
  fixes get :: "string \<Rightarrow> provider_server act" and find_name :: "string \<Rightarrow> provider_server option act"
    and create :: "create_request \<Rightarrow> provider_server act" and delete :: "string \<Rightarrow> unit act"
    and sends :: "ext \<Rightarrow> bool" and delete_call :: "string \<Rightarrow> ext \<Rightarrow> bool"
  assumes get_calls: "calls_only (\<lambda>x. sends x \<and> \<not> is_delete x) (get i)"
    and find_calls: "calls_only (\<lambda>x. sends x \<and> \<not> is_delete x) (find_name n)"
    and create_calls: "calls_only (\<lambda>x. sends x \<and> \<not> is_delete x) (create r)"
    and delete_calls: "calls_only (\<lambda>x. sends x \<and> delete_call i x) (delete i)"
begin

lemma poll_calls:
  "calls_only (\<lambda>x. sends x \<and> \<not> is_delete x) (poll_ready k get i timeout interval deadline final)"
  by (induction k arbitrary: final) (simp_all add: keeps get_calls)

end

lemma calls_only_request_json [keeps]:
  "(\<And>r. hr_method r = verb \<Longrightarrow> hr_url r = rstrip_chr (CHR ''/'') (hc_base_url c) @ path \<Longrightarrow> R (ExtHttp r)) \<Longrightarrow>
   calls_only R (request_json c x verb path body params headers)"
  unfolding request_json_def
  by (rule calls_only_bind, rule calls_only_http) (auto intro!: keeps split: http_outcome.splits)

lemma calls_only_parse_with [keeps]: "calls_only R (parse_with p v)"
  by (simp add: parse_with_def keeps)

lemma calls_only_pick_exact [keeps]: "calls_only R (pick_exact p k name s v)"
  by (simp add: pick_exact_def keeps)

definition http_under :: "string \<Rightarrow> ext \<Rightarrow> bool" where
  "http_under base x \<longleftrightarrow>
     (case x of ExtHttp r \<Rightarrow> starts_with (rstrip_chr (CHR ''/'') base) (hr_url r) | _ \<Rightarrow> False)"

definition deletes_url :: "string \<Rightarrow> ext \<Rightarrow> bool" where
  "deletes_url u x \<longleftrightarrow> (case x of ExtHttp r \<Rightarrow> hr_method r = ''DELETE'' \<and> hr_url r = u | _ \<Rightarrow> False)"

definition hetzner_url :: "string \<Rightarrow> string \<Rightarrow> string" where
  "hetzner_url base i = rstrip_chr (CHR ''/'') base @ ''/servers/'' @ i"

definition linode_url :: "string \<Rightarrow> string \<Rightarrow> string" where
  "linode_url base i = rstrip_chr (CHR ''/'') base @ ''/linode/instances/'' @ i"

lemma http_under_append [simp]:
  "hr_url r = rstrip_chr (CHR ''/'') base @ path \<Longrightarrow> http_under base (ExtHttp r)"
  by (simp add: http_under_def starts_with_def)

lemma is_delete_http [simp]: "is_delete (ExtHttp r) \<longleftrightarrow> hr_method r = ''DELETE''"
  by (simp add: is_delete_def)

lemma deletes_url_http [simp]:
  "deletes_url u (ExtHttp r) \<longleftrightarrow> hr_method r = ''DELETE'' \<and> hr_url r = u"
  by (simp add: deletes_url_def)

interpretation hetzner: provider_adapter "hetzner_get_server t b" "hetzner_find_server t b"
  "hetzner_create_server t b" "hetzner_delete_server t b" "http_under b"
  "\<lambda>i. deletes_url (hetzner_url b i)"
  by unfold_locales
    (auto simp: hetzner_get_server_def hetzner_find_server_def hetzner_create_server_def
      hetzner_delete_server_def hetzner_request_def hetzner_client_def hetzner_url_def intro!: keeps)

interpretation linode: provider_adapter "linode_get_server t b" "linode_find_server t b"
  "linode_create_server t b" "linode_delete_server t b" "http_under b"
  "\<lambda>i. deletes_url (linode_url b i)"
  by unfold_locales
    (auto simp: linode_get_server_def linode_find_server_def linode_create_server_def
      linode_delete_server_def linode_request_def linode_client_def linode_url_def intro!: keeps)

lemma calls_only_dry [keeps]: "calls_only R (get_dry n)" "calls_only R (put_dry n i s)"
  by (simp_all add: calls_only_def keeps_def net_def get_dry_def put_dry_def)

interpretation dryrun: provider_adapter "dry_get_server n" "dry_find_server n"
  "dry_create_server pt n" "dry_delete_server n" "\<lambda>_. False" "\<lambda>_ _. False"
  by unfold_locales
    (auto simp: dry_get_server_def dry_find_server_def dry_create_server_def dry_delete_server_def
      Let_def intro!: keeps)

fun adapter_sends :: "adapter \<Rightarrow> ext \<Rightarrow> bool" where
  "adapter_sends (Hetzner t b) x = http_under b x"
| "adapter_sends (Linode t b) x = http_under b x"
| "adapter_sends (DryRun pt n) x = False"

fun adapter_deletes :: "adapter \<Rightarrow> string \<Rightarrow> ext \<Rightarrow> bool" where
  "adapter_deletes (Hetzner t b) i x = deletes_url (hetzner_url b i) x"
| "adapter_deletes (Linode t b) i x = deletes_url (linode_url b i) x"
| "adapter_deletes (DryRun pt n) i x = False"

interpretation adapter: provider_adapter "get_server a" "find_server_by_name a" "create_server a"
  "delete_server a" "adapter_sends a" "adapter_deletes a"
proof unfold_locales
  fix i n r
  show "calls_only (\<lambda>x. adapter_sends a x \<and> \<not> is_delete x) (get_server a i)"
    by (cases a) (simp_all add: hetzner.get_calls linode.get_calls dryrun.get_calls [simplified])
  show "calls_only (\<lambda>x. adapter_sends a x \<and> \<not> is_delete x) (find_server_by_name a n)"
    by (cases a) (simp_all add: hetzner.find_calls linode.find_calls dryrun.find_calls [simplified])
  show "calls_only (\<lambda>x. adapter_sends a x \<and> \<not> is_delete x) (create_server a r)"
    by (cases a) (simp_all add: hetzner.create_calls linode.create_calls dryrun.create_calls [simplified])
  show "calls_only (\<lambda>x. adapter_sends a x \<and> adapter_deletes a i x) (delete_server a i)"
    by (cases a) (simp_all add: hetzner.delete_calls linode.delete_calls dryrun.delete_calls [simplified])
qed

lemma wait_until_ready_calls:
  "calls_only (\<lambda>x. adapter_sends a x \<and> \<not> is_delete x) (wait_until_ready a i timeout interval)"
  unfolding wait_until_ready_def by (intro keeps adapter.poll_calls)

end
