(* ===== verification/Deployment.thy ===== *)
theory Deployment
  imports CheckHost Providers
begin

text \<open>
  \<open>app/deployment\<close>: the connection data of a node (\<open>credentials.py\<close>), the wait for SSH
  (\<open>ssh.py\<close>), the detection and preparation of the remote system (\<open>os_detection.py\<close>), the installer of
  3X-UI (\<open>installer.py\<close>), the check of its API (\<open>node_api.py\<close>), and the resumable deployment that
  runs them (\<open>service.py\<close>). Running one command is the oracle \<open>ssh_run\<close>: it stands for
  \<open>AsyncSshCommandExecutor.run\<close> with the asyncssh library behind it, time-outs included.
\<close>

section \<open>Text\<close>

text \<open>\<open>shlex.quote\<close>.\<close>

definition shell_safe :: "char \<Rightarrow> bool" where
  "shell_safe c \<longleftrightarrow> is_alnum c \<or> c \<in> set ''@%+=:,./-_''"

definition shell_quote :: "string \<Rightarrow> string" where
  "shell_quote s =
     (let q = [CHR 0x27]; dq = [CHR 0x22] in
      if s = [] then q @ q
      else if list_all shell_safe s then s
      else q @ concat (map (\<lambda>c. if c = CHR 0x27 then q @ dq @ q @ dq @ q else [c]) s) @ q)"

text \<open>\<open>str.splitlines\<close>, for ASCII.\<close>

definition is_line_end :: "char \<Rightarrow> bool" where
  "is_line_end c \<longleftrightarrow> (of_char c :: nat) \<in> {10, 11, 12, 13, 28, 29, 30}"

fun split_lines :: "string \<Rightarrow> string list" where
  "split_lines [] = []"
| "split_lines (c # cs) =
     (if c = CHR 13 \<and> cs \<noteq> [] \<and> hd cs = CHR 10 then split_lines cs
      else if is_line_end c then [] # split_lines cs
      else (case split_lines cs of [] \<Rightarrow> [[c]] | l # ls \<Rightarrow> (c # l) # ls))"

section \<open>Connection data\<close>

definition known_hosts_path :: "env \<Rightarrow> string" where
  "known_hosts_path e =
     (let s = env_settings e in
      case ssh_known_hosts_path s of
        Some p \<Rightarrow> if p \<noteq> [] then env_path e p else env_path e (runtime_secret_dir s) @ ''/known_hosts''
      | None \<Rightarrow> env_path e (runtime_secret_dir s) @ ''/known_hosts'')"

definition ssh_spec :: "cred_row \<Rightarrow> string \<Rightarrow> ssh_target act" where
  "ssh_spec c host =
     bind (resolve_secret (cr_secret_backend c) (cr_ssh_secret_ref c)) (\<lambda>secret.
     bind settings_of (\<lambda>s.
     bind (ask_env known_hosts_path) (\<lambda>kh.
       ret \<lparr>sp_host = host, sp_port = cr_ssh_port c, sp_username = cr_ssh_username c,
         sp_auth = cr_ssh_auth_method c, sp_secret = secret, sp_verify_host_key = ssh_verify_host_key s,
         sp_known_hosts = Some kh\<rparr>)))"

section \<open>Waiting for SSH\<close>

definition ssh_probe :: "ssh_target \<Rightarrow> bool act" where
  "ssh_probe t =
     catch_all (bind (ssh_run t ''printf ASO_SSH_READY'') (\<lambda>r.
         ret (cmd_exit r = 0 \<and> cmd_stdout r = ''ASO_SSH_READY'')))
       (\<lambda>x. if isa (exn_kind x) ConfigurationError then reraise x else ret False)"

primrec ssh_wait_loop :: "nat \<Rightarrow> ssh_target \<Rightarrow> real \<Rightarrow> real \<Rightarrow> unit act" where
  "ssh_wait_loop 0 t deadline interval = reraise out_of_fuel"
| "ssh_wait_loop (Suc k) t deadline interval =
     bind mono (\<lambda>now'.
     if now' < deadline then
       bind (ssh_probe t) (\<lambda>ready.
       if ready then ret ()
       else andthen (sleep interval) (ssh_wait_loop k t deadline interval))
     else raise TimeoutError ''SSH did not become ready within the configured timeout'')"

definition ssh_wait :: "ssh_target \<Rightarrow> unit act" where
  "ssh_wait t =
     bind settings_of (\<lambda>s.
     let timeout = ssh_ready_timeout_seconds s; interval = ssh_poll_interval_seconds s in
     bind mono (\<lambda>t0. ssh_wait_loop (ready_fuel timeout interval) t (t0 + timeout) interval))"

section \<open>The remote system\<close>

datatype package_manager = APT | DNF | YUM | APK | PACMAN | ZYPPER | PKG_UNKNOWN

record remote_os =
  os_id :: string
  os_version_id :: "string option"
  os_architecture :: string
  os_package_manager :: package_manager

definition package_manager_of :: "string \<Rightarrow> package_manager" where
  "package_manager_of i =
     (if i \<in> {''ubuntu'', ''debian'', ''armbian''} then APT
      else if i \<in> {''fedora'', ''rhel'', ''rocky'', ''almalinux'', ''ol'', ''amzn'', ''centos''} then DNF
      else if i = ''alpine'' then APK
      else if i \<in> {''arch'', ''manjaro'', ''parch''} then PACMAN
      else if i \<in> {''opensuse'', ''opensuse-leap'', ''opensuse-tumbleweed'', ''sles''} then ZYPPER
      else PKG_UNKNOWN)"

definition detect_command :: string where
  \<open>detect_command =
     ''set -eu'' @ [CHR 10] @
     ''if [ -r /etc/os-release ]; then . /etc/os-release; elif [ -r /usr/lib/os-release ]; then . /usr/lib/os-release; else exit 44; fi'' @
     [CHR 10] @ ''printf '' @ [CHR 0x27] @ ''ID=%s'' @ [CHR 0x5C] @ ''nVERSION_ID=%s'' @ [CHR 0x5C] @
     ''nARCH=%s'' @ [CHR 0x5C] @ ''n'' @ [CHR 0x27] @
     '' "${ID:-unknown}" "${VERSION_ID:-}" "$(uname -m)"'' @ [CHR 10]\<close>

text \<open>The key-value lines of the answer: a later line wins.\<close>

definition os_values :: "string \<Rightarrow> (string \<times> string) list" where
  "os_values out =
     fold (\<lambda>line acc. case partition_at (CHR ''='') line of
         (k, found, v) \<Rightarrow> if found then AList.update k (strip_chr (CHR 0x22) (strip v)) acc else acc)
       (split_lines out) []"

definition parse_os :: "string \<Rightarrow> remote_os" where
  "parse_os out =
     (let vs = os_values out;
          i = lower (case map_of vs ''ID'' of Some v \<Rightarrow> v | None \<Rightarrow> ''unknown'') in
      \<lparr>os_id = i,
       os_version_id = (case map_of vs ''VERSION_ID'' of Some v \<Rightarrow> opt_nonempty v | None \<Rightarrow> None),
       os_architecture = (case map_of vs ''ARCH'' of Some v \<Rightarrow> v | None \<Rightarrow> ''unknown''),
       os_package_manager = package_manager_of i\<rparr>)"

definition detect_os :: "ssh_target \<Rightarrow> remote_os act" where
  "detect_os t =
     bind (ssh_run t detect_command) (\<lambda>r.
     if cmd_exit r \<noteq> 0 then
       raise ConfigurationError ''remote operating system could not be detected''
     else ret (parse_os (cmd_stdout r)))"

definition bootstrap_command :: "package_manager \<Rightarrow> string option" where
  "bootstrap_command p =
     (case p of
        APT \<Rightarrow> Some (''export DEBIAN_FRONTEND=noninteractive; '' @
          ''apt-get update -y && apt-get install -y curl ca-certificates'')
      | DNF \<Rightarrow> Some ''dnf install -y curl ca-certificates || yum install -y curl ca-certificates''
      | YUM \<Rightarrow> Some ''yum install -y curl ca-certificates''
      | APK \<Rightarrow> Some ''apk add --no-cache curl ca-certificates''
      | PACMAN \<Rightarrow> Some ''pacman -Sy --noconfirm curl ca-certificates''
      | ZYPPER \<Rightarrow> Some ''zypper --non-interactive install curl ca-certificates''
      | PKG_UNKNOWN \<Rightarrow> None)"

definition bootstrap :: "ssh_target \<Rightarrow> remote_os \<Rightarrow> unit act" where
  "bootstrap t os =
     (case bootstrap_command (os_package_manager os) of
        None \<Rightarrow> raise ConfigurationError
          (''unsupported remote OS for bootstrap: '' @ shell_quote (os_id os))
      | Some c \<Rightarrow> bind (ssh_run t c) (\<lambda>r.
          guard_raise (cmd_exit r \<noteq> 0) RuntimeError ''remote bootstrap failed''))"

section \<open>The installer\<close>

record xui_config =
  xc_username :: string
  xc_password :: string
  xc_panel_port :: int
  xc_web_base_path :: string
  xc_access_url :: string
  xc_api_token :: string
  xc_db_type :: string

definition INSTALL_URL :: string where
  "INSTALL_URL = ''https://raw.githubusercontent.com/MHSanaei/3x-ui/main/install.sh''"

definition RESULT_FILE :: string where
  "RESULT_FILE = ''/etc/x-ui/install-result.env''"

definition install_command :: "string option \<Rightarrow> string \<Rightarrow> string" where
  \<open>install_command version host =
     ''set -eu; tmp=/tmp/aso-3xui-install.sh; curl -fsSL '' @ shell_quote INSTALL_URL @
     '' -o "$tmp"; chmod 700 "$tmp"; XUI_NONINTERACTIVE=1 XUI_SERVER_IP='' @ shell_quote host @
     '' bash "$tmp"'' @ (case version of Some v \<Rightarrow> if v \<noteq> [] then '' '' @ shell_quote v else []
       | None \<Rightarrow> []) @ ''; rm -f "$tmp"''\<close>

definition install :: "ssh_target \<Rightarrow> string \<Rightarrow> unit act" where
  "install t host =
     bind settings_of (\<lambda>s.
     bind (ssh_run t (install_command (three_xui_version s) host)) (\<lambda>r.
       guard_raise (cmd_exit r \<noteq> 0) RuntimeError ''3X-UI unattended installation failed''))"

definition verify_command :: string where
  "verify_command =
     ''set -eu; test -x /usr/bin/x-ui; test -r '' @ RESULT_FILE @
     ''; (systemctl is-active --quiet x-ui || rc-service x-ui status >/dev/null 2>&1)''"

definition verify_installation :: "ssh_target \<Rightarrow> unit act" where
  "verify_installation t =
     bind (ssh_run t verify_command) (\<lambda>r.
       guard_raise (cmd_exit r \<noteq> 0) RuntimeError ''3X-UI installation verification failed'')"

definition read_command :: string where
  \<open>read_command =
     ''set -eu; . '' @ RESULT_FILE @ ''; printf '' @ [CHR 0x27] @
     concat (replicate 7 (''%s'' @ [CHR 0x5C] @ ''0'')) @ [CHR 0x27] @
     '' "$XUI_USERNAME" "$XUI_PASSWORD" "$XUI_PANEL_PORT" "$XUI_WEB_BASE_PATH" "$XUI_ACCESS_URL" "$XUI_API_TOKEN" "$XUI_DB_TYPE"''\<close>

definition drop_last_blank :: "string list \<Rightarrow> string list" where
  "drop_last_blank vs = (if vs \<noteq> [] \<and> last vs = [] then butlast vs else vs)"

definition parse_configuration :: "string \<Rightarrow> exn + xui_config" where
  "parse_configuration out =
     (case drop_last_blank (split_on (CHR 0x00) out) of
        [username, password, port, base_path, access_url, api_token, db_type] \<Rightarrow>
          (case parse_int 10 port of
             None \<Rightarrow> Inl (Exn RuntimeError ''3X-UI panel port is invalid'')
           | Some p \<Rightarrow>
               (if list_ex (\<lambda>v. v = []) [username, password, base_path, access_url, api_token, db_type] then
                  Inl (Exn RuntimeError ''3X-UI configuration result contains blank required fields'')
                else Inr \<lparr>xc_username = username, xc_password = password, xc_panel_port = p,
                  xc_web_base_path = base_path, xc_access_url = rstrip_chr (CHR ''/'') access_url,
                  xc_api_token = api_token, xc_db_type = db_type\<rparr>))
      | _ \<Rightarrow> Inl (Exn RuntimeError ''3X-UI configuration result is incomplete''))"

definition read_configuration :: "ssh_target \<Rightarrow> xui_config act" where
  "read_configuration t =
     bind (ssh_run t read_command) (\<lambda>r.
     if cmd_exit r \<noteq> 0 then raise RuntimeError ''3X-UI configuration extraction failed''
     else lift (parse_configuration (cmd_stdout r)))"

definition rollback_command :: string where
  "rollback_command =
     ''rm -f /tmp/aso-3xui-install.sh; '' @
     ''systemctl stop x-ui >/dev/null 2>&1 || rc-service x-ui stop >/dev/null 2>&1 || true''"

definition installer_rollback :: "ssh_target \<Rightarrow> unit act" where
  "installer_rollback t = andthen (ssh_run t rollback_command) (ret ())"

section \<open>The API of the node\<close>

definition check_status_envelope :: "(json \<Rightarrow> string) \<Rightarrow> json \<Rightarrow> exn + (string \<times> json) list" where
  "check_status_envelope repr body =
     (case body of
        JObj fs \<Rightarrow>
          (if jget fs ''success'' \<noteq> JBool True then
             Inl (Exn RuntimeError ''3X-UI node API did not return a successful status envelope'')
           else (case jget fs ''obj'' of
               JObj obj \<Rightarrow>
                 (case jget obj ''xray'' of
                    JObj xray \<Rightarrow>
                      (if lower (py_str repr (jget_default xray ''state'' (JStr []))) = ''running''
                       then Inr obj
                       else Inl (Exn RuntimeError ''3X-UI node API reports Xray is not running''))
                  | _ \<Rightarrow> Inl (Exn RuntimeError ''3X-UI node API reports Xray is not running''))
             | _ \<Rightarrow> Inl (Exn RuntimeError ''3X-UI node API status payload is missing'')))
      | _ \<Rightarrow> Inl (Exn RuntimeError ''3X-UI node API did not return a successful status envelope''))"

definition verify_access_url :: "string \<Rightarrow> string \<Rightarrow> (string \<times> json) list act" where
  "verify_access_url access_url token =
     bind (http \<lparr>hr_method = ''GET'',
       hr_url = rstrip_chr (CHR ''/'') access_url @ ''/panel/api/server/status'', hr_params = [],
       hr_headers = [(''Authorization'', ''Bearer '' @ token)], hr_body = None\<rparr>) (\<lambda>out.
     case out of
       HttpTransport s \<Rightarrow> raise TransportError s
     | HttpRaise _ s \<Rightarrow> raise OtherError s
     | HttpResp n b \<Rightarrow>
         (if n < 200 \<or> 300 \<le> n then raise HTTPStatusError (show_int n)
          else (case b of
              JsonBody v \<Rightarrow> bind (ask_env env_repr) (\<lambda>repr. lift (check_status_envelope repr v))
            | _ \<Rightarrow> raise ValueError ''invalid JSON'')))"

section \<open>The deployment\<close>

definition dry_run_config :: "string \<Rightarrow> xui_config" where
  "dry_run_config host =
     \<lparr>xc_username = ''dry-run-admin'', xc_password = ''dry-run-panel-password'', xc_panel_port = 2053,
      xc_web_base_path = ''dry-run-panel'',
      xc_access_url = ''http://'' @ host @ '':2053/dry-run-panel'',
      xc_api_token = ''dry-run-node-api-token'', xc_db_type = ''sqlite''\<rparr>"

text \<open>\<open>deployment.state\<close> of the row the session holds.\<close>

definition deployment_state_of :: "uuid \<Rightarrow> deployment_state act" where
  "deployment_state_of i =
     bind (query (get_deployment i)) (\<lambda>o1.
     case o1 of None \<Rightarrow> raise RuntimeError ''the row is not loaded'' | Some x \<Rightarrow> ret (d_state x))"

definition deploy_move :: "unit act \<Rightarrow> uuid \<Rightarrow> deployment_state \<Rightarrow> unit act" where
  "deploy_move callback i target = andthen (deployment_transition i target) callback"

definition remaining_states :: "deployment_state \<Rightarrow> deployment_state list" where
  "remaining_states s =
     (case s of
        DEP_PENDING \<Rightarrow> [WAITING_SSH, BOOTSTRAPPING, INSTALLING, DEP_VERIFYING, SUCCEEDED]
      | WAITING_SSH \<Rightarrow> [BOOTSTRAPPING, INSTALLING, DEP_VERIFYING, SUCCEEDED]
      | BOOTSTRAPPING \<Rightarrow> [INSTALLING, DEP_VERIFYING, SUCCEEDED]
      | INSTALLING \<Rightarrow> [DEP_VERIFYING, SUCCEEDED]
      | DEP_VERIFYING \<Rightarrow> [SUCCEEDED]
      | SUCCEEDED \<Rightarrow> []
      | DEP_FAILED \<Rightarrow> [])"

primrec move_all :: "unit act \<Rightarrow> uuid \<Rightarrow> deployment_state list \<Rightarrow> unit act" where
  "move_all callback i [] = ret ()"
| "move_all callback i (s # ss) = andthen (deploy_move callback i s) (move_all callback i ss)"

definition simulate_success :: "unit act \<Rightarrow> uuid \<Rightarrow> unit act" where
  "simulate_success callback i =
     bind (deployment_state_of i) (\<lambda>s.
     if s = DEP_FAILED then raise RuntimeError ''failed deployment requires a new attempt''
     else move_all callback i (remaining_states s))"

text \<open>The \<open>except\<close> block of \<open>deploy\<close>.\<close>

definition deploy_failed :: "unit act \<Rightarrow> uuid \<Rightarrow> ssh_target \<Rightarrow> bool \<Rightarrow> exn \<Rightarrow> 'a act" where
  "deploy_failed callback i t installation_may_exist x =
     bind (deployment_state_of i) (\<lambda>s.
     andthen (whenM (s \<notin> {SUCCEEDED, DEP_FAILED}) (deploy_move callback i DEP_FAILED))
     (andthen (upd_deployment i (\<lambda>d. d\<lparr>d_error_code := Some (take 64 (class_name (exn_kind x))),
         d_error_message := Some (take 2000 (exn_msg x))\<rparr>))
     (andthen callback
     (andthen (whenM installation_may_exist (catch_all (installer_rollback t) (\<lambda>_. ret ())))
     (reraise x)))))"

text \<open>The steps before the installation, and those from it on.\<close>

definition deploy_prepare :: "unit act \<Rightarrow> uuid \<Rightarrow> ssh_target \<Rightarrow> unit act" where
  "deploy_prepare callback i t =
     bind (deployment_state_of i) (\<lambda>s0.
     andthen (whenM (s0 = DEP_PENDING) (deploy_move callback i WAITING_SSH))
     (bind (deployment_state_of i) (\<lambda>s1.
     andthen (whenM (s1 = WAITING_SSH) (andthen (ssh_wait t) (deploy_move callback i BOOTSTRAPPING)))
     (bind (deployment_state_of i) (\<lambda>s2.
       whenM (s2 = BOOTSTRAPPING)
         (bind (detect_os t) (\<lambda>os. andthen (bootstrap t os) (deploy_move callback i INSTALLING))))))))"

definition deploy_install :: "unit act \<Rightarrow> uuid \<Rightarrow> ssh_target \<Rightarrow> string \<Rightarrow> xui_config act" where
  "deploy_install callback i t host =
     bind (deployment_state_of i) (\<lambda>s3.
     andthen (whenM (s3 = INSTALLING)
       (bind (catch_all (andthen (verify_installation t) (ret True)) (\<lambda>_. ret False)) (\<lambda>already.
        andthen (whenM (\<not> already) (install t host)) (deploy_move callback i DEP_VERIFYING))))
     (bind (deployment_state_of i) (\<lambda>s4.
     if s4 \<in> {DEP_VERIFYING, SUCCEEDED} then
       andthen (verify_installation t)
       (bind (read_configuration t) (\<lambda>config.
        andthen (verify_access_url (xc_access_url config) (xc_api_token config))
       (bind (deployment_state_of i) (\<lambda>s5.
        andthen (whenM (s5 = DEP_VERIFYING) (deploy_move callback i SUCCEEDED)) (ret config)))))
     else raise RuntimeError
       (''deployment cannot resume from state '' @ deployment_state_value s4))))"

text \<open>
  \<open>DeploymentService.deploy\<close>. The flag \<open>installation_may_exist\<close> is set by the state the deployment
  resumes from, or once the installation step is entered.
\<close>

definition deploy ::
    "uuid \<Rightarrow> ssh_target \<Rightarrow> string \<Rightarrow> unit act \<Rightarrow> bool option \<Rightarrow> (xui_config \<times> bool) act" where
  "deploy i t host callback dry =
     bind settings_of (\<lambda>s.
     let effective = (case dry of None \<Rightarrow> dry_run s | Some b \<Rightarrow> b) in
     if dry_run s \<or> effective then
       andthen (simulate_success callback i) (ret (dry_run_config host, True))
     else if \<not> allow_real_infrastructure_mutation s then
       raise SafetyViolationError
         ''real SSH/deployment requires ASO_ALLOW_REAL_INFRASTRUCTURE_MUTATION=true''
     else if replacement_emergency_stop s then
       raise SafetyViolationError
         ''real SSH/deployment is blocked by ASO_REPLACEMENT_EMERGENCY_STOP=true''
     else
       bind (deployment_state_of i) (\<lambda>s0.
       let may_exist = (s0 \<in> {INSTALLING, DEP_VERIFYING, SUCCEEDED}) in
       andthen (catch_all (deploy_prepare callback i t) (deploy_failed callback i t may_exist))
       (bind (deployment_state_of i) (\<lambda>s3.
       bind (catch_all (deploy_install callback i t host)
           (deploy_failed callback i t (may_exist \<or> s3 = INSTALLING))) (\<lambda>config.
         ret (config, False))))))"

section \<open>Facts\<close>

lemma package_manager_never_yum: "package_manager_of i \<noteq> YUM"
  by (simp add: package_manager_of_def)

lemma keeps_upd_ses: "(\<And>w. I w \<Longrightarrow> I (w\<lparr>w_ses := f (w_ses w)\<rparr>)) \<Longrightarrow> keeps e I (mod_ses f)"
  by (simp add: keeps_def mod_ses_def)

end
