(* ===== verification/Ip.thy ===== *)
theory Ip
  imports Url
begin

text \<open>
  \<open>str(ipaddress.ip_address(s))\<close>: the canonical text of an IPv4 or IPv6 literal, \<open>None\<close> where Python
  raises \<open>ValueError\<close>. The deletion of the old server compares it with the address the provider
  reports, and accepts nothing that is not a literal address.
\<close>

section \<open>IPv4\<close>

definition parse_octet :: "string \<Rightarrow> nat option" where
  "parse_octet s =
     (if s = [] \<or> \<not> list_all is_digit s \<or> 3 < length s \<or> (s \<noteq> ''0'' \<and> hd s = CHR ''0'') then None
      else (case parse_nat 10 s of Some n \<Rightarrow> if n \<le> 255 then Some n else None | None \<Rightarrow> None))"

fun all_some :: "'a option list \<Rightarrow> 'a list option" where
  "all_some [] = Some []"
| "all_some (None # xs) = None"
| "all_some (Some x # xs) = map_option ((#) x) (all_some xs)"

definition parse_ipv4 :: "string \<Rightarrow> nat list option" where
  "parse_ipv4 s =
     (let octets = split_on (CHR ''.'') s in
      if length octets = 4 then all_some (map parse_octet octets) else None)"

definition ipv4_str :: "nat list \<Rightarrow> string" where
  "ipv4_str ns = join_with ''.'' (map show_nat ns)"

section \<open>IPv6\<close>

definition parse_hextet :: "string \<Rightarrow> nat option" where
  "parse_hextet s =
     (if s = [] \<or> 4 < length s \<or> \<not> list_all (\<lambda>c. digit_of 16 c \<noteq> None) s then None
      else parse_nat 16 s)"

text \<open>A dotted quad at the end stands for two groups.\<close>

definition expand_ipv4_tail :: "string list \<Rightarrow> string list option" where
  "expand_ipv4_tail parts =
     (if CHR ''.'' \<in> set (last parts) then
        (case parse_ipv4 (last parts) of
           Some [a, b, c, d] \<Rightarrow>
             Some (butlast parts @ [show_base 16 (a * 256 + b), show_base 16 (c * 256 + d)])
         | _ \<Rightarrow> None)
      else Some parts)"

definition blank_inside :: "string list \<Rightarrow> nat list" where
  "blank_inside parts = filter (\<lambda>i. parts ! i = []) [1..<length parts - 1]"

definition group_parts :: "string list \<Rightarrow> string list option" where
  "group_parts parts =
     (case blank_inside parts of
        [] \<Rightarrow>
          (if length parts = 8 \<and> hd parts \<noteq> [] \<and> last parts \<noteq> [] then Some parts else None)
      | [i] \<Rightarrow>
          (let hi0 = i; lo0 = length parts - i - 1;
               hi = (if hd parts = [] then hi0 - 1 else hi0);
               lo = (if last parts = [] then lo0 - 1 else lo0)
           in if (hd parts = [] \<and> hi \<noteq> 0) \<or> (last parts = [] \<and> lo \<noteq> 0) \<or> 8 \<le> hi + lo then None
              else Some (take hi parts @ replicate (8 - (hi + lo)) ''0'' @ drop (length parts - lo) parts))
      | _ \<Rightarrow> None)"

definition parse_ipv6_groups :: "string \<Rightarrow> nat list option" where
  "parse_ipv6_groups s =
     (let parts = split_on (CHR '':'') s in
      if s = [] \<or> length parts < 3 then None
      else (case expand_ipv4_tail parts of
          None \<Rightarrow> None
        | Some ps \<Rightarrow> (if 9 < length ps then None
            else (case group_parts ps of None \<Rightarrow> None | Some gs \<Rightarrow> all_some (map parse_hextet gs)))))"

text \<open>The length of the run of zeros at every position, and the first longest one.\<close>

definition zero_run :: "nat list \<Rightarrow> nat \<Rightarrow> nat" where
  "zero_run gs i = length (takeWhile ((=) 0) (drop i gs))"

definition best_run :: "nat list \<Rightarrow> nat \<times> nat" where
  "best_run gs =
     foldl (\<lambda>(s, l) i. if l < zero_run gs i then (i, zero_run gs i) else (s, l)) (0, 0) [0..<length gs]"

definition ipv6_str :: "nat list \<Rightarrow> string" where
  "ipv6_str gs =
     (let hs = map (show_base 16) gs; (s, l) = best_run gs in
      if 1 < l then
        (let hs1 = (if s + l = length hs then hs @ [[]] else hs);
             hs2 = take s hs1 @ [[]] @ drop (s + l) hs1
         in join_with '':'' (if s = 0 then [] # hs2 else hs2))
      else join_with '':'' hs)"

definition parse_ipv6 :: "string \<Rightarrow> string option" where
  "parse_ipv6 s =
     (case partition_at (CHR ''%'') s of
        (addr, scoped, scope) \<Rightarrow>
          if CHR ''/'' \<in> set s \<or> (scoped \<and> (scope = [] \<or> CHR ''%'' \<in> set scope)) then None
          else map_option (\<lambda>gs. ipv6_str gs @ (if scoped then ''%'' @ scope else []))
            (parse_ipv6_groups addr))"

section \<open>Either\<close>

definition canonical_ip :: "string \<Rightarrow> string option" where
  "canonical_ip s =
     (case parse_ipv4 s of Some ns \<Rightarrow> Some (ipv4_str ns) | None \<Rightarrow> parse_ipv6 s)"

lemma canonical_ip_examples:
  "canonical_ip ''203.0.113.10'' = Some ''203.0.113.10''"
  "canonical_ip ''203.0.113.010'' = None"
  "canonical_ip ''node.example.org'' = None"
  "canonical_ip [] = None"
  by code_simp+

end
