(* ===== verification/OrchCore.thy ===== *)
theory OrchCore
  imports OldVpsGuard OpSettings Deployment Ip
begin

text \<open>
  The helpers of \<open>app/replacement/orchestrator.py\<close>: the lease of a job, the rows a stage requires,
  events, the request for a new server, the mutations sent to the Master panel, and the pause and
  emergency gates. A \<open>require\<close> action returns the row as the session holds it.
\<close>

section \<open>Gates\<close>

definition assert_not_paused :: "unit act" where
  "assert_not_paused =
     bind (ask_env env_op_settings) (\<lambda>have.
     whenM have (bind is_paused (\<lambda>p.
       guard_raise p ReplacementDeferredError ''system is paused'')))"

definition assert_not_emergency_stopped :: "bool \<Rightarrow> unit act" where
  "assert_not_emergency_stopped dry =
     bind settings_of (\<lambda>s.
       guard_raise (replacement_emergency_stop s \<and> \<not> dry) ReplacementDeferredError
         ''replacement emergency stop is enabled'')"

definition assert_runtime_execution_allowed :: "bool \<Rightarrow> unit act" where
  "assert_runtime_execution_allowed job_dry =
     bind (ask_env env_op_settings) (\<lambda>have.
     if job_dry \<or> \<not> have then ret ()
     else bind effective_dry_run (\<lambda>d.
       guard_raise d ReplacementDeferredError
         ''live replacement paused because runtime execution is now DRY_RUN''))"

section \<open>Rows\<close>

definition require_row :: "(db \<Rightarrow> 'r option) \<Rightarrow> string \<Rightarrow> 'r act" where
  "require_row get m =
     bind (query get) (\<lambda>o1. require_some o1 ReplacementConfigurationError m)"

definition require_job :: "uuid \<Rightarrow> job_row act" where
  "require_job i = require_row (get_job i) ''replacement job does not exist''"

definition require_node :: "uuid \<Rightarrow> node_row act" where
  "require_node i = require_row (get_node i) ''replacement node registry row is missing''"

definition active_provider :: "uuid \<Rightarrow> db \<Rightarrow> provider_row option" where
  "active_provider i d =
     (case get_provider i d of Some p \<Rightarrow> if p_is_active p then Some p else None | None \<Rightarrow> None)"

definition require_provider :: "uuid \<Rightarrow> provider_row act" where
  "require_provider i = require_row (active_provider i) ''provider is missing or inactive''"

definition require_credential :: "uuid \<Rightarrow> cred_row act" where
  "require_credential i = require_row (cred_for_node i) ''node credentials are not configured''"

definition require_new_vps :: "job_row \<Rightarrow> vps_row act" where
  "require_new_vps job =
     (case j_new_vps_id job of
        None \<Rightarrow> raise ReplacementConfigurationError ''replacement job has no new VPS''
      | Some i \<Rightarrow> require_row (get_vps i) ''replacement VPS registry row is missing'')"

definition require_deployment :: "job_row \<Rightarrow> deployment_row act" where
  "require_deployment job =
     require_row (deployment_for_attempt (j_id job) (j_attempt_count job))
       ''deployment attempt registry row is missing''"

definition get_checkpoint :: "uuid \<Rightarrow> checkpoint act" where
  "get_checkpoint i = session (bind (require_job i) (\<lambda>j. ret (j_checkpoint j)))"

definition job_is_dry_run :: "uuid \<Rightarrow> bool act" where
  "job_is_dry_run i = session (bind (require_job i) (\<lambda>j. ret (j_is_dry_run j)))"

section \<open>The lease of a job\<close>

definition acquire_lease :: "uuid \<Rightarrow> string \<Rightarrow> bool act" where
  "acquire_lease i token =
     bind now (\<lambda>t.
     bind settings_of (\<lambda>s.
     session (bind (acquire_workflow_lease i token t (t + seconds (replacement_job_lease_seconds s))) (\<lambda>b.
       andthen commit (ret b)))))"

definition release_lease :: "uuid \<Rightarrow> string \<Rightarrow> unit act" where
  "release_lease i token = session (andthen (mod_ses (release_workflow_lease i token)) commit)"

definition renew_lease :: "uuid \<Rightarrow> string \<Rightarrow> unit act" where
  "renew_lease i token =
     bind now (\<lambda>t.
     bind settings_of (\<lambda>s.
     bind (acquire_workflow_lease i token t (t + seconds (replacement_job_lease_seconds s))) (\<lambda>b.
       guard_raise (\<not> b) ReplacementBusyError ''replacement workflow lease was lost'')))"

definition renew_session :: "uuid \<Rightarrow> string \<Rightarrow> unit act" where
  "renew_session i token = session (andthen (renew_lease i token) commit)"

section \<open>Events\<close>

definition add_event :: "uuid \<Rightarrow> event_type \<Rightarrow> severity \<Rightarrow> string \<Rightarrow> json option \<Rightarrow> unit act" where
  "add_event i ev sev message payload =
     bind (require_job i) (\<lambda>job.
     bind now (\<lambda>t.
       add_event_row \<lparr>e_node_id = Some (j_node_id job), e_job_id = Some (j_id job), e_type = ev,
         e_severity = sev, e_message = message, e_payload = payload, e_created_at = t\<rparr>))"

section \<open>The request for a new server\<close>

definition name_char :: "char \<Rightarrow> bool" where
  "name_char c \<longleftrightarrow>
     (let n = of_char c :: nat in 97 \<le> n \<and> n \<le> 122 \<or> 48 \<le> n \<and> n \<le> 57 \<or> n = 45)"

text \<open>\<open>re.sub(r"[^a-z0-9-]+", "-", s)\<close>; the flag says that a run of other characters is open.\<close>

fun collapse :: "bool \<Rightarrow> string \<Rightarrow> string" where
  "collapse b [] = []"
| "collapse b (c # cs) =
     (if name_char c then c # collapse False cs else (if b then [] else ''-'') @ collapse True cs)"

definition replacement_server_name :: "node_row \<Rightarrow> job_row \<Rightarrow> string" where
  "replacement_server_name node job =
     (let s0 = strip_chr (CHR ''-'') (collapse False (lower (n_name node)));
          s1 = (if s0 = [] then ''node'' else s0);
          s2 = rstrip_chr (CHR ''-'') (take 32 s1)
      in take 63 (''aso-'' @ s2 @ ''-'' @ take 8 (uuid_hex (j_id job)) @ ''-a'' @
           show_int (j_attempt_count job)))"

definition opt_or :: "string option \<Rightarrow> string option \<Rightarrow> string option" where
  "opt_or a b = (if truthy_text a then a else b)"

definition text_of :: "string option \<Rightarrow> string" where
  "text_of v = (case v of None \<Rightarrow> [] | Some s \<Rightarrow> s)"

definition missing_fields :: "(string \<times> string option) list \<Rightarrow> string list" where
  "missing_fields kvs = map fst (filter (\<lambda>(k, v). \<not> truthy_text v) kvs)"

definition build_create_request ::
    "job_row \<Rightarrow> node_row \<Rightarrow> provider_row \<Rightarrow> cred_row \<Rightarrow> vps_row \<Rightarrow> create_request act" where
  "build_create_request job node provider cred old_vps =
     (let region = opt_or (v_region old_vps) (p_default_region provider);
          server_type = opt_or (v_server_type old_vps) (p_default_server_type provider);
          image = opt_or (v_image old_vps) (p_default_image provider);
          missing = missing_fields
            [(''region'', region), (''server_type'', server_type), (''image'', image)];
          request = \<lparr>cs_name = replacement_server_name node job, cs_region = text_of region,
            cs_server_type = text_of server_type, cs_image = text_of image, cs_ssh_public_keys = [],
            cs_root_password = None, cs_user_data = None,
            cs_labels = [(''managed-by'', ''aso-node-recovery''),
              (''replacement-job'', take 12 (uuid_hex (j_id job))),
              (''attempt'', show_int (j_attempt_count job))]\<rparr>
      in if missing \<noteq> [] then
           raise ReplacementConfigurationError
             (''node replacement template is incomplete: '' @ join_with '', '' missing)
         else if cr_ssh_auth_method cred = PRIVATE_KEY then
           (if truthy_text (cr_ssh_public_key cred) then
              ret (request\<lparr>cs_ssh_public_keys := [text_of (cr_ssh_public_key cred)]\<rparr>)
            else raise ReplacementConfigurationError
              ''private-key SSH replacement requires node_credentials.ssh_public_key'')
         else if p_type provider \<noteq> LINODE then
           raise ReplacementConfigurationError
             ''password SSH bootstrap is currently supported only for Linode; use a public key''
         else
           bind (resolve_secret (cr_secret_backend cred) (cr_ssh_secret_ref cred)) (\<lambda>pw.
             ret (request\<lparr>cs_root_password := Some pw\<rparr>)))"

fun map_vps_state :: "server_status \<Rightarrow> vps_state" where
  "map_vps_state SRV_PROVISIONING = VPS_PROVISIONING"
| "map_vps_state SRV_RUNNING = VPS_RUNNING"
| "map_vps_state SRV_OFFLINE = VPS_ERROR"
| "map_vps_state SRV_DELETING = VPS_DELETING"
| "map_vps_state SRV_DELETED = VPS_DELETED"
| "map_vps_state SRV_ERROR = VPS_ERROR"
| "map_vps_state SRV_UNKNOWN = VPS_PROVISIONING"

section \<open>Mutations of the Master panel\<close>

definition resolve_deployment_api_token :: "deployment_row \<Rightarrow> string act" where
  "resolve_deployment_api_token d =
     (if truthy_text (d_api_token_ref d) then resolve_secret FILE (text_of (d_api_token_ref d))
      else raise ReplacementConfigurationError ''deployment API token reference is missing'')"

definition deployment_scheme :: "deployment_row \<Rightarrow> exn + string" where
  "deployment_scheme d =
     (if \<not> truthy_text (d_access_url d) then
        Inl (Exn ReplacementConfigurationError ''deployment access URL is missing'')
      else (case urlsplit (text_of (d_access_url d)) of
          Inl x \<Rightarrow> Inl x
        | Inr u \<Rightarrow>
            (if lower (u_scheme u) \<in> {''http'', ''https''} then Inr (lower (u_scheme u))
             else Inl (Exn ReplacementConfigurationError
               ''deployment access URL has unsupported scheme''))))"

definition require_panel_port :: "deployment_row \<Rightarrow> exn + int" where
  "require_panel_port d =
     (case d_panel_port d of
        Some p \<Rightarrow> if port_ok p then Inr p
          else Inl (Exn ReplacementConfigurationError ''deployment panel port is missing/invalid'')
      | None \<Rightarrow> Inl (Exn ReplacementConfigurationError ''deployment panel port is missing/invalid''))"

definition require_host :: "vps_row \<Rightarrow> exn + string" where
  "require_host v =
     (if truthy_text (v_host v) then Inr (text_of (v_host v))
      else Inl (Exn ReplacementConfigurationError ''replacement VPS has no public host''))"

definition require_master_snapshot :: "job_row \<Rightarrow> exn + (string \<times> json) list" where
  "require_master_snapshot job =
     (case j_master_snapshot job of
        Some (JObj fs) \<Rightarrow> Inr fs
      | _ \<Rightarrow> Inl (Exn ReplacementConfigurationError ''master rollback snapshot is missing''))"

definition parse_master_node_id :: "node_row \<Rightarrow> exn + int" where
  "parse_master_node_id node =
     (case parse_int 10 (n_master_node_id node) of
        None \<Rightarrow> Inl (Exn ReplacementConfigurationError
          ''master_node_id must be the explicit numeric 3X-UI node id'')
      | Some v \<Rightarrow> (if v \<le> 0 then
            Inl (Exn ReplacementConfigurationError ''master_node_id must be positive'')
          else Inr v))"

definition build_new_master_mutation :: "master_node \<Rightarrow> vps_row \<Rightarrow> deployment_row \<Rightarrow> mutation act" where
  "build_new_master_mutation existing new_vps d =
     bind (lift (deployment_scheme d)) (\<lambda>scheme.
     bind (lift (require_host new_vps)) (\<lambda>host.
     bind (lift (require_panel_port d)) (\<lambda>port.
     bind (resolve_deployment_api_token d) (\<lambda>token.
       lift (mutation_from_existing existing scheme host port (text_of (d_web_base_path d)) (Some token))))))"

definition normalize_target_mutation :: "mutation \<Rightarrow> mutation" where
  "normalize_target_mutation m =
     (if mm_scheme m \<noteq> ''https'' then m\<lparr>mm_tls_verify_mode := ''verify'', mm_pinned_cert_sha256 := []\<rparr>
      else m)"

text \<open>
  The target of \<open>_stage_master_updating\<close> and \<open>_stage_master_verifying\<close>: the snapshot with the
  token, address, port and path of the new server.
\<close>

definition target_mutation ::
    "(string \<times> json) list \<Rightarrow> string \<Rightarrow> vps_row \<Rightarrow> deployment_row \<Rightarrow> mutation act" where
  "target_mutation snapshot token new_vps d =
     bind (ask_env env_repr) (\<lambda>repr.
     bind (lift (mutation_from_snapshot repr snapshot (Some token))) (\<lambda>m.
     bind (lift (deployment_scheme d)) (\<lambda>scheme.
     bind (lift (require_host new_vps)) (\<lambda>host.
     bind (lift (require_panel_port d)) (\<lambda>port.
       ret (normalize_target_mutation (m\<lparr>mm_scheme := scheme, mm_address := host, mm_port := port,
         mm_base_path := text_of (d_web_base_path d)\<rparr>)))))))"

definition prepare_pin_if_needed :: "mutation \<Rightarrow> mutation act" where
  "prepare_pin_if_needed m =
     (if mm_scheme m = ''https'' \<and> mm_tls_verify_mode m = ''pin'' then
        bind (certificate_fingerprint (m\<lparr>mm_pinned_cert_sha256 := []\<rparr>)) (\<lambda>fp.
          ret (m\<lparr>mm_pinned_cert_sha256 := fp\<rparr>))
      else ret m)"

definition assert_master_test_result :: "(string \<times> json) list \<Rightarrow> unit act" where
  "assert_master_test_result result =
     bind (ask_env env_repr) (\<lambda>repr.
     let status = probe_text repr (jget result ''status'') [];
         xray = probe_text repr (jget result ''xrayState'') [] in
     andthen (guard_raise (status \<noteq> [] \<and> status \<noteq> ''online'') MasterNodeVerificationError
       (''master preflight reports status='' @ repr (JStr status)))
     (guard_raise (xray \<noteq> [] \<and> xray \<noteq> ''running'') MasterNodeVerificationError
       (''master preflight reports xrayState='' @ repr (JStr xray))))"

section \<open>After an unsuccessful job\<close>

text \<open>\<open>_restore_node_after_unsuccessful_job\<close>, for the node and job the session holds.\<close>

definition restore_node :: "node_row \<Rightarrow> job_row \<Rightarrow> unit act" where
  "restore_node node job =
     (if n_state node \<notin> workflow_states then ret ()
      else if j_trigger_mode job = FORCE \<and> j_master_updated_at job = None \<and>
        truthy_text (j_original_node_state job) then
        (case node_state_of (text_of (j_original_node_state job)) of
           None \<Rightarrow> node_transition_to (n_id node) NODE_FAILED_STATE
         | Some original \<Rightarrow> node_restore (n_id node) original)
      else node_transition_to (n_id node) NODE_FAILED_STATE)"

section \<open>Facts\<close>

lemma wp_require_row [hoare]:
  "wp (require_row get m) Q E e w =
     (case get (w_ses w) of
        None \<Rightarrow> E (Exn ReplacementConfigurationError m) w | Some r \<Rightarrow> Q r w)"
  by (simp add: require_row_def hoare)

lemma wp_transition_row [hoare]:
  "wp (transition_row get step put) Q E e w =
     (case get (w_ses w) of
        None \<Rightarrow> E (Exn RuntimeError ''the row is not loaded'') w
      | Some r \<Rightarrow> (case step (env_clock e (w_tick w)) r of
          Inl x \<Rightarrow> E x (w\<lparr>w_tick := Suc (w_tick w)\<rparr>)
        | Inr r' \<Rightarrow> wp (put r') Q E e (w\<lparr>w_tick := Suc (w_tick w)\<rparr>)))"
  by (simp add: transition_row_def hoare split: option.splits sum.splits)

lemma wp_acquire_workflow_lease [hoare]:
  "wp (acquire_workflow_lease i tok t u) Q E e w =
     (case try_acquire_workflow_lease i tok t u (w_ses w) of (b, d) \<Rightarrow> Q b (w\<lparr>w_ses := d\<rparr>))"
  by (simp add: wp_def acquire_workflow_lease_def split: prod.splits)

lemma wp_add_row [hoare]:
  "wp (add_row f) Q E e w =
     (if db_ok (f (w_ses w)) then Q () (w\<lparr>w_ses := f (w_ses w)\<rparr>)
      else E (Exn IntegrityError ''constraint violated'') (w\<lparr>w_ses := f (w_ses w)\<rparr>))"
  by (simp add: add_row_def hoare)

lemma replacement_server_name_length: "length (replacement_server_name n j) \<le> 63"
  by (simp add: replacement_server_name_def Let_def)

lemma collapse_name_chars: "list_all name_char (collapse b s)"
  by (induction b s rule: collapse.induct) (auto simp: name_char_def)

end
