(* ===== verification/OrchStages.thy ===== *)
theory OrchStages
  imports OrchCore
begin

text \<open>
  The stages of \<open>app/replacement/orchestrator.py\<close>, one action per \<open>_stage\<close> method, in the order of the
  checkpoints. A stage is a sequence of sessions with external calls between them; what it carries
  from a closed session is the row as it was read there. A part of a method that is a session of its
  own, or is used by two branches, is a definition of its own.
\<close>

section \<open>Created\<close>

definition stage_created :: "uuid \<Rightarrow> string \<Rightarrow> unit act" where
  "stage_created i token =
     session
       (andthen (require_job i)
       (andthen (upd_job i (\<lambda>j. if j_attempt_count j < 1 then j\<lparr>j_attempt_count := 1\<rparr> else j))
       (andthen (job_transition i PROVISIONING) commit)))"

section \<open>Provisioning\<close>

record provisioning_plan =
  pl_provider :: provider_row
  pl_dry_run :: bool
  pl_request :: create_request
  pl_requested_at :: "usec option"
  pl_active_temporary :: int
  pl_active_jobs :: int

definition live_vps :: "uuid option \<Rightarrow> db \<Rightarrow> bool" where
  "live_vps vid d =
     (case vid of None \<Rightarrow> False
      | Some v \<Rightarrow> (case get_vps v d of Some x \<Rightarrow> v_state x \<noteq> VPS_DELETED | None \<Rightarrow> False))"

text \<open>The first session; \<open>None\<close> when the job already has a live server and has moved on.\<close>

definition plan_provisioning :: "uuid \<Rightarrow> provisioning_plan option act" where
  "plan_provisioning i =
     session
       (bind (require_job i) (\<lambda>job.
        bind (require_node (j_node_id job)) (\<lambda>node.
        bind (require_provider (n_provider_id node)) (\<lambda>provider.
        bind (require_credential (n_id node)) (\<lambda>cred.
        bind (query (live_vps (j_new_vps_id job))) (\<lambda>have.
        if have then
          andthen (job_transition i PROVISIONED) (andthen commit (ret None))
        else
          bind (query count_active_replacements) (\<lambda>temporary.
          bind (query count_active_jobs) (\<lambda>active.
          bind (query (\<lambda>d. case j_old_vps_id job of None \<Rightarrow> None | Some v \<Rightarrow> get_vps v d)) (\<lambda>old.
          bind (require_some old ReplacementConfigurationError
            ''replacement job old VPS template is missing'') (\<lambda>old_vps.
          bind (build_create_request job node provider cred old_vps) (\<lambda>request.
          andthen commit
            (ret (Some \<lparr>pl_provider = provider, pl_dry_run = j_is_dry_run job, pl_request = request,
              pl_requested_at = j_provisioning_requested_at job, pl_active_temporary = temporary,
              pl_active_jobs = active\<rparr>)))))))))))))"

text \<open>The session before the request, which makes the intent durable; it gives the attempt.\<close>

definition mark_requested :: "uuid \<Rightarrow> string \<Rightarrow> int act" where
  "mark_requested i token =
     session
       (bind (require_job i) (\<lambda>job.
        bind now (\<lambda>t.
        andthen (upd_job i (\<lambda>j. j\<lparr>j_provisioning_requested_at := Some t\<rparr>))
        (andthen (renew_lease i token)
        (andthen commit (ret (j_attempt_count job)))))))"

definition request_server :: "uuid \<Rightarrow> string \<Rightarrow> usec \<Rightarrow> provisioning_plan \<Rightarrow> adapter \<Rightarrow> provider_server act" where
  "request_server i token t plan a =
     bind settings_of (\<lambda>s.
     andthen (guard_raise
         (case pl_requested_at plan of None \<Rightarrow> False
          | Some r \<Rightarrow> t - r < seconds (provider_reconcile_grace_seconds s))
         ReplacementDeferredError ''provider create reconciliation grace period is still active'')
     (bind (mark_requested i token) (\<lambda>attempt.
        catch [ProviderTransientError]
          (create_temporary a (pl_request plan) attempt
            \<lparr>cap_active_temporary = pl_active_temporary plan,
             cap_active_replacements = max 0 (pl_active_jobs plan - 1)\<rparr>)
          (\<lambda>x. raise ReplacementDeferredError (exn_msg x)))))"

text \<open>The last session: the registry row of the server, new or known, and the move to \<open>PROVISIONED\<close>.\<close>

definition refresh_vps :: "provider_server \<Rightarrow> create_request \<Rightarrow> vps_row \<Rightarrow> vps_row" where
  "refresh_vps s r v =
     v\<lparr>v_state := map_vps_state (ps_status s), v_host := opt_or (ps_ipv4 s) (v_host v),
       v_region := opt_or (ps_region s) (v_region v),
       v_server_type := opt_or (ps_server_type s) (v_server_type v),
       v_image := opt_or (ps_image s) (opt_or (v_image v) (Some (cs_image r)))\<rparr>"

definition record_instance :: "job_row \<Rightarrow> provisioning_plan \<Rightarrow> provider_server \<Rightarrow> (uuid \<times> bool) act" where
  "record_instance job plan s =
     bind (query (vps_by_provider_identity (p_id (pl_provider plan)) (ps_id s))) (\<lambda>known.
     case known of
       Some v \<Rightarrow> andthen (upd_vps (v_id v) (refresh_vps s (pl_request plan))) (ret (v_id v, False))
     | None \<Rightarrow>
         bind new_uuid (\<lambda>vid.
         bind now (\<lambda>t.
         andthen (add_vps \<lparr>v_id = vid, v_created_at = t, v_provider_id = p_id (pl_provider plan),
             v_node_id = j_node_id job, v_provider_server_id = ps_id s, v_role = REPLACEMENT,
             v_state = map_vps_state (ps_status s), v_host = ps_ipv4 s, v_region = ps_region s,
             v_server_type = opt_or (ps_server_type s) (Some (cs_server_type (pl_request plan))),
             v_image = opt_or (ps_image s) (Some (cs_image (pl_request plan)))\<rparr>)
         (ret (vid, True)))))"

definition record_server :: "uuid \<Rightarrow> string \<Rightarrow> provisioning_plan \<Rightarrow> provider_server \<Rightarrow> unit act" where
  "record_server i token plan s =
     session
       (bind (require_job i) (\<lambda>job.
        bind (record_instance job plan s) (\<lambda>(vid, created).
        andthen (upd_job i (\<lambda>j. j\<lparr>j_new_vps_id := Some vid\<rparr>))
        (andthen (job_transition i PROVISIONED)
        (andthen (whenM created (add_event i VPS_CREATED SEV_INFO ''Replacement VPS created/reconciled''
            (Some (JObj [(''attempt'', JInt (j_attempt_count job)),
              (''provider'', JStr (p_key (pl_provider plan)))]))))
        (andthen (renew_lease i token) commit))))))"

definition stage_provisioning :: "uuid \<Rightarrow> string \<Rightarrow> unit act" where
  "stage_provisioning i token =
     bind now (\<lambda>t.
     bind (plan_provisioning i) (\<lambda>o1. case o1 of
       None \<Rightarrow> ret ()
     | Some plan \<Rightarrow>
         bind (manager_get (pl_provider plan) (Some (pl_dry_run plan))) (\<lambda>a.
         bind (find_server_by_name a (cs_name (pl_request plan))) (\<lambda>found.
         bind (case found of Some s \<Rightarrow> ret s | None \<Rightarrow> request_server i token t plan a) (\<lambda>s.
           record_server i token plan s)))))"

section \<open>Provisioned\<close>

text \<open>\<open>_sleep_with_lease\<close>: the lease is renewed at least every thirty seconds of the sleep.\<close>

function sleep_loop :: "uuid \<Rightarrow> string \<Rightarrow> real \<Rightarrow> real \<Rightarrow> unit act" where
  "sleep_loop i token interval remaining =
     (if remaining \<le> 0 then ret ()
      else
        andthen assert_not_paused
        (andthen (sleep (min remaining (max 1 interval)))
        (andthen (renew_session i token)
          (sleep_loop i token interval (remaining - min remaining (max 1 interval))))))"
  by pat_completeness auto
termination
proof (relation "measure (\<lambda>(i, token, interval, remaining). nat \<lceil>remaining\<rceil>)")
  fix i :: uuid and token :: string and interval remaining :: real
  assume "\<not> remaining \<le> 0"
  then have "remaining - min remaining (max 1 interval) \<le> remaining - 1 \<or>
      remaining - min remaining (max 1 interval) = 0" by (auto simp: min_def)
  with \<open>\<not> remaining \<le> 0\<close> have "nat \<lceil>remaining - min remaining (max 1 interval)\<rceil> < nat \<lceil>remaining\<rceil>"
    by (auto simp: zless_nat_conj) linarith+
  then show "((i, token, interval, remaining - min remaining (max 1 interval)),
      (i, token, interval, remaining)) \<in> measure (\<lambda>(i, token, interval, remaining). nat \<lceil>remaining\<rceil>)"
    by simp
qed simp

declare sleep_loop.simps [simp del]

definition sleep_with_lease :: "uuid \<Rightarrow> string \<Rightarrow> real \<Rightarrow> unit act" where
  "sleep_with_lease i token secs =
     bind settings_of (\<lambda>s.
       sleep_loop i token (min 30 (real_of_int (replacement_job_lease_seconds s) / 3)) secs)"

definition wait_for_vps_boot_grace :: "uuid \<Rightarrow> string \<Rightarrow> unit act" where
  "wait_for_vps_boot_grace i token =
     bind settings_of (\<lambda>s.
     if replacement_vps_boot_grace_seconds s \<le> 0 then ret ()
     else sleep_with_lease i token (real_of_int (replacement_vps_boot_grace_seconds s)))"

text \<open>The server vanished at the provider: the candidate is given up.\<close>

definition server_vanished :: "uuid \<Rightarrow> unit act" where
  "server_vanished i =
     session
       (bind (require_job i) (\<lambda>job.
        bind (require_new_vps job) (\<lambda>v.
        andthen (upd_vps (v_id v) (\<lambda>v. v\<lparr>v_state := VPS_DELETED\<rparr>))
        (andthen (job_transition i TEMP_CLEANUP) commit))))"

definition record_running :: "uuid \<Rightarrow> string \<Rightarrow> provider_server \<Rightarrow> unit act" where
  "record_running i token s =
     session
       (bind (require_job i) (\<lambda>job.
        bind (require_new_vps job) (\<lambda>v.
        andthen (upd_vps (v_id v) (\<lambda>v. v\<lparr>v_host := ps_ipv4 s, v_state := VPS_RUNNING,
            v_region := opt_or (ps_region s) (v_region v),
            v_server_type := opt_or (ps_server_type s) (v_server_type v),
            v_image := opt_or (ps_image s) (v_image v)\<rparr>))
        (andthen (renew_lease i token) commit))))"

definition start_ip_check :: "uuid \<Rightarrow> string \<Rightarrow> unit act" where
  "start_ip_check i token =
     session
       (bind settings_of (\<lambda>s.
        andthen (require_job i)
        (andthen (job_transition i CHECKING_IP)
        (andthen (add_event i IP_CHECK_STARTED SEV_INFO
            ''Replacement IP multi-round reachability verification started''
            (Some (JObj [(''rounds'', JInt (replacement_reachability_rounds s)),
              (''round_interval_seconds'', JReal (replacement_reachability_round_interval_seconds s)),
              (''required_consensus'', JInt (replacement_reachability_required_consensus s))])))
        (andthen (renew_lease i token) commit)))))"

text \<open>The opening session of several stages: the job and its new server, the lease renewed.\<close>

definition load_new_vps :: "uuid \<Rightarrow> string \<Rightarrow> (job_row \<times> vps_row) act" where
  "load_new_vps i token =
     session
       (bind (require_job i) (\<lambda>job.
        bind (require_new_vps job) (\<lambda>v.
        andthen (renew_lease i token) (andthen commit (ret (job, v))))))"

definition stage_provisioned :: "uuid \<Rightarrow> string \<Rightarrow> unit act" where
  "stage_provisioned i token =
     bind (session
       (bind (require_job i) (\<lambda>job.
        bind (require_new_vps job) (\<lambda>v.
        bind (require_provider (v_provider_id v)) (\<lambda>provider.
        andthen (renew_lease i token) (andthen commit (ret (job, v, provider)))))))) (\<lambda>(job, v, provider).
     bind (manager_get provider (Some (j_is_dry_run job))) (\<lambda>a.
     bind (catch [ProviderNotFoundError]
         (bind (provisioning_wait a (v_provider_server_id v)) (\<lambda>s. ret (Some s)))
         (\<lambda>_. andthen (server_vanished i) (ret None))) (\<lambda>o1.
     case o1 of
       None \<Rightarrow> ret ()
     | Some s \<Rightarrow>
         andthen (record_running i token s)
         (andthen (wait_for_vps_boot_grace i token) (start_ip_check i token)))))"

section \<open>Checking the address\<close>

record round_counts =
  rc_clean :: int
  rc_filtered :: int
  rc_external_unavailable :: int
  rc_indeterminate :: int
  rc_details :: "json list"

definition no_rounds :: round_counts where
  "no_rounds = \<lparr>rc_clean = 0, rc_filtered = 0, rc_external_unavailable = 0, rc_indeterminate = 0,
     rc_details = []\<rparr>"

definition summary_payload :: "decision \<times> check_summary \<Rightarrow> json" where
  "summary_payload r =
     JObj [(''decision'', JStr (decision_value (fst r))),
       (''success_count'', JInt (success_count (snd r))),
       (''failure_count'', JInt (failure_count (snd r))), (''total_nodes'', JInt (total_nodes (snd r)))]"

definition round_detail ::
    "int \<Rightarrow> string \<Rightarrow> decision \<times> check_summary \<Rightarrow> (decision \<times> check_summary) option \<Rightarrow> json" where
  "round_detail k verdict external iran =
     JObj ([(''round'', JInt k), (''verdict'', JStr verdict), (''external'', summary_payload external)] @
       (case iran of None \<Rightarrow> [] | Some r \<Rightarrow> [(''iran'', summary_payload r)]))"

text \<open>The verdict of one round, from the check outside Iran and, when that succeeds, the one inside.\<close>

definition count_round ::
    "int \<Rightarrow> decision \<times> check_summary \<Rightarrow> (decision \<times> check_summary) option \<Rightarrow> round_counts \<Rightarrow> round_counts" where
  "count_round k external iran c =
     (let add = (\<lambda>verdict c'. c'\<lparr>rc_details := rc_details c' @ [round_detail k verdict external iran]\<rparr>) in
      case (fst external, iran) of
        (REACHABLE, Some (REACHABLE, _)) \<Rightarrow> add ''clean'' (c\<lparr>rc_clean := rc_clean c + 1\<rparr>)
      | (REACHABLE, Some (UNREACHABLE, _)) \<Rightarrow> add ''iran_filtered'' (c\<lparr>rc_filtered := rc_filtered c + 1\<rparr>)
      | (REACHABLE, _) \<Rightarrow> add ''iran_indeterminate'' (c\<lparr>rc_indeterminate := rc_indeterminate c + 1\<rparr>)
      | (UNREACHABLE, _) \<Rightarrow>
          add ''external_not_ready'' (c\<lparr>rc_external_unavailable := rc_external_unavailable c + 1\<rparr>)
      | (INDETERMINATE, _) \<Rightarrow>
          add ''external_indeterminate'' (c\<lparr>rc_indeterminate := rc_indeterminate c + 1\<rparr>))"

definition run_round :: "string \<Rightarrow> int \<Rightarrow> round_counts \<Rightarrow> round_counts act" where
  "run_round host k c =
     andthen assert_not_paused
     (bind (verify_external host) (\<lambda>external.
     bind (if fst external = REACHABLE then bind (verify_reachability host) (\<lambda>r. ret (Some r)) else ret None)
       (\<lambda>iran. ret (count_round k external iran c))))"

primrec run_rounds :: "uuid \<Rightarrow> string \<Rightarrow> string \<Rightarrow> int \<Rightarrow> int list \<Rightarrow> round_counts \<Rightarrow> round_counts act" where
  "run_rounds i token host rounds [] c = ret c"
| "run_rounds i token host rounds (k # ks) c =
     bind (run_round host k c) (\<lambda>c'.
     andthen (renew_session i token)
     (bind settings_of (\<lambda>s.
     andthen (whenM (k < rounds)
       (sleep_with_lease i token (replacement_reachability_round_interval_seconds s)))
     (run_rounds i token host rounds ks c'))))"

definition rounds_payload :: "int \<Rightarrow> int \<Rightarrow> round_counts \<Rightarrow> json" where
  "rounds_payload rounds required c =
     JObj [(''rounds'', JInt rounds), (''required_consensus'', JInt required),
       (''clean_rounds'', JInt (rc_clean c)), (''filtered_rounds'', JInt (rc_filtered c)),
       (''external_unavailable_rounds'', JInt (rc_external_unavailable c)),
       (''indeterminate_rounds'', JInt (rc_indeterminate c)), (''round_details'', JList (rc_details c))]"

definition consensus :: "int \<Rightarrow> round_counts \<Rightarrow> decision" where
  "consensus required c =
     (if rc_clean c \<ge> required then REACHABLE
      else if rc_filtered c \<ge> required then UNREACHABLE
      else INDETERMINATE)"

definition verify_candidate_reachability :: "uuid \<Rightarrow> string \<Rightarrow> string \<Rightarrow> (decision \<times> json) act" where
  "verify_candidate_reachability i token host =
     bind settings_of (\<lambda>s.
     let rounds = replacement_reachability_rounds s;
         required = replacement_reachability_required_consensus s in
     bind (run_rounds i token host rounds [1..rounds] no_rounds) (\<lambda>c.
       ret (consensus required c, rounds_payload rounds required c)))"

definition record_ip_decision :: "uuid \<Rightarrow> decision \<Rightarrow> json \<Rightarrow> unit act" where
  "record_ip_decision i d payload =
     session
       (andthen (require_job i)
       (andthen
         (if d = UNREACHABLE then
            andthen (add_event i IP_CHECK_FAILED SEV_WARNING
              ''Replacement IP failed Iran reachability quorum'' (Some payload))
            (job_transition i TEMP_CLEANUP)
          else
            bind now (\<lambda>t.
            andthen (upd_job i (\<lambda>j. j\<lparr>j_new_ip_verified_at := Some t\<rparr>))
            (andthen (add_event i IP_CHECK_PASSED SEV_INFO
              ''Replacement IP passed Iran reachability quorum'' (Some payload))
            (job_transition i IP_VERIFIED))))
       commit))"

text \<open>As \<open>load_new_vps\<close>, but the host is required before the lease is renewed.\<close>

definition load_new_host :: "uuid \<Rightarrow> string \<Rightarrow> (bool \<times> string) act" where
  "load_new_host i token =
     session
       (bind (require_job i) (\<lambda>job.
        bind (require_new_vps job) (\<lambda>v.
        bind (lift (require_host v)) (\<lambda>host.
        andthen (renew_lease i token) (andthen commit (ret (j_is_dry_run job, host)))))))"

definition stage_checking_ip :: "uuid \<Rightarrow> string \<Rightarrow> unit act" where
  "stage_checking_ip i token =
     bind (load_new_host i token) (\<lambda>(dry, host).
     bind (if dry then ret (REACHABLE, JObj [(''dry_run'', JBool True)])
           else verify_candidate_reachability i token host) (\<lambda>(d, payload).
     andthen (guard_raise (d = INDETERMINATE) ReplacementDeferredError
       ''replacement IP verification is inconclusive; candidate VPS was kept for retry'')
     (record_ip_decision i d payload)))"

section \<open>Cleaning up a rejected candidate\<close>

record cleanup_plan =
  cl_dry_run :: bool
  cl_vps :: "vps_row option"
  cl_provider :: "provider_row option"

definition plan_cleanup :: "uuid \<Rightarrow> string \<Rightarrow> cleanup_plan act" where
  "plan_cleanup i token =
     session
       (bind (require_job i) (\<lambda>job.
        bind (query (\<lambda>d. case j_new_vps_id job of None \<Rightarrow> None | Some v \<Rightarrow> get_vps v d)) (\<lambda>v.
        bind (case v of None \<Rightarrow> ret None
              | Some x \<Rightarrow> bind (require_provider (v_provider_id x)) (\<lambda>p. ret (Some p))) (\<lambda>p.
        andthen (renew_lease i token)
        (andthen commit (ret \<lparr>cl_dry_run = j_is_dry_run job, cl_vps = v, cl_provider = p\<rparr>))))))"

definition expected_server_name :: "uuid \<Rightarrow> string act" where
  "expected_server_name i =
     session
       (bind (require_job i) (\<lambda>job.
        bind (require_node (j_node_id job)) (\<lambda>node.
          ret (replacement_server_name node job))))"

text \<open>The candidate is deleted only when the provider still shows it under its own name and address.\<close>

definition check_temporary :: "vps_row \<Rightarrow> string \<Rightarrow> provider_server \<Rightarrow> unit act" where
  "check_temporary v expected s =
     andthen (guard_raise (ps_id s \<noteq> v_provider_server_id v) SafetyViolationError
       ''temporary VPS cleanup denied; provider identity mismatch'')
     (andthen (guard_raise (ps_name s \<noteq> expected) SafetyViolationError
       ''temporary VPS cleanup denied; provider server name does not match the deterministic replacement identity'')
     (guard_raise (truthy_text (v_host v) \<and> ps_ipv4 s \<noteq> v_host v) SafetyViolationError
       ''temporary VPS cleanup denied; provider IP does not match registry identity''))"

definition get_server_if_any :: "adapter \<Rightarrow> string \<Rightarrow> provider_server option act" where
  "get_server_if_any a sid =
     catch [ProviderNotFoundError] (bind (get_server a sid) (\<lambda>s. ret (Some s))) (\<lambda>_. ret None)"

definition delete_candidate :: "uuid \<Rightarrow> bool \<Rightarrow> vps_row \<Rightarrow> provider_row \<Rightarrow> unit act" where
  "delete_candidate i dry v p =
     bind (manager_get p (Some dry)) (\<lambda>a.
     bind (expected_server_name i) (\<lambda>expected.
     bind (get_server_if_any a (v_provider_server_id v)) (\<lambda>found. case found of
       None \<Rightarrow> ret ()
     | Some s \<Rightarrow>
         andthen (check_temporary v expected s) (delete_temporary a (v_provider_server_id v)))))"

text \<open>The attempt is over: the next one, unless the job has used them up.\<close>

definition next_attempt :: "uuid \<Rightarrow> bool act" where
  "next_attempt i =
     session
       (bind (require_job i) (\<lambda>job.
        andthen (case j_new_vps_id job of None \<Rightarrow> ret ()
          | Some v \<Rightarrow> upd_vps v (\<lambda>v. v\<lparr>v_state := VPS_DELETED\<rparr>))
        (andthen (upd_job i (\<lambda>j. j\<lparr>j_new_vps_id := None, j_provisioning_requested_at := None\<rparr>))
        (let exhausted = (j_attempt_count job \<ge> j_max_attempts job) in
         andthen (whenM (\<not> exhausted)
           (andthen (upd_job i (\<lambda>j. j\<lparr>j_attempt_count := j_attempt_count j + 1\<rparr>))
             (job_transition i PROVISIONING)))
         (andthen commit (ret exhausted))))))"

definition stage_temp_cleanup :: "uuid \<Rightarrow> string \<Rightarrow> unit act" where
  "stage_temp_cleanup i token =
     bind (plan_cleanup i token) (\<lambda>plan.
     andthen
       (case (cl_vps plan, cl_provider plan) of
          (Some v, Some p) \<Rightarrow>
            whenM (v_state v \<noteq> VPS_DELETED) (delete_candidate i (cl_dry_run plan) v p)
        | _ \<Rightarrow> ret ())
     (bind (next_attempt i) (\<lambda>exhausted.
       guard_raise exhausted SafetyViolationError
         ''replacement attempt limit reached after bad IP cleanup'')))"

section \<open>Deploying\<close>

definition stage_ip_verified :: "uuid \<Rightarrow> string \<Rightarrow> unit act" where
  "stage_ip_verified i token =
     session
       (bind (require_job i) (\<lambda>job.
        bind (require_new_vps job) (\<lambda>v.
        bind (query (deployment_for_attempt (j_id job) (j_attempt_count job))) (\<lambda>known.
        andthen (case known of
            Some _ \<Rightarrow> ret ()
          | None \<Rightarrow> bind new_uuid (\<lambda>did.
              add_deployment \<lparr>d_id = did, d_job_id = j_id job, d_vps_id = v_id v,
                d_attempt_number = j_attempt_count job, d_state = DEP_PENDING, d_started_at = None,
                d_completed_at = None, d_error_code = None, d_error_message = None,
                d_panel_username = None, d_panel_port = None, d_web_base_path = None,
                d_access_url = None, d_api_token_ref = None, d_panel_password_ref = None,
                d_db_type = None\<rparr>))
        (bind (require_node (j_node_id job)) (\<lambda>node.
        andthen (whenM (\<not> j_is_dry_run job \<and> n_state node = REPLACING)
          (node_transition_to (n_id node) NODE_DEPLOYING))
        (andthen (whenM (known = None)
          (add_event i DEPLOYMENT_STARTED SEV_INFO ''3X-UI deployment started''
            (Some (JObj [(''attempt'', JInt (j_attempt_count job))]))))
        (andthen (job_transition i DEPLOYING) commit))))))))"

text \<open>The panel data of a finished deployment.\<close>

definition record_panel :: "xui_config \<Rightarrow> deployment_row \<Rightarrow> deployment_row" where
  "record_panel c d =
     d\<lparr>d_panel_username := Some (xc_username c), d_panel_port := Some (xc_panel_port c),
       d_web_base_path := Some (xc_web_base_path c), d_access_url := Some (xc_access_url c),
       d_db_type := Some (xc_db_type c)\<rparr>"

definition secret_scope :: "job_row \<Rightarrow> string" where
  "secret_scope job =
     ''replacement-'' @ uuid_hex (j_id job) @ ''-a'' @ show_int (j_attempt_count job)"

definition finish_deployment :: "uuid \<Rightarrow> job_row \<Rightarrow> uuid \<Rightarrow> xui_config \<Rightarrow> unit act" where
  "finish_deployment i job did c =
     bind (write_secret (secret_scope job) ''node-api-token'' (xc_api_token c)) (\<lambda>token_ref.
     andthen (upd_deployment did (\<lambda>d. d\<lparr>d_api_token_ref := Some token_ref\<rparr>))
     (bind (write_secret (secret_scope job) ''panel-password'' (xc_password c)) (\<lambda>password_ref.
     andthen (upd_deployment did (\<lambda>d. record_panel c (d\<lparr>d_panel_password_ref := Some password_ref\<rparr>)))
     (bind now (\<lambda>t.
     andthen (upd_job i (\<lambda>j. j\<lparr>j_deployment_verified_at := Some t\<rparr>))
     (bind (require_node (j_node_id job)) (\<lambda>node.
     andthen (whenM (\<not> j_is_dry_run job \<and> n_state node = NODE_DEPLOYING)
       (node_transition_to (n_id node) NODE_VERIFYING))
     (andthen (job_transition i NODE_VERIFIED) commit))))))))"

definition stage_deploying :: "uuid \<Rightarrow> string \<Rightarrow> unit act" where
  "stage_deploying i token =
     session
       (bind (require_job i) (\<lambda>job.
        bind (require_node (j_node_id job)) (\<lambda>node.
        bind (require_credential (n_id node)) (\<lambda>cred.
        bind (require_new_vps job) (\<lambda>v.
        bind (require_deployment job) (\<lambda>d.
        bind (lift (require_host v)) (\<lambda>host.
        bind (ssh_spec cred host) (\<lambda>ssh.
        andthen (renew_lease i token)
        (andthen commit
        (bind (catch_all
            (deploy (d_id d) ssh host (andthen (renew_lease i token) commit) (Some (j_is_dry_run job)))
            (\<lambda>x.
              andthen (add_event i DEPLOYMENT_FAILED SEV_ERROR ''3X-UI deployment failed''
                (Some (JObj [(''attempt'', JInt (j_attempt_count job))])))
              (andthen commit (reraise x)))) (\<lambda>(config, _).
          finish_deployment i job (d_id d) config)))))))))))"

end
