(* ===== verification/OrchMaster.thy ===== *)
theory OrchMaster
  imports OrchStages
begin

text \<open>
  The stages from the deployed node to the end of the job: the switch of the Master panel, its
  verification, the final reachability check with its rollback, and the deletion of the old server
  behind the guard.
\<close>

section \<open>Before the switch\<close>

definition dry_run_snapshot :: "node_row \<Rightarrow> cred_row \<Rightarrow> json" where
  "dry_run_snapshot node cred =
     JObj [(''id'', JStr (n_master_node_id node)), (''name'', JStr (n_name node)),
       (''scheme'', JStr ''http''), (''address'', JStr (n_current_host node)),
       (''port'', JInt (n_current_port node)), (''basePath'', JStr (text_of (cr_panel_base_path cred))),
       (''hasApiToken'', JBool (truthy_text (cr_api_token_ref cred))), (''enable'', JBool True),
       (''allowPrivateAddress'', JBool False), (''tlsVerifyMode'', JStr ''verify''),
       (''pinnedCertSha256'', JStr []), (''inboundSyncMode'', JStr ''all''),
       (''inboundTags'', JList []), (''outboundTag'', JStr [])]"

record switch_context =
  sw_master_id :: int
  sw_cred :: cred_row
  sw_vps :: vps_row
  sw_deployment :: deployment_row

definition keep_snapshot :: "json \<Rightarrow> job_row \<Rightarrow> job_row" where
  "keep_snapshot snapshot j =
     (if j_master_snapshot j = None then j\<lparr>j_master_snapshot := Some snapshot\<rparr> else j)"

text \<open>The first session; a dry run is finished with it.\<close>

definition load_switch :: "uuid \<Rightarrow> string \<Rightarrow> switch_context option act" where
  "load_switch i token =
     session
       (bind (require_job i) (\<lambda>job.
        bind (require_node (j_node_id job)) (\<lambda>node.
        bind (require_credential (n_id node)) (\<lambda>cred.
        bind (require_new_vps job) (\<lambda>v.
        bind (require_deployment job) (\<lambda>d.
        if j_is_dry_run job then
          andthen (upd_job i (keep_snapshot (dry_run_snapshot node cred)))
          (andthen (job_transition i MASTER_UPDATING) (andthen commit (ret None)))
        else
          bind (lift (parse_master_node_id node)) (\<lambda>mid.
          andthen (renew_lease i token)
          (andthen commit
            (ret (Some \<lparr>sw_master_id = mid, sw_cred = cred, sw_vps = v, sw_deployment = d\<rparr>))))))))))"

definition check_existing :: "master_node \<Rightarrow> cred_row \<Rightarrow> unit act" where
  "check_existing existing cred =
     andthen (guard_raise (mn_transitive existing) ReplacementConfigurationError
       ''transitive master nodes are read-only'')
     (andthen (guard_raise (mn_tls_verify_mode existing = ''mtls'') ReplacementConfigurationError
       ''mTLS master nodes require certificate deployment support; refusing security downgrade'')
     (guard_raise (mn_has_api_token existing \<and> \<not> truthy_text (cr_api_token_ref cred))
       ReplacementConfigurationError
       ''old master node token reference is required for safe rollback before switching''))"

definition record_snapshot :: "uuid \<Rightarrow> master_node \<Rightarrow> unit act" where
  "record_snapshot i existing =
     session
       (andthen (require_job i)
       (andthen (upd_job i (keep_snapshot (safe_snapshot existing))) commit))"

text \<open>A session that only moves the job.\<close>

definition move_session :: "uuid \<Rightarrow> checkpoint \<Rightarrow> unit act" where
  "move_session i target =
     session (andthen (require_job i) (andthen (job_transition i target) commit))"

definition stage_node_verified :: "uuid \<Rightarrow> string \<Rightarrow> unit act" where
  "stage_node_verified i token =
     bind (load_switch i token) (\<lambda>o1. case o1 of
       None \<Rightarrow> ret ()
     | Some c \<Rightarrow>
         bind (master_get_node (sw_master_id c)) (\<lambda>existing.
         andthen (check_existing existing (sw_cred c))
         (andthen (record_snapshot i existing)
         (bind (build_new_master_mutation existing (sw_vps c) (sw_deployment c)) (\<lambda>m0.
         bind (prepare_pin_if_needed m0) (\<lambda>m.
         bind (master_test_node m) (\<lambda>result.
         andthen (assert_master_test_result result) (move_session i MASTER_UPDATING))))))))"

section \<open>The switch\<close>

text \<open>
  The first session of \<open>_stage_master_updating\<close> and \<open>_stage_master_verifying\<close>: in a dry run it sets
  the stage's marker and moves on; otherwise it gives the panel's node and the target mutation.
\<close>

definition load_target ::
    "uuid \<Rightarrow> string \<Rightarrow> (usec \<Rightarrow> job_row \<Rightarrow> job_row) \<Rightarrow> checkpoint \<Rightarrow> (int \<times> mutation) option act" where
  "load_target i token mark target =
     session
       (bind (require_job i) (\<lambda>job.
        if j_is_dry_run job then
          bind now (\<lambda>t.
          andthen (upd_job i (mark t))
          (andthen (job_transition i target) (andthen commit (ret None))))
        else
          bind (require_node (j_node_id job)) (\<lambda>node.
          bind (require_new_vps job) (\<lambda>v.
          bind (require_deployment job) (\<lambda>d.
          bind (lift (require_master_snapshot job)) (\<lambda>snapshot.
          bind (lift (parse_master_node_id node)) (\<lambda>mid.
          bind (resolve_deployment_api_token d) (\<lambda>api_token.
          bind (target_mutation snapshot api_token v d) (\<lambda>m.
          andthen (renew_lease i token) (andthen commit (ret (Some (mid, m)))))))))))))"

definition mark_updated :: "usec \<Rightarrow> job_row \<Rightarrow> job_row" where
  "mark_updated t j = j\<lparr>j_master_updated_at := Some t\<rparr>"

definition mark_verified :: "usec \<Rightarrow> job_row \<Rightarrow> job_row" where
  "mark_verified t j = j\<lparr>j_master_verified_at := Some t\<rparr>"

text \<open>The last session of the two stages: marker, event, transition.\<close>

definition record_marker ::
    "uuid \<Rightarrow> (usec \<Rightarrow> job_row \<Rightarrow> job_row) \<Rightarrow> event_type \<Rightarrow> string \<Rightarrow> checkpoint \<Rightarrow> unit act" where
  "record_marker i mark ev message target =
     session
       (andthen (require_job i)
       (bind now (\<lambda>t.
        andthen (upd_job i (mark t))
        (andthen (add_event i ev SEV_INFO message None)
        (andthen (job_transition i target) commit)))))"

definition stage_master_updating :: "uuid \<Rightarrow> string \<Rightarrow> unit act" where
  "stage_master_updating i token =
     bind (load_target i token mark_updated MASTER_UPDATED) (\<lambda>o1. case o1 of
       None \<Rightarrow> ret ()
     | Some (mid, m0) \<Rightarrow>
         bind (prepare_pin_if_needed m0) (\<lambda>m.
         andthen (master_update_node mid m)
         (record_marker i mark_updated EV_MASTER_UPDATED ''Master node configuration updated''
           MASTER_UPDATED)))"

definition stage_master_updated :: "uuid \<Rightarrow> string \<Rightarrow> unit act" where
  "stage_master_updated i token = move_session i MASTER_VERIFYING"

text \<open>\<open>_rollback_master\<close>.\<close>

definition load_rollback :: "uuid \<Rightarrow> (int \<times> mutation) option act" where
  "load_rollback i =
     session
       (bind (require_job i) (\<lambda>job.
        if j_is_dry_run job then ret None
        else
          bind (require_node (j_node_id job)) (\<lambda>node.
          bind (require_credential (n_id node)) (\<lambda>cred.
          bind (lift (require_master_snapshot job)) (\<lambda>snapshot.
          bind (lift (parse_master_node_id node)) (\<lambda>mid.
          bind (if truthy (jget snapshot ''hasApiToken'') then
              (if \<not> truthy_text (cr_api_token_ref cred) then
                 raise SafetyViolationError ''cannot rollback master: old API token reference is missing''
               else
                 bind (resolve_secret
                     (case cr_api_token_backend cred of Some b \<Rightarrow> b | None \<Rightarrow> cr_secret_backend cred)
                     (text_of (cr_api_token_ref cred))) (\<lambda>tok. ret (Some tok)))
            else ret None) (\<lambda>old_token.
          bind (ask_env env_repr) (\<lambda>repr.
          bind (lift (mutation_from_snapshot repr snapshot old_token)) (\<lambda>m.
          andthen commit (ret (Some (mid, m))))))))))))"

definition rollback_master :: "uuid \<Rightarrow> unit act" where
  "rollback_master i =
     bind (load_rollback i) (\<lambda>o1. case o1 of
       None \<Rightarrow> ret ()
     | Some (mid, m) \<Rightarrow>
         andthen (master_update_node mid m) (andthen (master_verify_node mid m) (ret ())))"

definition stage_master_verifying :: "uuid \<Rightarrow> string \<Rightarrow> unit act" where
  "stage_master_verifying i token =
     bind (load_target i token mark_verified MASTER_VERIFIED) (\<lambda>o1. case o1 of
       None \<Rightarrow> ret ()
     | Some (mid, m0) \<Rightarrow>
         bind (prepare_pin_if_needed m0) (\<lambda>m.
         andthen
           (catch_all (andthen (master_verify_node mid m) (ret ()))
             (\<lambda>x. if catches [MasterTransientError] x then reraise x
                  else if catches [MasterNodeVerificationError] x then
                    andthen (rollback_master i) (reraise x)
                  else reraise x))
         (record_marker i mark_verified EV_MASTER_VERIFIED ''Master node update verified''
           MASTER_VERIFIED)))"

definition stage_master_verified :: "uuid \<Rightarrow> string \<Rightarrow> unit act" where
  "stage_master_verified i token = move_session i FINAL_CHECK"

section \<open>The final check\<close>

definition record_final :: "uuid \<Rightarrow> unit act" where
  "record_final i =
     session
       (andthen (require_job i)
       (bind now (\<lambda>t.
        andthen (upd_job i (\<lambda>j. j\<lparr>j_final_health_verified_at := Some t\<rparr>))
        (andthen (job_transition i FINAL_VERIFIED) commit))))"

definition stage_final_check :: "uuid \<Rightarrow> string \<Rightarrow> unit act" where
  "stage_final_check i token =
     bind (load_new_host i token) (\<lambda>(dry, host).
     bind (if dry then ret REACHABLE else bind (verify_reachability host) (\<lambda>r. ret (fst r))) (\<lambda>d.
     andthen (guard_raise (d = INDETERMINATE) ReplacementDeferredError
       ''final reachability check is indeterminate'')
     (if d = UNREACHABLE then
        andthen (rollback_master i)
          (raise SafetyViolationError ''final reachability check failed; master rolled back'')
      else record_final i)))"

definition stage_final_verified :: "uuid \<Rightarrow> string \<Rightarrow> unit act" where
  "stage_final_verified i token = move_session i OLD_VPS_CLEANUP"

section \<open>The old server\<close>

datatype cleanup_target = SimulatedCleanup provider_row string | LiveCleanup provider_row vps_row

text \<open>The first session, with the guard.\<close>

definition load_old_cleanup :: "uuid \<Rightarrow> string \<Rightarrow> cleanup_target act" where
  "load_old_cleanup i token =
     session
       (bind (require_job i) (\<lambda>job.
        andthen (assert_not_emergency_stopped (j_is_dry_run job))
        (bind (require_new_vps job) (\<lambda>new_vps.
        bind (require_deployment job) (\<lambda>d.
        if j_is_dry_run job then
          bind (require_provider (v_provider_id new_vps)) (\<lambda>p.
          andthen (renew_lease i token)
          (andthen commit (ret (SimulatedCleanup p (v_provider_server_id new_vps)))))
        else
          bind (require_some (j_old_vps_id job) SafetyViolationError
            ''replacement job has no old VPS identity'') (\<lambda>oid.
          bind (query (get_vps oid)) (\<lambda>o1.
          bind (require_some o1 SafetyViolationError ''old VPS registry row is missing'') (\<lambda>old_vps.
          bind settings_of (\<lambda>s.
          andthen (guard_raise (\<not> allow_old_vps_deletion s) ReplacementDeferredError
            ''old VPS deletion is independently disabled; replacement is verified and waiting at cleanup until an operator explicitly enables deletion'')
          (andthen (lift (assert_can_delete job d new_vps old_vps))
          (bind (require_provider (v_provider_id old_vps)) (\<lambda>p.
          andthen (renew_lease i token)
          (andthen commit (ret (LiveCleanup p old_vps)))))))))))))))"

definition finish_dry_run :: "uuid \<Rightarrow> unit act" where
  "finish_dry_run i =
     session
       (bind (require_job i) (\<lambda>job.
        bind (require_new_vps job) (\<lambda>v.
        andthen (upd_vps (v_id v) (\<lambda>v. v\<lparr>v_state := VPS_DELETED\<rparr>))
        (andthen (job_transition i COMPLETED)
        (andthen (add_event i REPLACEMENT_COMPLETED SEV_INFO
            ''Dry-run replacement simulation completed; old VPS and node registry unchanged''
            (Some (JObj [(''dry_run'', JBool True)]))) commit)))))"

text \<open>The comparison of the provider's answer with the registry, and the deletion.\<close>

definition check_old_server :: "vps_row \<Rightarrow> provider_server \<Rightarrow> unit act" where
  "check_old_server old_vps s =
     andthen (guard_raise (ps_id s \<noteq> v_provider_server_id old_vps) SafetyViolationError
       ''provider returned a different old VPS identity'')
     (bind (require_some (canonical_ip (text_of (v_host old_vps))) SafetyViolationError
       ''old VPS deletion denied; registry host must be a literal public IP'') (\<lambda>registered.
     guard_raise (ps_ipv4 s \<noteq> Some registered) SafetyViolationError
       ''old VPS deletion denied; provider IP does not match registry identity''))"

definition delete_old_server :: "adapter \<Rightarrow> vps_row \<Rightarrow> unit act" where
  "delete_old_server a old_vps =
     bind (get_server_if_any a (v_provider_server_id old_vps)) (\<lambda>found. case found of
       None \<Rightarrow> ret ()
     | Some s \<Rightarrow>
         andthen (check_old_server old_vps s) (delete_server a (v_provider_server_id old_vps)))"

definition switch_node :: "vps_row \<Rightarrow> string \<Rightarrow> int \<Rightarrow> node_row \<Rightarrow> node_row" where
  "switch_node v host port n =
     n\<lparr>n_provider_id := v_provider_id v, n_current_host := host, n_current_port := port,
       n_consecutive_failures := 0, n_consecutive_successes := max 1 (n_consecutive_successes n)\<rparr>"

definition switch_cred :: "deployment_row \<Rightarrow> cred_row \<Rightarrow> cred_row" where
  "switch_cred d c =
     c\<lparr>cr_panel_username := d_panel_username d, cr_panel_base_path := d_web_base_path d,
       cr_panel_password_ref := d_panel_password_ref d, cr_panel_password_backend := Some FILE,
       cr_api_token_ref := d_api_token_ref d, cr_api_token_backend := Some FILE\<rparr>"

text \<open>The last session: the registry now describes the new server.\<close>

definition finish_replacement :: "uuid \<Rightarrow> unit act" where
  "finish_replacement i =
     session
       (bind (require_job i) (\<lambda>job.
        bind (require_node (j_node_id job)) (\<lambda>node.
        bind (require_credential (n_id node)) (\<lambda>cred.
        bind (require_new_vps job) (\<lambda>new_vps.
        bind (require_deployment job) (\<lambda>d.
        bind (query (\<lambda>db. case j_old_vps_id job of None \<Rightarrow> None | Some v \<Rightarrow> get_vps v db)) (\<lambda>o1.
        bind (require_some o1 SafetyViolationError ''old VPS registry row vanished during cleanup'')
          (\<lambda>old_vps.
        andthen (upd_vps (v_id old_vps) (\<lambda>v. v\<lparr>v_state := VPS_DELETED\<rparr>))
        (andthen (upd_vps (v_id new_vps) (\<lambda>v. v\<lparr>v_role := CURRENT, v_state := VPS_RUNNING\<rparr>))
        (bind now (\<lambda>t.
        andthen (upd_job i (\<lambda>j. j\<lparr>j_old_vps_deleted_at := Some t\<rparr>))
        (bind (lift (require_host new_vps)) (\<lambda>host.
        bind (lift (require_panel_port d)) (\<lambda>port.
        andthen (upd_node (n_id node) (switch_node new_vps host port))
        (andthen (upd_cred (cr_id cred) (switch_cred d))
        (andthen (whenM (n_state node \<noteq> HEALTHY) (node_transition_to (n_id node) HEALTHY))
        (andthen (add_event i OLD_VPS_DELETED SEV_INFO ''Old VPS deleted after all safety gates'' None)
        (andthen (job_transition i COMPLETED)
        (andthen (add_event i REPLACEMENT_COMPLETED SEV_INFO ''Replacement completed successfully'' None)
          commit)))))))))))))))))))"

definition stage_old_vps_cleanup :: "uuid \<Rightarrow> string \<Rightarrow> unit act" where
  "stage_old_vps_cleanup i token =
     bind (load_old_cleanup i token) (\<lambda>target. case target of
       SimulatedCleanup p sid \<Rightarrow>
         bind (manager_get p (Some True)) (\<lambda>a.
         andthen (catch [ProviderNotFoundError] (delete_temporary a sid) (\<lambda>_. ret ()))
           (finish_dry_run i))
     | LiveCleanup p old_vps \<Rightarrow>
         bind (manager_get p (Some False)) (\<lambda>a.
         andthen (delete_old_server a old_vps) (finish_replacement i)))"

end
