(* ===== verification/Orchestrator.thy ===== *)
theory Orchestrator
  imports OrchMaster
begin

text \<open>
  The operations of \<open>ReplacementOrchestrator\<close>: creating a job (\<open>trigger\<close>), running it from its
  checkpoint (\<open>resume\<close>, with \<open>_dispatch\<close> and \<open>_fail_job\<close>) and cancelling it. \<open>resume\<close> takes at most 64
  steps in one call, as the source does; the bound is part of the code, not fuel of the model.
\<close>

record run_result =
  rr_job_id :: uuid
  rr_checkpoint :: checkpoint
  rr_terminal :: bool
  rr_deferred :: bool
  rr_reason :: "string option"

section \<open>Creating a job\<close>

definition trigger_dry_run :: "bool act" where
  "trigger_dry_run =
     bind (ask_env env_op_settings) (\<lambda>have.
     if have then effective_dry_run else bind settings_of (\<lambda>s. ret (dry_run s)))"

text \<open>The state a node must be in for a trigger.\<close>

definition check_trigger_state :: "bool \<Rightarrow> node_row \<Rightarrow> exn + unit" where
  "check_trigger_state force node =
     (if force then
        (if n_state node = DISABLED then
           Inl (Exn ReplacementConfigurationError ''force repair is blocked while the node is disabled'')
         else if n_state node \<in> workflow_states then
           Inl (Exn ReplacementBusyError
             (''node is already in workflow state '' @ node_state_value (n_state node)))
         else Inr ())
      else if n_state node \<noteq> NODE_FAILED_STATE then
        Inl (Exn ReplacementConfigurationError
          (''replacement requires FAILED node; current state='' @ node_state_value (n_state node)))
      else Inr ())"

definition new_job ::
    "uuid \<Rightarrow> usec \<Rightarrow> node_row \<Rightarrow> bool \<Rightarrow> bool \<Rightarrow> string option \<Rightarrow> int \<Rightarrow> uuid \<Rightarrow> job_row" where
  "new_job i t node dry force request_key max_attempts old_vps =
     \<lparr>j_id = i, j_created_at = t, j_node_id = n_id node, j_state = JS_PENDING, j_checkpoint = CREATED,
      j_active_slot = Some True, j_is_dry_run = dry,
      j_trigger_mode = (if force then FORCE else STANDARD), j_request_key = request_key,
      j_original_node_state = (if force then Some (node_state_value (n_state node)) else None),
      j_attempt_count = 0, j_max_attempts = max_attempts, j_old_vps_id = Some old_vps,
      j_new_vps_id = None, j_last_error_code = None, j_last_error_message = None, j_lease_token = None,
      j_lease_until = None, j_provisioning_requested_at = None, j_master_snapshot = None,
      j_new_ip_verified_at = None, j_deployment_verified_at = None, j_master_updated_at = None,
      j_master_verified_at = None, j_final_health_verified_at = None, j_old_vps_deleted_at = None,
      j_started_at = None, j_completed_at = None\<rparr>"

definition start_job :: "bool \<Rightarrow> string option \<Rightarrow> bool \<Rightarrow> node_row \<Rightarrow> vps_row \<Rightarrow> uuid act" where
  "start_job force request_key dry node old_vps =
     bind settings_of (\<lambda>s.
     bind new_uuid (\<lambda>i.
     bind now (\<lambda>t.
     andthen (add_job (new_job i t node dry force request_key (max_replacement_attempts s) (v_id old_vps)))
     (andthen (whenM (\<not> dry)
       (if force then node_force_replacing (n_id node) else node_transition_to (n_id node) REPLACING))
     (andthen (add_event i REPLACEMENT_STARTED SEV_INFO
       (if force then ''Force repair workflow started'' else ''Replacement workflow started'')
       (Some (JObj [(''dry_run'', JBool dry), (''force'', JBool force),
         (''original_node_state'', JStr (node_state_value (n_state node)))])))
     (andthen commit (ret i)))))))"

definition admit_job :: "bool \<Rightarrow> string option \<Rightarrow> bool \<Rightarrow> node_row \<Rightarrow> uuid act" where
  "admit_job force request_key dry node =
     andthen (lift (check_trigger_state force node))
     (bind settings_of (\<lambda>s.
     bind (query count_active_jobs) (\<lambda>k.
     andthen (guard_raise (k \<ge> max_concurrent_replacements s) ReplacementBusyError
       ''maximum concurrent replacements reached'')
     (bind (query (current_vps_for_node (n_id node))) (\<lambda>cur.
     bind (require_some cur ReplacementConfigurationError
       ''node has no registered current VPS; refusing replacement'') (\<lambda>old_vps.
     bind (query (active_provider (n_provider_id node))) (\<lambda>prov.
     andthen (require_some prov ReplacementConfigurationError
       ''node provider is missing or inactive'')
     (start_job force request_key dry node old_vps))))))))"

definition trigger_session :: "uuid \<Rightarrow> bool \<Rightarrow> string option \<Rightarrow> bool \<Rightarrow> uuid act" where
  "trigger_session node_id force request_key dry =
     session
       (bind (query (\<lambda>d. case request_key of None \<Rightarrow> None | Some k \<Rightarrow> job_by_request_key k d)) (\<lambda>replay.
        case replay of Some j \<Rightarrow> ret (j_id j) | None \<Rightarrow>
        bind (query (get_node node_id)) (\<lambda>o1.
        bind (require_some o1 ReplacementConfigurationError ''node does not exist'') (\<lambda>node.
        bind (query (active_for_node node_id)) (\<lambda>active.
        case active of Some j \<Rightarrow> ret (j_id j) | None \<Rightarrow> admit_job force request_key dry node)))))"

text \<open>
  \<open>PostgresGlobalReplacementLock.acquire\<close>: whether the advisory lock is free is the oracle's answer;
  it is held by no other process during the body.
\<close>

definition with_admission_lock :: "(bool \<Rightarrow> 'a act) \<Rightarrow> 'a act" where
  "with_admission_lock body e w =
     body (env_lock e (w_tick w)) e (w\<lparr>w_tick := Suc (w_tick w)\<rparr>)"

definition trigger :: "uuid \<Rightarrow> bool \<Rightarrow> string option \<Rightarrow> uuid act" where
  "trigger node_id force request_key =
     andthen (guard_raise
         (case request_key of None \<Rightarrow> False | Some k \<Rightarrow> length k < 8 \<or> 64 < length k)
         ReplacementConfigurationError ''replacement request key must be 8..64 characters'')
     (bind trigger_dry_run (\<lambda>dry.
     andthen (assert_not_emergency_stopped dry)
     (andthen assert_not_paused
     (with_admission_lock (\<lambda>acquired.
       andthen (guard_raise (\<not> acquired) ReplacementBusyError ''replacement admission lock is busy'')
         (trigger_session node_id force request_key dry))))))"

section \<open>Cancelling\<close>

definition cancel :: "uuid \<Rightarrow> unit act" where
  "cancel i =
     session
       (bind (require_job i) (\<lambda>job.
        if terminal (j_checkpoint job) then ret ()
        else
          andthen (guard_raise (j_master_updated_at job \<noteq> None) SafetyViolationError
            ''cannot cancel after master update; resume verification/rollback instead'')
          (andthen (job_transition i CANCELLED)
          (bind (query (get_node (j_node_id job))) (\<lambda>o1.
          andthen (case o1 of None \<Rightarrow> ret ()
            | Some node \<Rightarrow> whenM (\<not> j_is_dry_run job) (restore_node node job))
          commit)))))"

section \<open>Running\<close>

definition dispatch :: "uuid \<Rightarrow> string \<Rightarrow> checkpoint \<Rightarrow> unit act" where
  "dispatch i token c =
     (case c of
        CREATED \<Rightarrow> stage_created i token
      | PROVISIONING \<Rightarrow> stage_provisioning i token
      | PROVISIONED \<Rightarrow> stage_provisioned i token
      | CHECKING_IP \<Rightarrow> stage_checking_ip i token
      | TEMP_CLEANUP \<Rightarrow> stage_temp_cleanup i token
      | IP_VERIFIED \<Rightarrow> stage_ip_verified i token
      | DEPLOYING \<Rightarrow> stage_deploying i token
      | NODE_VERIFIED \<Rightarrow> stage_node_verified i token
      | MASTER_UPDATING \<Rightarrow> stage_master_updating i token
      | MASTER_UPDATED \<Rightarrow> stage_master_updated i token
      | MASTER_VERIFYING \<Rightarrow> stage_master_verifying i token
      | MASTER_VERIFIED \<Rightarrow> stage_master_verified i token
      | FINAL_CHECK \<Rightarrow> stage_final_check i token
      | FINAL_VERIFIED \<Rightarrow> stage_final_verified i token
      | OLD_VPS_CLEANUP \<Rightarrow> stage_old_vps_cleanup i token
      | _ \<Rightarrow> raise RuntimeError (''no replacement handler for '' @ checkpoint_value c))"

definition fail_job :: "uuid \<Rightarrow> exn \<Rightarrow> unit act" where
  "fail_job i x =
     session
       (bind (query (get_job i)) (\<lambda>o1. case o1 of
          None \<Rightarrow> ret ()
        | Some job \<Rightarrow>
            if terminal (j_checkpoint job) then ret ()
            else
              andthen (upd_job i (\<lambda>j. j\<lparr>j_last_error_code := Some (take 64 (class_name (exn_kind x))),
                j_last_error_message := Some (take 2000 (exn_msg x))\<rparr>))
              (andthen (job_transition i FAILED)
              (bind (query (get_node (j_node_id job))) (\<lambda>o2.
              andthen (case o2 of None \<Rightarrow> ret ()
                | Some node \<Rightarrow> whenM (\<not> j_is_dry_run job) (restore_node node job))
              (andthen (add_event i REPLACEMENT_FAILED SEV_ERROR
                ''Replacement workflow failed; old VPS was not deleted''
                (Some (JObj [(''error_code'', JStr (take 64 (class_name (exn_kind x))))])))
              commit))))))"

definition deferrals :: "exn_class list" where
  "deferrals = [ReplacementDeferredError, ProviderTransientError, MasterTransientError]"

text \<open>The body of the \<open>try\<close> in one step of the loop.\<close>

definition guarded_step :: "uuid \<Rightarrow> string \<Rightarrow> checkpoint \<Rightarrow> unit act" where
  "guarded_step i token c =
     bind (job_is_dry_run i) (\<lambda>dry.
     andthen (assert_runtime_execution_allowed dry)
     (andthen (assert_not_emergency_stopped dry)
     (andthen assert_not_paused (dispatch i token c))))"

text \<open>The two \<open>except\<close> clauses: a deferral leaves the job where it is, anything else fails it.\<close>

definition step_failed :: "uuid \<Rightarrow> exn \<Rightarrow> run_result act" where
  "step_failed i x =
     (if catches deferrals x then
        bind (get_checkpoint i) (\<lambda>c.
          ret \<lparr>rr_job_id = i, rr_checkpoint = c, rr_terminal = False, rr_deferred = True,
            rr_reason = Some (exn_msg x)\<rparr>)
      else
        andthen (fail_job i x)
          (ret \<lparr>rr_job_id = i, rr_checkpoint = FAILED, rr_terminal = True, rr_deferred = False,
            rr_reason = Some (exn_msg x)\<rparr>))"

primrec resume_loop :: "nat \<Rightarrow> uuid \<Rightarrow> string \<Rightarrow> run_result act" where
  "resume_loop 0 i token =
     raise RuntimeError ''replacement workflow exceeded internal checkpoint step limit''"
| "resume_loop (Suc k) i token =
     bind (get_checkpoint i) (\<lambda>c.
     if terminal c then
       ret \<lparr>rr_job_id = i, rr_checkpoint = c, rr_terminal = True, rr_deferred = False, rr_reason = None\<rparr>
     else
       bind (catch_all (andthen (guarded_step i token c) (ret None))
           (\<lambda>x. bind (step_failed i x) (\<lambda>r. ret (Some r)))) (\<lambda>o1.
       case o1 of Some r \<Rightarrow> ret r | None \<Rightarrow> resume_loop k i token))"

definition step_limit :: nat where
  "step_limit = 64"

definition resume :: "uuid \<Rightarrow> run_result act" where
  "resume i =
     andthen assert_not_paused
     (bind new_uuid (\<lambda>u.
     let token = uuid_hex u in
     bind (acquire_lease i token) (\<lambda>b.
     andthen (guard_raise (\<not> b) ReplacementBusyError
       ''replacement job is already leased by another worker'')
     (try_finally (resume_loop step_limit i token) (release_lease i token)))))"

end
