(* ===== verification/ReplWorker.thy ===== *)
theory ReplWorker
  imports Orchestrator
begin

text \<open>
  \<open>app/workers/replacement.py\<close>: the replacement worker. A cycle resumes every active job, and then,
  on a live host only, creates jobs for failed nodes in automatic mode whose last job did not fail.
  Logging is left out.
\<close>

record replacement_cycle =
  ry_resumed_jobs :: int
  ry_triggered_jobs :: int
  ry_deferred_jobs :: int
  ry_failed_operations :: int

definition no_replacements :: replacement_cycle where
  "no_replacements =
     \<lparr>ry_resumed_jobs = 0, ry_triggered_jobs = 0, ry_deferred_jobs = 0, ry_failed_operations = 0\<rparr>"

definition count_deferred :: "replacement_cycle \<Rightarrow> replacement_cycle" where
  "count_deferred c = c\<lparr>ry_deferred_jobs := ry_deferred_jobs c + 1\<rparr>"

definition count_failed :: "replacement_cycle \<Rightarrow> replacement_cycle" where
  "count_failed c = c\<lparr>ry_failed_operations := ry_failed_operations c + 1\<rparr>"

text \<open>The result of one operation: what it came to, or the exception it raised.\<close>

definition attempt :: "'a act \<Rightarrow> (exn + 'a) act" where
  "attempt m = catch_all (bind m (\<lambda>a. ret (Inr a))) (\<lambda>x. ret (Inl x))"

primrec resume_each :: "uuid list \<Rightarrow> replacement_cycle \<Rightarrow> replacement_cycle act" where
  "resume_each [] c = ret c"
| "resume_each (i # is) c =
     bind (attempt (resume i)) (\<lambda>r.
       resume_each is
         (case r of
            Inr res \<Rightarrow>
              (let c' = c\<lparr>ry_resumed_jobs := ry_resumed_jobs c + 1\<rparr> in
               if rr_deferred res then count_deferred c' else c')
          | Inl x \<Rightarrow>
              if catches [ReplacementBusyError, ReplacementDeferredError] x then count_deferred c
              else count_failed c))"

section \<open>Candidates\<close>

text \<open>A node whose last job failed or was cancelled waits for an operator.\<close>

definition repairable :: "db \<Rightarrow> node_row \<Rightarrow> bool" where
  "repairable d n \<longleftrightarrow>
     (case latest_job_for_node (n_id n) d of None \<Rightarrow> True
      | Some j \<Rightarrow> j_state j \<notin> {JS_FAILED, JS_CANCELLED})"

text \<open>
  The loop that collects them: it stops after the append that reaches the limit, which is positive.
\<close>

fun collect :: "(node_row \<Rightarrow> bool) \<Rightarrow> int \<Rightarrow> node_row list \<Rightarrow> node_row list \<Rightarrow> node_row list" where
  "collect ok limit [] acc = acc"
| "collect ok limit (n # ns) acc =
     (if \<not> ok n then collect ok limit ns acc
      else if int (length (acc @ [n])) \<ge> limit then acc @ [n]
      else collect ok limit ns (acc @ [n]))"

definition eligible_nodes :: "int \<Rightarrow> db \<Rightarrow> node_row list" where
  "eligible_nodes limit d = collect (repairable d) limit (list_auto_repair_failed 100 d) []"

text \<open>One candidate: the job is created and run; the flag says that the loop goes on.\<close>

definition repair_node :: "uuid \<Rightarrow> replacement_cycle \<Rightarrow> (replacement_cycle \<times> bool) act" where
  "repair_node i c =
     bind (attempt (trigger i False None)) (\<lambda>r.
     case r of
       Inl x \<Rightarrow>
         ret (if catches [ReplacementBusyError] x then (count_deferred c, False)
              else if catches [ReplacementDeferredError] x then (count_deferred c, True)
              else (count_failed c, True))
     | Inr job_id \<Rightarrow>
         (let c' = c\<lparr>ry_triggered_jobs := ry_triggered_jobs c + 1\<rparr> in
          bind (attempt (resume job_id)) (\<lambda>r'.
          ret (case r' of
              Inr res \<Rightarrow> (if rr_deferred res then count_deferred c' else c', True)
            | Inl x \<Rightarrow>
                if catches [ReplacementBusyError] x then (count_deferred c', False)
                else if catches [ReplacementDeferredError] x then (count_deferred c', True)
                else (count_failed c', True)))))"

primrec repair_each :: "uuid list \<Rightarrow> replacement_cycle \<Rightarrow> replacement_cycle act" where
  "repair_each [] c = ret c"
| "repair_each (i # is) c =
     bind (repair_node i c) (\<lambda>(c', go_on). if go_on then repair_each is c' else ret c')"

definition replacement_switched_off :: "bool act" where
  "replacement_switched_off =
     bind (ask_env env_op_settings) (\<lambda>have.
     if \<not> have then ret False
     else
       bind is_paused (\<lambda>paused.
       if paused then ret True
       else bind settings_of (\<lambda>s.
         bind (replacement_enabled (replacement_worker_enabled s)) (\<lambda>on. ret (\<not> on)))))"

definition replacement_run_cycle :: "replacement_cycle act" where
  "replacement_run_cycle =
     bind replacement_switched_off (\<lambda>off.
     if off then ret no_replacements
     else
       bind (session (query (\<lambda>d. map j_id (list_active_jobs 100 d)))) (\<lambda>ids.
       bind (resume_each ids no_replacements) (\<lambda>c.
       bind trigger_dry_run (\<lambda>dry.
       bind settings_of (\<lambda>s.
       if dry \<or> replacement_emergency_stop s then ret c
       else
         bind (session (query (\<lambda>d. map n_id (eligible_nodes (max_concurrent_replacements s) d)))) (\<lambda>nodes.
           repair_each nodes c))))))"

end
