(* ===== verification/MonWorker.thy ===== *)
theory MonWorker
  imports CheckHost OpSettings
begin

text \<open>
  \<open>app/workers/monitoring.py\<close>: the monitoring worker. A cycle checks every monitored node once, each
  under its own lease: a check opens no transaction while it waits for Check-Host, and applies the
  decision to the node as it is when the answer has arrived. The status texts of \<open>run_node\<close> are kept.
  Logging is left out.
\<close>

record monitoring_cycle =
  my_total_nodes :: int
  my_checked_nodes :: int
  my_skipped_nodes :: int
  my_error_nodes :: int

definition no_cycle :: monitoring_cycle where
  "no_cycle = \<lparr>my_total_nodes = 0, my_checked_nodes = 0, my_skipped_nodes = 0, my_error_nodes = 0\<rparr>"

definition worker_policy :: "settings \<Rightarrow> monitoring_policy" where
  "worker_policy s =
     \<lparr>mp_failure_threshold = failure_threshold s, mp_recovery_threshold = recovery_threshold s,
      mp_min_success_nodes = check_host_min_success_nodes s\<rparr>"

text \<open>\<open>operational_settings is not None and await operational_settings.is_paused()\<close>.\<close>

definition paused_by_operator :: "bool act" where
  "paused_by_operator =
     bind (ask_env env_op_settings) (\<lambda>have. if have then is_paused else ret False)"

section \<open>Rows\<close>

fun outcome_of :: "decision \<Rightarrow> check_outcome" where
  "outcome_of REACHABLE = CHK_REACHABLE"
| "outcome_of UNREACHABLE = CHK_UNREACHABLE"
| "outcome_of INDETERMINATE = CHK_INDETERMINATE"

definition opt_str :: "string option \<Rightarrow> json" where
  "opt_str v = (case v of None \<Rightarrow> JNull | Some s \<Rightarrow> JStr s)"

definition probe_json :: "probe_result \<Rightarrow> json" where
  "probe_json p =
     JObj [(''node'', JStr (pr_node p)), (''status'', JStr (probe_status_value (pr_status p))),
       (''latency_seconds'', case pr_latency p of None \<Rightarrow> JNull | Some r \<Rightarrow> JReal r),
       (''address'', opt_str (pr_address p)), (''error'', opt_str (pr_error p))]"

definition build_check ::
    "uuid \<Rightarrow> string \<Rightarrow> int \<Rightarrow> check_summary \<Rightarrow> decision \<Rightarrow> usec \<Rightarrow> check_row" where
  "build_check i host port summary d t =
     \<lparr>c_node_id = i, c_request_id = Some (su_request_id summary), c_target_host = host,
      c_target_port = port, c_outcome = outcome_of d, c_success_count = success_count summary,
      c_failure_count = failure_count summary, c_pending_count = pending_count summary,
      c_malformed_count = malformed_count summary, c_total_nodes = total_nodes summary,
      c_details = Some (JObj [(''target'', JStr (su_target summary)),
        (''probes'', JList (map probe_json (su_probes summary)))]),
      c_error_code = None, c_error_message = None, c_checked_at = t, c_completed_at = Some t\<rparr>"

definition health_severity :: "event_type \<Rightarrow> severity" where
  "health_severity ev =
     (if ev = NODE_FAILED then SEV_ERROR else if ev = NODE_DEGRADED then SEV_WARNING else SEV_INFO)"

definition health_event ::
    "uuid \<Rightarrow> event_type \<Rightarrow> decision \<Rightarrow> check_summary \<Rightarrow> health_result \<Rightarrow> node_row \<Rightarrow> usec \<Rightarrow> new_event" where
  "health_event i ev d summary r node t =
     \<lparr>e_node_id = Some i, e_job_id = None, e_type = ev, e_severity = health_severity ev,
      e_message = ''Node health changed: '' @ node_state_value (hres_previous r) @ '' -> '' @
        node_state_value (hres_current r),
      e_payload = Some (JObj [(''decision'', JStr (decision_value d)),
        (''success_count'', JInt (success_count summary)),
        (''failure_count'', JInt (failure_count summary)),
        (''total_nodes'', JInt (total_nodes summary)),
        (''previous_state'', JStr (node_state_value (hres_previous r))),
        (''current_state'', JStr (node_state_value (hres_current r))),
        (''consecutive_failures'', JInt (n_consecutive_failures node)),
        (''consecutive_successes'', JInt (n_consecutive_successes node)),
        (''operation_mode'', JStr (mode_value (n_operation_mode node)))]),
      e_created_at = t\<rparr>"

definition error_check :: "uuid \<Rightarrow> node_row \<Rightarrow> string \<Rightarrow> usec \<Rightarrow> check_row" where
  "error_check i node message t =
     \<lparr>c_node_id = i, c_request_id = None, c_target_host = n_current_host node,
      c_target_port = n_current_port node, c_outcome = CHK_ERROR, c_success_count = 0,
      c_failure_count = 0, c_pending_count = 0, c_malformed_count = 0, c_total_nodes = 0,
      c_details = None, c_error_code = Some ''check_host_error'', c_error_message = Some message,
      c_checked_at = t, c_completed_at = Some t\<rparr>"

section \<open>One node\<close>

text \<open>The last session of \<open>_check_and_persist\<close>.\<close>

definition persist_check :: "uuid \<Rightarrow> string \<Rightarrow> int \<Rightarrow> check_summary \<Rightarrow> decision \<Rightarrow> usec \<Rightarrow> unit act" where
  "persist_check i host port summary d t =
     bind settings_of (\<lambda>s.
     session
       (bind (query (get_node i)) (\<lambda>o1. case o1 of
          None \<Rightarrow> ret ()
        | Some node \<Rightarrow>
            bind (lift (health_apply (worker_policy s) t (Some (Aware t)) d node)) (\<lambda>(r, node').
            andthen (upd_node i (\<lambda>_. node'))
            (andthen (add_check (build_check i host port summary d t))
            (andthen (case hres_event r of None \<Rightarrow> ret ()
                | Some ev \<Rightarrow> add_event_row (health_event i ev d summary r node' t))
              commit))))))"

definition check_and_persist :: "uuid \<Rightarrow> string list \<Rightarrow> unit act" where
  "check_and_persist i check_nodes =
     bind (session (query (get_node i))) (\<lambda>o1. case o1 of
       None \<Rightarrow> ret ()
     | Some node \<Rightarrow>
         bind (create_tcp_check (n_current_host node) (n_current_port node) check_nodes) (\<lambda>rq.
         bind (poll_result rq) (\<lambda>summary.
         bind settings_of (\<lambda>s.
         bind (lift (evaluate summary (check_host_min_success_nodes s))) (\<lambda>d.
         bind now (\<lambda>t.
           persist_check i (n_current_host node) (n_current_port node) summary d t))))))"

definition persist_adapter_error :: "uuid \<Rightarrow> exn \<Rightarrow> unit act" where
  "persist_adapter_error i x =
     bind now (\<lambda>t.
     session
       (bind (query (get_node i)) (\<lambda>o1. case o1 of
          None \<Rightarrow> ret ()
        | Some node \<Rightarrow>
            andthen (upd_node i (\<lambda>n. n\<lparr>n_last_checked_at := Some t\<rparr>))
            (andthen (add_check (error_check i node (exn_msg x) t))
            (andthen (add_event_row \<lparr>e_node_id = Some i, e_job_id = None,
                e_type = MONITORING_CHECK_ERROR, e_severity = SEV_WARNING,
                e_message = ''Check-Host monitoring request failed; node health counters unchanged'',
                e_payload = None, e_created_at = t\<rparr>)
              commit)))))"

definition resolve_check_nodes :: "string list act" where
  "resolve_check_nodes =
     bind settings_of (\<lambda>s.
       resolve_nodes (check_host_nodes s) (Some (check_host_country_code s)) (check_host_max_nodes s) [])"

definition run_node :: "uuid \<Rightarrow> string list option \<Rightarrow> string act" where
  "run_node i check_nodes =
     bind paused_by_operator (\<lambda>paused.
     if paused then ret ''skipped''
     else
       bind now (\<lambda>t.
       bind new_uuid (\<lambda>u.
       bind settings_of (\<lambda>s.
       let token = uuid_hex u in
       bind (session
           (bind (acquire_monitoring_lease i token t (t + seconds (monitoring_lease_seconds s))) (\<lambda>b.
             andthen commit (ret b)))) (\<lambda>acquired.
       if \<not> acquired then ret ''skipped''
       else
         try_finally
           (catch_all
             (bind (case check_nodes of
                 Some (n # ns) \<Rightarrow> ret (n # ns) | _ \<Rightarrow> resolve_check_nodes) (\<lambda>selected.
               andthen (check_and_persist i selected) (ret ''checked'')))
             (\<lambda>x. if catches [CheckHostError] x
                  then andthen (persist_adapter_error i x) (ret ''error'') else ret ''error''))
           (session (andthen (mod_ses (release_monitoring_lease i token)) commit)))))))"

section \<open>A cycle\<close>

primrec check_each ::
    "string list \<Rightarrow> uuid list \<Rightarrow> monitoring_cycle \<Rightarrow> monitoring_cycle act" where
  "check_each check_nodes [] c = ret c"
| "check_each check_nodes (i # is) c =
     bind (run_node i (Some check_nodes)) (\<lambda>status.
       check_each check_nodes is
         (if status = ''checked'' then c\<lparr>my_checked_nodes := my_checked_nodes c + 1\<rparr>
          else if status = ''skipped'' then c\<lparr>my_skipped_nodes := my_skipped_nodes c + 1\<rparr>
          else c\<lparr>my_error_nodes := my_error_nodes c + 1\<rparr>))"

text \<open>Whether the operators let the worker run at all.\<close>

definition monitoring_switched_off :: "bool act" where
  "monitoring_switched_off =
     bind (ask_env env_op_settings) (\<lambda>have.
     if \<not> have then ret False
     else
       bind is_paused (\<lambda>paused.
       if paused then ret True
       else bind settings_of (\<lambda>s.
         bind (monitoring_enabled (monitoring_scheduler_enabled s)) (\<lambda>on. ret (\<not> on)))))"

definition monitoring_run_cycle :: "monitoring_cycle act" where
  "monitoring_run_cycle =
     bind monitoring_switched_off (\<lambda>off.
     if off then ret no_cycle
     else
       bind (session (query (\<lambda>d. map n_id (list_monitoring_enabled d)))) (\<lambda>ids.
       if ids = [] then ret no_cycle
       else
         bind (catch [CheckHostError] (bind resolve_check_nodes (\<lambda>ns. ret (Some ns)))
           (\<lambda>_. ret None)) (\<lambda>o1. case o1 of
           None \<Rightarrow> ret (no_cycle\<lparr>my_total_nodes := int (length ids),
             my_error_nodes := int (length ids)\<rparr>)
         | Some check_nodes \<Rightarrow>
             check_each check_nodes ids (no_cycle\<lparr>my_total_nodes := int (length ids)\<rparr>))))"

end
