(* ===== verification/Samples.thy ===== *)
theory Samples
  imports Orchestrator MonWorker
begin

text \<open>
  The concrete inputs of the instances: a provider, a node with its credentials and current server, a
  database that holds them, and an environment without other processes in which every external call
  fails. They describe no part of the program.
\<close>

definition sample_provider :: provider_row where
  "sample_provider = \<lparr>p_id = 1, p_key = ''hetzner'', p_display_name = ''Hetzner'', p_type = HETZNER,
     p_is_active = True, p_credential_backend = ENVIRONMENT, p_credential_ref = ''TOKEN'',
     p_default_region = Some ''fsn1'', p_default_server_type = Some ''cx22'',
     p_default_image = Some ''debian-12''\<rparr>"

definition sample_node :: node_row where
  "sample_node = \<lparr>n_id = 2, n_name = ''node-a'', n_master_node_id = ''7'', n_provider_id = 1,
     n_current_host = ''198.51.100.7'', n_current_port = 2053, n_state = UNKNOWN,
     n_state_changed_at = 0, n_operation_mode = AUTO_REPAIR, n_monitoring_enabled = True,
     n_consecutive_failures = 0, n_consecutive_successes = 0, n_last_checked_at = None,
     n_last_successful_check_at = None, n_lease_token = None, n_lease_until = None\<rparr>"

definition sample_cred :: cred_row where
  "sample_cred = \<lparr>cr_id = 3, cr_node_id = 2, cr_ssh_username = ''root'', cr_ssh_port = 22,
     cr_ssh_auth_method = PRIVATE_KEY, cr_secret_backend = ENVIRONMENT, cr_ssh_secret_ref = ''KEY'',
     cr_ssh_public_key = Some ''ssh-ed25519 AAAA'', cr_panel_username = None,
     cr_panel_password_ref = None, cr_panel_password_backend = None, cr_panel_base_path = None,
     cr_api_token_ref = None, cr_api_token_backend = None\<rparr>"

definition sample_vps :: vps_row where
  "sample_vps = \<lparr>v_id = 4, v_created_at = 0, v_provider_id = 1, v_node_id = 2,
     v_provider_server_id = ''900'', v_role = CURRENT, v_state = VPS_RUNNING,
     v_host = Some ''198.51.100.7'', v_region = Some ''fsn1'', v_server_type = Some ''cx22'',
     v_image = Some ''debian-12''\<rparr>"

definition sample_job :: job_row where
  "sample_job = new_job 5 0 (sample_node\<lparr>n_state := NODE_FAILED_STATE\<rparr>) True False (Some ''request-1'') 5 4"

definition sample_db :: db where
  "sample_db = empty_db\<lparr>t_providers := [sample_provider],
     t_nodes := [sample_node\<lparr>n_state := NODE_FAILED_STATE\<rparr>], t_creds := [sample_cred],
     t_vps := [sample_vps], t_jobs := [sample_job]\<rparr>"

definition sample_env :: "settings \<Rightarrow> env" where
  "sample_env s = \<lparr>env_settings = s, env_op_settings = False,
     env_http = (\<lambda>_ _. HttpTransport ''ConnectError''),
     env_ssh = (\<lambda>_ _ _. SshRaise (Exn OSError ''unreachable'')), env_tcp = (\<lambda>_ _ _. False),
     env_lock = (\<lambda>_. True), env_clock = (\<lambda>n. seconds (int n)), env_mono = real,
     env_uuid = (\<lambda>n. of_nat (100 + n)), env_others = (\<lambda>_ d. d), env_repr = (\<lambda>_. []),
     env_getenv = (\<lambda>_. Some ''secret''), env_path = (\<lambda>p. p), env_fs = (\<lambda>_. FsOk),
     env_chat = (\<lambda>_ _. None)\<rparr>"

lemma sample_db_ok: "db_ok sample_db"
  by (simp add: sample_db_def empty_db_def db_ok_def providers_ok_def nodes_ok_def creds_ok_def checks_ok_def
      vps_ok_def jobs_ok_def deployments_ok_def settings_ok_def sample_provider_def sample_node_def
      sample_cred_def sample_vps_def sample_job_def new_job_def provider_checks_def node_checks_def
      cred_checks_def vps_checks_def job_checks_def not_blank_def port_ok_def)

end
