(* ===== verification/Polling.thy ===== *)
theory Polling
  imports Deployment CheckHost
begin

text \<open>
  The three polling loops of the program (a new server, an SSH port, a reachability check) end. In the
  model they run on fuel; here the fuel the operations pass is shown to be enough on a machine whose
  monotonic clock does not go back and advances by the polling interval over a sleep: more fuel never
  changes anything, so the loop without a bound, which the code has, does the same.
\<close>

section \<open>Loops with a deadline\<close>

text \<open>Between two readings of the clock in a loop there is one sleep, hence two ticks.\<close>

definition steady :: "env \<Rightarrow> real \<Rightarrow> bool" where
  "steady e interval \<longleftrightarrow>
     (\<forall>n m. n \<le> m \<longrightarrow> env_mono e n \<le> env_mono e m) \<and>
     (\<forall>n m. n + 2 \<le> m \<longrightarrow> env_mono e n + interval \<le> env_mono e m)"

locale polling =
  fixes loop :: "nat \<Rightarrow> 's \<Rightarrow> 'a act" and deadline interval :: real
  assumes step: "steady e interval \<Longrightarrow>
      deadline \<le> env_mono e (w_tick w) \<or>
      (\<forall>s' w'. w_tick w + 2 \<le> w_tick w' \<longrightarrow> loop k s' e w' = loop k' s' e w') \<Longrightarrow>
      loop (Suc k) s e w = loop (Suc k') s e w"
begin

lemma enough:
  assumes "steady e interval"
  shows "deadline \<le> env_mono e (w_tick w) + real m * interval \<Longrightarrow> m < k \<Longrightarrow> m < k' \<Longrightarrow>
    loop k s e w = loop k' s e w"
proof (induction m arbitrary: k k' s w)
  case 0
  then obtain k1 k2 where k: "k = Suc k1" "k' = Suc k2" by (cases k; cases k') auto
  have "deadline \<le> env_mono e (w_tick w)" using 0 by simp
  then show ?case unfolding k by (intro step [OF assms] disjI1)
next
  case (Suc m)
  from Suc.prems(2,3) obtain k1 k2 where k: "k = Suc k1" "k' = Suc k2" by (cases k; cases k') auto
  have "loop k1 s' e w' = loop k2 s' e w'" if "w_tick w + 2 \<le> w_tick w'" for s' w'
  proof (rule Suc.IH)
    have "env_mono e (w_tick w) + interval \<le> env_mono e (w_tick w')"
      using assms that by (simp add: steady_def)
    with Suc.prems(1) show "deadline \<le> env_mono e (w_tick w') + real m * interval"
      by (simp add: algebra_simps)
  qed (use Suc.prems k in simp_all)
  then show ?case unfolding k by (intro step [OF assms] disjI2) blast
qed

lemma enough_from:
  assumes "steady e interval" and "0 < interval" and "deadline \<le> env_mono e n + timeout" and "n \<le> w_tick w"
    and "nat \<lceil>timeout / interval\<rceil> < k" and "nat \<lceil>timeout / interval\<rceil> < k'"
  shows "loop k s e w = loop k' s e w"
proof (rule enough [OF assms(1) _ assms(5,6)])
  have "timeout / interval \<le> real (nat \<lceil>timeout / interval\<rceil>)" by linarith
  then have "timeout \<le> real (nat \<lceil>timeout / interval\<rceil>) * interval"
    using assms(2) by (simp add: pos_divide_le_eq)
  moreover have "env_mono e n \<le> env_mono e (w_tick w)" using assms(1,4) by (simp add: steady_def)
  ultimately show "deadline \<le> env_mono e (w_tick w) + real (nat \<lceil>timeout / interval\<rceil>) * interval"
    using assms(3) by linarith
qed

end

section \<open>Time does not go back\<close>

abbreviation since :: "nat \<Rightarrow> world \<Rightarrow> bool" where
  "since n w \<equiv> n \<le> w_tick w"

lemma since_basic [keeps]:
  "keeps e (since n) now" "keeps e (since n) mono" "keeps e (since n) new_uuid" "keeps e (since n) (sleep r)"
  "keeps e (since n) (http rq)" "keeps e (since n) (ssh_run t c)" "keeps e (since n) (get_dry k)"
  by (auto simp: keeps_def now_def mono_def new_uuid_def sleep_def http_def ssh_run_def get_dry_def
      split: ssh_outcome.splits)

lemma since_request_json [keeps]: "keeps e (since n) (request_json c x verb path body params headers)"
  unfolding request_json_def by (auto intro!: keeps split: http_outcome.splits)

lemma since_parse_with [keeps]: "keeps e (since n) (parse_with p v)"
  by (simp add: parse_with_def keeps)

lemma since_get_server [keeps]: "keeps e (since n) (get_server a i)"
  by (cases a) (auto simp: hetzner_get_server_def linode_get_server_def dry_get_server_def
      hetzner_request_def linode_request_def intro!: keeps)

lemma since_ssh_probe [keeps]: "keeps e (since n) (ssh_probe t)"
  unfolding ssh_probe_def by (intro keeps)

lemma since_get_result [keeps]: "keeps e (since n) (get_result rq)"
  unfolding get_result_def check_host_get_def
  by (auto intro!: keeps split: http_outcome.splits http_body.splits json.splits)

lemma since_after: "keeps e (since (w_tick w)) m \<Longrightarrow> m e w = (r, w') \<Longrightarrow> w_tick w \<le> w_tick w'"
  using keepsD [of e "since (w_tick w)" m w] by simp

section \<open>The loops of the program\<close>

interpretation ready: polling "\<lambda>k final. poll_ready k (get_server a) i timeout interval deadline final" deadline interval
proof unfold_locales
  fix e and w :: world and k k' s
  assume st: "steady e interval" and or: "deadline \<le> env_mono e (w_tick w) \<or>
    (\<forall>s' w'. w_tick w + 2 \<le> w_tick w' \<longrightarrow> poll_ready k (get_server a) i timeout interval deadline s' e w' =
       poll_ready k' (get_server a) i timeout interval deadline s' e w')"
  show "poll_ready (Suc k) (get_server a) i timeout interval deadline s e w =
      poll_ready (Suc k') (get_server a) i timeout interval deadline s e w"
  proof (cases "deadline \<le> env_mono e (w_tick w)")
    case True
    then show ?thesis by (simp add: bind_def mono_def)
  next
    case False
    let ?w = "w\<lparr>w_tick := Suc (w_tick w)\<rparr>"
    obtain r w1 where g: "get_server a i e ?w = (r, w1)" by (cases "get_server a i e ?w")
    have "w_tick w + 2 \<le> Suc (w_tick w1)" using since_after [OF since_get_server g] by simp
    with False or g show ?thesis
      by (cases r) (simp_all add: bind_def mono_def andthen_def sleep_def)
  qed
qed

interpretation ssh_ready: polling "\<lambda>k (u :: unit). ssh_wait_loop k t deadline interval" deadline interval
proof unfold_locales
  fix e and w :: world and k k' and s :: unit
  assume st: "steady e interval" and or: "deadline \<le> env_mono e (w_tick w) \<or>
    (\<forall>(s' :: unit) w'. w_tick w + 2 \<le> w_tick w' \<longrightarrow>
       ssh_wait_loop k t deadline interval e w' = ssh_wait_loop k' t deadline interval e w')"
  show "ssh_wait_loop (Suc k) t deadline interval e w = ssh_wait_loop (Suc k') t deadline interval e w"
  proof (cases "deadline \<le> env_mono e (w_tick w)")
    case True
    then show ?thesis by (simp add: bind_def mono_def)
  next
    case False
    let ?w = "w\<lparr>w_tick := Suc (w_tick w)\<rparr>"
    obtain r w1 where g: "ssh_probe t e ?w = (r, w1)" by (cases "ssh_probe t e ?w")
    have "w_tick w + 2 \<le> Suc (w_tick w1)" using since_after [OF since_ssh_probe g] by simp
    with False or g show ?thesis
      by (cases r) (simp_all add: bind_def mono_def andthen_def sleep_def)
  qed
qed

interpretation checked: polling "\<lambda>k (u :: unit). poll_loop k rq deadline interval" deadline interval
proof unfold_locales
  fix e and w :: world and k k' and s :: unit
  assume st: "steady e interval" and or: "deadline \<le> env_mono e (w_tick w) \<or>
    (\<forall>(s' :: unit) w'. w_tick w + 2 \<le> w_tick w' \<longrightarrow>
       poll_loop k rq deadline interval e w' = poll_loop k' rq deadline interval e w')"
  obtain r w1 where g: "get_result rq e w = (r, w1)" by (cases "get_result rq e w")
  have le: "w_tick w \<le> w_tick w1" by (rule since_after [OF since_get_result g])
  then have "env_mono e (w_tick w) \<le> env_mono e (w_tick w1)" using st by (simp add: steady_def)
  with or g le show "poll_loop (Suc k) rq deadline interval e w = poll_loop (Suc k') rq deadline interval e w"
    by (cases r) (auto simp: bind_def mono_def andthen_def sleep_def ret_def)
qed

end
