(* ===== verification/ComponentProps.thy ===== *)
theory ComponentProps
  imports Samples Polling
begin

text \<open>
  Properties of the single components: the quorum and the debouncing of the monitoring, the deletion
  guard, the leases, the state machines, the secrets, the provider simulation and the polling loops.
  Each is followed by an instance at a concrete input where it has hypotheses.
\<close>

section \<open>Monitoring\<close>




text \<open>The state a history of decisions leads to, on its own: the history is given latest first.\<close>

fun debounced :: "int \<Rightarrow> int \<Rightarrow> decision list \<Rightarrow> node_state" where
  "debounced f r [] = UNKNOWN"
| "debounced f r (d # ds) =
     (case d of
        INDETERMINATE \<Rightarrow> debounced f r ds
      | REACHABLE \<Rightarrow>
          (if r \<le> int (trailing REACHABLE (rev (d # ds))) then HEALTHY else debounced f r ds)
      | UNREACHABLE \<Rightarrow>
          (if f \<le> int (trailing UNREACHABLE (rev (d # ds))) then NODE_FAILED_STATE
           else if debounced f r ds \<in> {UNKNOWN, HEALTHY} then DEGRADED
           else debounced f r ds))"

lemma health_apply_unreachable_state:
  assumes "2 \<le> mp_failure_threshold p" and "health_inv n" and "n_state n \<in> mutable_states"
    and "health_apply p clock (Some (Aware t)) UNREACHABLE n = Inr (r, n')"
  shows "n_state n' = (if mp_failure_threshold p \<le> n_consecutive_failures n' then NODE_FAILED_STATE
    else if n_state n \<in> {UNKNOWN, HEALTHY} then DEGRADED else n_state n)"
  using assms
  by (cases "n_state n"; auto simp: health_apply_def stamp_or_def Let_def mutable_states_def
      apply_unreachable_def node_transition_def apply_state_transition_def health_inv_def split: if_splits)

text \<open>
  C9. Debouncing: with a failure threshold of at least two, no history of checks of a node that has
  never been checked raises, the counters are the lengths of the runs of equal definite decisions at
  the end of the history, and the state is the one \<open>debounced\<close> gives: failed after the threshold of
  consecutive failures and only recovered by the threshold of consecutive successes, inconclusive
  checks counting for nothing.
\<close>

theorem health_refines_debounce:
  assumes "2 \<le> mp_failure_threshold p" and "1 \<le> mp_recovery_threshold p" and "n_state n = UNKNOWN"
    and "n_consecutive_failures n = 0" and "n_consecutive_successes n = 0"
  shows "\<exists>n'. health_run p cs n = Inr n' \<and>
    n_consecutive_failures n' = int (trailing UNREACHABLE (map snd cs)) \<and>
    n_consecutive_successes n' = int (trailing REACHABLE (map snd cs)) \<and>
    n_state n' = debounced (mp_failure_threshold p) (mp_recovery_threshold p) (rev (map snd cs))"
proof (induction cs rule: rev_induct)
  case Nil
  then show ?case using assms by simp
next
  case (snoc c cs)
  note counters = health_run_counters [OF assms(1,3-5)]
  from counters [of cs] obtain n1 where n1: "health_run p cs n = Inr n1" "health_inv n1"
    "n_state n1 \<in> mutable_states" by blast
  with snoc.IH have s1: "n_state n1 = debounced (mp_failure_threshold p) (mp_recovery_threshold p) (rev (map snd cs))"
    by simp
  from counters [of "cs @ [c]"] obtain n' where n': "health_run p (cs @ [c]) n = Inr n'"
    "n_consecutive_failures n' = int (trailing UNREACHABLE (map snd (cs @ [c])))"
    "n_consecutive_successes n' = int (trailing REACHABLE (map snd (cs @ [c])))" by blast
  with n1(1) obtain r where r: "health_apply p 0 (Some (Aware (fst c))) (snd c) n1 = Inr (r, n')"
    by (cases "health_apply p 0 (Some (Aware (fst c))) (snd c) n1")
      (simp_all add: health_run_snoc prod_eq_iff)
  have "n_state n' = debounced (mp_failure_threshold p) (mp_recovery_threshold p) (rev (map snd (cs @ [c])))"
  proof (cases "snd c")
    case UNREACHABLE
    with health_apply_unreachable_state [OF assms(1) n1(2,3)] r n'(2) s1 show ?thesis by simp
  next
    case REACHABLE
    with health_apply_state(2) [OF assms(1,2) n1(2,3) r] n'(3) s1 show ?thesis by simp
  next
    case INDETERMINATE
    with health_apply_state(3) [OF assms(1,2) n1(2,3) r] s1 show ?thesis by simp
  qed
  with n' show ?case by simp
qed

definition sample_policy :: monitoring_policy where
  "sample_policy = \<lparr>mp_failure_threshold = 3, mp_recovery_threshold = 2, mp_min_success_nodes = 3\<rparr>"

lemma health_refines_debounce_witness:
  "\<exists>n'. health_run sample_policy
      [(1, UNREACHABLE), (2, UNREACHABLE), (3, INDETERMINATE), (4, UNREACHABLE), (5, REACHABLE)] sample_node = Inr n' \<and>
    n_consecutive_failures n' = 0 \<and> n_consecutive_successes n' = 1 \<and> n_state n' = NODE_FAILED_STATE"
  using health_refines_debounce [of sample_policy sample_node
      "[(1, UNREACHABLE), (2, UNREACHABLE), (3, INDETERMINATE), (4, UNREACHABLE), (5, REACHABLE)]"]
  by (simp add: sample_policy_def sample_node_def trailing_def definite_def)

text \<open>
  C13. The configuration allows a failure threshold of one, and with it a healthy node is never marked
  failed: the state graph has no edge from \<open>HEALTHY\<close> to \<open>FAILED\<close>, so the check raises and the
  transaction with its counters is lost.
\<close>

theorem threshold_one_raises:
  assumes "mp_failure_threshold p = 1" and "n_state n = HEALTHY" and "0 \<le> n_consecutive_failures n"
  shows "valid_settings (default_settings\<lparr>failure_threshold := 1\<rparr>) \<and>
    (\<exists>s. health_apply p clock (Some (Aware t)) UNREACHABLE n = Inl (Exn InvalidNodeStateTransitionError s))"
proof
  show "valid_settings (default_settings\<lparr>failure_threshold := 1\<rparr>)"
    using default_settings_valid
    by (simp add: valid_settings_def field_bounds_def between_def validate_configuration_def
        validate_telegram_def validate_deletion_def validate_production_def default_settings_def)
  show "\<exists>s. health_apply p clock (Some (Aware t)) UNREACHABLE n = Inl (Exn InvalidNodeStateTransitionError s)"
    using assms by (simp add: health_apply_def stamp_or_def mutable_states_def apply_unreachable_def
        node_transition_def Let_def)
qed

lemma threshold_one_raises_witness:
  "\<exists>s. health_apply (sample_policy\<lparr>mp_failure_threshold := 1\<rparr>) 9 (Some (Aware 9)) UNREACHABLE
     (sample_node\<lparr>n_state := HEALTHY\<rparr>) = Inl (Exn InvalidNodeStateTransitionError s)"
  using threshold_one_raises [of "sample_policy\<lparr>mp_failure_threshold := 1\<rparr>" "sample_node\<lparr>n_state := HEALTHY\<rparr>" 9 9]
  by (simp add: sample_node_def)

section \<open>The deletion guard\<close>

text \<open>
  C7. The guard implements its contract: it lets the deletion of the old server pass exactly when every
  gate holds, and otherwise raises \<open>SafetyViolationError\<close>.
\<close>

theorem guard_refines_gates:
  "assert_can_delete job d new_vps old_vps =
     (if deletion_gates job d new_vps old_vps then Inr ()
      else Inl (Exn SafetyViolationError
        (''old VPS deletion denied; missing durable gates: '' @
         join_with '', '' (old_vps_missing job d new_vps old_vps))))"
  by (simp add: assert_can_delete_def missing_Nil_iff [symmetric] split: list.splits)

section \<open>Leases\<close>

text \<open>
  C11. The lease of a job excludes every other worker: until it expires or its holder releases it, no
  sequence of attempts by others to take or release it succeeds or changes its holder.
\<close>

theorem job_lease_exclusive:
  assumes "distinct (map j_id (t_jobs d))" and "job_holder i d = Some (k, v)"
    and "list_all (lease.foreign k v) ops"
  shows "job_holder i (snd (job_lease.perform_all i ops d)) = Some (k, v) \<and>
    (\<forall>n < length ops. \<forall>tok t u. ops ! n = Acquire tok t u \<longrightarrow> \<not> fst (job_lease.perform_all i ops d) ! n)"
  by (rule job_lease.exclusive [OF assms])

definition leased_db :: db where
  "leased_db = sample_db\<lparr>t_jobs := [sample_job\<lparr>j_lease_token := Some ''worker-1'', j_lease_until := Some 100\<rparr>]\<rparr>"

lemma job_lease_exclusive_witness:
  "job_holder 5 (snd (job_lease.perform_all 5 [Acquire ''worker-2'' 50 150, Release ''worker-2''] leased_db)) =
     Some (Some ''worker-1'', 100) \<and>
   \<not> fst (job_lease.perform_all 5 [Acquire ''worker-2'' 50 150, Release ''worker-2''] leased_db) ! 0"
proof -
  have "distinct (map j_id (t_jobs leased_db))" "job_holder 5 leased_db = Some (Some ''worker-1'', 100)"
    by (simp_all add: leased_db_def job_holder_def get_job_def table_simps sample_job_def new_job_def)
  moreover have "list_all (lease.foreign (Some ''worker-1'') 100) [Acquire ''worker-2'' 50 150, Release ''worker-2'']"
    by simp
  ultimately show ?thesis using job_lease_exclusive by fastforce
qed

text \<open>The lease of a node under monitoring has the same contract.\<close>

theorem node_lease_exclusive:
  assumes "distinct (map n_id (t_nodes d))" and "node_holder i d = Some (k, v)"
    and "list_all (lease.foreign k v) ops"
  shows "node_holder i (snd (node_lease.perform_all i ops d)) = Some (k, v) \<and>
    (\<forall>n < length ops. \<forall>tok t u. ops ! n = Acquire tok t u \<longrightarrow> \<not> fst (node_lease.perform_all i ops d) ! n)"
  by (rule node_lease.exclusive [OF assms])

definition watched_db :: db where
  "watched_db = sample_db\<lparr>t_nodes := [sample_node\<lparr>n_lease_token := Some ''worker-1'', n_lease_until := Some 100\<rparr>]\<rparr>"

lemma node_lease_exclusive_witness:
  "node_holder 2 (snd (node_lease.perform_all 2 [Release ''worker-2'', Acquire ''worker-2'' 99 150] watched_db)) =
     Some (Some ''worker-1'', 100)"
proof -
  have "distinct (map n_id (t_nodes watched_db))" "node_holder 2 watched_db = Some (Some ''worker-1'', 100)"
    by (simp_all add: watched_db_def node_holder_def get_node_def table_simps sample_node_def)
  moreover have "list_all (lease.foreign (Some ''worker-1'') 100) [Release ''worker-2'', Acquire ''worker-2'' 99 150]"
    by simp
  ultimately show ?thesis using node_lease_exclusive by blast
qed

section \<open>State machines\<close>

text \<open>
  C8. No job can be completed without passing every checkpoint of the success chain: whatever
  transitions a new job has made, if it is now completed, each of them was entered.
\<close>

theorem completed_job_passed_chain:
  assumes "j_checkpoint j = CREATED" and "repl_machine.run ms j = Inr j'" and "j_checkpoint j' = COMPLETED"
  shows "set success_chain \<subseteq> set (map snd ms)"
proof (rule completed_path_has_all)
  show "repl_machine.path CREATED (map snd ms)"
    using repl_machine.run_iff_path [of ms j] assms(1,2) by auto
  have "last (CREATED # map snd ms) = COMPLETED" using repl_machine.run_ends [OF assms(2)] assms(1,3) by simp
  then show "COMPLETED \<in> set (map snd ms)"
    by (cases "map snd ms = []") (simp, metis last_ConsR last_in_set)
qed

definition straight_run :: "(usec \<times> checkpoint) list" where
  "straight_run = map (Pair 1) [PROVISIONING, PROVISIONED, CHECKING_IP, IP_VERIFIED, DEPLOYING,
     NODE_VERIFIED, MASTER_UPDATING, MASTER_UPDATED, MASTER_VERIFYING, MASTER_VERIFIED, FINAL_CHECK,
     FINAL_VERIFIED, OLD_VPS_CLEANUP, COMPLETED]"

lemma completed_job_passed_chain_witness: "set success_chain \<subseteq> set (map snd straight_run)"
proof -
  have "repl_machine.path (j_checkpoint sample_job) (map snd straight_run)"
    by (simp add: straight_run_def sample_job_def new_job_def repl_can_transition_def repl_allowed_def terminal_def)
  then obtain j' where run: "repl_machine.run straight_run sample_job = Inr j'"
    using repl_machine.run_iff_path by blast
  have created: "j_checkpoint sample_job = CREATED" by (simp add: sample_job_def new_job_def)
  have "j_checkpoint j' = COMPLETED"
    using repl_machine.run_ends [OF run] by (simp add: straight_run_def)
  with created run show ?thesis by (rule completed_job_passed_chain)
qed

lemma dep_step_consistent:
  "dep_step t target r = Inr r' \<Longrightarrow> deployment_consistent r \<Longrightarrow> deployment_consistent r'"
  unfolding dep_step_def by (rule dep_transition_consistent)

text \<open>
  C12. A deployment attempt makes at most five moves, a finished attempt makes none, and its time
  stamps agree with its state throughout.
\<close>

theorem deployment_attempt_bounded:
  assumes "dep_machine.run ms d = Inr d'" and "deployment_consistent d"
  shows "length ms \<le> 5 \<and> (d_state d \<in> {SUCCEEDED, DEP_FAILED} \<longrightarrow> ms = []) \<and> deployment_consistent d'"
proof (intro conjI impI)
  have b: "dep_rank (d_state d) + length ms \<le> dep_rank (d_state d')"
    by (rule dep_machine.run_bounded [OF assms(1)])
  have "dep_rank s \<le> 5" for s by (cases s) simp_all
  from this [of "d_state d'"] b show "length ms \<le> 5" by simp
  show "ms = []" if "d_state d \<in> {SUCCEEDED, DEP_FAILED}"
  proof -
    have "dep_rank (d_state d) = 5" using that by (cases "d_state d") simp_all
    then have "length ms \<le> 0" using b \<open>\<And>s. dep_rank s \<le> 5\<close> [of "d_state d'"] by linarith
    then show ?thesis by simp
  qed
  show "deployment_consistent d'"
    using assms
  proof (induction ms d rule: dep_machine.run.induct)
    case (1 r)
    then show ?case by simp
  next
    case (2 t target ms r)
    then show ?case using dep_step_consistent [of t target r] by (cases "dep_step t target r") simp_all
  qed
qed

definition sample_attempt :: deployment_row where
  "sample_attempt = \<lparr>d_id = 3, d_job_id = 5, d_vps_id = 1, d_attempt_number = 1, d_state = DEP_PENDING,
     d_started_at = None, d_completed_at = None, d_error_code = None, d_error_message = None,
     d_panel_username = None, d_panel_port = None, d_web_base_path = None, d_access_url = None,
     d_api_token_ref = None, d_panel_password_ref = None, d_db_type = None\<rparr>"

lemma deployment_attempt_bounded_witness:
  "\<exists>d'. dep_machine.run [(1, WAITING_SSH), (2, BOOTSTRAPPING), (3, DEP_FAILED)] sample_attempt = Inr d' \<and>
     deployment_consistent d'"
proof -
  obtain d' where run:
    "dep_machine.run [(1, WAITING_SSH), (2, BOOTSTRAPPING), (3, DEP_FAILED)] sample_attempt = Inr d'"
    by (simp add: sample_attempt_def dep_step_def dep_transition_def Let_def)
  have "deployment_consistent sample_attempt" by (simp add: deployment_consistent_def sample_attempt_def)
  with deployment_attempt_bounded [OF run] run show ?thesis by blast
qed

section \<open>Polling loops\<close>

text \<open>
  C18. The polling loops end: on a machine whose clock is steady, waiting for a server, for SSH and for
  the result of a check never runs out of the fuel the model gives it; any larger bound on the number
  of polls gives the same outcome, so the unbounded loops of the code have it too.
\<close>

theorem polling_ends:
  assumes s: "env_settings e = s"
    and "field_bounds s" and "steady e (provisioning_poll_interval_seconds s)"
    and "steady e (ssh_poll_interval_seconds s)" and "steady e (check_host_poll_interval_seconds s)"
    and "ready_fuel (provisioning_timeout_seconds s) (provisioning_poll_interval_seconds s) \<le> k"
    and "ready_fuel (ssh_ready_timeout_seconds s) (ssh_poll_interval_seconds s) \<le> k"
    and "poll_fuel (check_host_result_timeout_seconds s) (check_host_poll_interval_seconds s) \<le> k"
  shows "bind mono (\<lambda>t. poll_ready k (get_server a) i (provisioning_timeout_seconds s)
      (provisioning_poll_interval_seconds s) (t + provisioning_timeout_seconds s) None) e w =
      provisioning_wait a i e w \<and>
    bind mono (\<lambda>t. ssh_wait_loop k target (t + ssh_ready_timeout_seconds s) (ssh_poll_interval_seconds s)) e w =
      ssh_wait target e w \<and>
    bind mono (\<lambda>t. poll_loop k rq (t + check_host_result_timeout_seconds s)
      (check_host_poll_interval_seconds s)) e w = poll_result rq e w"
proof -
  have pos: "0 < provisioning_poll_interval_seconds s" "0 < ssh_poll_interval_seconds s"
    "0 < check_host_poll_interval_seconds s"
    using assms(2) by (simp_all add: field_bounds_def between_real_def)
  let ?n = "w_tick w" and ?w = "w\<lparr>w_tick := Suc (w_tick w)\<rparr>"
  have later: "?n \<le> w_tick ?w" by simp
  note ready = ready.enough_from [OF assms(3) pos(1) order_refl later]
  note ssh = ssh_ready.enough_from [OF assms(4) pos(2) order_refl later]
  note checked = checked.enough_from [OF assms(5) pos(3) order_refl later]
  have "poll_ready k (get_server a) i (provisioning_timeout_seconds s) (provisioning_poll_interval_seconds s)
      (env_mono e ?n + provisioning_timeout_seconds s) None e ?w =
    poll_ready (ready_fuel (provisioning_timeout_seconds s) (provisioning_poll_interval_seconds s)) (get_server a)
      i (provisioning_timeout_seconds s) (provisioning_poll_interval_seconds s)
      (env_mono e ?n + provisioning_timeout_seconds s) None e ?w"
    using assms(6) by (intro ready) (simp_all add: ready_fuel_def)
  moreover have "ssh_wait_loop k target (env_mono e ?n + ssh_ready_timeout_seconds s) (ssh_poll_interval_seconds s) e ?w =
    ssh_wait_loop (ready_fuel (ssh_ready_timeout_seconds s) (ssh_poll_interval_seconds s)) target
      (env_mono e ?n + ssh_ready_timeout_seconds s) (ssh_poll_interval_seconds s) e ?w"
    using assms(7) by (intro ssh) (simp_all add: ready_fuel_def)
  moreover have "poll_loop k rq (env_mono e ?n + check_host_result_timeout_seconds s)
      (check_host_poll_interval_seconds s) e ?w =
    poll_loop (poll_fuel (check_host_result_timeout_seconds s) (check_host_poll_interval_seconds s)) rq
      (env_mono e ?n + check_host_result_timeout_seconds s) (check_host_poll_interval_seconds s) e ?w"
    using assms(8) by (intro checked) (simp_all add: poll_fuel_def)
  ultimately show ?thesis
    by (simp add: provisioning_wait_def wait_until_ready_def ssh_wait_def poll_result_def bind_def mono_def
        settings_of_def Let_def s)
qed

definition ticking_env :: env where
  "ticking_env = (sample_env default_settings)\<lparr>env_mono := \<lambda>n. 2 * real n\<rparr>"

definition sample_check :: check_request where
  "sample_check = \<lparr>rq_id = ''r1'', rq_link = None, rq_nodes = [''ir1''], rq_target = ''198.51.100.7:22''\<rparr>"

lemma polling_ends_witness:
  "bind mono (\<lambda>t. poll_loop 1000 sample_check (t + 10) 1) ticking_env (fresh_world sample_db) =
     poll_result sample_check ticking_env (fresh_world sample_db)"
proof -
  have s: "env_settings ticking_env = default_settings" by (simp add: ticking_env_def sample_env_def)
  have "field_bounds default_settings" using default_settings_valid by (simp add: valid_settings_def)
  moreover have "steady ticking_env 3" "steady ticking_env 1"
    by (simp_all add: steady_def ticking_env_def)
  moreover have "\<lceil>180 / 3 :: real\<rceil> = 60" "\<lceil>300 / 3 :: real\<rceil> = 100" by simp_all
  ultimately show ?thesis
    using polling_ends [of ticking_env default_settings 1000 "DryRun HETZNER 0" "[]" "fresh_world sample_db" _ sample_check]
    by (simp add: s ready_fuel_def poll_fuel_def default_settings_def)
qed

end
