(* ===== verification/JobInv.thy ===== *)
theory JobInv
  imports Orchestrator
begin

text \<open>
  The invariant behind the properties of the orchestrator. A row of a job is \<open>job_ok\<close> when its columns
  agree with its checkpoint and it carries the evidence (time stamps) of every verified step it has
  passed. The locale \<open>job_inv\<close> shows that every operation keeps the rows so, and at the same time
  keeps what the parameters state: \<open>X\<close> of the columns that never change, \<open>T\<close> of the log of external
  calls, \<open>G\<close> of the registry of nodes and credentials. Its instances are the properties: nothing
  leaves the process in a dry run, every deletion is one of the two safe ones, and so on.
\<close>

section \<open>Evidence\<close>

text \<open>The columns written once, when the job is created.\<close>

definition job_core ::
    "job_row \<Rightarrow> uuid \<times> uuid \<times> bool \<times> trigger_mode \<times> string option \<times> string option \<times> int \<times> uuid option \<times> usec" where
  "job_core j = (j_id j, j_node_id j, j_is_dry_run j, j_trigger_mode j, j_request_key j,
     j_original_node_state j, j_max_attempts j, j_old_vps_id j, j_created_at j)"

definition has_mark :: "checkpoint \<Rightarrow> job_row \<Rightarrow> bool" where
  "has_mark c j \<longleftrightarrow>
     (case c of
        IP_VERIFIED \<Rightarrow> j_new_ip_verified_at j \<noteq> None
      | NODE_VERIFIED \<Rightarrow> j_deployment_verified_at j \<noteq> None
      | MASTER_UPDATED \<Rightarrow> j_master_updated_at j \<noteq> None
      | MASTER_VERIFIED \<Rightarrow> j_master_verified_at j \<noteq> None
      | FINAL_VERIFIED \<Rightarrow> j_final_health_verified_at j \<noteq> None
      | COMPLETED \<Rightarrow> j_is_dry_run j \<or> j_old_vps_deleted_at j \<noteq> None
      | _ \<Rightarrow> True)"

text \<open>The verified steps a checkpoint on the way to success comes after.\<close>

fun passed :: "checkpoint \<Rightarrow> checkpoint set" where
  "passed IP_VERIFIED = {IP_VERIFIED}"
| "passed DEPLOYING = {IP_VERIFIED}"
| "passed NODE_VERIFIED = {IP_VERIFIED, NODE_VERIFIED}"
| "passed MASTER_UPDATING = {IP_VERIFIED, NODE_VERIFIED}"
| "passed MASTER_UPDATED = {IP_VERIFIED, NODE_VERIFIED, MASTER_UPDATED}"
| "passed MASTER_VERIFYING = {IP_VERIFIED, NODE_VERIFIED, MASTER_UPDATED}"
| "passed MASTER_VERIFIED = {IP_VERIFIED, NODE_VERIFIED, MASTER_UPDATED, MASTER_VERIFIED}"
| "passed FINAL_CHECK = {IP_VERIFIED, NODE_VERIFIED, MASTER_UPDATED, MASTER_VERIFIED}"
| "passed FINAL_VERIFIED =
     {IP_VERIFIED, NODE_VERIFIED, MASTER_UPDATED, MASTER_VERIFIED, FINAL_VERIFIED}"
| "passed OLD_VPS_CLEANUP =
     {IP_VERIFIED, NODE_VERIFIED, MASTER_UPDATED, MASTER_VERIFIED, FINAL_VERIFIED}"
| "passed COMPLETED =
     {IP_VERIFIED, NODE_VERIFIED, MASTER_UPDATED, MASTER_VERIFIED, FINAL_VERIFIED, COMPLETED}"
| "passed _ = {}"

definition job_marked :: "job_row \<Rightarrow> bool" where
  "job_marked j \<longleftrightarrow> (\<forall>c \<in> passed (j_checkpoint j). has_mark c j)"

definition job_ok :: "(job_row \<Rightarrow> bool) \<Rightarrow> job_row \<Rightarrow> bool" where
  "job_ok X j \<longleftrightarrow> job_consistent j \<and> job_marked j \<and> X j"

text \<open>The columns \<open>job_ok\<close> reads besides those of \<open>job_core\<close>, and those \<open>has_mark\<close> reads.\<close>

definition job_marks ::
    "job_row \<Rightarrow> bool \<times> usec option \<times> usec option \<times> usec option \<times> usec option \<times> usec option \<times> usec option" where
  "job_marks j = (j_is_dry_run j, j_new_ip_verified_at j, j_deployment_verified_at j,
     j_master_updated_at j, j_master_verified_at j, j_final_health_verified_at j, j_old_vps_deleted_at j)"

definition job_progress ::
    "job_row \<Rightarrow> checkpoint \<times> job_state \<times> bool option \<times> usec option \<times> usec option" where
  "job_progress j =
     (j_checkpoint j, j_state j, j_active_slot j, j_started_at j, j_completed_at j)"

lemma has_mark_marks: "job_marks j = job_marks j' \<Longrightarrow> has_mark c j = has_mark c j'"
  by (cases c) (simp_all add: has_mark_def job_marks_def)

lemma job_ok_view:
  assumes "\<And>a b. job_core a = job_core b \<Longrightarrow> X a = X b"
    and "job_core j = job_core j'" and "job_marks j = job_marks j'" and "job_progress j = job_progress j'"
  shows "job_ok X j = job_ok X j'"
proof -
  have p: "j_checkpoint j = j_checkpoint j'" "j_state j = j_state j'" "j_active_slot j = j_active_slot j'"
    "j_started_at j = j_started_at j'" "j_completed_at j = j_completed_at j'"
    using assms(4) by (simp_all add: job_progress_def)
  show ?thesis
    unfolding job_ok_def job_marked_def job_consistent_def p assms(1) [OF assms(2)]
      has_mark_marks [OF assms(3)] ..
qed

lemma passed_step:
  "t \<in> repl_allowed c \<Longrightarrow> passed t \<subseteq> insert t (passed c)"
  by (cases c; cases t) (simp_all add: repl_allowed_def terminal_def)

lemma job_marked_step:
  assumes "job_marked j" and "t \<in> repl_allowed (j_checkpoint j)" and "has_mark t j"
    and "job_marks j' = job_marks j" and "j_checkpoint j' = t"
  shows "job_marked j'"
proof -
  have sub: "passed t \<subseteq> insert t (passed (j_checkpoint j))"
    using assms(2) by (rule passed_step)
  show ?thesis
    unfolding job_marked_def assms(5) has_mark_marks [OF assms(4)]
    using assms(1,3) sub unfolding job_marked_def by blast
qed

lemma enter_checkpoint_marks [simp]:
  "job_marks (enter_checkpoint c t j) = job_marks j" "job_core (enter_checkpoint c t j) = job_core j"
  by (simp_all add: job_marks_def job_core_def enter_checkpoint_def Let_def)

lemma repl_step_Inr: "repl_step t target j = Inr j' \<Longrightarrow> \<exists>b. repl_transition t None target j = Inr (b, j')"
  by (cases "repl_transition t None target j") (simp_all add: repl_step_def prod_eq_iff)

lemma repl_step_ok:
  assumes "\<And>a b. job_core a = job_core b \<Longrightarrow> X a = X b"
    and "repl_step t target j = Inr j'" and "job_ok X j" and "has_mark target j"
  shows "job_ok X j'" and "job_marks j' = job_marks j" and "j_id j' = j_id j" and "job_core j' = job_core j"
proof -
  from repl_step_Inr [OF assms(2)] obtain b where "repl_transition t None target j = Inr (b, j')" ..
  from repl_transition_Inr [OF this] consider "j' = j"
    | u where "j' = enter_checkpoint target u j" "target \<in> repl_allowed (j_checkpoint j)"
      "\<not> terminal (j_checkpoint j)"
    by blast
  then have "job_ok X j' \<and> job_marks j' = job_marks j \<and> j_id j' = j_id j \<and> job_core j' = job_core j"
  proof cases
    case 1
    with assms(3) show ?thesis by simp
  next
    case 2
    then have "X j' = X j" by (intro assms(1)) simp
    with 2 assms(3,4) job_marked_step [of j target j'] show ?thesis
      by (simp add: job_ok_def enter_checkpoint_consistent)
  qed
  then show "job_ok X j'" "job_marks j' = job_marks j" "j_id j' = j_id j" "job_core j' = job_core j"
    by auto
qed

section \<open>Adapters and deletions\<close>

definition live_gates :: "settings \<Rightarrow> bool" where
  "live_gates s \<longleftrightarrow>
     \<not> dry_run s \<and> allow_real_infrastructure_mutation s \<and> \<not> replacement_emergency_stop s"

fun is_dry_adapter :: "adapter \<Rightarrow> bool" where
  "is_dry_adapter (DryRun pt n) = True"
| "is_dry_adapter a = False"

fun adapter_ok :: "settings \<Rightarrow> adapter \<Rightarrow> bool" where
  "adapter_ok s (Hetzner t b) \<longleftrightarrow> live_gates s \<and> b = hetzner_api_base_url s"
| "adapter_ok s (Linode t b) \<longleftrightarrow> live_gates s \<and> b = linode_api_base_url s"
| "adapter_ok s (DryRun pt n) \<longleftrightarrow> True"

text \<open>
  The cache of the manager: what is filed under a dry run simulates, and a real adapter exists only on
  a host whose gates are open.
\<close>

definition cache_ok :: "settings \<Rightarrow> ((uuid \<times> bool) \<times> adapter) list \<Rightarrow> bool" where
  "cache_ok s ad \<longleftrightarrow> (\<forall>((p, dry), a) \<in> set ad. adapter_ok s a \<and> (dry \<longrightarrow> is_dry_adapter a))"

text \<open>The answer of the provider that ends the log \<open>tr\<close>.\<close>

definition answered :: "env \<Rightarrow> adapter \<Rightarrow> string \<Rightarrow> provider_server \<Rightarrow> (db \<times> ext) list \<Rightarrow> bool" where
  "answered e a sid s tr \<longleftrightarrow> (\<exists>w w'. get_server a sid e w = (Inr s, w') \<and> w_trace w' = tr)"

text \<open>
  The two safe deletions of job \<open>i\<close>, with the log before the call and the database committed at that
  moment. A rejected candidate: the provider has just shown the server under the name only this
  attempt of this job gives its server, and under its address. The old server: the job is live, every
  gate is durable, the host allows it, and the provider has just shown the server under its identity
  and its registered address.
\<close>

definition candidate_delete :: "env \<Rightarrow> uuid \<Rightarrow> (db \<times> ext) list \<Rightarrow> db \<Rightarrow> ext \<Rightarrow> bool" where
  "candidate_delete e i tr d x \<longleftrightarrow>
     (\<exists>a (v :: vps_row) s job node.
        adapter_ok (env_settings e) a \<and> adapter_deletes a (v_provider_server_id v) x \<and>
        answered e a (v_provider_server_id v) s tr \<and> ps_id s = v_provider_server_id v \<and>
        get_job i d = Some job \<and> get_node (j_node_id job) d = Some node \<and>
        ps_name s = replacement_server_name node job \<and> v_state v \<noteq> VPS_DELETED \<and>
        (truthy_text (v_host v) \<longrightarrow> ps_ipv4 s = v_host v))"

definition old_gates :: "env \<Rightarrow> uuid \<Rightarrow> db \<Rightarrow> vps_row \<Rightarrow> bool" where
  "old_gates e i d old_vps \<longleftrightarrow>
     allow_old_vps_deletion (env_settings e) \<and>
     (\<exists>job dep new_vps.
        get_job i d = Some job \<and> \<not> j_is_dry_run job \<and> dep \<in> set (t_deployments d) \<and>
        get_vps (v_id new_vps) d = Some new_vps \<and> get_vps (v_id old_vps) d = Some old_vps \<and>
        deletion_gates job dep new_vps old_vps)"

definition old_delete :: "env \<Rightarrow> uuid \<Rightarrow> (db \<times> ext) list \<Rightarrow> db \<Rightarrow> ext \<Rightarrow> bool" where
  "old_delete e i tr d x \<longleftrightarrow>
     (\<exists>a (old_vps :: vps_row) s.
        adapter_ok (env_settings e) a \<and> adapter_deletes a (v_provider_server_id old_vps) x \<and>
        answered e a (v_provider_server_id old_vps) s tr \<and>
        ps_id s = v_provider_server_id old_vps \<and> ps_ipv4 s \<noteq> None \<and>
        ps_ipv4 s = canonical_ip (text_of (v_host old_vps)) \<and> old_gates e i d old_vps)"

definition delete_ok :: "env \<Rightarrow> uuid \<Rightarrow> (db \<times> ext) list \<Rightarrow> db \<Rightarrow> ext \<Rightarrow> bool" where
  "delete_ok e i tr d x \<longleftrightarrow> candidate_delete e i tr d x \<or> old_delete e i tr d x"

text \<open>A real adapter is one of a host with open gates.\<close>

lemma adapter_deletes_live:
  "adapter_ok s a \<Longrightarrow> adapter_deletes a sid x \<Longrightarrow> live_gates s \<and> is_delete x"
  by (cases a) (auto simp: deletes_url_def is_delete_def split: ext.splits)

lemma dry_adapter_silent: "is_dry_adapter a \<Longrightarrow> \<not> adapter_sends a x"
  by (cases a) simp_all

lemma set_alist_update: "set (AList.update k v xs) \<subseteq> insert (k, v) (set xs)"
  by (induction xs) auto

lemma request_json_once:
  "\<exists>x. w_trace (snd (request_json c ex verb path body params headers e w)) = (w_db w, ExtHttp x) # w_trace w \<and>
     hr_method x = verb \<and> hr_url x = rstrip_chr (CHR ''/'') (hc_base_url c) @ path"
  by (auto simp: request_json_def bind_def http_def raise_def lift_def
      split: http_outcome.splits sum.splits)

text \<open>A deletion is one call, or none for a simulated provider.\<close>

lemma delete_server_once:
  "w_trace (snd (delete_server a sid e w)) = w_trace w \<or>
   (\<exists>x. w_trace (snd (delete_server a sid e w)) = (w_db w, x) # w_trace w \<and> adapter_deletes a sid x)"
proof (cases a)
  case (Hetzner t b)
  obtain x where "w_trace (snd (request_json (hetzner_client t b) (hetzner_extract_error (env_repr e))
      ''DELETE'' (''/servers/'' @ sid) None [] [] e w)) = (w_db w, ExtHttp x) # w_trace w"
    "hr_method x = ''DELETE''" "hr_url x = rstrip_chr (CHR ''/'') b @ ''/servers/'' @ sid"
    using request_json_once [of "hetzner_client t b" "hetzner_extract_error (env_repr e)" "''DELETE''"
        "''/servers/'' @ sid" None "[]" "[]" e w] by (auto simp: hetzner_client_def)
  with Hetzner show ?thesis
    by (auto simp: hetzner_delete_server_def hetzner_request_def andthen_def bind_def ask_env_def ret_def
        hetzner_url_def split: prod.splits sum.splits)
next
  case (Linode t b)
  obtain x where "w_trace (snd (request_json (linode_client t b) (linode_extract_error (env_repr e))
      ''DELETE'' (''/linode/instances/'' @ sid) None [] [] e w)) = (w_db w, ExtHttp x) # w_trace w"
    "hr_method x = ''DELETE''" "hr_url x = rstrip_chr (CHR ''/'') b @ ''/linode/instances/'' @ sid"
    using request_json_once [of "linode_client t b" "linode_extract_error (env_repr e)" "''DELETE''"
        "''/linode/instances/'' @ sid" None "[]" "[]" e w] by (auto simp: linode_client_def)
  with Linode show ?thesis
    by (auto simp: linode_delete_server_def linode_request_def andthen_def bind_def ask_env_def ret_def
        linode_url_def split: prod.splits sum.splits)
next
  case (DryRun pt n)
  then show ?thesis
    by (auto simp: dry_delete_server_def dry_get_server_def bind_def get_dry_def put_dry_def
        require_some_def raise_def ret_def split: option.splits)
qed

section \<open>What stays inside the process\<close>

lemma silent_files [keeps]:
  "calls_only R (get_file p)" "calls_only R (put_file p c)" "calls_only R (del_file p)"
  by (simp_all add: calls_only_def keeps_def net_def get_file_def put_file_def del_file_def)

lemma silent_query [keeps]: "calls_only R (query f)"
  by (simp add: calls_only_def keeps_query)

lemma silent_require_row [keeps]: "calls_only R (require_row get m)"
  by (simp add: require_row_def keeps)

lemma silent_resolve_secret [keeps]: "calls_only R (resolve_secret b r)"
  by (simp add: resolve_secret_def keeps)

lemma silent_write_secret [keeps]: "calls_only R (write_secret scope name text)"
  by (simp add: write_secret_def keeps)

lemma silent_ssh_spec [keeps]: "calls_only R (ssh_spec c host)"
  by (simp add: ssh_spec_def keeps)

lemma silent_build_create_request [keeps]: "calls_only R (build_create_request job node p c v)"
  by (simp add: build_create_request_def Let_def keeps)

lemma silent_mutations [keeps]:
  "calls_only R (resolve_deployment_api_token d)" "calls_only R (build_new_master_mutation n v d)"
  "calls_only R (target_mutation fs token v d)" "calls_only R (assert_master_test_result fs)"
  "calls_only R (check_existing n c)" "calls_only R (check_temporary v name s)"
  "calls_only R (check_old_server v s)"
  by (simp_all add: resolve_deployment_api_token_def build_new_master_mutation_def target_mutation_def
      assert_master_test_result_def check_existing_def check_temporary_def check_old_server_def Let_def
      keeps)

section \<open>The invariant\<close>

definition db_good ::
    "(job_row \<Rightarrow> bool) \<Rightarrow> (node_row list \<Rightarrow> cred_row list \<Rightarrow> bool) \<Rightarrow> db \<Rightarrow> bool" where
  "db_good X G d \<longleftrightarrow>
     list_all (job_ok X) (t_jobs d) \<and> list_all deployment_consistent (t_deployments d) \<and>
     G (t_nodes d) (t_creds d)"

text \<open>Whether a job that satisfies \<open>X\<close> can be a live job with this identifier.\<close>

definition may_be_live :: "(job_row \<Rightarrow> bool) \<Rightarrow> uuid \<Rightarrow> bool" where
  "may_be_live X i \<longleftrightarrow> (\<exists>j. X j \<and> j_id j = i \<and> \<not> j_is_dry_run j)"

text \<open>\<open>M\<close> is what the session knows of the evidence in the row of the job.\<close>

definition stable :: "(job_row \<Rightarrow> bool) \<Rightarrow> bool" where
  "stable M \<longleftrightarrow> (\<forall>j j'. job_marks j = job_marks j' \<longrightarrow> M j = M j')"

definition session_knows :: "uuid \<Rightarrow> (job_row \<Rightarrow> bool) \<Rightarrow> db \<Rightarrow> bool" where
  "session_knows i M d \<longleftrightarrow> (case get_job i d of None \<Rightarrow> True | Some j \<Rightarrow> M j)"

lemma stable_True [simp]: "stable (\<lambda>_. True)"
  by (simp add: stable_def)

lemma stable_mark [simp]: "stable (has_mark c)"
  unfolding stable_def using has_mark_marks by blast

lemma stableD: "stable M \<Longrightarrow> job_marks j = job_marks j' \<Longrightarrow> M j \<Longrightarrow> M j'"
  unfolding stable_def by blast

lemma session_knows_True [simp]: "session_knows i (\<lambda>_. True) d"
  by (simp add: session_knows_def split: option.splits)

lemma list_all_tbl_upd: "list_all Q t \<Longrightarrow> (\<And>r. Q r \<Longrightarrow> Q (f r)) \<Longrightarrow> list_all Q (tbl_upd key k f t)"
  by (induction t) (simp_all add: tbl_upd_def)

lemma list_all_update_where:
  "list_all Q t \<Longrightarrow> (\<And>r. Q r \<Longrightarrow> Q (f r)) \<Longrightarrow> list_all Q (snd (update_where P f t))"
  by (induction t) (simp_all add: update_where_def)

lemma tbl_get_update_where:
  "(\<And>r. key (f r) = key r) \<Longrightarrow> tbl_get key k (snd (update_where P f t)) =
     map_option (\<lambda>r. if P r then f r else r) (tbl_get key k t)"
  by (induction t) (simp_all add: update_where_def table_simps)

lemma session_knows_upd:
  assumes "session_knows i M d" and "\<And>j. j_id (f j) = j_id j" and "\<And>j. M j \<Longrightarrow> k = i \<Longrightarrow> M' (f j)"
    and "k \<noteq> i \<Longrightarrow> M' = M"
  shows "session_knows i M' (set_jobs (tbl_upd j_id k f) d)"
proof (cases "k = i")
  case True
  then have "tbl_get j_id i (tbl_upd j_id k f (t_jobs d)) = map_option f (tbl_get j_id i (t_jobs d))"
    using tbl_get_upd_same [of j_id k f "t_jobs d"] assms(2) by simp
  with assms(1,3) True show ?thesis
    by (cases "tbl_get j_id i (t_jobs d)") (simp_all add: session_knows_def get_job_def set_jobs_def)
next
  case False
  then have "tbl_get j_id i (tbl_upd j_id k f (t_jobs d)) = tbl_get j_id i (t_jobs d)"
    using tbl_get_upd_other [of i k j_id f "t_jobs d"] assms(2) by simp
  with assms(1,4) False show ?thesis
    by (simp add: session_knows_def get_job_def set_jobs_def)
qed

lemma session_knows_where:
  assumes "session_knows i M d" and "\<And>j. j_id (f j) = j_id j" and "\<And>j. M j \<Longrightarrow> M (f j)"
  shows "session_knows i M (d\<lparr>t_jobs := snd (update_where P f (t_jobs d))\<rparr>)"
  using assms tbl_get_update_where [of j_id f i P "t_jobs d"]
  by (cases "tbl_get j_id i (t_jobs d)") (simp_all add: session_knows_def get_job_def)

locale job_inv =
  fixes e :: env and i :: uuid and X :: "job_row \<Rightarrow> bool" and T :: "(db \<times> ext) list \<Rightarrow> bool"
    and G :: "node_row list \<Rightarrow> cred_row list \<Rightarrow> bool"
  assumes core: "\<And>j j'. job_core j = job_core j' \<Longrightarrow> X j = X j'"
    and others: "\<And>n d. db_ok d \<Longrightarrow> db_good X G d \<Longrightarrow>
      db_ok (env_others e n d) \<and> db_good X G (env_others e n d)"
    and live: "\<And>tr d x. may_be_live X i \<Longrightarrow> T tr \<Longrightarrow> (is_delete x \<Longrightarrow> delete_ok e i tr d x) \<Longrightarrow> T ((d, x) # tr)"
    and registry: "\<And>ns cs. may_be_live X i \<Longrightarrow> G ns cs"
begin

definition inv :: "(job_row \<Rightarrow> bool) \<Rightarrow> world \<Rightarrow> bool" where
  "inv M w \<longleftrightarrow>
     db_ok (w_db w) \<and> db_good X G (w_db w) \<and> db_good X G (w_ses w) \<and> session_knows i M (w_ses w) \<and>
     cache_ok (env_settings e) (w_adapters w) \<and> T (w_trace w)"

abbreviation I :: "world \<Rightarrow> bool" where
  "I \<equiv> inv (\<lambda>_. True)"

lemma inv_weaken: "inv M w \<Longrightarrow> I w"
  by (simp add: inv_def)

end

sublocale job_inv \<subseteq> world_inv e I
  by unfold_locales (simp_all add: inv_def opened_def closed_def Let_def others)

context job_inv
begin

lemma ok_view:
  "job_core j = job_core j' \<Longrightarrow> job_marks j = job_marks j' \<Longrightarrow> job_progress j = job_progress j' \<Longrightarrow>
   job_ok X j = job_ok X j'"
  by (rule job_ok_view) (rule core)

lemma inv_tick [keeps]:
  "keeps e (inv M) now" "keeps e (inv M) new_uuid" "keeps e (inv M) (sleep r)" "keeps e (inv M) mono"
  "keeps e (inv M) fs_oracle"
  by (simp_all add: keeps_def inv_def now_def new_uuid_def sleep_def mono_def fs_oracle_def)

lemma inv_commit [keeps]: "keeps e (inv M) commit"
  by (simp add: keeps_def inv_def commit_def)

lemma inv_calls:
  assumes "calls_only R m" and "\<And>x. R x \<Longrightarrow> may_be_live X i \<and> \<not> is_delete x"
  shows "keeps e (inv M) m"
proof (unfold keeps_def, intro allI impI)
  fix w assume w: "inv M w"
  obtain new where new: "w_trace (snd (m e w)) = new @ w_trace w"
    "\<forall>x \<in> set new. fst x = w_db w \<and> R (snd x)"
    using calls_only_trace(4) [OF assms(1), of e w] by blast
  have "(\<forall>x \<in> set new. fst x = w_db w \<and> R (snd x)) \<Longrightarrow> T (w_trace w) \<Longrightarrow> T (new @ w_trace w)" for new
  proof (induction new)
    case (Cons x new)
    then have "T (new @ w_trace w)" by simp
    with live [of "new @ w_trace w" "snd x" "fst x"] assms(2) [of "snd x"] Cons.prems(1)
    show ?case by (cases x) simp
  qed simp
  with new w calls_only_trace(1-3) [OF assms(1), of e w] show "inv M (snd (m e w))"
    by (simp add: inv_def)
qed

lemma inv_silent: "calls_only (\<lambda>_. False) m \<Longrightarrow> keeps e (inv M) m"
  by (erule inv_calls) simp

lemma inv_ses:
  assumes "\<And>d. db_good X G d \<Longrightarrow> session_knows i M d \<Longrightarrow> db_good X G (f d) \<and> session_knows i M (f d)"
  shows "keeps e (inv M) (mod_ses f)"
  using assms by (simp add: keeps_def inv_def mod_ses_def)

lemma inv_same_jobs:
  assumes "\<And>d. t_jobs (f d) = t_jobs d" and "\<And>d. t_deployments (f d) = t_deployments d"
    and "\<And>d. G (t_nodes d) (t_creds d) \<Longrightarrow> G (t_nodes (f d)) (t_creds (f d))"
  shows "keeps e (inv M) (mod_ses f)"
  by (rule inv_ses) (simp add: db_good_def session_knows_def get_job_def assms)

lemma inv_other_tables [keeps]:
  "keeps e (inv M) (upd_vps k fv)" "keeps e (inv M) (add_vps v)" "keeps e (inv M) (add_event_row x)"
  unfolding upd_vps_def add_vps_def add_event_row_def add_row_def
  by (intro keeps inv_same_jobs; simp add: set_vps_def set_events_def)+

lemma inv_upd_deployment [keeps]:
  "(\<And>x. deployment_consistent x \<Longrightarrow> deployment_consistent (f x)) \<Longrightarrow> keeps e (inv M) (upd_deployment k f)"
  unfolding upd_deployment_def
  by (rule inv_ses) (simp add: db_good_def session_knows_def get_job_def set_deployments_def list_all_tbl_upd)

lemma inv_add_deployment [keeps]:
  "deployment_consistent x \<Longrightarrow> keeps e (inv M) (add_deployment x)"
  unfolding add_deployment_def add_row_def
  by (intro keeps inv_ses) (simp add: db_good_def session_knows_def get_job_def set_deployments_def tbl_add_def)

lemma inv_registry:
  "may_be_live X i \<Longrightarrow> keeps e (inv M) (upd_node k f)" "may_be_live X i \<Longrightarrow> keeps e (inv M) (upd_cred k g)"
  unfolding upd_node_def upd_cred_def
  by (intro inv_same_jobs; simp add: set_nodes_def set_creds_def registry)+

lemma upd_job_good:
  "db_good X G d \<Longrightarrow> (\<And>j. job_ok X j \<Longrightarrow> job_ok X (f j)) \<Longrightarrow> db_good X G (set_jobs (tbl_upd j_id k f) d)"
  by (simp add: db_good_def set_jobs_def list_all_tbl_upd)

lemma inv_upd_job:
  assumes "\<And>j. job_ok X j \<Longrightarrow> job_ok X (f j)" and "\<And>j. j_id (f j) = j_id j" and "\<And>j. M j \<Longrightarrow> M (f j)"
  shows "keeps e (inv M) (upd_job k f)"
  unfolding upd_job_def using assms
  by (intro inv_ses conjI upd_job_good session_knows_upd) auto

text \<open>A change of columns that are neither evidence nor progress.\<close>

lemma inv_upd_plain [keeps]:
  assumes "stable M" and "\<And>j. job_core (f j) = job_core j" and "\<And>j. job_marks (f j) = job_marks j"
    and "\<And>j. job_progress (f j) = job_progress j"
  shows "keeps e (inv M) (upd_job k f)"
proof (rule inv_upd_job)
  fix j
  show "job_ok X j \<Longrightarrow> job_ok X (f j)" using ok_view [of "f j" j] assms by simp
  show "M j \<Longrightarrow> M (f j)" using stableD [OF assms(1), of j "f j"] assms(3) by simp
  show "j_id (f j) = j_id j" using assms(2) [of j] by (simp add: job_core_def)
qed

text \<open>Evidence is recorded, and the rest of the session knows it.\<close>

lemma inv_mark:
  assumes "\<And>j. job_ok X j \<Longrightarrow> job_ok X (f j)" and "\<And>j. j_id (f j) = j_id j" and "\<And>j. M' (f j)"
    and "keeps e (inv M') m"
  shows "keeps e I (andthen (upd_job i f) m)"
proof (unfold keeps_def, intro allI impI)
  fix w assume w: "I w"
  let ?w = "w\<lparr>w_ses := set_jobs (tbl_upd j_id i f) (w_ses w)\<rparr>"
  have "session_knows i M' (set_jobs (tbl_upd j_id i f) (w_ses w))"
    by (rule session_knows_upd [of i "\<lambda>_. True"]) (simp_all add: assms(2,3))
  with w assms(1) have "inv M' ?w" by (simp add: inv_def upd_job_good)
  from keepsD [OF assms(4) this] show "I (snd (andthen (upd_job i f) m e w))"
    by (simp add: andthen_def bind_def upd_job_def mod_ses_def inv_weaken)
qed

lemma inv_transition [keeps]:
  assumes "stable M" and "(\<forall>j. has_mark target j) \<or>
      (k = i \<and> (\<forall>j. job_ok X j \<longrightarrow> j_id j = i \<longrightarrow> M j \<longrightarrow> has_mark target j))"
  shows "keeps e (inv M) (job_transition k target)"
proof (rule wp_keeps)
  fix w assume w: "inv M w"
  show "wp (job_transition k target) (\<lambda>_. inv M) (\<lambda>_. inv M) e w"
  proof (cases "get_job k (w_ses w)")
    case None
    with w show ?thesis by (simp add: job_transition_def hoare)
  next
    case (Some j)
    let ?t = "env_clock e (w_tick w)" and ?w = "w\<lparr>w_tick := Suc (w_tick w)\<rparr>"
    have tick: "inv M ?w" using w by (simp add: inv_def)
    show ?thesis
    proof (cases "repl_step ?t target j")
      case (Inl x)
      with Some tick show ?thesis by (simp add: job_transition_def hoare)
    next
      case (Inr j')
      have mem: "j \<in> set (t_jobs (w_ses w))" and id: "j_id j = k"
        using Some tbl_get_Some by (fastforce simp: get_job_def)+
      have ok: "job_ok X j" using w mem by (simp add: inv_def db_good_def list_all_iff)
      have mark: "has_mark target j"
        using assms(2) w Some ok id by (auto simp: inv_def session_knows_def)
      note st = repl_step_ok [OF core Inr ok mark]
      have good: "db_good X G (set_jobs (tbl_upd j_id k (\<lambda>_. j')) (w_ses w))"
        using w st(1) by (simp add: inv_def upd_job_good)
      have get: "get_job k (set_jobs (tbl_upd j_id k (\<lambda>_. j')) (w_ses w)) = Some j'"
        using Some st(3) id tbl_get_upd_same [of j_id k "\<lambda>_. j'" "t_jobs (w_ses w)"]
        by (simp add: get_job_def set_jobs_def)
      have other: "k \<noteq> i \<Longrightarrow> get_job i (set_jobs (tbl_upd j_id k (\<lambda>_. j')) (w_ses w)) = get_job i (w_ses w)"
        using st(3) id tbl_get_upd_other [of i k j_id "\<lambda>_. j'" "t_jobs (w_ses w)"]
        by (simp add: get_job_def set_jobs_def)
      have "session_knows i M (set_jobs (tbl_upd j_id k (\<lambda>_. j')) (w_ses w))"
      proof (cases "k = i")
        case True
        then have "M j" using w Some by (simp add: inv_def session_knows_def)
        with stableD [OF assms(1) st(2) [symmetric]] True get show ?thesis
          by (simp add: session_knows_def)
      next
        case False
        with other w show ?thesis by (simp add: session_knows_def inv_def)
      qed
      with tick good have "inv M (?w\<lparr>w_ses := set_jobs (tbl_upd j_id k (\<lambda>_. j')) (w_ses w)\<rparr>)"
        by (simp add: inv_def)
      with Some Inr show ?thesis by (simp add: job_transition_def hoare upd_job_def)
    qed
  qed
qed

end

section \<open>Helpers of the orchestrator\<close>

context job_inv
begin

lemma inv_silent_ops [keeps]:
  "keeps e (inv M) (require_row get m)" "keeps e (inv M) (require_job k)"
  "keeps e (inv M) (require_node k)" "keeps e (inv M) (require_provider k)"
  "keeps e (inv M) (require_credential k)" "keeps e (inv M) (require_new_vps job)"
  "keeps e (inv M) (require_deployment job)" "keeps e (inv M) (write_secret scope name text)"
  "keeps e (inv M) (ssh_spec c host)" "keeps e (inv M) (build_create_request job node p c v)"
  "keeps e (inv M) (resolve_deployment_api_token d)" "keeps e (inv M) (build_new_master_mutation n v d)"
  "keeps e (inv M) (target_mutation fs token v d)" "keeps e (inv M) (assert_master_test_result fs)"
  "keeps e (inv M) (check_existing n c)"
  unfolding require_job_def require_node_def require_provider_def require_credential_def
    require_new_vps_def require_deployment_def
  by (intro inv_silent keeps)+

lemma job_of_session: "db_good X G d \<Longrightarrow> get_job k d = Some j \<Longrightarrow> job_ok X j \<and> j_id j = k"
  using tbl_get_Some [of j_id k "t_jobs d" j] by (simp add: db_good_def get_job_def list_all_iff)

lemma returns_require_job:
  assumes "returns e (inv M) (require_job k) job"
  shows "job_ok X job \<and> j_id job = k"
proof (rule returns_wp [OF assms])
  fix w assume "inv M w"
  then have "db_good X G (w_ses w)" by (simp add: inv_def)
  from job_of_session [OF this, of k]
  show "wp (require_job k) (\<lambda>a _. job_ok X a \<and> j_id a = k) (\<lambda>_ _. True) e w"
    by (cases "get_job k (w_ses w)") (simp_all add: require_job_def hoare)
qed

lemma live_job: "job_ok X job \<Longrightarrow> j_id job = i \<Longrightarrow> \<not> j_is_dry_run job \<Longrightarrow> may_be_live X i"
  by (auto simp: may_be_live_def job_ok_def)

lemma inv_lease_update:
  "(\<And>j. job_core (f j) = job_core j) \<Longrightarrow> (\<And>j. job_marks (f j) = job_marks j) \<Longrightarrow>
   (\<And>j. job_progress (f j) = job_progress j) \<Longrightarrow> stable M \<Longrightarrow> db_good X G d \<Longrightarrow> session_knows i M d \<Longrightarrow>
   db_good X G (d\<lparr>t_jobs := snd (update_where P f (t_jobs d))\<rparr>) \<and>
   session_knows i M (d\<lparr>t_jobs := snd (update_where P f (t_jobs d))\<rparr>)"
proof (intro conjI session_knows_where)
  assume f: "\<And>j. job_core (f j) = job_core j" "\<And>j. job_marks (f j) = job_marks j"
    "\<And>j. job_progress (f j) = job_progress j" and M: "stable M"
  show "db_good X G d \<Longrightarrow> db_good X G (d\<lparr>t_jobs := snd (update_where P f (t_jobs d))\<rparr>)"
    using list_all_update_where [of "job_ok X" "t_jobs d" f P] ok_view [OF f]
    by (simp add: db_good_def)
  show "j_id (f j) = j_id j" for j using f(1) [of j] by (simp add: job_core_def)
  show "M j \<Longrightarrow> M (f j)" for j using stableD [OF M, of j "f j"] f(2) by simp
qed

lemma inv_acquire [keeps]:
  assumes "stable M" shows "keeps e (inv M) (acquire_workflow_lease k tok t u)"
proof -
  let ?f = "\<lambda>j. j\<lparr>j_lease_token := Some tok, j_lease_until := Some u\<rparr>"
  have "snd (try_acquire_workflow_lease k tok t u d) =
      d\<lparr>t_jobs := snd (update_where (workflow_lease_free k tok t) ?f (t_jobs d))\<rparr>" for d
    by (simp add: try_acquire_workflow_lease_def split: prod.splits)
  then have eq: "w\<lparr>w_ses := snd (try_acquire_workflow_lease k tok t u (w_ses w))\<rparr> =
      w\<lparr>w_ses := (w_ses w)\<lparr>t_jobs := snd (update_where (workflow_lease_free k tok t) ?f (t_jobs (w_ses w)))\<rparr>\<rparr>"
    for w by simp
  have "snd (acquire_workflow_lease k tok t u e w) =
      w\<lparr>w_ses := snd (try_acquire_workflow_lease k tok t u (w_ses w))\<rparr>" for w
    by (simp add: acquire_workflow_lease_def split: prod.splits)
  then show ?thesis
    using inv_lease_update [of ?f M _ "workflow_lease_free k tok t"] assms
    by (simp add: keeps_def inv_def eq job_core_def job_marks_def job_progress_def)
qed

lemma inv_release [keeps]: "keeps e I (mod_ses (release_workflow_lease k tok))"
  unfolding release_workflow_lease_def set_jobs_def
  by (rule inv_ses, rule inv_lease_update) (simp_all add: job_core_def job_marks_def job_progress_def)

lemma inv_renew [keeps]: "stable M \<Longrightarrow> keeps e (inv M) (renew_lease k tok)"
  unfolding renew_lease_def by (intro keeps)

lemma inv_add_event [keeps]: "keeps e (inv M) (add_event k ev sev msg payload)"
  unfolding add_event_def by (intro keeps)

lemma inv_leases [keeps]:
  "keeps e I (acquire_lease k tok)" "keeps e I (release_lease k tok)" "keeps e I (renew_session k tok)"
  unfolding acquire_lease_def release_lease_def renew_session_def by (intro keeps stable_True)+

lemma inv_get_bool [keeps]: "keeps e I (get_bool k b)" "keeps e I is_paused" "keeps e I runtime_execution_mode"
  unfolding get_bool_def is_paused_def runtime_execution_mode_def by (intro keeps)+

lemma inv_gates [keeps]:
  "keeps e I assert_not_paused" "keeps e (inv M) (assert_not_emergency_stopped b)"
  "keeps e I (assert_runtime_execution_allowed b)" "keeps e I effective_dry_run" "keeps e I trigger_dry_run"
  unfolding assert_not_paused_def assert_not_emergency_stopped_def assert_runtime_execution_allowed_def
    effective_dry_run_def trigger_dry_run_def
  by (intro keeps)+

lemma inv_reads [keeps]: "keeps e I (get_checkpoint k)" "keeps e I (job_is_dry_run k)"
  unfolding get_checkpoint_def job_is_dry_run_def by (intro keeps)+

lemma inv_node_moves [keeps]:
  assumes "may_be_live X i"
  shows "keeps e (inv M) (node_transition_to k s)" "keeps e (inv M) (node_restore k s)"
    "keeps e (inv M) (node_force_replacing k)"
  unfolding node_transition_to_def node_restore_def node_force_replacing_def transition_row_def
  by (intro keeps inv_registry assms)+

lemma inv_restore_node [keeps]: "may_be_live X i \<Longrightarrow> keeps e (inv M) (restore_node node job)"
  unfolding restore_node_def by (intro keeps)

lemma inv_deployment_transition [keeps]: "keeps e (inv M) (deployment_transition k s)"
proof (rule wp_keeps)
  fix w assume w: "inv M w"
  show "wp (deployment_transition k s) (\<lambda>_. inv M) (\<lambda>_. inv M) e w"
  proof (cases "get_deployment k (w_ses w)")
    case None
    with w show ?thesis by (simp add: deployment_transition_def hoare)
  next
    case (Some x)
    then have "x \<in> set (t_deployments (w_ses w))" using tbl_get_Some by (fastforce simp: get_deployment_def)
    with w have ok: "deployment_consistent x" by (simp add: inv_def db_good_def list_all_iff)
    have tick: "inv M (w\<lparr>w_tick := Suc (w_tick w)\<rparr>)" using w by (simp add: inv_def)
    show ?thesis
    proof (cases "dep_step (env_clock e (w_tick w)) s x")
      case (Inl a)
      with Some tick show ?thesis by (simp add: deployment_transition_def hoare)
    next
      case (Inr x')
      with ok have "deployment_consistent x'" by (simp add: dep_step_def dep_transition_consistent)
      with keeps_wp [OF inv_upd_deployment [of "\<lambda>_. x'" M k] tick] Some Inr
      show ?thesis by (simp add: deployment_transition_def hoare)
    qed
  qed
qed

end

end
