(* ===== verification/StageInv.thy ===== *)
theory StageInv
  imports JobInv
begin

text \<open>
  Every stage of the orchestrator, its failure path, \<open>resume\<close> and \<open>cancel\<close> keep the invariant of
  \<open>JobInv\<close>. The locale \<open>job_run\<close> adds that \<open>X\<close> decides whether the job is a dry run, so that what one
  session has read still holds in the next.
\<close>

section \<open>Calls of the deployment\<close>

lemma ssh_wait_calls [keeps]: "(\<And>c. R (ExtSsh t c)) \<Longrightarrow> calls_only R (ssh_wait t)"
proof -
  assume R: "\<And>c. R (ExtSsh t c)"
  have "calls_only R (ssh_wait_loop k t deadline interval)" for k deadline interval
    by (induction k) (auto intro!: keeps R simp: ssh_probe_def)
  then show ?thesis by (auto simp: ssh_wait_def Let_def intro!: keeps)
qed

lemma deployment_calls:
  "calls_only (\<lambda>x. \<not> is_delete x) (ssh_wait t)" "calls_only (\<lambda>x. \<not> is_delete x) (detect_os t)"
  "calls_only (\<lambda>x. \<not> is_delete x) (bootstrap t os)" "calls_only (\<lambda>x. \<not> is_delete x) (verify_installation t)"
  "calls_only (\<lambda>x. \<not> is_delete x) (install t host)" "calls_only (\<lambda>x. \<not> is_delete x) (read_configuration t)"
  "calls_only (\<lambda>x. \<not> is_delete x) (verify_access_url url tok)"
  "calls_only (\<lambda>x. \<not> is_delete x) (installer_rollback t)"
  by (auto simp: is_delete_def detect_os_def bootstrap_def verify_installation_def install_def
      read_configuration_def verify_access_url_def installer_rollback_def Let_def intro!: keeps
      split: http_outcome.splits http_body.splits)

section \<open>Adapters of the manager\<close>

lemma resolve_secret_stays [simp]: "snd (resolve_secret b r e w) = w"
  by (simp add: resolve_secret_def get_file_def bind_def ask_env_def raise_def ret_def split: option.splits)

lemma wp_resolve_secret:
  "wp (resolve_secret b r) Q E e w =
     (case fst (resolve_secret b r e w) of Inl x \<Rightarrow> E x w | Inr v \<Rightarrow> Q v w)"
  using resolve_secret_stays [of b r e w]
  by (cases "resolve_secret b r e w") (simp add: wp_def split: sum.splits)

lemma wp_cached_adapter [hoare]: "wp (cached_adapter key) Q E e w = Q (map_of (w_adapters w) key) w"
  by (simp add: wp_def cached_adapter_def)

lemma wp_cache_adapter [hoare]:
  "wp (cache_adapter key a) Q E e w = Q () (w\<lparr>w_adapters := AList.update key a (w_adapters w)\<rparr>)"
  by (simp add: wp_def cache_adapter_def)

lemma wp_alloc_dry [hoare]:
  "wp (alloc_dry pt) Q E e w = Q (DryRun pt (length (w_dry w))) (w\<lparr>w_dry := w_dry w @ [[]]\<rparr>)"
  by (simp add: wp_def alloc_dry_def)

lemma cache_ok_update:
  "cache_ok s ad \<Longrightarrow> adapter_ok s a \<Longrightarrow> (dry \<Longrightarrow> is_dry_adapter a) \<Longrightarrow>
   cache_ok s (AList.update (p, dry) a ad)"
  using set_alist_update [of "(p, dry)" a ad] unfolding cache_ok_def by fast

lemma factory_create_ok:
  assumes "\<And>a (w' :: world). w_db w' = w_db w \<Longrightarrow> w_ses w' = w_ses w \<Longrightarrow> w_adapters w' = w_adapters w \<Longrightarrow>
      w_trace w' = w_trace w \<Longrightarrow> adapter_ok (env_settings e) a \<Longrightarrow> (dry \<Longrightarrow> is_dry_adapter a) \<Longrightarrow> Q a w'"
    and "\<And>x. E x w"
  shows "wp (factory_create p (Some dry)) Q E e w"
  using assms
  by (auto simp: factory_create_def hoare Let_def wp_resolve_secret live_gates_def
      split: sum.splits provider_type.splits)

context job_inv
begin

text \<open>An adapter the job may use: a simulation, or a real one for a live job.\<close>

definition usable :: "adapter \<Rightarrow> bool" where
  "usable a \<longleftrightarrow> adapter_ok (env_settings e) a \<and> (is_dry_adapter a \<or> may_be_live X i)"

lemma wp_manager_get:
  assumes "inv M w" and "\<not> dry \<Longrightarrow> may_be_live X i"
  shows "wp (manager_get p (Some dry))
     (\<lambda>a w'. inv M w' \<and> usable a \<and> w_db w' = w_db w) (\<lambda>_. inv M) e w"
proof (cases "map_of (w_adapters w) (p_id p, dry)")
  case None
  have cache: "cache_ok (env_settings e) (w_adapters w)" using assms(1) by (simp add: inv_def)
  have "wp (factory_create p (Some dry))
      (\<lambda>a. wp (andthen (cache_adapter (p_id p, dry) a) (ret a))
        (\<lambda>a w'. inv M w' \<and> usable a \<and> w_db w' = w_db w) (\<lambda>_. inv M) e) (\<lambda>_. inv M) e w"
  proof (rule factory_create_ok)
    fix a and w' :: world
    assume "w_db w' = w_db w" "w_ses w' = w_ses w" "w_adapters w' = w_adapters w" "w_trace w' = w_trace w"
      and a: "adapter_ok (env_settings e) a" "dry \<Longrightarrow> is_dry_adapter a"
    with assms cache cache_ok_update [OF cache a(1), of dry "p_id p"]
    show "wp (andthen (cache_adapter (p_id p, dry) a) (ret a))
        (\<lambda>a w'. inv M w' \<and> usable a \<and> w_db w' = w_db w) (\<lambda>_. inv M) e w'"
      by (auto simp: hoare inv_def usable_def)
  qed (use assms in simp)
  with None show ?thesis by (simp add: manager_get_def hoare Let_def)
next
  case (Some a)
  then have "((p_id p, dry), a) \<in> set (w_adapters w)" by (rule map_of_SomeD)
  with assms have "usable a" by (auto simp: inv_def cache_ok_def usable_def)
  with Some assms show ?thesis by (simp add: manager_get_def hoare Let_def)
qed

lemma inv_manager_get [keeps]:
  "(\<not> dry \<Longrightarrow> may_be_live X i) \<Longrightarrow> keeps e (inv M) (manager_get p (Some dry))"
  by (rule wp_keeps, rule wp_mono, rule wp_manager_get) auto

lemma returns_manager_get:
  assumes "returns e (inv M) (manager_get p (Some dry)) a" and "\<not> dry \<Longrightarrow> may_be_live X i"
  shows "usable a"
  by (rule returns_wp [OF assms(1)], rule wp_mono, rule wp_manager_get) (use assms(2) in auto)

lemma returns_dry_adapter:
  assumes "returns e (inv M) (manager_get p (Some True)) a"
  shows "is_dry_adapter a"
proof (rule returns_wp [OF assms])
  fix w assume "inv M w"
  then have cache: "cache_ok (env_settings e) (w_adapters w)" by (simp add: inv_def)
  show "wp (manager_get p (Some True)) (\<lambda>a _. is_dry_adapter a) (\<lambda>_ _. True) e w"
  proof (cases "map_of (w_adapters w) (p_id p, True)")
    case None
    have "wp (factory_create p (Some True)) (\<lambda>a. wp (andthen (cache_adapter (p_id p, True) a) (ret a))
        (\<lambda>a _. is_dry_adapter a) (\<lambda>_ _. True) e) (\<lambda>_ _. True) e w"
      by (rule factory_create_ok) (auto simp: hoare)
    with None show ?thesis by (simp add: manager_get_def hoare Let_def)
  next
    case (Some a)
    then have "((p_id p, True), a) \<in> set (w_adapters w)" by (rule map_of_SomeD)
    with cache Some show ?thesis by (auto simp: manager_get_def hoare Let_def cache_ok_def)
  qed
qed

lemma inv_calls_live:
  "calls_only R m \<Longrightarrow> (\<And>x. R x \<Longrightarrow> \<not> is_delete x) \<Longrightarrow> may_be_live X i \<Longrightarrow> keeps e (inv M) m"
  by (erule inv_calls) auto

lemma inv_adapter:
  assumes "usable a" and "calls_only (\<lambda>x. adapter_sends a x \<and> \<not> is_delete x) m"
  shows "keeps e (inv M) m"
  using assms by (intro inv_calls [OF assms(2)]) (auto simp: usable_def dest: dry_adapter_silent)

lemma inv_adapter_ops [keeps]:
  assumes "usable a"
  shows "keeps e (inv M) (get_server a sid)" "keeps e (inv M) (find_server_by_name a name)"
    "keeps e (inv M) (create_server a r)" "keeps e (inv M) (create_temporary a r k c)"
    "keeps e (inv M) (provisioning_wait a sid)" "keeps e (inv M) (get_server_if_any a sid)"
  by (rule inv_adapter [OF assms],
      auto simp: create_temporary_def provisioning_wait_def get_server_if_any_def
        intro!: keeps adapter.get_calls adapter.find_calls adapter.create_calls wait_until_ready_calls)+

text \<open>A deletion is kept by the invariant when it is one of the safe ones.\<close>

lemma inv_delete:
  assumes "usable a" and "inv M w" and "\<And>x. adapter_deletes a sid x \<Longrightarrow> delete_ok e i (w_trace w) (w_db w) x"
  shows "inv M (snd (delete_server a sid e w))"
proof -
  note frame = calls_only_trace(1-3) [OF adapter.delete_calls, of a sid e w]
  from delete_server_once [of a sid e w] show ?thesis
  proof
    assume "w_trace (snd (delete_server a sid e w)) = w_trace w"
    with frame assms(2) show ?thesis by (simp add: inv_def)
  next
    assume "\<exists>x. w_trace (snd (delete_server a sid e w)) = (w_db w, x) # w_trace w \<and> adapter_deletes a sid x"
    then obtain x where x: "w_trace (snd (delete_server a sid e w)) = (w_db w, x) # w_trace w"
      "adapter_deletes a sid x" by blast
    then have "may_be_live X i" using assms(1) by (cases a) (auto simp: usable_def)
    then have "T ((w_db w, x) # w_trace w)"
      using live assms(2) assms(3) [OF x(2)] by (simp add: inv_def)
    with x(1) frame assms(2) show ?thesis by (simp add: inv_def)
  qed
qed

end

section \<open>Recording evidence\<close>

lemma job_ok_mark:
  assumes "job_ok X j" and "job_core (f j) = job_core j" and "job_progress (f j) = job_progress j"
    and "\<And>a b. job_core a = job_core b \<Longrightarrow> X a = X b" and "\<And>c. has_mark c j \<Longrightarrow> has_mark c (f j)"
  shows "job_ok X (f j)"
proof -
  have p: "j_checkpoint (f j) = j_checkpoint j" "j_state (f j) = j_state j" "j_active_slot (f j) = j_active_slot j"
    "j_started_at (f j) = j_started_at j" "j_completed_at (f j) = j_completed_at j"
    using assms(3) by (simp_all add: job_progress_def)
  have "X (f j) = X j" by (rule assms(4)) (rule assms(2))
  with assms(1,5) show ?thesis
    unfolding job_ok_def job_marked_def job_consistent_def p by blast
qed

definition marks :: "(usec \<Rightarrow> job_row \<Rightarrow> job_row) \<Rightarrow> checkpoint \<Rightarrow> bool" where
  "marks f c \<longleftrightarrow> (\<forall>t j. job_core (f t j) = job_core j \<and> job_progress (f t j) = job_progress j \<and>
     has_mark c (f t j) \<and> (\<forall>c. has_mark c j \<longrightarrow> has_mark c (f t j)))"

lemma marks_columns [simp]:
  "marks (\<lambda>t j. j\<lparr>j_new_ip_verified_at := Some t\<rparr>) IP_VERIFIED"
  "marks (\<lambda>t j. j\<lparr>j_deployment_verified_at := Some t\<rparr>) NODE_VERIFIED"
  "marks mark_updated MASTER_UPDATED" "marks mark_verified MASTER_VERIFIED"
  "marks (\<lambda>t j. j\<lparr>j_final_health_verified_at := Some t\<rparr>) FINAL_VERIFIED"
  "marks (\<lambda>t j. j\<lparr>j_old_vps_deleted_at := Some t\<rparr>) COMPLETED"
  by (auto simp: marks_def job_core_def job_progress_def has_mark_def mark_updated_def mark_verified_def
      split: checkpoint.splits)

context job_inv
begin

lemma inv_marks:
  assumes "marks f c" and "keeps e (inv (has_mark c)) m"
  shows "keeps e I (andthen (upd_job i (f t)) m)"
proof (rule inv_mark)
  fix j
  have f: "job_core (f t j) = job_core j" "job_progress (f t j) = job_progress j" "has_mark c (f t j)"
    "\<And>c. has_mark c j \<Longrightarrow> has_mark c (f t j)" using assms(1) by (simp_all add: marks_def)
  show "job_ok X j \<Longrightarrow> job_ok X (f t j)"
    using job_ok_mark [of X j "f t", OF _ f(1,2) core f(4)] by simp
  show "j_id (f t j) = j_id j" using f(1) by (simp add: job_core_def)
  show "has_mark c (f t j)" by (rule f(3))
qed (rule assms(2))

end

section \<open>The stages up to the verified address\<close>

text \<open>\<open>X\<close> decides whether the job is a dry run.\<close>

locale job_run = job_inv +
  assumes decided: "\<And>j j'. X j \<Longrightarrow> X j' \<Longrightarrow> j_id j = i \<Longrightarrow> j_id j' = i \<Longrightarrow>
    j_is_dry_run j = j_is_dry_run j'"
begin

lemma live_of:
  "returns e (inv M) (require_job i) job \<Longrightarrow> \<not> j_is_dry_run job \<Longrightarrow> may_be_live X i"
  using returns_require_job live_job by blast

lemma inv_stage_created: "keeps e I (stage_created i token)"
  unfolding stage_created_def by (intro keeps stable_True disjI1; simp add: job_core_def job_marks_def
      job_progress_def has_mark_def)

lemma inv_plan_provisioning [keeps]: "keeps e I (plan_provisioning i)"
  unfolding plan_provisioning_def
  by (intro keeps stable_True disjI1; simp add: has_mark_def)

lemma plan_live:
  "returns e I (plan_provisioning i) (Some plan) \<Longrightarrow> \<not> pl_dry_run plan \<Longrightarrow> may_be_live X i"
proof -
  have "yields e I (plan_provisioning i) (\<lambda>o1. \<forall>plan. o1 = Some plan \<longrightarrow> \<not> pl_dry_run plan \<longrightarrow> may_be_live X i)"
    unfolding plan_provisioning_def
    by (intro keeps stable_True disjI1; simp add: has_mark_def live_of)
  then show "returns e I (plan_provisioning i) (Some plan) \<Longrightarrow> \<not> pl_dry_run plan \<Longrightarrow> may_be_live X i"
    by (blast dest: yieldsD)
qed

lemma inv_mark_requested [keeps]: "keeps e I (mark_requested i token)"
  unfolding mark_requested_def
  by (intro keeps stable_True; simp add: job_core_def job_marks_def job_progress_def)

lemma inv_request_server [keeps]: "usable a \<Longrightarrow> keeps e I (request_server i token t plan a)"
  unfolding request_server_def by (intro keeps)

lemma inv_record_server [keeps]: "keeps e I (record_server i token plan s)"
  unfolding record_server_def record_instance_def
  by (intro keeps stable_True disjI1; simp add: job_core_def job_marks_def job_progress_def has_mark_def)

lemma inv_stage_provisioning: "keeps e I (stage_provisioning i token)"
  unfolding stage_provisioning_def
  by (intro keeps; (rule returns_manager_get)?) (auto dest: plan_live)

lemma inv_sleep_loop [keeps]: "keeps e I (sleep_loop k token interval remaining)"
proof (induction k token interval remaining rule: sleep_loop.induct)
  case (1 k token interval remaining)
  show ?case
  proof (cases "remaining \<le> 0")
    case True
    then show ?thesis by (simp add: sleep_loop.simps [of k token interval remaining] keeps)
  next
    case False
    with 1 have "keeps e I (sleep_loop k token interval (remaining - min remaining (max 1 interval)))"
      by simp
    with False show ?thesis
      unfolding sleep_loop.simps [of k token interval remaining] by (simp add: keeps)
  qed
qed

lemma inv_sleeps [keeps]:
  "keeps e I (sleep_with_lease k token r)" "keeps e I (wait_for_vps_boot_grace k token)"
  unfolding wait_for_vps_boot_grace_def sleep_with_lease_def by (intro keeps)+

lemma inv_provisioned_parts [keeps]:
  "keeps e I (server_vanished i)" "keeps e I (record_running i token s)"
  "keeps e I (start_ip_check i token)"
  unfolding server_vanished_def record_running_def start_ip_check_def
  by (intro keeps stable_True disjI1; simp add: has_mark_def)+

lemma inv_stage_provisioned: "keeps e I (stage_provisioned i token)"
proof -
  let ?m = "session
       (bind (require_job i) (\<lambda>job.
        bind (require_new_vps job) (\<lambda>v.
        bind (require_provider (v_provider_id v)) (\<lambda>provider.
        andthen (renew_lease i token) (andthen commit (ret (job, v, provider)))))))"
  have y: "yields e I ?m (\<lambda>(job, v, p). \<not> j_is_dry_run job \<longrightarrow> may_be_live X i)"
    by (intro keeps stable_True) (auto dest: live_of)
  have k: "keeps e I ?m" by (intro keeps stable_True)
  show ?thesis
    unfolding stage_provisioned_def
    by (intro keeps k; (rule returns_manager_get)?) (auto dest: yieldsD [OF y])
qed

lemma inv_verify [keeps]:
  assumes "may_be_live X i"
  shows "keeps e I (verify_reachability h)" "keeps e I (verify_external h)"
  by (rule inv_calls_live [OF _ _ assms], rule keeps, rule get_call_no_delete, assumption)+

lemma inv_run_rounds [keeps]: "may_be_live X i \<Longrightarrow> keeps e I (run_rounds i token host n ks c)"
  by (induction ks arbitrary: c) (auto simp: run_round_def intro!: keeps)

lemma inv_verify_candidate [keeps]:
  "may_be_live X i \<Longrightarrow> keeps e I (verify_candidate_reachability i token host)"
  unfolding verify_candidate_reachability_def Let_def by (intro keeps)

lemma inv_record_ip_decision [keeps]: "keeps e I (record_ip_decision i d payload)"
  unfolding record_ip_decision_def
  by (intro keeps inv_marks [where c = IP_VERIFIED] stable_True stable_mark disjI1 disjI2;
      simp add: has_mark_def)

lemma inv_load_new_host [keeps]: "keeps e I (load_new_host i token)"
  unfolding load_new_host_def by (intro keeps stable_True)

lemma new_host_live: "returns e I (load_new_host i token) (False, host) \<Longrightarrow> may_be_live X i"
proof -
  have "yields e I (load_new_host i token) (\<lambda>(dry, host). \<not> dry \<longrightarrow> may_be_live X i)"
    unfolding load_new_host_def by (intro keeps stable_True) (auto dest: live_of)
  then show "returns e I (load_new_host i token) (False, host) \<Longrightarrow> may_be_live X i"
    by (auto dest: yieldsD)
qed

lemma inv_stage_checking_ip: "keeps e I (stage_checking_ip i token)"
  unfolding stage_checking_ip_def by (intro keeps) (auto dest: new_host_live)

end

section \<open>Deleting a rejected candidate\<close>

context job_run
begin

definition named :: "db \<Rightarrow> string \<Rightarrow> bool" where
  "named d name \<longleftrightarrow>
     (\<exists>job node. get_job i d = Some job \<and> get_node (j_node_id job) d = Some node \<and>
        name = replacement_server_name node job)"

lemma wp_expected_name:
  assumes "I w"
  shows "wp (expected_server_name i) (\<lambda>name w'. I w' \<and> named (w_db w') name) (\<lambda>_. I) e w"
proof -
  have k: "keeps e I (expected_server_name i)" unfolding expected_server_name_def by (intro keeps)
  have n: "wp (expected_server_name i) (\<lambda>name w'. named (w_db w') name) (\<lambda>_ _. True) e w"
    unfolding expected_server_name_def named_def require_job_def require_node_def
    by (auto simp: hoare opened_def closed_def Let_def split: option.splits)
  show ?thesis by (rule wp_mono [OF wp_conj [OF keeps_wp [OF k assms] n]]) auto
qed

lemma wp_get_server_if_any:
  assumes "I w" and "usable a"
  shows "wp (get_server_if_any a sid)
     (\<lambda>found w'. I w' \<and> w_db w' = w_db w \<and> (\<forall>s. found = Some s \<longrightarrow> answered e a sid s (w_trace w')))
     (\<lambda>_. I) e w"
proof -
  have k: "keeps e I (get_server_if_any a sid)" using assms(2) by (intro keeps)
  have "calls_only (\<lambda>x. adapter_sends a x \<and> \<not> is_delete x) (get_server_if_any a sid)"
    unfolding get_server_if_any_def by (intro keeps adapter.get_calls)
  from calls_only_trace(1) [OF this] have d: "w_db (snd (get_server_if_any a sid e w)) = w_db w" .
  have ans: "wp (get_server_if_any a sid)
      (\<lambda>found w'. \<forall>s. found = Some s \<longrightarrow> answered e a sid s (w_trace w')) (\<lambda>_ _. True) e w"
    unfolding get_server_if_any_def answered_def
    by (auto simp: hoare) (auto simp: wp_def ret_def split: prod.splits sum.splits)
  have "wp (get_server_if_any a sid) (\<lambda>_ w'. w_db w' = w_db w) (\<lambda>_ _. True) e w"
    using d by (auto simp: wp_def split: prod.splits sum.splits)
  from wp_conj [OF keeps_wp [OF k assms(1)] wp_conj [OF this ans]] show ?thesis
    by (rule wp_mono) auto
qed

lemma wp_check_temporary:
  fixes w :: world
  shows "wp (check_temporary v name s) (\<lambda>_ w'. w' = w \<and> ps_id s = v_provider_server_id v \<and> ps_name s = name \<and>
     (truthy_text (v_host v) \<longrightarrow> ps_ipv4 s = v_host v)) (\<lambda>_ w'. w' = w) e' w"
  by (auto simp: check_temporary_def hoare)

lemma inv_delete_candidate:
  assumes "\<not> dry \<Longrightarrow> may_be_live X i" and "v_state v \<noteq> VPS_DELETED"
  shows "keeps e I (delete_candidate i dry v p)"
proof (rule wp_keeps)
  fix w assume w: "I w"
  let ?sid = "v_provider_server_id v"
  show "wp (delete_candidate i dry v p) (\<lambda>_. I) (\<lambda>_. I) e w"
    unfolding delete_candidate_def wp_bind
  proof (rule wp_mono [OF wp_manager_get [OF w assms(1)]], assumption, elim conjE)
    fix a w1 assume w1: "I w1" "usable a"
    show "wp (expected_server_name i)
        (\<lambda>name. wp (get_server_if_any a ?sid) (\<lambda>found. wp (case found of None \<Rightarrow> ret ()
          | Some s \<Rightarrow> andthen (check_temporary v name s) (delete_temporary a ?sid)) (\<lambda>_. I) (\<lambda>_. I) e)
          (\<lambda>_. I) e) (\<lambda>_. I) e w1"
    proof (rule wp_mono [OF wp_expected_name [OF w1(1)]], elim conjE)
      fix name w2 assume w2: "I w2" "named (w_db w2) name"
      show "wp (get_server_if_any a ?sid) (\<lambda>found. wp (case found of None \<Rightarrow> ret ()
          | Some s \<Rightarrow> andthen (check_temporary v name s) (delete_temporary a ?sid)) (\<lambda>_. I) (\<lambda>_. I) e)
          (\<lambda>_. I) e w2"
      proof (rule wp_mono [OF wp_get_server_if_any [OF w2(1) w1(2)]], elim conjE)
        fix found w3
        assume w3: "I w3" "w_db w3 = w_db w2" "\<forall>s. found = Some s \<longrightarrow> answered e a ?sid s (w_trace w3)"
        show "wp (case found of None \<Rightarrow> ret ()
            | Some s \<Rightarrow> andthen (check_temporary v name s) (delete_temporary a ?sid)) (\<lambda>_. I) (\<lambda>_. I) e w3"
        proof (cases found)
          case None
          with w3 show ?thesis by (simp add: hoare)
        next
          case (Some s)
          have "wp (delete_temporary a ?sid) (\<lambda>_. I) (\<lambda>_. I) e w3"
            if s: "ps_id s = ?sid" "ps_name s = name" "truthy_text (v_host v) \<longrightarrow> ps_ipv4 s = v_host v"
          proof -
            have "candidate_delete e i (w_trace w3) (w_db w3) x" if "adapter_deletes a ?sid x" for x
              using s that w1(2) w2(2) w3(2,3) Some assms(2)
              unfolding candidate_delete_def named_def usable_def by metis
            then have "I (snd (delete_server a ?sid e w3))"
              by (intro inv_delete [OF w1(2) w3(1)]) (simp add: delete_ok_def)
            then show ?thesis
              by (auto simp: delete_temporary_def wp_def split: prod.splits sum.splits)
          qed
          with Some w3(1) wp_check_temporary [where v = v and name = name and s = s and e' = e and w = w3] show ?thesis
            by (auto simp: hoare elim!: wp_mono)
        qed
      qed auto
    qed auto
  qed auto
qed

lemma inv_plan_cleanup [keeps]: "keeps e I (plan_cleanup i token)"
  unfolding plan_cleanup_def by (intro keeps stable_True)

lemma cleanup_live: "returns e I (plan_cleanup i token) plan \<Longrightarrow> \<not> cl_dry_run plan \<Longrightarrow> may_be_live X i"
proof -
  have "yields e I (plan_cleanup i token) (\<lambda>plan. \<not> cl_dry_run plan \<longrightarrow> may_be_live X i)"
    unfolding plan_cleanup_def by (intro keeps stable_True) (auto dest: live_of)
  then show "returns e I (plan_cleanup i token) plan \<Longrightarrow> \<not> cl_dry_run plan \<Longrightarrow> may_be_live X i"
    by (blast dest: yieldsD)
qed

lemma inv_next_attempt [keeps]: "keeps e I (next_attempt i)"
  unfolding next_attempt_def Let_def
  by (intro keeps stable_True disjI1; simp add: job_core_def job_marks_def job_progress_def has_mark_def)

lemma inv_stage_temp_cleanup: "keeps e I (stage_temp_cleanup i token)"
  unfolding stage_temp_cleanup_def
  by (intro keeps inv_delete_candidate) (auto dest: cleanup_live)

end

end
