(* ===== verification/SwitchInv.thy ===== *)
theory SwitchInv
  imports StageInv
begin

text \<open>
  The invariant through the deployment, the switch of the Master panel, the deletion of the old
  server, and the operations of the orchestrator as a whole.
\<close>

lemma keeps_top: "keeps e (\<lambda>_. True) m"
  by (simp add: keeps_def)

lemma yields_top: "yields e (\<lambda>_. True) m P \<Longrightarrow> yields e I m P"
  unfolding yields_def returns_def by blast

lemma yields_wp: "yields e I m P \<Longrightarrow> I w \<Longrightarrow> wp m (\<lambda>a _. P a) (\<lambda>_ _. True) e w"
  unfolding yields_def wp_def by (cases "m e w", cases "fst (m e w)") (auto intro: returnsI)

lemma yieldsI: "(\<And>w. I w \<Longrightarrow> wp m (\<lambda>a _. P a) (\<lambda>_ _. True) e w) \<Longrightarrow> yields e I m P"
  unfolding yields_def by (blast intro: returns_wp)

section \<open>Deployment\<close>

context job_inv
begin

lemma inv_deploy_move [keeps]: "keeps e I callback \<Longrightarrow> keeps e I (deploy_move callback k s)"
  unfolding deploy_move_def by (intro keeps)

lemma inv_deployment_state_of [keeps]: "keeps e (inv M) (deployment_state_of k)"
  unfolding deployment_state_of_def
  by (intro inv_silent keeps)

lemma inv_simulate_success [keeps]: "keeps e I callback \<Longrightarrow> keeps e I (simulate_success callback k)"
proof -
  assume c: "keeps e I callback"
  have "keeps e I (move_all callback k ss)" for ss by (induction ss) (simp_all add: keeps c)
  then show ?thesis unfolding simulate_success_def by (intro keeps)
qed

lemma inv_deployment_calls [keeps]:
  assumes "may_be_live X i"
  shows "keeps e I (ssh_wait t)" "keeps e I (detect_os t)" "keeps e I (bootstrap t os)"
    "keeps e I (verify_installation t)" "keeps e I (install t host)" "keeps e I (read_configuration t)"
    "keeps e I (verify_access_url url tok)" "keeps e I (installer_rollback t)"
  by (rule inv_calls_live [OF _ _ assms], rule deployment_calls, assumption)+

lemma inv_deploy_failed:
  "keeps e I callback \<Longrightarrow> may_be_live X i \<Longrightarrow> keeps e I (deploy_failed callback k t b x)"
  unfolding deploy_failed_def by (intro keeps; simp add: deployment_consistent_def)

lemma inv_deploy [keeps]:
  assumes "keeps e I callback" and "\<not> dry \<Longrightarrow> may_be_live X i"
  shows "keeps e I (deploy k t host callback (Some dry))"
proof (cases dry)
  case True
  with assms show ?thesis unfolding deploy_def Let_def by (simp add: keeps)
next
  case False
  with assms have l: "may_be_live X i" by simp
  have "keeps e I (deploy_prepare callback k t)" "keeps e I (deploy_install callback k t host)"
    unfolding deploy_prepare_def deploy_install_def by (intro keeps assms(1) l)+
  with l show ?thesis
    unfolding deploy_def Let_def by (intro keeps inv_deploy_failed assms(1))
qed

end

context job_run
begin

lemma inv_stage_ip_verified: "keeps e I (stage_ip_verified i token)"
  unfolding stage_ip_verified_def
  by (intro keeps stable_True disjI1; auto simp: has_mark_def deployment_consistent_def dest: live_of)

lemma inv_finish_deployment [keeps]:
  assumes "\<not> j_is_dry_run job \<Longrightarrow> may_be_live X i"
  shows "keeps e I (finish_deployment i job did c)"
  unfolding finish_deployment_def
  by (intro keeps inv_marks [where c = NODE_VERIFIED] stable_mark disjI2;
      auto simp: deployment_consistent_def record_panel_def assms)

lemma inv_stage_deploying: "keeps e I (stage_deploying i token)"
  unfolding stage_deploying_def
  by (intro keeps stable_True; auto dest: live_of)

section \<open>The switch of the Master panel\<close>

lemma inv_move_session [keeps]:
  "target \<in> {MASTER_UPDATING, MASTER_VERIFYING, FINAL_CHECK, OLD_VPS_CLEANUP} \<Longrightarrow>
   keeps e I (move_session i target)"
  unfolding move_session_def by (intro keeps stable_True disjI1) (auto simp: has_mark_def)

lemma inv_load_switch [keeps]: "keeps e I (load_switch i token)"
  unfolding load_switch_def
  by (intro keeps stable_True disjI1;
      simp add: has_mark_def keep_snapshot_def job_core_def job_marks_def job_progress_def)

lemma switch_live: "returns e I (load_switch i token) (Some c) \<Longrightarrow> may_be_live X i"
proof -
  have "yields e I (load_switch i token) (\<lambda>o1. o1 \<noteq> None \<longrightarrow> may_be_live X i)"
    unfolding load_switch_def
    by (intro keeps stable_True disjI1;
        simp add: has_mark_def keep_snapshot_def job_core_def job_marks_def job_progress_def live_of)
  then show "returns e I (load_switch i token) (Some c) \<Longrightarrow> may_be_live X i"
    by (auto dest: yieldsD)
qed

lemma inv_record_snapshot [keeps]: "keeps e I (record_snapshot i existing)"
  unfolding record_snapshot_def
  by (intro keeps stable_True; simp add: keep_snapshot_def job_core_def job_marks_def job_progress_def)

lemma inv_panel [keeps]:
  assumes "may_be_live X i"
  shows "keeps e I (master_get_node n)" "keeps e I (master_test_node m)" "keeps e I (master_update_node n m)"
    "keeps e I (master_verify_node n m)" "keeps e I (prepare_pin_if_needed m)"
  unfolding prepare_pin_if_needed_def
  by (rule inv_calls_live [where R = panel_call], (intro keeps)[1], erule panel_call_no_delete, rule assms)+

lemma inv_stage_node_verified: "keeps e I (stage_node_verified i token)"
  unfolding stage_node_verified_def by (intro keeps) (auto dest: switch_live)

lemma inv_load_target [keeps]:
  "marks f target \<Longrightarrow> keeps e I (load_target i token f target)"
  unfolding load_target_def
  by (intro keeps inv_marks stable_mark stable_True disjI2; blast)

lemma target_live:
  assumes "marks f target" and "returns e I (load_target i token f target) (Some c)"
  shows "may_be_live X i"
proof -
  have "yields e I (load_target i token f target) (\<lambda>o1. o1 \<noteq> None \<longrightarrow> may_be_live X i)"
    unfolding load_target_def
  proof (rule yields_session, rule yields_bind, rule inv_silent_ops, rule yields_if)
    show "yields e I (bind now (\<lambda>t. andthen (upd_job i (f t)) (andthen (job_transition i target)
        (andthen commit (ret None))))) (\<lambda>o1. o1 \<noteq> None \<longrightarrow> may_be_live X i)"
      by (rule yields_top) (intro yields_bind yields_andthen yields_ret keeps_top; simp)
  qed (intro keeps stable_True; simp add: live_of)
  with assms(2) show ?thesis by (auto dest: yieldsD)
qed

lemma inv_record_marker [keeps]:
  "marks f target \<Longrightarrow> keeps e I (record_marker i f ev msg target)"
  unfolding record_marker_def
  by (intro keeps inv_marks stable_mark disjI2; blast)

lemma inv_stage_master_updating: "keeps e I (stage_master_updating i token)"
  unfolding stage_master_updating_def
  by (intro keeps) (auto dest: target_live [OF marks_columns(3)])

lemma inv_stage_master_updated: "keeps e I (stage_master_updated i token)"
  unfolding stage_master_updated_def by (intro keeps) simp

lemma inv_load_rollback [keeps]: "keeps e I (load_rollback i)"
  unfolding load_rollback_def by (intro keeps inv_silent)

lemma rollback_live: "returns e I (load_rollback i) (Some c) \<Longrightarrow> may_be_live X i"
proof -
  have "yields e I (load_rollback i) (\<lambda>o1. o1 \<noteq> None \<longrightarrow> may_be_live X i)"
    unfolding load_rollback_def by (intro keeps inv_silent; simp add: live_of)
  then show "returns e I (load_rollback i) (Some c) \<Longrightarrow> may_be_live X i" by (auto dest: yieldsD)
qed

lemma inv_rollback_master [keeps]: "keeps e I (rollback_master i)"
  unfolding rollback_master_def by (intro keeps) (auto dest: rollback_live)

lemma inv_stage_master_verifying: "keeps e I (stage_master_verifying i token)"
  unfolding stage_master_verifying_def
  by (intro keeps) (auto dest: target_live [OF marks_columns(4)])

lemma inv_stage_master_verified: "keeps e I (stage_master_verified i token)"
  unfolding stage_master_verified_def by (intro keeps) simp

lemma inv_record_final [keeps]: "keeps e I (record_final i)"
  unfolding record_final_def
  by (intro keeps inv_marks [where c = FINAL_VERIFIED] stable_mark disjI2; (simp; fail)?; blast)

lemma inv_stage_final_check: "keeps e I (stage_final_check i token)"
  unfolding stage_final_check_def by (intro keeps) (auto dest: new_host_live)

lemma inv_stage_final_verified: "keeps e I (stage_final_verified i token)"
  unfolding stage_final_verified_def by (intro keeps) simp

end

section \<open>The old server\<close>

lemma old_gates_lease:
  assumes "try_acquire_workflow_lease k tok t u d = (b, d')" and "old_gates e i d v"
  shows "old_gates e i d' v"
proof -
  let ?f = "\<lambda>j. j\<lparr>j_lease_token := Some tok, j_lease_until := Some u\<rparr>"
  let ?P = "workflow_lease_free k tok t"
  have eq: "d' = d\<lparr>t_jobs := snd (update_where ?P ?f (t_jobs d))\<rparr>"
    using assms(1) by (auto simp: try_acquire_workflow_lease_def split: prod.splits)
  from assms(2) obtain job dep nv where g: "allow_old_vps_deletion (env_settings e)" "get_job i d = Some job"
    "\<not> j_is_dry_run job" "dep \<in> set (t_deployments d)" "get_vps (v_id nv) d = Some nv"
    "get_vps (v_id v) d = Some v" "deletion_gates job dep nv v"
    unfolding old_gates_def by blast
  let ?job = "if ?P job then ?f job else job"
  have "get_job i (d\<lparr>t_jobs := snd (update_where ?P ?f (t_jobs d))\<rparr>) = Some ?job"
    using g(2) tbl_get_update_where [of j_id ?f i ?P "t_jobs d"] by (simp add: get_job_def)
  moreover have "\<not> j_is_dry_run ?job" "deletion_gates ?job dep nv v"
    using g(3,7) by (simp_all add: deletion_gates_def)
  ultimately show ?thesis
    unfolding old_gates_def eq using g(1,4-6)
    by (intro conjI exI [of _ ?job] exI [of _ dep] exI [of _ nv]) (simp_all add: get_vps_def)
qed

lemma old_gatesI:
  assumes "allow_old_vps_deletion (env_settings e)" and "get_job i d = Some job" and "\<not> j_is_dry_run job"
    and "deployment_for_attempt (j_id job) (j_attempt_count job) d = Some dep"
    and "get_vps k d = Some nv" and "get_vps m d = Some v" and "assert_can_delete job dep nv v = Inr ()"
  shows "old_gates e i d v"
proof -
  have "dep \<in> set (t_deployments d)"
    using assms(4) by (auto simp: deployment_for_attempt_def find_Some_iff)
  moreover have "v_id nv = k" "v_id v = m"
    using assms(5,6) tbl_get_Some by (fastforce simp: get_vps_def)+
  ultimately show ?thesis
    using assms assert_can_delete_iff unfolding old_gates_def by metis
qed

lemma load_old_cleanup_gates:
  "wp (load_old_cleanup i token) (\<lambda>r w'. \<forall>p v. r = LiveCleanup p v \<longrightarrow> old_gates e i (w_db w') v)
     (\<lambda>_ _. True) e w"
  unfolding load_old_cleanup_def require_job_def require_new_vps_def require_deployment_def
    require_provider_def assert_not_emergency_stopped_def renew_lease_def
  by (auto simp: hoare closed_def split: option.splits sum.splits prod.splits)
    (erule old_gates_lease, rule old_gatesI, assumption+)+

context job_run
begin

lemma inv_load_old_cleanup [keeps]: "keeps e I (load_old_cleanup i token)"
  unfolding load_old_cleanup_def by (intro keeps stable_True)

lemma wp_load_old_cleanup:
  assumes "I w"
  shows "wp (load_old_cleanup i token)
     (\<lambda>r w'. I w' \<and> (\<forall>p v. r = LiveCleanup p v \<longrightarrow> old_gates e i (w_db w') v \<and> may_be_live X i)) (\<lambda>_. I) e w"
proof (rule wp_mono [OF wp_conj [OF keeps_wp [OF inv_load_old_cleanup assms] load_old_cleanup_gates]], elim conjE)
  fix r w' assume w': "I w'" "\<forall>p v. r = LiveCleanup p v \<longrightarrow> old_gates e i (w_db w') v"
  have "may_be_live X i" if "old_gates e i (w_db w') v" for v
    using that w'(1) job_of_session [of "w_db w'" i] live_job
    unfolding old_gates_def inv_def by blast
  with w' show "I w' \<and> (\<forall>p v. r = LiveCleanup p v \<longrightarrow> old_gates e i (w_db w') v \<and> may_be_live X i)"
    by blast
qed auto

lemma simulated_dry:
  "yields e I (load_old_cleanup i token)
     (\<lambda>r. (\<exists>p sid. r = SimulatedCleanup p sid) \<longrightarrow> (\<exists>j. X j \<and> j_id j = i \<and> j_is_dry_run j))"
  unfolding load_old_cleanup_def
  by (intro keeps stable_True; (simp; fail)?) (use returns_require_job in \<open>auto simp: job_ok_def\<close>)

lemma inv_finish_dry_run:
  assumes "\<exists>j. X j \<and> j_id j = i \<and> j_is_dry_run j"
  shows "keeps e I (finish_dry_run i)"
proof -
  have "has_mark COMPLETED j" if "job_ok X j" "j_id j = i" for j
    using that assms decided [of j] by (auto simp: job_ok_def has_mark_def)
  then show ?thesis unfolding finish_dry_run_def
    by (intro keeps stable_True disjI2) auto
qed

lemma wp_check_old_server:
  fixes w :: world
  shows "wp (check_old_server v s) (\<lambda>_ w'. w' = w \<and> ps_id s = v_provider_server_id v \<and>
     ps_ipv4 s \<noteq> None \<and> ps_ipv4 s = canonical_ip (text_of (v_host v))) (\<lambda>_ w'. w' = w) e' w"
  by (auto simp: check_old_server_def hoare split: option.splits)

lemma inv_delete_old_server:
  assumes "I w" and "usable a" and "old_gates e i (w_db w) v"
  shows "wp (delete_old_server a v) (\<lambda>_. I) (\<lambda>_. I) e w"
  unfolding delete_old_server_def wp_bind
proof (rule wp_mono [OF wp_get_server_if_any [OF assms(1,2)]], elim conjE)
  let ?sid = "v_provider_server_id v"
  fix found w'
  assume w': "I w'" "w_db w' = w_db w" "\<forall>s. found = Some s \<longrightarrow> answered e a ?sid s (w_trace w')"
  show "wp (case found of None \<Rightarrow> ret () | Some s \<Rightarrow> andthen (check_old_server v s) (delete_server a ?sid))
      (\<lambda>_. I) (\<lambda>_. I) e w'"
  proof (cases found)
    case None
    with w' show ?thesis by (simp add: hoare)
  next
    case (Some s)
    have "wp (delete_server a ?sid) (\<lambda>_. I) (\<lambda>_. I) e w'"
      if s: "ps_id s = ?sid" "ps_ipv4 s \<noteq> None" "ps_ipv4 s = canonical_ip (text_of (v_host v))"
    proof -
      have "old_delete e i (w_trace w') (w_db w') x" if "adapter_deletes a ?sid x" for x
        using s that w' Some assms(2,3) unfolding old_delete_def usable_def by metis
      then have "I (snd (delete_server a ?sid e w'))"
        by (intro inv_delete [OF assms(2) w'(1)]) (simp add: delete_ok_def)
      then show ?thesis by (auto simp: wp_def split: prod.splits sum.splits)
    qed
    then show ?thesis unfolding Some option.case wp_andthen
      by (intro wp_mono [OF wp_check_old_server]) (use w'(1) in blast)+
  qed
qed auto

lemma inv_finish_replacement:
  assumes "may_be_live X i"
  shows "keeps e I (finish_replacement i)"
  unfolding finish_replacement_def
  by (intro keeps inv_registry assms inv_marks [where c = COMPLETED] stable_mark disjI2; (simp; fail)?; blast)

lemma inv_stage_old_vps_cleanup: "keeps e I (stage_old_vps_cleanup i token)"
proof (rule wp_keeps)
  fix w assume w: "I w"
  show "wp (stage_old_vps_cleanup i token) (\<lambda>_. I) (\<lambda>_. I) e w"
    unfolding stage_old_vps_cleanup_def wp_bind
  proof (rule wp_mono [OF wp_conj [OF wp_load_old_cleanup [OF w] yields_wp [OF simulated_dry w]]], elim conjE)
    fix r w1
    assume w1: "I w1" "\<forall>p v. r = LiveCleanup p v \<longrightarrow> old_gates e i (w_db w1) v \<and> may_be_live X i"
      "(\<exists>p sid. r = SimulatedCleanup p sid) \<longrightarrow> (\<exists>j. X j \<and> j_id j = i \<and> j_is_dry_run j)"
    show "wp (case r of SimulatedCleanup p sid \<Rightarrow> bind (manager_get p (Some True)) (\<lambda>a.
        andthen (catch [ProviderNotFoundError] (delete_temporary a sid) (\<lambda>_. ret ())) (finish_dry_run i))
      | LiveCleanup p v \<Rightarrow> bind (manager_get p (Some False)) (\<lambda>a.
        andthen (delete_old_server a v) (finish_replacement i))) (\<lambda>_. I) (\<lambda>_. I) e w1"
    proof (cases r)
      case (SimulatedCleanup p sid)
      have "keeps e I (delete_temporary a sid)" if "is_dry_adapter a" for a
      proof -
        have "calls_only (\<lambda>x. adapter_sends a x \<and> adapter_deletes a sid x) (delete_server a sid)"
          by (rule adapter.delete_calls)
        then have "calls_only (\<lambda>_. False) (delete_server a sid)"
          by (rule calls_only_mono) (use that dry_adapter_silent in blast)
        then show ?thesis unfolding delete_temporary_def by (rule inv_silent)
      qed
      with w1(3) SimulatedCleanup have "keeps e I (bind (manager_get p (Some True)) (\<lambda>a.
          andthen (catch [ProviderNotFoundError] (delete_temporary a sid) (\<lambda>_. ret ())) (finish_dry_run i)))"
        by (intro keeps inv_finish_dry_run; use returns_dry_adapter in blast)
      from keeps_wp [OF this w1(1)] SimulatedCleanup show ?thesis by simp
    next
      case (LiveCleanup p v)
      with w1(2) have g: "old_gates e i (w_db w1) v" and l: "may_be_live X i" by blast+
      show ?thesis unfolding LiveCleanup cleanup_target.case wp_bind
      proof (rule wp_mono [OF wp_manager_get [OF w1(1) l]], elim conjE)
        fix a w2 assume "I w2" "usable a" "w_db w2 = w_db w1"
        with g have "wp (delete_old_server a v) (\<lambda>_. I) (\<lambda>_. I) e w2"
          by (intro inv_delete_old_server) simp_all
        then show "wp (andthen (delete_old_server a v) (finish_replacement i)) (\<lambda>_. I) (\<lambda>_. I) e w2"
          unfolding wp_andthen
          by (rule wp_mono) (use keeps_wp [OF inv_finish_replacement [OF l]] in blast)+
      qed
    qed
  qed auto
qed

end

section \<open>The operations of the orchestrator\<close>

context job_run
begin

lemma inv_dispatch [keeps]: "keeps e I (dispatch i token c)"
  unfolding dispatch_def
  by (cases c) (simp_all add: inv_stage_created inv_stage_provisioning inv_stage_provisioned
      inv_stage_checking_ip inv_stage_temp_cleanup inv_stage_ip_verified inv_stage_deploying
      inv_stage_node_verified inv_stage_master_updating inv_stage_master_updated
      inv_stage_master_verifying inv_stage_master_verified inv_stage_final_check
      inv_stage_final_verified inv_stage_old_vps_cleanup keeps_raise)

lemma inv_guarded_step [keeps]: "keeps e I (guarded_step i token c)"
  unfolding guarded_step_def by (intro keeps)

text \<open>The failure path and the cancellation read the job in the session that changes it.\<close>

lemma live_of_query:
  "returns e (inv M) (query (get_job i)) (Some job) \<Longrightarrow> \<not> j_is_dry_run job \<Longrightarrow> may_be_live X i"
proof -
  assume q: "returns e (inv M) (query (get_job i)) (Some job)" and dry: "\<not> j_is_dry_run job"
  have "yields e (inv M) (query (get_job i)) (\<lambda>o1. \<forall>j. o1 = Some j \<longrightarrow> job_ok X j \<and> j_id j = i)"
  proof (rule yieldsI)
    fix w assume "inv M w"
    then show "wp (query (get_job i)) (\<lambda>o1 _. \<forall>j. o1 = Some j \<longrightarrow> job_ok X j \<and> j_id j = i) (\<lambda>_ _. True) e w"
      using job_of_session [of "w_ses w" i] by (simp add: hoare inv_def)
  qed
  from yieldsD [OF this q] dry live_job show "may_be_live X i" by blast
qed

lemma inv_query [keeps]: "keeps e (inv M) (query f)"
  by (intro inv_silent keeps)

lemma inv_fail_job [keeps]: "keeps e I (fail_job i x)"
  unfolding fail_job_def
  by (intro keeps stable_True disjI1;
      (simp add: has_mark_def job_core_def job_marks_def job_progress_def; fail)?; use live_of_query in blast)

lemma inv_cancel: "keeps e I (cancel i)"
  unfolding cancel_def
  by (intro keeps stable_True disjI1; (simp add: has_mark_def; fail)?; use live_of in blast)

lemma inv_step_failed [keeps]: "keeps e I (step_failed i x)"
  unfolding step_failed_def by (intro keeps)

lemma inv_resume_loop [keeps]: "keeps e I (resume_loop k i token)"
  by (induction k) (simp_all add: keeps)

lemma inv_resume: "keeps e I (resume i)"
  unfolding resume_def Let_def by (intro keeps)

end

end
