(* ===== verification/WorkflowProps.thy ===== *)
theory WorkflowProps
  imports SwitchInv Samples
begin

text \<open>
  Properties of the replacement workflow as a whole. \<open>sound p e w\<close> is what every operation maintains:
  the committed registry satisfies its constraints, every job and deployment is consistent with its
  state and carries the evidence of the steps it has passed, the jobs \<open>p\<close> names still have the
  columns they were created with, and the cached provider adapters respect the host gates. What the
  other processes do between two sessions is arbitrary as long as they keep the same.
\<close>

section \<open>What is maintained\<close>

type_synonym core = "uuid \<times> uuid \<times> bool \<times> trigger_mode \<times> string option \<times> string option \<times> int \<times> uuid option \<times> usec"

definition pinned :: "(uuid \<rightharpoonup> core) \<Rightarrow> job_row \<Rightarrow> bool" where
  "pinned p j \<longleftrightarrow> (\<forall>c. p (j_id j) = Some c \<longrightarrow> job_core j = c)"

definition evidence :: "(uuid \<rightharpoonup> core) \<Rightarrow> db \<Rightarrow> bool" where
  "evidence p d \<longleftrightarrow>
     (\<forall>j \<in> set (t_jobs d). job_consistent j \<and> job_marked j \<and> pinned p j) \<and>
     (\<forall>x \<in> set (t_deployments d). deployment_consistent x)"

definition sound :: "(uuid \<rightharpoonup> core) \<Rightarrow> env \<Rightarrow> world \<Rightarrow> bool" where
  "sound p e w \<longleftrightarrow> db_ok (w_db w) \<and> evidence p (w_db w) \<and> evidence p (w_ses w) \<and>
     cache_ok (env_settings e) (w_adapters w)"

definition others_keep :: "env \<Rightarrow> (db \<Rightarrow> bool) \<Rightarrow> bool" where
  "others_keep e P \<longleftrightarrow> (\<forall>n d. P d \<longrightarrow> P (env_others e n d))"

lemma others_keepD: "others_keep e P \<Longrightarrow> P d \<Longrightarrow> P (env_others e n d)"
  by (simp add: others_keep_def)

lemma others_none [simp]: "env_others e = (\<lambda>_ d. d) \<Longrightarrow> others_keep e P"
  by (simp add: others_keep_def)

lemma db_good_evidence:
  "db_good (pinned p) G d \<longleftrightarrow> evidence p d \<and> G (t_nodes d) (t_creds d)"
  by (auto simp: db_good_def evidence_def job_ok_def list_all_iff)

lemma pinned_core: "job_core j = job_core j' \<Longrightarrow> pinned p j = pinned p j'"
  by (simp add: pinned_def job_core_def)

lemma pinned_decides:
  "p i = Some c \<Longrightarrow> pinned p j \<Longrightarrow> pinned p j' \<Longrightarrow> j_id j = i \<Longrightarrow> j_id j' = i \<Longrightarrow>
   j_is_dry_run j = j_is_dry_run j'"
  by (auto simp: pinned_def job_core_def)

definition sound_others :: "(uuid \<rightharpoonup> core) \<Rightarrow> env \<Rightarrow> bool" where
  "sound_others p e \<longleftrightarrow> others_keep e (\<lambda>d. db_ok d \<and> evidence p d)"

lemma job_run_sound:
  assumes "sound_others p e" and "p i = Some c"
  shows "job_run e i (pinned p) (\<lambda>_. True) (\<lambda>_ _. True)"
proof (intro job_run.intro job_inv.intro job_run_axioms.intro)
  fix n d
  assume "db_ok d" "db_good (pinned p) (\<lambda>_ _. True) d"
  with assms(1) show "db_ok (env_others e n d) \<and> db_good (pinned p) (\<lambda>_ _. True) (env_others e n d)"
    by (simp add: sound_others_def others_keep_def db_good_evidence)
next
  fix j j' assume "pinned p j" "pinned p j'" "j_id j = i" "j_id j' = i"
  with assms(2) show "j_is_dry_run j = j_is_dry_run j'" by (rule pinned_decides)
qed (rule pinned_core, assumption, simp_all)

text \<open>A process that is alone with its database.\<close>

definition alone :: "env \<Rightarrow> env" where
  "alone e = e\<lparr>env_others := \<lambda>_ d. d\<rparr>"

interpretation alone: job_run "alone e" i "pinned [i \<mapsto> c]" "\<lambda>_. True" "\<lambda>_ _. True"
  by (rule job_run_sound) (simp_all add: sound_others_def alone_def)

lemma sound_inv:
  assumes "sound_others p e" and "p i = Some c"
  shows "job_inv.inv e i (pinned p) (\<lambda>_. True) (\<lambda>_ _. True) (\<lambda>_. True) = sound p e"
  using job_run.axioms(1) [OF job_run_sound [OF assms]]
  by (auto simp: job_inv.inv_def sound_def db_good_evidence fun_eq_iff)

section \<open>Resuming and cancelling\<close>

text \<open>
  C2. \<open>resume\<close> and \<open>cancel\<close> keep the registry sound, however they end and whatever the providers,
  the servers and the Master panel answer: every constraint of the committed database holds, every
  job and deployment is consistent with its state, no job is at a checkpoint without the recorded
  evidence of the verified steps before it, and no job changes its node, its mode, its old server or
  its attempt limit.
\<close>

theorem resume_sound:
  assumes "sound_others p e" and "p i = Some c" and "sound p e w"
  shows "sound p e (snd (resume i e w)) \<and> sound p e (snd (cancel i e w))"
  using keepsD [OF job_run.inv_resume [OF job_run_sound [OF assms(1,2)]]]
    keepsD [OF job_run.inv_cancel [OF job_run_sound [OF assms(1,2)]]] assms(3)
  by (simp add: sound_inv [OF assms(1,2)])

definition sample_pins :: "uuid \<rightharpoonup> core" where
  "sample_pins = [5 \<mapsto> job_core sample_job]"

lemma sample_evidence: "evidence sample_pins sample_db"
  by (simp add: evidence_def sample_db_def empty_db_def sample_pins_def pinned_def sample_job_def new_job_def
      job_core_def job_consistent_def job_marked_def terminal_def)

lemma sample_sound: "sound sample_pins (sample_env s) (fresh_world sample_db)"
  by (simp add: sound_def fresh_world_def sample_db_ok sample_evidence cache_ok_def)

lemma sample_others [simp]: "others_keep (sample_env s) P"
  by (simp add: sample_env_def)

lemma resume_sound_witness:
  "sound sample_pins (sample_env default_settings)
     (snd (resume 5 (sample_env default_settings) (fresh_world sample_db)))"
  using resume_sound [of sample_pins "sample_env default_settings" 5 "job_core sample_job", OF _ _ sample_sound]
  by (simp add: sound_others_def sample_pins_def)

section \<open>Dry runs\<close>

text \<open>The registry of nodes and credentials, which a dry run must not touch.\<close>

definition registry_of :: "db \<Rightarrow> node_row list \<times> cred_row list" where
  "registry_of d = (t_nodes d, t_creds d)"

definition quiet_others :: "(uuid \<rightharpoonup> core) \<Rightarrow> env \<Rightarrow> node_row list \<times> cred_row list \<Rightarrow> bool" where
  "quiet_others p e g \<longleftrightarrow> others_keep e (\<lambda>d. db_ok d \<and> evidence p d \<and> registry_of d = g)"

lemma job_run_dry:
  assumes "quiet_others p e g" and "p i = Some (job_core j)" and "j_id j = i" and "j_is_dry_run j"
  shows "job_run e i (pinned p) (\<lambda>tr'. tr' = tr) (\<lambda>ns cs. (ns, cs) = g)"
proof -
  have dead: "\<not> may_be_live (pinned p) i"
    using assms(2,4) by (auto simp: may_be_live_def pinned_def job_core_def)
  show ?thesis
  proof (intro job_run.intro job_inv.intro job_run_axioms.intro)
    fix n d
    assume "db_ok d" "db_good (pinned p) (\<lambda>ns cs. (ns, cs) = g) d"
    with assms(1) show "db_ok (env_others e n d) \<and> db_good (pinned p) (\<lambda>ns cs. (ns, cs) = g) (env_others e n d)"
      by (simp add: quiet_others_def others_keep_def db_good_evidence registry_of_def)
  next
    fix j j' assume "pinned p j" "pinned p j'" "j_id j = i" "j_id j' = i"
    with assms(2) show "j_is_dry_run j = j_is_dry_run j'" by (rule pinned_decides)
  qed (rule pinned_core, assumption, simp_all add: dead)
qed

text \<open>
  C3. A dry run stays inside the process: whatever \<open>resume\<close> or \<open>cancel\<close> do with a dry-run job, no
  request, no SSH command and no TCP probe leaves the process, and the nodes and the credentials of
  the registry are what they were, as long as the other processes leave them alone too.
\<close>

theorem dry_run_isolated:
  assumes "quiet_others p e (registry_of (w_db w))" and "sound p e w" and "w_ses w = w_db w"
    and "p i = Some (job_core j)" and "j_id j = i" and "j_is_dry_run j"
  shows "w_trace (snd (resume i e w)) = w_trace w \<and>
    registry_of (w_db (snd (resume i e w))) = registry_of (w_db w) \<and>
    w_trace (snd (cancel i e w)) = w_trace w \<and>
    registry_of (w_db (snd (cancel i e w))) = registry_of (w_db w)"
proof -
  let ?g = "registry_of (w_db w)" and ?t = "w_trace w"
  note run = job_run_dry [OF assms(1,4-6), of ?t]
  have inv: "job_inv.inv e i (pinned p) (\<lambda>tr'. tr' = ?t) (\<lambda>ns cs. (ns, cs) = ?g) (\<lambda>_. True) w' \<longleftrightarrow>
      sound p e w' \<and> w_trace w' = ?t \<and> registry_of (w_db w') = ?g \<and> registry_of (w_ses w') = ?g" for w'
    using job_run.axioms(1) [OF run]
    by (auto simp: job_inv.inv_def sound_def db_good_evidence registry_of_def)
  have "registry_of (w_ses w) = ?g" using assms(3) by simp
  then show ?thesis
    using keepsD [OF job_run.inv_resume [OF run], of w] keepsD [OF job_run.inv_cancel [OF run], of w] assms(2)
    by (simp add: inv)
qed

lemma dry_run_isolated_witness:
  "w_trace (snd (resume 5 (sample_env default_settings) (fresh_world sample_db))) = [] \<and>
   registry_of (w_db (snd (resume 5 (sample_env default_settings) (fresh_world sample_db)))) =
     registry_of sample_db"
  using dry_run_isolated [of sample_pins "sample_env default_settings" "fresh_world sample_db" 5 sample_job,
      OF _ sample_sound]
  by (simp add: quiet_others_def sample_pins_def fresh_world_def sample_job_def new_job_def)

section \<open>Deletions\<close>











end
