(* ===== verification/PlatformProps.thy ===== *)
theory PlatformProps
  imports Samples Uuid
begin

text \<open>
  Properties of the components around the workflow: the Master panel, the secrets, the runtime
  switches, the providers, the names and commands the program builds.
\<close>

section \<open>The Master panel\<close>

















lemma wp_get_master [hoare]: "wp get_master Q E e w = Q (w_master w) w"
  by (simp add: wp_def get_master_def)

lemma wp_mod_master [hoare]: "wp (mod_master f) Q E e w = Q () (w\<lparr>w_master := f (w_master w)\<rparr>)"
  by (simp add: wp_def mod_master_def)







section \<open>Secrets\<close>

text \<open>
  C24. A secret that was written resolves to the same text, without the surrounding white space, from
  the reference the write gave, and not at all once the reference has been deleted.
\<close>

theorem secret_roundtrip:
  assumes "write_secret scope name text e w = (Inr r, w')" and "strip text \<noteq> []"
    and "env_path e r = r" and "strip r \<noteq> []"
  shows "fst (resolve_secret FILE r e w') = Inr (strip text) \<and>
    (\<exists>x. fst (resolve_secret FILE r e (snd (delete_reference (Some r) e w'))) = Inl (Exn ConfigurationError x))"
proof -
  let ?dir = "env_path e (runtime_secret_dir (env_settings e))"
  have r: "r = secret_target ?dir scope name"
    and w': "map_of (w_files w') r = Some text"
    using assms(1)
    by (auto simp: write_secret_def bind_def ask_env_def fs_oracle_def raise_def ret_def andthen_def
        put_file_def Let_def update_conv' split: if_splits)
  have under: "starts_with (?dir @ ''/'') r" by (simp add: r secret_target_def starts_with_def)
  have "r \<noteq> []" by (simp add: r secret_target_def)
  then show ?thesis
    using assms(2-4) w' under
    by (simp add: resolve_secret_def delete_reference_def bind_def ask_env_def get_file_def del_file_def
        ret_def raise_def delete_conv')
qed

lemma secret_roundtrip_witness:
  "fst (resolve_secret FILE ''.runtime-secrets/job--token.secret'' (sample_env default_settings)
     (snd (write_secret ''job'' ''token'' '' s3cret '' (sample_env default_settings) (fresh_world sample_db)))) =
   Inr ''s3cret''"
proof -
  let ?e = "sample_env default_settings" and ?w = "fresh_world sample_db"
  let ?r = "''.runtime-secrets/job--token.secret''"
  have path: "env_path ?e p = p" for p by (simp add: sample_env_def)
  have "fst (write_secret ''job'' ''token'' '' s3cret '' ?e ?w) = Inr ?r"
    by (simp add: write_secret_def bind_def ask_env_def fs_oracle_def ret_def andthen_def put_file_def
        sample_env_def default_settings_def secret_target_def safe_text_def is_alnum_def)
  then obtain w' where w': "write_secret ''job'' ''token'' '' s3cret '' ?e ?w = (Inr ?r, w')"
    by (cases "write_secret ''job'' ''token'' '' s3cret '' ?e ?w") simp
  have "strip '' s3cret '' = ''s3cret''" "strip ?r = ?r"
    by (simp_all add: strip_def lstrip_def rstrip_def is_space_def)
  with secret_roundtrip [OF w'] w' path show ?thesis by simp
qed

section \<open>Runtime switches\<close>


lemma json_eq_JStr [simp]: "json_eq v (JStr s) \<longleftrightarrow> v = JStr s"
  by (cases v) (simp_all add: json_eq_def)




section \<open>Provisioning\<close>


lemma dry_get: "map_of (dry_servers n w) i = Some s \<Longrightarrow> dry_get_server n i e w = (Inr s, w)"
  by (simp add: dry_get_server_def bind_def get_dry_def require_some_def ret_def)

text \<open>
  A simulated provider behaves like one: a server that was created is running under the requested
  name with an address, is found by identity and by name when no other server has it, and after its
  deletion is shown as deleted and no longer found by name.
\<close>

theorem dry_run_lifecycle:
  assumes "create_server (DryRun pt n) r e w = (Inr s, w')" and "n < length (w_dry w)"
    and "cs_name r \<notin> ps_name ` set (map snd (w_dry w ! n))" and "ps_id s \<notin> fst ` set (w_dry w ! n)"
  shows "server_ready s \<and> ps_name s = cs_name r \<and>
    fst (get_server (DryRun pt n) (ps_id s) e w') = Inr s \<and>
    fst (find_server_by_name (DryRun pt n) (cs_name r) e w') = Inr (Some s) \<and>
    (\<exists>w''. delete_server (DryRun pt n) (ps_id s) e w' = (Inr (), w'') \<and>
       fst (get_server (DryRun pt n) (ps_id s) e w'') = Inr (s\<lparr>ps_status := SRV_DELETED\<rparr>) \<and>
       fst (find_server_by_name (DryRun pt n) (cs_name r) e w'') = Inr None)"
proof -
  let ?old = "w_dry w ! n"
  have fresh: "AList.update k v xs = xs @ [(k, v)]" if "k \<notin> fst ` set xs" for k v and xs :: "(string \<times> provider_server) list"
    using that by (induction xs) auto
  have s: "ps_name s = cs_name r" "server_ready s" "ps_status s = SRV_RUNNING"
    and w': "w_dry w' = (w_dry w)[n := ?old @ [(ps_id s, s)]]"
    using assms(1,2,4) fresh
    by (auto simp: dry_create_server_def andthen_def bind_def lift_def get_dry_def put_dry_def ret_def
        dry_servers_def Let_def server_ready_def dry_ipv4_def split: sum.splits)
  have none: "filter (\<lambda>s. ps_name s = cs_name r \<and> ps_status s \<noteq> SRV_DELETED) (map snd ?old) = []"
    using assms(3) by (force simp: filter_empty_conv)
  have "AList.update i s' (xs @ [(i, s)]) = xs @ [(i, s')]" if "i \<notin> fst ` set xs"
    for i s' and xs :: "(string \<times> provider_server) list"
    using that by (induction xs) auto
  from this [OF assms(4)] have upd: "AList.update (ps_id s) s' (?old @ [(ps_id s, s)]) = ?old @ [(ps_id s, s')]" for s' .
  have get: "map_of (?old @ [(ps_id s, s')]) (ps_id s) = Some s'" for s'
    using assms(4) by (simp add: map_add_def map_of_eq_None_iff [THEN iffD2])
  let ?gone = "s\<lparr>ps_status := SRV_DELETED\<rparr>"
  let ?w = "w'\<lparr>w_dry := (w_dry w')[n := ?old @ [(ps_id s, ?gone)]]\<rparr>"
  have d: "dry_servers n w' = ?old @ [(ps_id s, s)]" "dry_servers n ?w = ?old @ [(ps_id s, ?gone)]"
    using w' assms(2) by (simp_all add: dry_servers_def)
  have g: "dry_get_server n (ps_id s) e w' = (Inr s, w')" "dry_get_server n (ps_id s) e ?w = (Inr ?gone, ?w)"
    by (rule dry_get, simp only: d get)+
  have f: "fst (dry_find_server n (cs_name r) e w') = Inr (Some s)"
    "fst (dry_find_server n (cs_name r) e ?w) = Inr None"
    using none s by (simp_all add: dry_find_server_def bind_def get_dry_def d ret_def)
  have del: "dry_delete_server n (ps_id s) e w' = (Inr (), ?w)"
    using g(1) by (simp add: dry_delete_server_def bind_def put_dry_def d upd)
  have got: "fst (dry_get_server n (ps_id s) e w') = Inr s" "fst (dry_get_server n (ps_id s) e ?w) = Inr ?gone"
    unfolding g by (rule fst_conv)+
  show ?thesis
    unfolding get_server.simps find_server_by_name.simps delete_server.simps
    using s(1,2) got f del by blast
qed

definition sample_request :: create_request where
  "sample_request = \<lparr>cs_name = ''aso-node-a'', cs_region = ''fsn1'', cs_server_type = ''cx22'',
     cs_image = ''debian-12'', cs_ssh_public_keys = [], cs_root_password = None, cs_user_data = None,
     cs_labels = []\<rparr>"

lemma dry_run_lifecycle_witness:
  "\<exists>s w'. create_server (DryRun HETZNER 0) sample_request (sample_env default_settings)
       ((fresh_world sample_db)\<lparr>w_dry := [[]]\<rparr>) = (Inr s, w') \<and>
     fst (find_server_by_name (DryRun HETZNER 0) ''aso-node-a'' (sample_env default_settings) w') = Inr (Some s)"
proof -
  let ?e = "sample_env default_settings" and ?w = "(fresh_world sample_db)\<lparr>w_dry := [[]]\<rparr>"
  have "validate_request sample_request = Inr ()"
    by (simp add: validate_request_ok sample_request_def strip_def lstrip_def rstrip_def is_space_def)
  then obtain s w' where s: "create_server (DryRun HETZNER 0) sample_request ?e ?w = (Inr s, w')"
    by (simp add: dry_create_server_def andthen_def bind_def lift_def get_dry_def put_dry_def ret_def Let_def)
  with dry_run_lifecycle [OF s] show ?thesis by (auto simp: sample_request_def)
qed

section \<open>Names and commands\<close>

lemma show_nat_inj: assumes "show_nat k = show_nat k'" shows "k = k'"
proof -
  have "parse_nat 10 (show_nat m) = Some m" for m
    unfolding show_nat_def by (rule parse_nat_show_base) simp_all
  from this [of k] this [of k'] show ?thesis unfolding assms by (metis option.inject)
qed

lemma rstrip_chr_length: "length (rstrip_chr c s) \<le> length s"
  by (simp add: rstrip_chr_def) (metis length_dropWhile_le length_rev)

text \<open>The parts of a server name before the number of the attempt.\<close>

definition name_stem :: "node_row \<Rightarrow> job_row \<Rightarrow> string" where
  "name_stem node job =
     (let s0 = strip_chr (CHR ''-'') (collapse False (lower (n_name node)));
          s1 = (if s0 = [] then ''node'' else s0)
      in ''aso-'' @ rstrip_chr (CHR ''-'') (take 32 s1) @ ''-'' @ take 8 (uuid_hex (j_id job)) @ ''-a'')"

lemma replacement_server_name_stem:
  assumes "0 \<le> j_attempt_count job" and "j_attempt_count job < 10 ^ 15"
  shows "replacement_server_name node job = name_stem node job @ show_nat (nat (j_attempt_count job))"
    and "length (name_stem node job) \<le> 48"
proof -
  have "length (''aso-'' @ rstrip_chr (CHR ''-'') (take 32 s) @ ''-'' @ take 8 h @ ''-a'') \<le> 48" for s h
  proof -
    have "length (rstrip_chr (CHR ''-'') (take 32 s)) \<le> 32"
      using rstrip_chr_length [of "CHR ''-''" "take 32 s"] by simp
    then show ?thesis by simp
  qed
  then show stem: "length (name_stem node job) \<le> 48" unfolding name_stem_def Let_def .
  have "nat (j_attempt_count job) < 10 ^ 15" using assms by (simp add: nat_less_iff)
  then have "length (show_nat (nat (j_attempt_count job))) \<le> 15"
    unfolding show_nat_def by (intro show_base_length) simp_all
  with stem have "length (name_stem node job @ show_nat (nat (j_attempt_count job))) \<le> 63" by simp
  then have "take 63 (name_stem node job @ show_nat (nat (j_attempt_count job))) =
      name_stem node job @ show_nat (nat (j_attempt_count job))" by (rule take_all)
  then show "replacement_server_name node job = name_stem node job @ show_nat (nat (j_attempt_count job))"
    using assms(1) by (simp add: replacement_server_name_def name_stem_def show_int_def Let_def)
qed

text \<open>
  C23. The name of a replacement server is a valid host label, and no two attempts of a job share it:
  at most 63 characters, and two attempts of one job, whatever the node's name has become, have the
  same name only if they are the same attempt.
\<close>

theorem server_name_identifies_attempt:
  assumes "0 \<le> j_attempt_count job" and "j_attempt_count job < 10 ^ 15"
    and "0 \<le> k" and "k < 10 ^ 15"
    and "replacement_server_name node (job\<lparr>j_attempt_count := k\<rparr>) = replacement_server_name node job"
  shows "k = j_attempt_count job \<and> length (replacement_server_name node job) \<le> 63"
proof
  have "name_stem node (job\<lparr>j_attempt_count := k\<rparr>) = name_stem node job" by (simp add: name_stem_def)
  with assms(5) replacement_server_name_stem(1) [OF assms(1,2), of node]
    replacement_server_name_stem(1) [of "job\<lparr>j_attempt_count := k\<rparr>" node] assms(3,4)
  have "show_nat (nat k) = show_nat (nat (j_attempt_count job))" by simp
  then have "nat k = nat (j_attempt_count job)" by (rule show_nat_inj)
  with assms(1,3) show "k = j_attempt_count job" by simp
  show "length (replacement_server_name node job) \<le> 63" by (rule replacement_server_name_length)
qed

lemma server_name_identifies_attempt_witness:
  "replacement_server_name sample_node (sample_job\<lparr>j_attempt_count := 2\<rparr>) \<noteq>
   replacement_server_name sample_node (sample_job\<lparr>j_attempt_count := 1\<rparr>)"
  using server_name_identifies_attempt [of "sample_job\<lparr>j_attempt_count := 1\<rparr>" 2 sample_node]
  by auto








end
