(* ===== verification/Registry.thy ===== *)
theory Registry
  imports OrchCore
begin

text \<open>
  \<open>app/registry/service.py\<close>: the registration of providers and nodes. The keyword arguments of
  \<open>register_provider\<close> and \<open>register_node\<close> are the records \<open>provider_form\<close> and \<open>node_form\<close>. A new row
  gets its identifier, and a server its \<open>created_at\<close>, when it is added.
\<close>

section \<open>Rows of the registry\<close>

definition set_providers :: "(provider_row list \<Rightarrow> provider_row list) \<Rightarrow> db \<Rightarrow> db" where
  "set_providers f d = d\<lparr>t_providers := f (t_providers d)\<rparr>"

definition upd_provider :: "uuid \<Rightarrow> (provider_row \<Rightarrow> provider_row) \<Rightarrow> unit act" where
  "upd_provider i f = mod_ses (set_providers (tbl_upd p_id i f))"

definition add_provider :: "provider_row \<Rightarrow> unit act" where
  "add_provider p = add_row (set_providers (tbl_add p))"

definition add_node :: "node_row \<Rightarrow> unit act" where
  "add_node n = add_row (set_nodes (tbl_add n))"

definition add_cred :: "cred_row \<Rightarrow> unit act" where
  "add_cred c = add_row (set_creds (tbl_add c))"

text \<open>\<open>(v or "").strip() or None\<close>.\<close>

definition stripped :: "string option \<Rightarrow> string option" where
  "stripped v = opt_nonempty (strip (text_of v))"

text \<open>\<open>repr\<close> of a text, as the messages show it.\<close>

definition quoted :: "env \<Rightarrow> string \<Rightarrow> string" where
  "quoted e s = env_repr e (JStr s)"

section \<open>Readiness\<close>

record registry_readiness =
  rr_providers :: nat
  rr_nodes :: nat
  rr_current_vps :: nat
  rr_credentials :: nat

definition registry_ready :: "registry_readiness \<Rightarrow> bool" where
  "registry_ready r \<longleftrightarrow>
     0 < rr_providers r \<and> 0 < rr_nodes r \<and> rr_nodes r \<le> rr_current_vps r \<and> rr_nodes r \<le> rr_credentials r"

definition count_registry :: "db \<Rightarrow> registry_readiness" where
  "count_registry d =
     \<lparr>rr_providers = length (t_providers d), rr_nodes = length (t_nodes d),
      rr_current_vps = length (filter (\<lambda>v. v_role v = CURRENT \<and> v_state v \<noteq> VPS_DELETED) (t_vps d)),
      rr_credentials = length (t_creds d)\<rparr>"

definition readiness :: "registry_readiness act" where
  "readiness = session (query count_registry)"

definition registry_providers :: "provider_row list act" where
  "registry_providers = session (query list_providers)"

definition registry_nodes :: "node_row list act" where
  "registry_nodes = session (query (list_nodes 500))"

section \<open>Providers\<close>

record provider_form =
  pf_key :: string
  pf_display_name :: string
  pf_type :: provider_type
  pf_credential_ref :: string
  pf_region :: "string option"
  pf_server_type :: "string option"
  pf_image :: "string option"
  pf_backend :: secret_backend

definition normalize_provider :: "provider_form \<Rightarrow> provider_form" where
  "normalize_provider f =
     f\<lparr>pf_key := lower (strip (pf_key f)), pf_display_name := strip (pf_display_name f),
       pf_credential_ref := strip (pf_credential_ref f), pf_region := stripped (pf_region f),
       pf_server_type := stripped (pf_server_type f), pf_image := stripped (pf_image f)\<rparr>"

definition given :: "'a option \<Rightarrow> 'a option \<Rightarrow> 'a option" where
  "given new old = (case new of None \<Rightarrow> old | Some _ \<Rightarrow> new)"

definition refresh_provider :: "provider_form \<Rightarrow> provider_row \<Rightarrow> provider_row" where
  "refresh_provider f p =
     p\<lparr>p_display_name := pf_display_name f, p_credential_backend := pf_backend f,
       p_credential_ref := pf_credential_ref f,
       p_default_region := given (pf_region f) (p_default_region p),
       p_default_server_type := given (pf_server_type f) (p_default_server_type p),
       p_default_image := given (pf_image f) (p_default_image p), p_is_active := True\<rparr>"

definition new_provider :: "uuid \<Rightarrow> provider_form \<Rightarrow> provider_row" where
  "new_provider i f =
     \<lparr>p_id = i, p_key = pf_key f, p_display_name = pf_display_name f, p_type = pf_type f,
      p_is_active = True, p_credential_backend = pf_backend f, p_credential_ref = pf_credential_ref f,
      p_default_region = pf_region f, p_default_server_type = pf_server_type f,
      p_default_image = pf_image f\<rparr>"

definition register_provider :: "provider_form \<Rightarrow> provider_row act" where
  "register_provider form =
     (let f = normalize_provider form in
      if pf_key f = [] \<or> pf_display_name f = [] \<or> pf_credential_ref f = [] then
        raise ValueError ''provider key/name/credential are required''
      else
        session (bind (query (provider_by_key (pf_key f))) (\<lambda>existing. case existing of
          Some p \<Rightarrow>
            (if p_type p \<noteq> pf_type f then
               bind (ask_env quoted) (\<lambda>q. raise ValueError (''provider '' @ q (pf_key f) @
                 '' already exists with type '' @ q (provider_type_value (p_type p))))
             else
               andthen (upd_provider (p_id p) (refresh_provider f))
               (andthen commit (ret (refresh_provider f p))))
        | None \<Rightarrow>
            bind new_uuid (\<lambda>i.
            andthen (add_provider (new_provider i f))
            (andthen commit (ret (new_provider i f)))))))"

section \<open>Nodes\<close>

record node_form =
  nf_name :: string
  nf_provider_key :: string
  nf_master_node_id :: string
  nf_host :: string
  nf_port :: int
  nf_server_id :: string
  nf_ssh_username :: string
  nf_ssh_port :: int
  nf_ssh_auth :: ssh_auth_method
  nf_ssh_secret_ref :: string
  nf_ssh_public_key :: "string option"
  nf_provider_host :: "string option"
  nf_region :: "string option"
  nf_server_type :: "string option"
  nf_image :: "string option"
  nf_base_path :: "string option"
  nf_api_token_ref :: "string option"

definition provider_host_of :: "node_form \<Rightarrow> string" where
  "provider_host_of f = strip (if truthy_text (nf_provider_host f) then text_of (nf_provider_host f) else nf_host f)"

text \<open>The arguments stripped, and the optional ones blank or given.\<close>

definition normalize_node :: "node_form \<Rightarrow> node_form" where
  "normalize_node f =
     (let host = strip (nf_host f) in
      f\<lparr>nf_name := strip (nf_name f), nf_provider_key := lower (strip (nf_provider_key f)),
        nf_master_node_id := strip (nf_master_node_id f), nf_host := host,
        nf_server_id := strip (nf_server_id f),
        nf_provider_host := Some (provider_host_of (f\<lparr>nf_host := host\<rparr>)),
        nf_ssh_username := strip (nf_ssh_username f), nf_ssh_secret_ref := strip (nf_ssh_secret_ref f),
        nf_ssh_public_key := stripped (nf_ssh_public_key f), nf_region := stripped (nf_region f),
        nf_server_type := stripped (nf_server_type f), nf_image := stripped (nf_image f),
        nf_base_path := stripped (nf_base_path f), nf_api_token_ref := stripped (nf_api_token_ref f)\<rparr>)"

definition check_node_form :: "node_form \<Rightarrow> exn + unit" where
  "check_node_form f =
     (if [] \<in> set [nf_name f, nf_provider_key f, nf_master_node_id f, nf_host f, nf_server_id f,
          text_of (nf_provider_host f), nf_ssh_username f, nf_ssh_secret_ref f] then
        Inl (Exn ValueError ''node identity, provider server ID and SSH fields are required'')
      else if \<not> port_ok (nf_port f) \<or> \<not> port_ok (nf_ssh_port f) then
        Inl (Exn ValueError ''node/SSH ports must be between 1 and 65535'')
      else if nf_ssh_auth f = PRIVATE_KEY \<and> nf_ssh_public_key f = None then
        Inl (Exn ValueError ''private-key SSH requires the matching public key'')
      else Inr ())"

definition provider_defaults :: "node_form \<Rightarrow> provider_row \<Rightarrow> provider_row" where
  "provider_defaults f p =
     p\<lparr>p_default_region := given (nf_region f) (p_default_region p),
       p_default_server_type := given (nf_server_type f) (p_default_server_type p),
       p_default_image := given (nf_image f) (p_default_image p)\<rparr>"

definition refresh_node :: "node_form \<Rightarrow> node_row \<Rightarrow> node_row" where
  "refresh_node f n = n\<lparr>n_current_host := nf_host f, n_current_port := nf_port f\<rparr>"

definition refresh_current :: "node_form \<Rightarrow> vps_row \<Rightarrow> vps_row" where
  "refresh_current f v =
     v\<lparr>v_host := nf_provider_host f, v_region := given (nf_region f) (v_region v),
       v_server_type := given (nf_server_type f) (v_server_type v),
       v_image := given (nf_image f) (v_image v)\<rparr>"

definition refresh_cred :: "node_form \<Rightarrow> cred_row \<Rightarrow> cred_row" where
  "refresh_cred f c =
     (let c' = c\<lparr>cr_ssh_username := nf_ssh_username f, cr_ssh_port := nf_ssh_port f,
          cr_ssh_auth_method := nf_ssh_auth f, cr_secret_backend := FILE,
          cr_ssh_secret_ref := nf_ssh_secret_ref f, cr_ssh_public_key := nf_ssh_public_key f,
          cr_panel_base_path := nf_base_path f\<rparr>
      in case nf_api_token_ref f of
           None \<Rightarrow> c'
         | Some r \<Rightarrow> c'\<lparr>cr_api_token_ref := Some r, cr_api_token_backend := Some FILE\<rparr>)"

definition new_node :: "uuid \<Rightarrow> usec \<Rightarrow> provider_row \<Rightarrow> node_form \<Rightarrow> node_row" where
  "new_node i t p f =
     \<lparr>n_id = i, n_name = nf_name f, n_master_node_id = nf_master_node_id f, n_provider_id = p_id p,
      n_current_host = nf_host f, n_current_port = nf_port f, n_state = UNKNOWN,
      n_state_changed_at = t, n_operation_mode = MONITOR_ONLY, n_monitoring_enabled = True,
      n_consecutive_failures = 0, n_consecutive_successes = 0, n_last_checked_at = None,
      n_last_successful_check_at = None, n_lease_token = None, n_lease_until = None\<rparr>"

definition new_cred :: "uuid \<Rightarrow> uuid \<Rightarrow> node_form \<Rightarrow> cred_row" where
  "new_cred i nid f =
     \<lparr>cr_id = i, cr_node_id = nid, cr_ssh_username = nf_ssh_username f, cr_ssh_port = nf_ssh_port f,
      cr_ssh_auth_method = nf_ssh_auth f, cr_secret_backend = FILE,
      cr_ssh_secret_ref = nf_ssh_secret_ref f, cr_ssh_public_key = nf_ssh_public_key f,
      cr_panel_username = None, cr_panel_password_ref = None, cr_panel_password_backend = None,
      cr_panel_base_path = nf_base_path f, cr_api_token_ref = nf_api_token_ref f,
      cr_api_token_backend = map_option (\<lambda>_. FILE) (nf_api_token_ref f)\<rparr>"

definition new_current :: "uuid \<Rightarrow> usec \<Rightarrow> uuid \<Rightarrow> provider_row \<Rightarrow> node_form \<Rightarrow> vps_row" where
  "new_current i t nid p f =
     \<lparr>v_id = i, v_created_at = t, v_provider_id = p_id p, v_node_id = nid,
      v_provider_server_id = nf_server_id f, v_role = CURRENT, v_state = VPS_RUNNING,
      v_host = nf_provider_host f, v_region = given (nf_region f) (p_default_region p),
      v_server_type = given (nf_server_type f) (p_default_server_type p),
      v_image = given (nf_image f) (p_default_image p)\<rparr>"

text \<open>
  The same node: the provider, the Master record and the server are its identity, and its rows are
  complete.
\<close>

definition stable_identity :: "node_form \<Rightarrow> provider_row \<Rightarrow> node_row \<Rightarrow> db \<Rightarrow> bool" where
  "stable_identity f p n d \<longleftrightarrow>
     n_provider_id n = p_id p \<and> n_master_node_id n = nf_master_node_id f \<and>
     (case current_vps_for_node (n_id n) d of None \<Rightarrow> False
      | Some v \<Rightarrow> v_provider_server_id v = nf_server_id f) \<and>
     cred_for_node (n_id n) d \<noteq> None"

definition refresh_registration :: "node_form \<Rightarrow> node_row \<Rightarrow> node_row act" where
  "refresh_registration f n =
     bind (query (current_vps_for_node (n_id n))) (\<lambda>v.
     bind (query (cred_for_node (n_id n))) (\<lambda>c.
     andthen (upd_node (n_id n) (refresh_node f))
     (andthen (case v of None \<Rightarrow> ret () | Some r \<Rightarrow> upd_vps (v_id r) (refresh_current f))
     (andthen (case c of None \<Rightarrow> ret () | Some r \<Rightarrow> upd_cred (cr_id r) (refresh_cred f))
     (andthen commit (ret (refresh_node f n)))))))"

definition node_by_master_id :: "string \<Rightarrow> db \<Rightarrow> node_row option" where
  "node_by_master_id m d = find (\<lambda>n. n_master_node_id n = m) (t_nodes d)"

definition insert_registration :: "node_form \<Rightarrow> provider_row \<Rightarrow> node_row act" where
  "insert_registration f p =
     bind (ask_env quoted) (\<lambda>q.
     bind (query (node_by_master_id (nf_master_node_id f))) (\<lambda>same_master.
     andthen (guard_raise (same_master \<noteq> None) ValueError
       (''Master node ID '' @ q (nf_master_node_id f) @ '' is already mapped''))
     (bind (query (vps_by_provider_identity (p_id p) (nf_server_id f))) (\<lambda>same_vps.
     andthen (guard_raise (same_vps \<noteq> None) ValueError
       ''provider server ID is already registered to another VPS record'')
     (bind new_uuid (\<lambda>nid. bind now (\<lambda>t.
     andthen (add_node (new_node nid t p f))
     (bind new_uuid (\<lambda>cid.
     andthen (add_cred (new_cred cid nid f))
     (bind new_uuid (\<lambda>vid. bind now (\<lambda>t'.
     andthen (add_vps (new_current vid t' nid p f))
     (andthen commit (ret (new_node nid t p f)))))))))))))))"

definition register_node :: "node_form \<Rightarrow> node_row act" where
  "register_node form =
     (let f = normalize_node form in
      andthen (lift (check_node_form f))
      (session
        (bind (ask_env quoted) (\<lambda>q.
        bind (query (provider_by_key (nf_provider_key f))) (\<lambda>found. case found of
          None \<Rightarrow> raise ValueError (''provider '' @ q (nf_provider_key f) @ '' is not registered'')
        | Some p0 \<Rightarrow>
            (let p = provider_defaults f p0 in
             andthen (upd_provider (p_id p0) (provider_defaults f))
             (bind (query (node_by_name (nf_name f))) (\<lambda>existing. case existing of
               None \<Rightarrow> insert_registration f p
             | Some n \<Rightarrow>
                 bind (query (stable_identity f p n)) (\<lambda>same.
                 if same then refresh_registration f n
                 else raise ValueError (''node '' @ q (nf_name f) @
                   '' already exists with different provider/master/server identity; '' @
                   ''refusing to overwrite it''))))))))))"

end
