(* ===== verification/Discovery.thy ===== *)
theory Discovery
  imports Registry
begin

text \<open>
  \<open>app/registry/discovery.py\<close> and \<open>app/registry/smart.py\<close>: reading what the provider and the Master
  panel know of an existing server before it is registered. The provider adapter and the client of the
  Master panel are objects of their own, built for one call and closed after it; closing them has no
  effect in the model.
\<close>

section \<open>Clients of one call\<close>

text \<open>\<open>ReadOnlyProviderFactory.create\<close>: there are only these two types.\<close>

definition read_only_adapter :: "provider_type \<Rightarrow> string \<Rightarrow> adapter act" where
  "read_only_adapter pt token =
     bind settings_of (\<lambda>s. ret (case pt of
         HETZNER \<Rightarrow> Hetzner token (hetzner_api_base_url s)
       | LINODE \<Rightarrow> Linode token (linode_api_base_url s)))"

definition validate_provider_secret :: "provider_type \<Rightarrow> string \<Rightarrow> unit act" where
  "validate_provider_secret pt token = bind (read_only_adapter pt token) probe_access"

text \<open>
  A client of the Master panel of its own: it starts without route, session or login, and what it
  learns is gone with it. Its configuration is the one of the process, since the factory accepts it.
\<close>

definition own_master :: "'a act \<Rightarrow> 'a act" where
  "own_master m e w =
     (case m e (w\<lparr>w_master := \<lparr>ms_active_route = 0, ms_route_selected = False,
         ms_local_verified = False, ms_authenticated = False\<rparr>\<rparr>) of
        (r, w') \<Rightarrow> (r, w'\<lparr>w_master := w_master w\<rparr>))"

definition with_master_client :: "'a act \<Rightarrow> 'a act" where
  "with_master_client m =
     bind settings_of (\<lambda>s. bind (lift (master_factory_create s)) (\<lambda>_. own_master m))"

section \<open>Discovery\<close>

record discovery =
  sd_provider_key :: string
  sd_provider_type :: provider_type
  sd_server :: provider_server
  sd_master :: master_node
  sd_warnings :: "string list"

definition suggested_name :: "discovery \<Rightarrow> string" where
  "suggested_name x =
     (let m = strip (mn_name (sd_master x)); s = strip (ps_name (sd_server x)) in
      if m \<noteq> [] then m else if s \<noteq> [] then s else ''node-'' @ show_int (mn_id (sd_master x)))"

definition monitoring_host :: "discovery \<Rightarrow> string" where
  "monitoring_host x = strip (mn_address (sd_master x))"

definition discovered_host :: "discovery \<Rightarrow> exn + string" where
  "discovered_host x =
     (if truthy_text (ps_ipv4 (sd_server x)) then Inr (text_of (ps_ipv4 (sd_server x)))
      else Inl (Exn ValueError ''provider server has no public IPv4 address''))"

definition opt_json :: "string option \<Rightarrow> json" where
  "opt_json v = (case v of None \<Rightarrow> JNull | Some s \<Rightarrow> JStr s)"

definition safe_summary :: "discovery \<Rightarrow> json" where
  "safe_summary x =
     (let s = sd_server x; m = sd_master x in
      JObj [(''provider_key'', JStr (sd_provider_key x)),
        (''provider_type'', JStr (provider_type_value (sd_provider_type x))),
        (''provider_server_id'', JStr (ps_id s)), (''provider_server_name'', JStr (ps_name s)),
        (''provider_status'', JStr (server_status_value (ps_status s))),
        (''provider_ipv4'', opt_json (ps_ipv4 s)), (''provider_region'', opt_json (ps_region s)),
        (''provider_server_type'', opt_json (ps_server_type s)),
        (''provider_image'', opt_json (ps_image s)), (''master_node_id'', JInt (mn_id m)),
        (''master_name'', JStr (mn_name m)), (''master_scheme'', JStr (mn_scheme m)),
        (''master_address'', JStr (mn_address m)), (''master_port'', JInt (mn_port m)),
        (''master_base_path'', JStr (mn_base_path m)), (''master_status'', JStr (mn_status m)),
        (''master_xray_state'', JStr (mn_xray_state m)),
        (''master_has_api_token'', JBool (mn_has_api_token m)),
        (''warnings'', JList (map JStr (sd_warnings x)))])"

definition validate_provider_server :: "provider_server \<Rightarrow> exn + unit" where
  "validate_provider_server s =
     (if ps_status s \<in> {SRV_DELETED, SRV_ERROR} then
        Inl (Exn ValueError (''provider server is not usable: status='' @
          server_status_value (ps_status s)))
      else
        (let missing = missing_fields [(''public IPv4'', ps_ipv4 s), (''region/location'', ps_region s),
             (''server type/plan'', ps_server_type s), (''image'', ps_image s)] in
         if missing \<noteq> [] then
           Inl (Exn ValueError (''provider API could not discover required replacement metadata: '' @
             join_with '', '' missing))
         else Inr ()))"

definition validate_master_node ::
    "(json \<Rightarrow> string) \<Rightarrow> master_node \<Rightarrow> (string \<times> json) list \<Rightarrow> exn + unit" where
  "validate_master_node repr m probe =
     (let err = (\<lambda>s. Inl (Exn ValueError s));
          status = lower (str_or repr (jget probe ''status'') (mn_status m));
          xray = lower (str_or repr (jget probe ''xrayState'') (mn_xray_state m)) in
      if mn_transitive m then err ''transitive 3X-UI nodes are read-only and cannot be managed''
      else if mn_tls_verify_mode m = ''mtls'' then
        err ''mTLS-managed 3X-UI nodes are not supported by the replacement workflow yet''
      else if strip (mn_address m) = [] then err ''Master node has no address''
      else if \<not> port_ok (mn_port m) then err ''Master node has an invalid panel/API port''
      else if status \<noteq> [] \<and> status \<noteq> ''online'' then
        err (''Master probe reports node status='' @ repr (JStr status))
      else if xray \<noteq> [] \<and> xray \<noteq> ''running'' then
        err (''Master probe reports Xray state='' @ repr (JStr xray))
      else Inr ())"

definition identity_warnings :: "provider_server \<Rightarrow> master_node \<Rightarrow> exn + string list" where
  "identity_warnings s m =
     (case canonical_ip (strip (mn_address m)) of
        None \<Rightarrow> Inr [''Master uses a hostname; ASO keeps that hostname for monitoring while the '' @
          ''provider IPv4 is stored separately for VPS identity/deletion safety'']
      | Some ip \<Rightarrow>
          (if truthy_text (ps_ipv4 s) \<and> Some ip \<noteq> ps_ipv4 s then
             Inl (Exn ValueError (''Master node address is a literal IP that does not match the '' @
               ''provider instance IPv4; check the Provider Instance ID and Master Node ID''))
           else Inr []))"

definition rooted_path :: "string \<Rightarrow> string" where
  "rooted_path p = (if p \<noteq> [] \<and> \<not> starts_with ''/'' p then ''/'' @ p else p)"

definition node_access_url :: "master_node \<Rightarrow> string" where
  "node_access_url m =
     (let sc = lower (strip (mn_scheme m)); scheme = (if sc = [] then ''http'' else sc) in
      scheme @ ''://'' @ strip (mn_address m) @ '':'' @ show_int (mn_port m) @
      rstrip_chr (CHR ''/'') (rooted_path (strip (mn_base_path m))))"

record overrides =
  ov_region :: "string option"
  ov_server_type :: "string option"
  ov_image :: "string option"

definition no_overrides :: overrides where
  "no_overrides = \<lparr>ov_region = None, ov_server_type = None, ov_image = None\<rparr>"

definition override_server :: "overrides \<Rightarrow> provider_server \<Rightarrow> provider_server" where
  "override_server o1 s =
     s\<lparr>ps_region := given (stripped (ov_region o1)) (ps_region s),
       ps_server_type := given (stripped (ov_server_type o1)) (ps_server_type s),
       ps_image := given (stripped (ov_image o1)) (ps_image s)\<rparr>"

definition read_server :: "provider_row \<Rightarrow> string \<Rightarrow> provider_server act" where
  "read_server p sid =
     bind (resolve_secret (p_credential_backend p) (p_credential_ref p)) (\<lambda>token.
     bind (read_only_adapter (p_type p) token) (\<lambda>a.
     andthen (probe_access a) (get_server a sid)))"

definition check_node_token :: "master_node \<Rightarrow> string option \<Rightarrow> string list act" where
  "check_node_token m token =
     (case token of
        Some t \<Rightarrow> andthen (verify_access_url (node_access_url m) t) (ret [])
      | None \<Rightarrow>
          (if mn_has_api_token m then
             raise ValueError (''this Master node uses an API token; provide the current node API token '' @
               ''so ASO can verify it and safely rollback a future replacement'')
           else ret [''Master reports no node API token; direct node-token validation was skipped'']))"

definition discover_existing_node ::
    "provider_row \<Rightarrow> string \<Rightarrow> int \<Rightarrow> string option \<Rightarrow> overrides \<Rightarrow> discovery act" where
  "discover_existing_node p server_id master_id token o1 =
     (let sid = strip server_id in
      andthen (guard_raise (sid = []) ValueError ''provider server/instance ID is required'')
      (andthen (guard_raise (master_id < 1) ValueError ''Master node ID must be positive'')
      (bind (read_server p sid) (\<lambda>s0.
      let s = override_server o1 s0 in
      andthen (lift (validate_provider_server s))
      (bind (with_master_client (bind (master_get_node master_id) (\<lambda>m.
          bind (master_probe_node master_id) (\<lambda>probe. ret (m, probe))))) (\<lambda>(m, probe).
      bind (ask_env env_repr) (\<lambda>repr.
      andthen (lift (validate_master_node repr m probe))
      (bind (lift (identity_warnings s m)) (\<lambda>warnings.
      bind (check_node_token m token) (\<lambda>more.
        ret \<lparr>sd_provider_key = p_key p, sd_provider_type = p_type p, sd_server = s, sd_master = m,
          sd_warnings = warnings @ more\<rparr>))))))))))"

section \<open>Registration after discovery\<close>

definition validate_and_register_provider :: "provider_form \<Rightarrow> provider_row act" where
  "validate_and_register_provider f =
     bind (resolve_secret (pf_backend f) (pf_credential_ref f)) (\<lambda>token.
     andthen (validate_provider_secret (pf_type f) token)
     (register_provider (f\<lparr>pf_region := None, pf_server_type := None, pf_image := None\<rparr>)))"

definition smart_discover_node ::
    "string \<Rightarrow> string \<Rightarrow> int \<Rightarrow> string option \<Rightarrow> overrides \<Rightarrow> discovery act" where
  "smart_discover_node key server_id master_id token_ref o1 =
     bind (session (bind (ask_env quoted) (\<lambda>q.
       bind (query (provider_by_key (lower (strip key)))) (\<lambda>p.
       require_some p ValueError (''provider '' @ q key @ '' is not registered''))))) (\<lambda>p.
     bind (case stripped token_ref of
         None \<Rightarrow> ret None
       | Some r \<Rightarrow> bind (resolve_secret FILE r) (\<lambda>t. ret (Some t))) (\<lambda>token.
     discover_existing_node p server_id master_id token o1))"

record ssh_login =
  sl_username :: string
  sl_port :: int
  sl_auth :: ssh_auth_method
  sl_secret_ref :: string
  sl_public_key :: "string option"

definition ssh_login_target :: "string \<Rightarrow> string \<Rightarrow> int \<Rightarrow> ssh_auth_method \<Rightarrow> string \<Rightarrow> ssh_target act" where
  "ssh_login_target host user port auth secret =
     bind settings_of (\<lambda>s. bind (ask_env known_hosts_path) (\<lambda>kh.
       ret \<lparr>sp_host = host, sp_port = port, sp_username = user, sp_auth = auth, sp_secret = secret,
         sp_verify_host_key = ssh_verify_host_key s, sp_known_hosts = Some kh\<rparr>))"

definition ssh_says_ready :: "ssh_target \<Rightarrow> unit act" where
  "ssh_says_ready t =
     bind (ssh_run t ''printf ASO_SSH_READY'') (\<lambda>r.
     guard_raise (cmd_exit r \<noteq> 0 \<or> cmd_stdout r \<noteq> ''ASO_SSH_READY'') ValueError ''SSH validation failed'')"

definition discovered_form ::
    "string option \<Rightarrow> string \<Rightarrow> discovery \<Rightarrow> string \<Rightarrow> ssh_login \<Rightarrow> string option \<Rightarrow> node_form" where
  "discovered_form name key x host l token_ref =
     \<lparr>nf_name = (case stripped name of Some n \<Rightarrow> n | None \<Rightarrow> suggested_name x), nf_provider_key = key,
      nf_master_node_id = show_int (mn_id (sd_master x)), nf_host = monitoring_host x,
      nf_port = mn_port (sd_master x), nf_server_id = ps_id (sd_server x),
      nf_ssh_username = sl_username l, nf_ssh_port = sl_port l, nf_ssh_auth = sl_auth l,
      nf_ssh_secret_ref = sl_secret_ref l, nf_ssh_public_key = sl_public_key l,
      nf_provider_host = Some host, nf_region = ps_region (sd_server x),
      nf_server_type = ps_server_type (sd_server x), nf_image = ps_image (sd_server x),
      nf_base_path = Some (mn_base_path (sd_master x)), nf_api_token_ref = token_ref\<rparr>"

definition validate_and_register_node ::
    "string option \<Rightarrow> string \<Rightarrow> string \<Rightarrow> int \<Rightarrow> ssh_login \<Rightarrow> string option \<Rightarrow> overrides \<Rightarrow>
     (node_row \<times> discovery) act" where
  "validate_and_register_node name key server_id master_id l token_ref o1 =
     bind (smart_discover_node key server_id master_id token_ref o1) (\<lambda>x.
     bind (resolve_secret FILE (sl_secret_ref l)) (\<lambda>secret.
     bind (lift (discovered_host x)) (\<lambda>host.
     bind (ssh_login_target host (sl_username l) (sl_port l) (sl_auth l) secret) (\<lambda>t.
     andthen (ssh_says_ready t)
     (bind (register_node (discovered_form name key x host l token_ref)) (\<lambda>n. ret (n, x)))))))"

end
