(* ===== verification/Management.thy ===== *)
theory Management
  imports Discovery
begin

text \<open>
  \<open>app/registry/management.py\<close>: the registry operations an operator has in the bot. Secrets are staged
  as files, the candidate is tried against the provider, the panel or the host, and only then does the
  registry point to it. Removing a record removes rows of the registry and managed secret files only.
\<close>

section \<open>Snapshots\<close>

record provider_snapshot =
  mp_id :: uuid
  mp_key :: string
  mp_display_name :: string
  mp_type :: provider_type
  mp_is_active :: bool
  mp_node_count :: nat
  mp_has_credential :: bool

definition management_provider_snapshot :: "provider_row \<Rightarrow> nat \<Rightarrow> provider_snapshot" where
  "management_provider_snapshot p k =
     \<lparr>mp_id = p_id p, mp_key = p_key p, mp_display_name = p_display_name p, mp_type = p_type p,
      mp_is_active = p_is_active p, mp_node_count = k, mp_has_credential = (p_credential_ref p \<noteq> [])\<rparr>"

record managed_node =
  mg_id :: uuid
  mg_name :: string
  mg_provider_id :: uuid
  mg_provider_key :: string
  mg_provider_type :: provider_type
  mg_master_node_id :: string
  mg_monitoring_host :: string
  mg_monitoring_port :: int
  mg_operation_mode :: node_operation_mode
  mg_provider_server_id :: string
  mg_provider_ipv4 :: "string option"
  mg_provider_region :: "string option"
  mg_provider_server_type :: "string option"
  mg_provider_image :: "string option"
  mg_ssh_username :: string
  mg_ssh_port :: int
  mg_ssh_auth :: ssh_auth_method
  mg_has_node_api_token :: bool

definition management_node_snapshot :: "node_row \<Rightarrow> db \<Rightarrow> managed_node option" where
  "management_node_snapshot n d =
     (case (get_provider (n_provider_id n) d, cred_for_node (n_id n) d, current_vps_for_node (n_id n) d) of
        (Some p, Some c, Some v) \<Rightarrow>
          Some \<lparr>mg_id = n_id n, mg_name = n_name n, mg_provider_id = p_id p, mg_provider_key = p_key p,
            mg_provider_type = p_type p, mg_master_node_id = n_master_node_id n,
            mg_monitoring_host = n_current_host n, mg_monitoring_port = n_current_port n,
            mg_operation_mode = n_operation_mode n, mg_provider_server_id = v_provider_server_id v,
            mg_provider_ipv4 = v_host v, mg_provider_region = v_region v,
            mg_provider_server_type = v_server_type v, mg_provider_image = v_image v,
            mg_ssh_username = cr_ssh_username c, mg_ssh_port = cr_ssh_port c,
            mg_ssh_auth = cr_ssh_auth_method c, mg_has_node_api_token = truthy_text (cr_api_token_ref c)\<rparr>
      | _ \<Rightarrow> None)"

definition count_provider_nodes :: "uuid \<Rightarrow> db \<Rightarrow> nat" where
  "count_provider_nodes i d = length (filter (\<lambda>n. n_provider_id n = i) (t_nodes d))"

definition count_provider_vps :: "uuid \<Rightarrow> db \<Rightarrow> nat" where
  "count_provider_vps i d = length (filter (\<lambda>v. v_provider_id v = i) (t_vps d))"

definition managed_providers :: "provider_snapshot list act" where
  "managed_providers =
     session (bind (query list_providers) (mapM (\<lambda>p.
       bind (query (count_provider_nodes (p_id p))) (\<lambda>k. ret (management_provider_snapshot p k)))))"

definition managed_provider :: "uuid \<Rightarrow> provider_snapshot option act" where
  "managed_provider i =
     session (bind (query (get_provider i)) (\<lambda>found. case found of
       None \<Rightarrow> ret None
     | Some p \<Rightarrow> bind (query (count_provider_nodes (p_id p))) (\<lambda>k.
         ret (Some (management_provider_snapshot p k)))))"

definition managed_nodes :: "managed_node list act" where
  "managed_nodes =
     session (bind (query (list_nodes 500)) (\<lambda>nodes.
       bind (mapM (\<lambda>n. query (management_node_snapshot n)) nodes) (\<lambda>snaps.
       ret (List.map_filter id snaps))))"

definition managed_node_of :: "uuid \<Rightarrow> managed_node option act" where
  "managed_node_of i =
     session (bind (query (get_node i)) (\<lambda>found. case found of
       None \<Rightarrow> ret None | Some n \<Rightarrow> query (management_node_snapshot n)))"

section \<open>Secrets\<close>

definition stage_secret :: "string \<Rightarrow> string \<Rightarrow> string \<Rightarrow> string act" where
  "stage_secret scope name value =
     bind new_uuid (\<lambda>u. write_secret scope (name @ ''-candidate-'' @ uuid_hex u) value)"

definition discard_staged_secret :: "string option \<Rightarrow> unit act" where
  "discard_staged_secret reference =
     (if \<not> truthy_text reference then ret ()
      else catch [ConfigurationError] (delete_reference reference) (\<lambda>_. ret ()))"

definition discard_old_secret :: "secret_backend \<Rightarrow> string option \<Rightarrow> string option \<Rightarrow> unit act" where
  "discard_old_secret backend reference keep =
     (if backend \<noteq> FILE \<or> \<not> truthy_text reference \<or> reference = keep then ret ()
      else catch [ConfigurationError] (delete_reference reference) (\<lambda>_. ret ()))"

section \<open>Providers\<close>

definition commit_provider :: "string \<Rightarrow> string \<Rightarrow> provider_type \<Rightarrow> string \<Rightarrow> provider_snapshot act" where
  "commit_provider key display_name pt staged =
     bind (resolve_secret FILE staged) (\<lambda>token.
     andthen (validate_provider_secret pt token)
     (andthen (session (bind (ask_env quoted) (\<lambda>q.
         bind (query (provider_by_key (lower (strip key)))) (\<lambda>p.
         guard_raise (p \<noteq> None) ValueError (''provider key '' @ q key @ '' already exists'')))))
     (bind (validate_and_register_provider \<lparr>pf_key = key, pf_display_name = display_name, pf_type = pt,
         pf_credential_ref = staged, pf_region = None, pf_server_type = None, pf_image = None,
         pf_backend = FILE\<rparr>) (\<lambda>p.
       ret (management_provider_snapshot p 0)))))"

definition loaded_provider :: "uuid \<Rightarrow> provider_row act" where
  "loaded_provider i = bind (query (get_provider i)) (\<lambda>p. require_some p ValueError ''provider not found'')"

definition test_provider :: "uuid \<Rightarrow> unit act" where
  "test_provider i =
     bind (session (bind (loaded_provider i) (\<lambda>p.
       bind (resolve_secret (p_credential_backend p) (p_credential_ref p)) (\<lambda>token. ret (p, token)))))
     (\<lambda>(p, token). validate_provider_secret (p_type p) token)"

definition replace_provider_token :: "uuid \<Rightarrow> string \<Rightarrow> unit act" where
  "replace_provider_token i staged =
     bind (resolve_secret FILE staged) (\<lambda>candidate.
     bind (session (loaded_provider i)) (\<lambda>old.
     andthen (validate_provider_secret (p_type old) candidate)
     (andthen (session (bind (loaded_provider i) (\<lambda>p.
         andthen (upd_provider i (\<lambda>p. p\<lparr>p_credential_backend := FILE, p_credential_ref := staged\<rparr>)) commit)))
     (discard_old_secret (p_credential_backend old) (Some (p_credential_ref old)) (Some staged)))))"

definition rename_provider :: "uuid \<Rightarrow> string \<Rightarrow> unit act" where
  "rename_provider i name =
     (let name' = strip name in
      andthen (guard_raise (name' = []) ValueError ''provider display name cannot be blank'')
      (session (bind (loaded_provider i) (\<lambda>p.
        andthen (upd_provider i (\<lambda>p. p\<lparr>p_display_name := name'\<rparr>)) commit))))"

definition remove_provider :: "uuid \<Rightarrow> unit act" where
  "remove_provider i =
     bind (session (bind (loaded_provider i) (\<lambda>p.
       bind (query (count_provider_nodes i)) (\<lambda>nodes.
       bind (query (count_provider_vps i)) (\<lambda>vps.
       andthen (guard_raise (0 < nodes \<or> 0 < vps) ValueError
         ''provider still has ASO node/VPS registry records; remove those nodes first'')
       (andthen (mod_ses (set_providers (tbl_del (\<lambda>r. p_id r = i))))
       (andthen commit (ret p))))))))
     (\<lambda>p. discard_old_secret (p_credential_backend p) (Some (p_credential_ref p)) None)"

section \<open>Nodes\<close>

definition discover_node :: "uuid \<Rightarrow> string \<Rightarrow> int \<Rightarrow> string option \<Rightarrow> discovery act" where
  "discover_node pid server_id master_id token =
     bind (session (loaded_provider pid)) (\<lambda>p.
     discover_existing_node p server_id master_id token no_overrides)"

definition verify_ssh :: "string \<Rightarrow> string \<Rightarrow> int \<Rightarrow> ssh_auth_method \<Rightarrow> string \<Rightarrow> unit act" where
  "verify_ssh host username port auth secret =
     andthen (guard_raise (strip host = []) ValueError ''VPS has no provider IPv4 for SSH validation'')
     (andthen (guard_raise (strip username = []) ValueError ''SSH username cannot be blank'')
     (andthen (guard_raise (\<not> port_ok port) ValueError ''SSH port must be between 1 and 65535'')
     (bind (ssh_login_target (strip host) (strip username) port auth secret) ssh_says_ready)))"

definition resolve_optional :: "string option \<Rightarrow> string option act" where
  "resolve_optional reference =
     (if truthy_text reference then bind (resolve_secret FILE (text_of reference)) (\<lambda>t. ret (Some t))
      else ret None)"

definition commit_node ::
    "uuid \<Rightarrow> string \<Rightarrow> int \<Rightarrow> string option \<Rightarrow> string option \<Rightarrow> ssh_login \<Rightarrow> managed_node act" where
  "commit_node pid server_id master_id name token_ref l =
     bind (resolve_optional token_ref) (\<lambda>token.
     bind (discover_node pid server_id master_id token) (\<lambda>x.
     bind (resolve_secret FILE (sl_secret_ref l)) (\<lambda>secret.
     bind (lift (discovered_host x)) (\<lambda>host.
     andthen (verify_ssh host (sl_username l) (sl_port l) (sl_auth l) secret)
     (bind (session (loaded_provider pid)) (\<lambda>p.
     bind (register_node (discovered_form name (p_key p) x host l token_ref)) (\<lambda>n.
     bind (managed_node_of (n_id n)) (\<lambda>snap.
       require_some snap RuntimeError ''node was persisted but cannot be reloaded''))))))))"

record node_lookup =
  lo_node :: node_row
  lo_vps :: vps_row
  lo_master_id :: int

definition lookup_node :: "uuid \<Rightarrow> node_lookup act" where
  "lookup_node i =
     session (bind (query (get_node i)) (\<lambda>n. bind (query (current_vps_for_node i)) (\<lambda>v.
       case (n, v) of
         (Some node, Some vps) \<Rightarrow> bind (lift (int_of (JStr (n_master_node_id node)))) (\<lambda>m.
           ret \<lparr>lo_node = node, lo_vps = vps, lo_master_id = m\<rparr>)
       | _ \<Rightarrow> raise ValueError ''node/current VPS registry is missing'')))"

definition validate_node_api_token :: "uuid \<Rightarrow> string \<Rightarrow> discovery act" where
  "validate_node_api_token i token =
     bind (lookup_node i) (\<lambda>l.
     discover_node (n_provider_id (lo_node l)) (v_provider_server_id (lo_vps l)) (lo_master_id l) (Some token))"

definition load_test :: "uuid \<Rightarrow> (node_row \<times> cred_row \<times> vps_row \<times> int) act" where
  "load_test i =
     session (bind (query (get_node i)) (\<lambda>found.
       bind (require_some found ValueError ''node not found'') (\<lambda>n.
       bind (query (cred_for_node i)) (\<lambda>c. bind (query (current_vps_for_node i)) (\<lambda>v.
       case (c, v) of
         (Some cred, Some vps) \<Rightarrow> bind (lift (int_of (JStr (n_master_node_id n)))) (\<lambda>m.
           ret (n, cred, vps, m))
       | _ \<Rightarrow> raise ValueError ''node registry is incomplete'')))))"

definition test_node :: "uuid \<Rightarrow> discovery act" where
  "test_node i =
     bind (load_test i) (\<lambda>(n, c, v, m).
     bind (case cr_api_token_backend c of
         None \<Rightarrow> ret None
       | Some b \<Rightarrow> (if truthy_text (cr_api_token_ref c)
            then bind (resolve_secret b (text_of (cr_api_token_ref c))) (\<lambda>t. ret (Some t))
            else ret None)) (\<lambda>token.
     bind (discover_node (n_provider_id n) (v_provider_server_id v) m token) (\<lambda>x.
     bind (if truthy_text (v_host v) then ret (text_of (v_host v)) else lift (discovered_host x)) (\<lambda>host.
     bind (resolve_secret (cr_secret_backend c) (cr_ssh_secret_ref c)) (\<lambda>secret.
     andthen (verify_ssh host (cr_ssh_username c) (cr_ssh_port c) (cr_ssh_auth_method c) secret)
     (ret x))))))"

definition rename_node :: "uuid \<Rightarrow> string \<Rightarrow> unit act" where
  "rename_node i name =
     (let name' = strip name in
      andthen (guard_raise (name' = []) ValueError ''node name cannot be blank'')
      (session (bind (query (node_by_name name')) (\<lambda>existing.
        andthen (guard_raise (case existing of None \<Rightarrow> False | Some n \<Rightarrow> n_id n \<noteq> i) ValueError
          ''another node already uses that name'')
        (bind (query (get_node i)) (\<lambda>found.
        bind (require_some found ValueError ''node not found'') (\<lambda>n.
        andthen (upd_node i (\<lambda>n. n\<lparr>n_name := name'\<rparr>)) commit)))))))"

definition load_token_change :: "uuid \<Rightarrow> (node_row \<times> cred_row \<times> vps_row \<times> int) act" where
  "load_token_change i =
     session (bind (query (get_node i)) (\<lambda>n. bind (query (cred_for_node i)) (\<lambda>c.
       case (n, c) of
         (Some node, Some cred) \<Rightarrow>
           bind (query (current_vps_for_node i)) (\<lambda>v.
           bind (require_some v ValueError ''current VPS registry is missing'') (\<lambda>vps.
           bind (lift (int_of (JStr (n_master_node_id node)))) (\<lambda>m. ret (node, cred, vps, m))))
       | _ \<Rightarrow> raise ValueError ''node not found or credentials missing'')))"

definition loaded_cred :: "uuid \<Rightarrow> cred_row act" where
  "loaded_cred i = bind (query (cred_for_node i)) (\<lambda>c. require_some c ValueError ''node credentials missing'')"

text \<open>The URL of the direct check: the fields of the panel as they are, only the path is made absolute.\<close>

definition token_check_url :: "master_node \<Rightarrow> string" where
  "token_check_url m =
     mn_scheme m @ ''://'' @ mn_address m @ '':'' @ show_int (mn_port m) @
     rstrip_chr (CHR ''/'') (rooted_path (strip (mn_base_path m)))"

definition replace_node_api_token :: "uuid \<Rightarrow> string \<Rightarrow> unit act" where
  "replace_node_api_token i staged =
     bind (resolve_secret FILE staged) (\<lambda>candidate.
     bind (load_token_change i) (\<lambda>(n, c, v, m).
     bind (discover_node (n_provider_id n) (v_provider_server_id v) m (Some candidate)) (\<lambda>x.
     andthen (verify_access_url (token_check_url (sd_master x)) candidate)
     (andthen (session (bind (loaded_cred i) (\<lambda>cred.
         andthen (upd_cred (cr_id cred) (\<lambda>r. r\<lparr>cr_api_token_backend := Some FILE,
           cr_api_token_ref := Some staged\<rparr>)) commit)))
     (case cr_api_token_backend c of
        None \<Rightarrow> ret ()
      | Some b \<Rightarrow> discard_old_secret b (cr_api_token_ref c) (Some staged))))))"

definition load_ssh_change :: "uuid \<Rightarrow> (cred_row \<times> string) act" where
  "load_ssh_change i =
     session (bind (query (cred_for_node i)) (\<lambda>c. bind (query (current_vps_for_node i)) (\<lambda>v.
       case (c, v) of
         (Some cred, Some vps) \<Rightarrow>
           (if truthy_text (v_host vps) then ret (cred, text_of (v_host vps))
            else raise ValueError ''node SSH/VPS registry is incomplete'')
       | _ \<Rightarrow> raise ValueError ''node SSH/VPS registry is incomplete'')))"

definition replace_node_ssh :: "uuid \<Rightarrow> ssh_login \<Rightarrow> unit act" where
  "replace_node_ssh i l =
     bind (resolve_secret FILE (sl_secret_ref l)) (\<lambda>secret.
     bind (load_ssh_change i) (\<lambda>(old, host).
     andthen (guard_raise (sl_auth l = PRIVATE_KEY \<and> stripped (sl_public_key l) = None) ValueError
       ''public SSH key is required for private-key replacement provisioning'')
     (andthen (verify_ssh host (sl_username l) (sl_port l) (sl_auth l) secret)
     (andthen (session (bind (loaded_cred i) (\<lambda>cred.
         andthen (upd_cred (cr_id cred) (\<lambda>r. r\<lparr>cr_ssh_username := strip (sl_username l),
           cr_ssh_port := sl_port l, cr_ssh_auth_method := sl_auth l, cr_secret_backend := FILE,
           cr_ssh_secret_ref := sl_secret_ref l, cr_ssh_public_key := stripped (sl_public_key l)\<rparr>)) commit)))
     (discard_old_secret (cr_secret_backend old) (Some (cr_ssh_secret_ref old)) (Some (sl_secret_ref l)))))))"

text \<open>
  The deletion of a node row: the ORM deletes its checks and its credential with it, and the foreign
  key of its events is set to null. A foreign key that still points to it refuses the commit.
\<close>

definition delete_node_rows :: "uuid \<Rightarrow> db \<Rightarrow> db" where
  "delete_node_rows i d =
     d\<lparr>t_nodes := tbl_del (\<lambda>n. n_id n = i) (t_nodes d),
       t_creds := tbl_del (\<lambda>c. cr_node_id c = i) (t_creds d),
       t_checks := tbl_del (\<lambda>c. c_node_id c = i) (t_checks d),
       t_events := map (\<lambda>x. if e_node_id x = Some i then x\<lparr>e_node_id := None\<rparr> else x) (t_events d)\<rparr>"

definition managed_refs :: "cred_row option \<Rightarrow> (secret_backend \<times> string option) list" where
  "managed_refs c =
     (case c of None \<Rightarrow> []
      | Some r \<Rightarrow> (cr_secret_backend r, Some (cr_ssh_secret_ref r)) #
          (case cr_api_token_backend r of None \<Rightarrow> [] | Some b \<Rightarrow> [(b, cr_api_token_ref r)]))"

definition remove_node :: "uuid \<Rightarrow> unit act" where
  "remove_node i =
     bind (session (bind (query (get_node i)) (\<lambda>found.
       bind (require_some found ValueError ''node not found'') (\<lambda>n.
       bind (query (active_for_node i)) (\<lambda>active.
       andthen (guard_raise (active \<noteq> None) ValueError ''node has an active replacement job'')
       (bind (query (latest_job_for_node i)) (\<lambda>any_job.
       andthen (guard_raise (any_job \<noteq> None) ValueError
         ''node has replacement history; refusing hard registry removal to preserve audit history'')
       (bind (query (cred_for_node i)) (\<lambda>c.
       andthen (mod_ses (set_vps (tbl_del (\<lambda>v. v_node_id v = i))))
       (andthen flush
       (andthen (mod_ses (delete_node_rows i))
       (andthen commit (ret (managed_refs c))))))))))))))
     (\<lambda>refs. andthen (mapM (\<lambda>(b, r). discard_old_secret b r None) refs) (ret ()))"

end
