(* ===== verification/Control.thy ===== *)
theory Control
  imports Registry Orchestrator MonWorker Uuid
begin

text \<open>
  \<open>app/control/service.py\<close>: the operations the operators' bot calls. Every state change it makes or
  delegates is recorded as an audit event. The cursor of the notifier is the setting
  \<open>telegram.event_cursor\<close>: the time and the identifier of the last event it has seen.
\<close>

section \<open>Snapshots\<close>

record dashboard_snapshot =
  ds_node_counts :: "(string \<times> nat) list"
  ds_active_vps_count :: int
  ds_active_replacement_count :: int
  ds_paused :: bool
  ds_dry_run :: bool
  ds_real_mutation_allowed :: bool

record node_snapshot =
  ns_id :: uuid
  ns_name :: string
  ns_provider_id :: uuid
  ns_host :: string
  ns_port :: int
  ns_state :: node_state
  ns_operation_mode :: node_operation_mode
  ns_consecutive_failures :: int
  ns_last_successful_check_at :: "usec option"

record node_detail_snapshot =
  nd_node :: node_snapshot
  nd_master_node_id :: string
  nd_monitoring_enabled :: bool
  nd_last_checked_at :: "usec option"
  nd_latest_check_outcome :: "check_outcome option"
  nd_latest_check_at :: "usec option"
  nd_latest_job_id :: "uuid option"
  nd_latest_job_state :: "job_state option"
  nd_latest_job_checkpoint :: "checkpoint option"

record job_snapshot =
  js_id :: uuid
  js_node_id :: uuid
  js_state :: job_state
  js_checkpoint :: checkpoint
  js_attempt_count :: int
  js_max_attempts :: int
  js_is_dry_run :: bool
  js_active :: bool
  js_created_at :: usec
  js_completed_at :: "usec option"
  js_last_error_message :: "string option"
  js_trigger_mode :: trigger_mode

record control_provider_snapshot =
  cps_id :: uuid
  cps_key :: string
  cps_display_name :: string
  cps_provider_type :: string
  cps_is_active :: bool
  cps_default_region :: "string option"
  cps_default_server_type :: "string option"

record event_snapshot =
  es_id :: uuid
  es_node_id :: "uuid option"
  es_job_id :: "uuid option"
  es_event_type :: event_type
  es_severity :: severity
  es_message :: string
  es_payload :: "json option"
  es_created_at :: usec

record notification_context =
  nc_node_id :: "uuid option"
  nc_node_name :: "string option"
  nc_provider_name :: "string option"
  nc_provider_type :: "string option"
  nc_vps_host :: "string option"
  nc_target_host :: "string option"
  nc_target_port :: "int option"
  nc_state :: "node_state option"
  nc_operation_mode :: "node_operation_mode option"
  nc_consecutive_failures :: "int option"
  nc_consecutive_successes :: "int option"
  nc_job_id :: "uuid option"
  nc_trigger_mode :: "trigger_mode option"
  nc_is_dry_run :: "bool option"

definition control_node_snapshot :: "node_row \<Rightarrow> node_snapshot" where
  "control_node_snapshot n =
     \<lparr>ns_id = n_id n, ns_name = n_name n, ns_provider_id = n_provider_id n, ns_host = n_current_host n,
      ns_port = n_current_port n, ns_state = n_state n, ns_operation_mode = n_operation_mode n,
      ns_consecutive_failures = n_consecutive_failures n,
      ns_last_successful_check_at = n_last_successful_check_at n\<rparr>"

definition control_job_snapshot :: "job_row \<Rightarrow> job_snapshot" where
  "control_job_snapshot j =
     \<lparr>js_id = j_id j, js_node_id = j_node_id j, js_state = j_state j, js_checkpoint = j_checkpoint j,
      js_attempt_count = j_attempt_count j, js_max_attempts = j_max_attempts j,
      js_is_dry_run = j_is_dry_run j, js_active = (j_active_slot j = Some True),
      js_created_at = j_created_at j, js_completed_at = j_completed_at j,
      js_last_error_message = j_last_error_message j, js_trigger_mode = j_trigger_mode j\<rparr>"

definition control_event_snapshot :: "event_row \<Rightarrow> event_snapshot" where
  "control_event_snapshot x =
     \<lparr>es_id = e_id x, es_node_id = e_node_id x, es_job_id = e_job_id x, es_event_type = e_type x,
      es_severity = e_severity x, es_message = e_message x, es_payload = e_payload x,
      es_created_at = e_created_at x\<rparr>"

definition control_provider :: "provider_row \<Rightarrow> control_provider_snapshot" where
  "control_provider p =
     \<lparr>cps_id = p_id p, cps_key = p_key p, cps_display_name = p_display_name p,
      cps_provider_type = provider_type_value (p_type p), cps_is_active = p_is_active p,
      cps_default_region = p_default_region p, cps_default_server_type = p_default_server_type p\<rparr>"

section \<open>Reading\<close>

definition dashboard :: "dashboard_snapshot act" where
  "dashboard =
     bind (session (bind (query count_by_state) (\<lambda>counts.
       bind (query count_active_vps) (\<lambda>vps.
       bind (query count_active_jobs) (\<lambda>jobs. ret (counts, vps, jobs)))))) (\<lambda>(counts, vps, jobs).
     bind runtime_snapshot (\<lambda>c.
     bind settings_of (\<lambda>s.
       ret \<lparr>ds_node_counts = counts, ds_active_vps_count = vps, ds_active_replacement_count = jobs,
         ds_paused = rc_paused c, ds_dry_run = rc_effective_dry_run c,
         ds_real_mutation_allowed = allow_real_infrastructure_mutation s\<rparr>)))"

definition control_list_nodes :: "nat \<Rightarrow> node_snapshot list act" where
  "control_list_nodes limit =
     session (bind (query (list_nodes limit)) (\<lambda>ns. ret (map control_node_snapshot ns)))"

definition node_detail :: "node_row \<Rightarrow> db \<Rightarrow> node_detail_snapshot" where
  "node_detail n d =
     (let check = first_row (recent_checks (n_id n) 1 d); job = latest_job_for_node (n_id n) d in
      \<lparr>nd_node = control_node_snapshot n, nd_master_node_id = n_master_node_id n,
       nd_monitoring_enabled = n_monitoring_enabled n, nd_last_checked_at = n_last_checked_at n,
       nd_latest_check_outcome = map_option c_outcome check,
       nd_latest_check_at = map_option c_checked_at check, nd_latest_job_id = map_option j_id job,
       nd_latest_job_state = map_option j_state job,
       nd_latest_job_checkpoint = map_option j_checkpoint job\<rparr>)"

text \<open>The node an operator names, by its identifier or its name.\<close>

definition control_resolve_node :: "string \<Rightarrow> node_detail_snapshot option act" where
  "control_resolve_node identifier =
     (let raw = strip identifier in
      session (bind (query (case parse_uuid raw of Some i \<Rightarrow> get_node i | None \<Rightarrow> node_by_name raw)) (\<lambda>found.
        case found of None \<Rightarrow> ret None
        | Some n \<Rightarrow> bind (query (node_detail n)) (\<lambda>x. ret (Some x)))))"

definition get_job_snapshot :: "uuid \<Rightarrow> job_snapshot option act" where
  "get_job_snapshot i =
     session (bind (query (get_job i)) (\<lambda>j. ret (map_option control_job_snapshot j)))"

definition list_jobs :: "nat \<Rightarrow> job_snapshot list act" where
  "list_jobs limit =
     session (bind (query (list_recent_jobs limit)) (\<lambda>js. ret (map control_job_snapshot js)))"

definition control_list_providers :: "control_provider_snapshot list act" where
  "control_list_providers =
     session (bind (query list_providers) (\<lambda>ps. ret (map control_provider ps)))"

definition control_list_events :: "nat \<Rightarrow> event_snapshot list act" where
  "control_list_events limit =
     session (bind (query (list_recent_events limit)) (\<lambda>xs. ret (map control_event_snapshot xs)))"

definition advance_event_cursor :: "event_snapshot \<Rightarrow> unit act" where
  "advance_event_cursor x = set_event_cursor (es_created_at x) (es_id x)"

definition initialize_event_cursor :: "bool act" where
  "initialize_event_cursor =
     bind get_event_cursor (\<lambda>(created_at, event_id).
     if created_at \<noteq> None \<and> event_id \<noteq> None then ret False
     else bind (session (query (list_recent_events 1))) (\<lambda>events. case events of
         [] \<Rightarrow> ret False
       | x # _ \<Rightarrow> andthen (advance_event_cursor (control_event_snapshot x)) (ret True)))"

definition list_events_after_cursor :: "nat \<Rightarrow> event_snapshot list act" where
  "list_events_after_cursor limit =
     bind get_event_cursor (\<lambda>(created_at, event_id).
     session (bind (query (list_events_after created_at event_id limit)) (\<lambda>xs.
       ret (map control_event_snapshot xs))))"

definition job_context :: "uuid option \<Rightarrow> job_row option \<Rightarrow> uuid option \<Rightarrow> notification_context" where
  "job_context job_id job node_id =
     \<lparr>nc_node_id = node_id, nc_node_name = None, nc_provider_name = None, nc_provider_type = None,
      nc_vps_host = None, nc_target_host = None, nc_target_port = None, nc_state = None,
      nc_operation_mode = None, nc_consecutive_failures = None, nc_consecutive_successes = None,
      nc_job_id = job_id, nc_trigger_mode = map_option j_trigger_mode job,
      nc_is_dry_run = map_option j_is_dry_run job\<rparr>"

definition notification_context_of :: "event_snapshot \<Rightarrow> db \<Rightarrow> notification_context" where
  "notification_context_of x d =
     (let job = (case es_job_id x of None \<Rightarrow> None | Some j \<Rightarrow> get_job j d);
          node_id = (case es_node_id x of Some i \<Rightarrow> Some i | None \<Rightarrow> map_option j_node_id job);
          base = job_context (es_job_id x) job node_id in
      case node_id of None \<Rightarrow> base
      | Some i \<Rightarrow> (case get_node i d of None \<Rightarrow> base
          | Some n \<Rightarrow>
              (let p = get_provider (n_provider_id n) d; v = current_vps_for_node (n_id n) d in
               base\<lparr>nc_node_id := Some (n_id n), nc_node_name := Some (n_name n),
                 nc_provider_name := map_option p_display_name p,
                 nc_provider_type := map_option (\<lambda>q. provider_type_value (p_type q)) p,
                 nc_vps_host := (case v of None \<Rightarrow> None | Some r \<Rightarrow> v_host r),
                 nc_target_host := Some (n_current_host n), nc_target_port := Some (n_current_port n),
                 nc_state := Some (n_state n), nc_operation_mode := Some (n_operation_mode n),
                 nc_consecutive_failures := Some (n_consecutive_failures n),
                 nc_consecutive_successes := Some (n_consecutive_successes n)\<rparr>)))"

definition event_notification_context :: "event_snapshot \<Rightarrow> notification_context act" where
  "event_notification_context x = session (query (notification_context_of x))"

text \<open>The em dash, in UTF-8.\<close>

definition em_dash :: string where
  "em_dash = [CHR 0xE2, CHR 0x80, CHR 0x94]"

definition settings_snapshot :: "(string \<times> json) list act" where
  "settings_snapshot =
     bind runtime_snapshot (\<lambda>c. bind settings_of (\<lambda>s. ret
      [(''environment'', JStr (environment s)),
       (''execution_mode'', JStr (execution_mode_value (rc_execution_mode c))),
       (''effective_dry_run'', JBool (rc_effective_dry_run c)),
       (''host_dry_run_lock'', JBool (dry_run s)),
       (''allow_real_infrastructure_mutation'', JBool (allow_real_infrastructure_mutation s)),
       (''system_paused'', JBool (rc_paused c)),
       (''runtime_monitoring_enabled'', JBool (rc_monitoring_enabled c)),
       (''check_interval_seconds'', JInt (check_interval_seconds s)),
       (''failure_threshold'', JInt (failure_threshold s)),
       (''recovery_threshold'', JInt (recovery_threshold s)),
       (''runtime_auto_repair_enabled'', JBool (rc_replacement_enabled c)),
       (''replacement_emergency_stop'', JBool (replacement_emergency_stop s)),
       (''live_capable'', JBool (rc_live_capable c)),
       (''live_block_reason'', JStr (text_of (opt_or (rc_live_block_reason c) (Some em_dash)))),
       (''max_replacement_attempts'', JInt (max_replacement_attempts s)),
       (''max_temporary_servers'', JInt (max_temporary_servers s)),
       (''max_concurrent_replacements'', JInt (max_concurrent_replacements s))]))"

section \<open>Acting\<close>

definition audit :: "string \<Rightarrow> uuid option \<Rightarrow> uuid option \<Rightarrow> (string \<times> json) list \<Rightarrow> unit act" where
  "audit message node_id job_id payload =
     session (bind now (\<lambda>t.
       andthen (add_event_row \<lparr>e_node_id = node_id, e_job_id = job_id, e_type = CONTROL_ACTION,
         e_severity = SEV_INFO, e_message = message, e_payload = Some (JObj payload), e_created_at = t\<rparr>)
       commit))"

definition manual_check :: "uuid \<Rightarrow> int \<Rightarrow> string act" where
  "manual_check node_id actor =
     bind (run_node node_id None) (\<lambda>result.
     andthen (audit ''Authorized operator requested a manual node check'' (Some node_id) None
       [(''actor_user_id'', JInt actor), (''result'', JStr result)])
     (ret result))"

definition trigger_replacement :: "uuid \<Rightarrow> int \<Rightarrow> uuid act" where
  "trigger_replacement node_id actor =
     bind (trigger node_id False None) (\<lambda>job_id.
     andthen (audit ''Authorized operator confirmed manual replacement'' (Some node_id) (Some job_id)
       [(''actor_user_id'', JInt actor)])
     (ret job_id))"

definition trigger_force_repair :: "uuid \<Rightarrow> int \<Rightarrow> string \<Rightarrow> uuid act" where
  "trigger_force_repair node_id actor request_key =
     bind (trigger node_id True (Some request_key)) (\<lambda>job_id.
     andthen (audit ''Authorized operator confirmed FORCE REPAIR'' (Some node_id) (Some job_id)
       [(''actor_user_id'', JInt actor), (''force'', JBool True), (''request_key'', JStr request_key)])
     (ret job_id))"

definition resume_job :: "uuid \<Rightarrow> int \<Rightarrow> run_result act" where
  "resume_job job_id actor =
     andthen (audit ''Authorized operator resumed replacement job'' None (Some job_id)
       [(''actor_user_id'', JInt actor)])
     (resume job_id)"

definition cancel_job :: "uuid \<Rightarrow> int \<Rightarrow> unit act" where
  "cancel_job job_id actor =
     andthen (cancel job_id)
     (audit ''Authorized operator cancelled replacement job'' None (Some job_id)
       [(''actor_user_id'', JInt actor)])"

definition set_provider_active :: "uuid \<Rightarrow> bool \<Rightarrow> int \<Rightarrow> unit act" where
  "set_provider_active i active actor =
     session (bind (query (get_provider i)) (\<lambda>found.
       bind (require_some found ValueError ''provider does not exist'') (\<lambda>p.
       andthen (upd_provider i (\<lambda>p. p\<lparr>p_is_active := active\<rparr>))
       (bind now (\<lambda>t.
       andthen (add_event_row \<lparr>e_node_id = None, e_job_id = None, e_type = PROVIDER_UPDATED,
           e_severity = SEV_WARNING,
           e_message = ''Provider '' @ (if active then ''enabled'' else ''disabled'') @
             '' by authorized operator'',
           e_payload = Some (JObj [(''provider_id'', JStr (uuid_str i)), (''provider_key'', JStr (p_key p)),
             (''active'', JBool active), (''actor_user_id'', JInt actor)]),
           e_created_at = t\<rparr>)
       commit)))))"

definition runtime_controls :: "runtime_control_snapshot act" where
  "runtime_controls = runtime_snapshot"

definition set_runtime_monitoring :: "bool \<Rightarrow> int \<Rightarrow> bool act" where
  "set_runtime_monitoring enabled actor = set_monitoring_enabled enabled (Some actor)"

definition set_runtime_replacement :: "bool \<Rightarrow> int \<Rightarrow> bool act" where
  "set_runtime_replacement enabled actor = set_replacement_enabled enabled (Some actor)"

definition set_runtime_execution_mode :: "execution_mode \<Rightarrow> int \<Rightarrow> bool act" where
  "set_runtime_execution_mode mode actor = set_execution_mode mode (Some actor)"

definition control_set_paused :: "bool \<Rightarrow> int \<Rightarrow> bool act" where
  "control_set_paused paused actor = set_paused paused (Some actor)"

definition check_auto_repair :: "node_row \<Rightarrow> db \<Rightarrow> exn + unit" where
  "check_auto_repair n d =
     (case current_vps_for_node (n_id n) d of
        None \<Rightarrow> Inl (Exn ValueError ''auto repair requires a registered current VPS'')
      | Some v \<Rightarrow>
          (if v_provider_server_id v = [] then
             Inl (Exn ValueError ''auto repair requires a registered current VPS'')
           else (case get_provider (n_provider_id n) d of
               None \<Rightarrow> Inl (Exn ValueError ''auto repair requires an active provider'')
             | Some p \<Rightarrow> (if p_is_active p then Inr ()
                 else Inl (Exn ValueError ''auto repair requires an active provider'')))))"

definition set_node_operation_mode :: "uuid \<Rightarrow> node_operation_mode \<Rightarrow> int \<Rightarrow> unit act" where
  "set_node_operation_mode i mode actor =
     session (bind (query (get_node i)) (\<lambda>found.
       bind (require_some found ValueError ''node does not exist'') (\<lambda>n.
       bind (query (active_for_node i)) (\<lambda>active.
       andthen (guard_raise (active \<noteq> None) ValueError
         ''node operation mode cannot change during an active replacement'')
       (andthen (if mode = AUTO_REPAIR then bind (query (check_auto_repair n)) lift else ret ())
       (andthen (upd_node i (\<lambda>n. n\<lparr>n_operation_mode := mode, n_monitoring_enabled := mode \<noteq> MODE_DISABLED\<rparr>))
       (andthen (if mode = MODE_DISABLED then
           andthen (upd_node i (\<lambda>n. n\<lparr>n_lease_token := None, n_lease_until := None\<rparr>))
             (node_transition_to i DISABLED)
         else whenM (n_state n = DISABLED) (node_transition_to i UNKNOWN))
       (bind now (\<lambda>t.
       andthen (add_event_row \<lparr>e_node_id = Some i, e_job_id = None, e_type = SETTING_CHANGED,
           e_severity = (if mode = AUTO_REPAIR then SEV_WARNING else SEV_INFO),
           e_message = ''Node operation mode changed to '' @ mode_value mode,
           e_payload = Some (JObj [(''actor_user_id'', JInt actor),
             (''mode'', JStr (mode_value mode))]),
           e_created_at = t\<rparr>)
       commit)))))))))"

end
