(* ===== verification/Callbacks.thy ===== *)
theory Callbacks
  imports Uuid Sha256
begin

text \<open>
  \<open>app/bot/callbacks.py\<close> and \<open>app/bot/auth.py\<close>: the signatures under the buttons of the bot, and the
  list of authorized users. A button carries the action, the entity, the minute it was made and twelve
  hexadecimal digits of an HMAC-SHA-256 that also covers the user. Texts are ASCII.
\<close>

unbundle bit_operations_syntax

section \<open>HMAC\<close>

text \<open>\<open>hmac.new(key, message, hashlib.sha256).hexdigest()\<close>.\<close>

definition hmac_block :: "nat list \<Rightarrow> nat list" where
  "hmac_block key = (let k = (if 64 < length key then sha256 key else key) in k @ replicate (64 - length k) 0)"

definition hmac_sha256 :: "nat list \<Rightarrow> nat list \<Rightarrow> nat list" where
  "hmac_sha256 key message =
     (let k = hmac_block key in
      sha256 (map (\<lambda>b. b XOR 92) k @ sha256 (map (\<lambda>b. b XOR 54) k @ message)))"

definition hexdigest :: "nat list \<Rightarrow> string" where
  "hexdigest bs = concat (map hex_byte bs)"

section \<open>The signer\<close>

datatype callback_error =
  InvalidCallbackData string | CallbackValueError string | CallbackTypeError string

record callback_signer =
  sg_secret :: "nat list"
  sg_ttl_minutes :: int

record verified_callback =
  vc_action :: string
  vc_entity_id :: uuid

definition make_signer :: "string \<Rightarrow> int \<Rightarrow> callback_error + callback_signer" where
  "make_signer secret ttl =
     (if length secret < 32 then
        Inl (CallbackValueError ''callback signing secret must be at least 32 bytes'')
      else Inr \<lparr>sg_secret = map of_char secret, sg_ttl_minutes = ttl\<rparr>)"

definition ascii_letter :: "char \<Rightarrow> bool" where
  "ascii_letter c = (let n = of_char c :: nat in 65 \<le> n \<and> n \<le> 90 \<or> 97 \<le> n \<and> n \<le> 122)"

definition validate_action :: "string \<Rightarrow> callback_error + unit" where
  "validate_action action =
     (if length action \<noteq> 2 \<or> \<not> list_all ascii_letter action then
        Inl (InvalidCallbackData ''callback action must be a two-letter ASCII code'')
      else Inr ())"

definition signed_message :: "string \<Rightarrow> int \<Rightarrow> string" where
  "signed_message payload user = show_int user @ '':'' @ payload"

definition signature :: "callback_signer \<Rightarrow> string \<Rightarrow> int \<Rightarrow> string" where
  "signature g payload user =
     take 12 (hexdigest (hmac_sha256 (sg_secret g) (map of_char (signed_message payload user))))"

text \<open>\<open>f"{minute:08x}"\<close>.\<close>

definition stamp_text :: "int \<Rightarrow> string" where
  "stamp_text m =
     (if m < 0 then ''-'' @ pad_left 7 (CHR ''0'') (show_base 16 (nat (- m)))
      else pad_left 8 (CHR ''0'') (show_base 16 (nat m)))"

definition callback_payload :: "string \<Rightarrow> uuid \<Rightarrow> string \<Rightarrow> string" where
  "callback_payload action entity st = action @ ''.'' @ uuid_hex entity @ ''.'' @ st"

definition encode_callback ::
    "callback_signer \<Rightarrow> string \<Rightarrow> uuid \<Rightarrow> int \<Rightarrow> int \<Rightarrow> callback_error + string" where
  "encode_callback g action entity user now_s =
     (case validate_action action of
        Inl x \<Rightarrow> Inl x
      | Inr _ \<Rightarrow>
          (let payload = callback_payload action entity (stamp_text (now_s div 60));
               encoded = payload @ ''.'' @ signature g payload user in
           if 64 < length encoded then
             Inl (CallbackValueError ''callback payload exceeds Telegram's 64-byte limit'')
           else Inr encoded))"

definition check_signed ::
    "callback_signer \<Rightarrow> string \<Rightarrow> string \<Rightarrow> string \<Rightarrow> string \<Rightarrow> int \<Rightarrow> int \<Rightarrow> callback_error + verified_callback" where
  "check_signed g action raw_id st supplied user now_s =
     (case (parse_uuid raw_id, parse_int 16 st) of
        (Some entity, Some issued) \<Rightarrow>
          (let current = now_s div 60 in
           if current + 1 < issued then Inl (InvalidCallbackData ''callback timestamp is in the future'')
           else if sg_ttl_minutes g < current - issued then
             Inl (InvalidCallbackData ''callback confirmation expired'')
           else if \<not> list_all (\<lambda>c. (of_char c :: nat) < 128) supplied then
             Inl (CallbackTypeError ''comparing strings with non-ASCII characters is not supported'')
           else if signature g (callback_payload action entity st) user \<noteq> supplied then
             Inl (InvalidCallbackData ''callback signature mismatch'')
           else Inr \<lparr>vc_action = action, vc_entity_id = entity\<rparr>)
      | _ \<Rightarrow> Inl (InvalidCallbackData ''malformed callback identity''))"

definition verify_callback ::
    "callback_signer \<Rightarrow> string \<Rightarrow> int \<Rightarrow> string option \<Rightarrow> int \<Rightarrow> callback_error + verified_callback" where
  "verify_callback g data user expected now_s =
     (case split_on (CHR ''.'') data of
        [action, raw_id, st, supplied] \<Rightarrow>
          (case validate_action action of
             Inl x \<Rightarrow> Inl x
           | Inr _ \<Rightarrow>
               (if expected \<noteq> None \<and> expected \<noteq> Some action then
                  Inl (InvalidCallbackData ''unexpected callback action'')
                else check_signed g action raw_id st supplied user now_s))
      | _ \<Rightarrow> Inl (InvalidCallbackData ''malformed callback''))"

section \<open>Authorization\<close>

definition is_authorized :: "int list \<Rightarrow> int option \<Rightarrow> bool" where
  "is_authorized authorized user = (case user of None \<Rightarrow> False | Some u \<Rightarrow> u \<in> set authorized)"

end
