(* ===== verification/CallbackProps.thy ===== *)
theory CallbackProps
  imports Callbacks
begin

text \<open>
  What the signed callbacks promise: a button the bot made is accepted from its user, within its time,
  with what it was made for; and whatever is accepted carries the signature of that user, action,
  entity and minute.
\<close>

section \<open>Texts of the parts\<close>

lemma bytes_of_small: "list_all (\<lambda>b. b < 256) (bytes_of k n)"
  by (auto simp: bytes_of_def list_all_iff)

lemma sha256_bytes: "list_all (\<lambda>b. b < 256) (sha256 bs)"
proof -
  have "list_all (\<lambda>b. b < 256) (concat (map (\<lambda>x. bytes_of 4 (unat x)) ws))" for ws :: "32 word list"
    using bytes_of_small by (induction ws) (simp_all add: list_all_append)
  then show ?thesis unfolding sha256_def Let_def .
qed

lemma hexdigest_hex: "list_all (\<lambda>b. b < 256) bs \<Longrightarrow> list_all hex_digit (hexdigest bs)"
  by (induction bs) (auto simp: hexdigest_def hex_byte_def intro!: digit_char_hex)

lemma signature_hex: "list_all hex_digit (signature g p u)"
proof -
  have "list_all hex_digit (hexdigest (hmac_sha256 (sg_secret g) m))" for m
    unfolding hmac_sha256_def Let_def by (rule hexdigest_hex, rule sha256_bytes)
  then show ?thesis
    unfolding signature_def list_all_iff by (blast dest: in_set_takeD)
qed

lemma hex_ascii: "hex_digit c \<Longrightarrow> (of_char c :: nat) < 128"
proof -
  have "\<forall>d \<in> set ''0123456789abcdef''. (of_char d :: nat) < 128" by code_simp
  then show "hex_digit c \<Longrightarrow> (of_char c :: nat) < 128" unfolding hex_digit_def by blast
qed

lemma stamp_hex: "0 \<le> m \<Longrightarrow> list_all hex_digit (stamp_text m)"
  using padded_hex [OF show_base_hex] by (simp add: stamp_text_def)

lemma parse_stamp:
  assumes "0 \<le> m" shows "parse_int 16 (stamp_text m) = Some m"
proof -
  have "stamp_text m \<noteq> []" using assms by (simp add: stamp_text_def pad_left_def show_base_nonempty)
  then show ?thesis
    using hex_parse_int [OF stamp_hex [OF assms]] parse_nat_padded [of 16 8 "nat m"] assms
    by (simp add: stamp_text_def)
qed

lemma dot_free: "list_all hex_digit s \<Longrightarrow> CHR ''.'' \<notin> set s"
  by (rule hex_free [OF _ not_hex(6)])

lemma letters_dot_free: "list_all ascii_letter s \<Longrightarrow> CHR ''.'' \<notin> set s"
  by (auto simp: list_all_iff ascii_letter_def)

lemma split_on_join: "join_with [c] (split_on c s) = s"
proof (induction s)
  case (Cons x s)
  obtain p ps where "split_on c s = p # ps" by (cases "split_on c s") simp_all
  with Cons show ?case by (cases ps) auto
qed simp

lemma show_int_colon: "CHR '':'' \<notin> set (show_int i)"
proof -
  have digits: "list_all hex_digit (show_base 10 n)" for n
  proof (induction n rule: less_induct)
    case (less n)
    show ?case
    proof (cases "n < 10")
      case True
      then show ?thesis by (subst show_base.simps) (simp add: digit_char_hex)
    next
      case False
      then have "list_all hex_digit (show_base 10 (n div 10))" by (intro less.IH) simp
      with False show ?thesis by (subst show_base.simps) (simp add: digit_char_hex)
    qed
  qed
  then show ?thesis
    using hex_free [OF _ not_hex(7)] by (auto simp: show_int_def show_nat_def)
qed

lemma show_nat_injective: "show_nat a = show_nat b \<Longrightarrow> a = b"
proof -
  have "parse_nat 10 (show_nat m) = Some m" for m
    unfolding show_nat_def by (rule parse_nat_show_base) simp_all
  then show "show_nat a = show_nat b \<Longrightarrow> a = b" by (metis option.inject)
qed

lemma show_nat_no_minus: "CHR ''-'' # s \<noteq> show_nat n"
proof
  assume "CHR ''-'' # s = show_nat n"
  moreover have "parse_nat 10 (show_nat n) = Some n"
    unfolding show_nat_def by (rule parse_nat_show_base) simp_all
  ultimately have "parse_nat 10 (CHR ''-'' # s) = Some n" by simp
  then show False by (simp add: parse_nat_def digit_of_def)
qed

lemma show_int_injective: "show_int a = show_int b \<Longrightarrow> a = b"
  using show_nat_no_minus show_nat_no_minus [symmetric]
  by (auto simp: show_int_def split: if_splits dest: show_nat_injective)

lemma uuid_hex_injective: assumes "uuid_hex i = uuid_hex j" shows "i = j"
  using parse_uuid_hex [of i] unfolding assms parse_uuid_hex by (rule option.inject [THEN iffD1, symmetric])

text \<open>The signed message fixes everything in it.\<close>

lemma signed_message_injective:
  assumes "signed_message (callback_payload a i st) u = signed_message (callback_payload b j st') v"
    and "length a = length b"
  shows "a = b \<and> i = j \<and> st = st' \<and> u = v"
proof -
  have colon: "x = y \<and> s = t" if "x @ CHR '':'' # s = y @ CHR '':'' # t" "CHR '':'' \<notin> set x" "CHR '':'' \<notin> set y"
    for x y s t :: string
    using that by (induction x arbitrary: y) (auto simp: Cons_eq_append_conv append_eq_Cons_conv)
  from assms(1) have "show_int u @ CHR '':'' # callback_payload a i st = show_int v @ CHR '':'' # callback_payload b j st'"
    by (simp add: signed_message_def)
  from colon [OF this show_int_colon show_int_colon]
  have u: "show_int u = show_int v" and p: "callback_payload a i st = callback_payload b j st'" by auto
  from p assms(2) have "a = b \<and> uuid_hex i = uuid_hex j \<and> st = st'"
    by (simp add: callback_payload_def uuid_hex_length)
  with show_int_injective [OF u] uuid_hex_injective [of i j] show ?thesis by blast
qed

section \<open>Properties\<close>

lemma verify_encoded:
  assumes "encode_callback g action entity user t = Inr data" and "0 \<le> t"
  shows "verify_callback g data user expected t' =
    (if expected \<noteq> None \<and> expected \<noteq> Some action then Inl (InvalidCallbackData ''unexpected callback action'')
     else if t' div 60 + 1 < t div 60 then Inl (InvalidCallbackData ''callback timestamp is in the future'')
     else if sg_ttl_minutes g < t' div 60 - t div 60 then Inl (InvalidCallbackData ''callback confirmation expired'')
     else Inr \<lparr>vc_action = action, vc_entity_id = entity\<rparr>)"
proof -
  let ?m = "t div 60"
  let ?p = "callback_payload action entity (stamp_text ?m)"
  have va: "validate_action action = Inr ()"
    and data: "data = ?p @ ''.'' @ signature g ?p user"
    using assms(1) by (auto simp: encode_callback_def Let_def split: sum.splits if_splits)
  have m: "0 \<le> ?m" using assms(2) by simp
  have letters: "list_all ascii_letter action" using va by (simp add: validate_action_def split: if_splits)
  have parts: "split_on (CHR ''.'') data = [action, uuid_hex entity, stamp_text ?m, signature g ?p user]"
    using letters_dot_free [OF letters] dot_free [OF uuid_hex_digits [of entity]] dot_free [OF stamp_hex [OF m]]
      dot_free [OF signature_hex [of g ?p user]]
    by (simp add: data callback_payload_def split_on_append split_on_free)
  have "list_all (\<lambda>c. (of_char c :: nat) < 128) (signature g ?p user)"
    using signature_hex [of g ?p user] hex_ascii by (auto simp: list_all_iff)
  then show ?thesis
    using va by (simp add: verify_callback_def parts check_signed_def parse_uuid_hex parse_stamp [OF m] Let_def)
qed

text \<open>
  C26. A button of the bot means what it was made for: verifying it for the same user gives its action
  and its entity, from one minute before it was made until its time to live is over, and outside that
  window, or where another action is expected, the error of the case.
\<close>

theorem callback_roundtrip:
  assumes "encode_callback g action entity user t = Inr data" and "0 \<le> t"
  shows "length data \<le> 64 \<and> verify_callback g data user expected t' =
    (if expected \<noteq> None \<and> expected \<noteq> Some action then Inl (InvalidCallbackData ''unexpected callback action'')
     else if t' div 60 + 1 < t div 60 then Inl (InvalidCallbackData ''callback timestamp is in the future'')
     else if sg_ttl_minutes g < t' div 60 - t div 60 then Inl (InvalidCallbackData ''callback confirmation expired'')
     else Inr \<lparr>vc_action = action, vc_entity_id = entity\<rparr>)"
proof
  show "length data \<le> 64"
    using assms(1) by (auto simp: encode_callback_def Let_def split: sum.splits if_splits)
qed (rule verify_encoded [OF assms])

definition demo_signer :: callback_signer where
  "demo_signer = \<lparr>sg_secret = replicate 32 7, sg_ttl_minutes = 10\<rparr>"

lemma demo_ttl: "sg_ttl_minutes demo_signer = 10"
  by (simp add: demo_signer_def)

lemma demo_encodes: "\<exists>data. encode_callback demo_signer ''rp'' 5 42 120000 = Inr data"
proof -
  let ?p = "callback_payload ''rp'' 5 (stamp_text (120000 div 60))"
  have "length (stamp_text (120000 div 60)) = 8" by code_simp
  then have "length ?p = 44" by (simp only: callback_payload_def length_append uuid_hex_length) simp
  moreover have "length (signature demo_signer ?p 42) \<le> 12" by (simp add: signature_def)
  ultimately have "\<not> 64 < length (?p @ ''.'' @ signature demo_signer ?p 42)"
    by (simp only: length_append) simp
  moreover have "validate_action ''rp'' = Inr ()" by code_simp
  ultimately show ?thesis unfolding encode_callback_def Let_def by simp
qed

lemma callback_roundtrip_witness:
  "\<exists>data. encode_callback demo_signer ''rp'' 5 42 120000 = Inr data \<and>
     verify_callback demo_signer data 42 (Some ''rp'') 120300 = Inr \<lparr>vc_action = ''rp'', vc_entity_id = 5\<rparr> \<and>
     verify_callback demo_signer data 42 (Some ''rp'') 121000 =
       Inl (InvalidCallbackData ''callback confirmation expired'')"
proof -
  obtain data where d: "encode_callback demo_signer ''rp'' 5 42 120000 = Inr data" using demo_encodes by blast
  from callback_roundtrip [OF d, of "Some ''rp''" 120300] callback_roundtrip [OF d, of "Some ''rp''" 121000] d
  show ?thesis by (simp add: demo_ttl)
qed

text \<open>
  C27. Whatever the bot accepts was signed for it: an accepted callback ends in the signature of the
  very user who pressed it, over its action, its entity and its minute, which lies in the window; and
  the signed text determines all of them, so that a signature for another user, action, entity or
  minute is the signature of another text.
\<close>

theorem accepted_callback_is_signed:
  assumes "verify_callback g data user expected t = Inr v"
  shows "(\<exists>raw st issued. data = vc_action v @ ''.'' @ raw @ ''.'' @ st @ ''.'' @
        signature g (callback_payload (vc_action v) (vc_entity_id v) st) user \<and>
      parse_uuid raw = Some (vc_entity_id v) \<and> parse_int 16 st = Some issued \<and>
      issued \<le> t div 60 + 1 \<and> t div 60 - issued \<le> sg_ttl_minutes g) \<and>
    length (vc_action v) = 2 \<and> (expected = None \<or> expected = Some (vc_action v)) \<and>
    (\<forall>a i st' st u. length a = 2 \<and>
       signed_message (callback_payload a i st') u =
         signed_message (callback_payload (vc_action v) (vc_entity_id v) st) user \<longrightarrow>
       a = vc_action v \<and> i = vc_entity_id v \<and> st' = st \<and> u = user)"
proof -
  obtain action raw st sig where parts: "split_on (CHR ''.'') data = [action, raw, st, sig]"
    and va: "validate_action action = Inr ()" and ex: "\<not> (expected \<noteq> None \<and> expected \<noteq> Some action)"
    and c: "check_signed g action raw st sig user t = Inr v"
    using assms by (auto simp: verify_callback_def split: list.splits sum.splits if_splits)
  obtain entity issued where p: "parse_uuid raw = Some entity" "parse_int 16 st = Some issued"
    "\<not> t div 60 + 1 < issued" "\<not> sg_ttl_minutes g < t div 60 - issued"
    "signature g (callback_payload action entity st) user = sig" "v = \<lparr>vc_action = action, vc_entity_id = entity\<rparr>"
    using c by (auto simp: check_signed_def Let_def split: option.splits if_splits)
  have data: "data = action @ ''.'' @ raw @ ''.'' @ st @ ''.'' @ sig"
    using split_on_join [of "CHR ''.''" data] parts by simp
  have two: "length action = 2" using va by (simp add: validate_action_def split: if_splits)
  have inj: "a = action \<and> i = entity \<and> st' = s \<and> u = user"
    if "length a = 2" "signed_message (callback_payload a i st') u = signed_message (callback_payload action entity s) user"
    for a i st' s u using signed_message_injective [OF that(2)] that(1) two by simp
  have v: "vc_action v = action" "vc_entity_id v = entity" using p(6) by simp_all
  have "\<exists>raw st issued. data = action @ ''.'' @ raw @ ''.'' @ st @ ''.'' @
        signature g (callback_payload action entity st) user \<and> parse_uuid raw = Some entity \<and>
      parse_int 16 st = Some issued \<and> issued \<le> t div 60 + 1 \<and> t div 60 - issued \<le> sg_ttl_minutes g"
    using data p(1-5) by (intro exI [of _ raw] exI [of _ st] exI [of _ issued]) simp
  with two ex inj show ?thesis unfolding v by blast
qed

lemma accepted_callback_is_signed_witness:
  "\<exists>data st. verify_callback demo_signer data 42 None 120300 = Inr \<lparr>vc_action = ''rp'', vc_entity_id = 5\<rparr> \<and>
     (\<exists>pre. data = pre @ signature demo_signer (callback_payload ''rp'' 5 st) 42)"
proof -
  obtain data where d: "encode_callback demo_signer ''rp'' 5 42 120000 = Inr data" using demo_encodes by blast
  have v: "verify_callback demo_signer data 42 None 120300 = Inr \<lparr>vc_action = ''rp'', vc_entity_id = 5\<rparr>"
    by (simp add: verify_encoded [OF d] demo_ttl)
  from accepted_callback_is_signed [OF v] obtain raw st where
    "data = ''rp'' @ ''.'' @ raw @ ''.'' @ st @ ''.'' @ signature demo_signer (callback_payload ''rp'' 5 st) 42" by auto
  then have "data = (''rp.'' @ raw @ ''.'' @ st @ ''.'') @ signature demo_signer (callback_payload ''rp'' 5 st) 42"
    by simp
  with v show ?thesis by blast
qed

end
