(* ===== verification/HostKeys.thy ===== *)
theory HostKeys
  imports Deployment OrchCore
begin

text \<open>
  \<open>app/deployment/host_keys.py\<close>: fetching the host key of a server, trusting it by its fingerprint, and
  reading the trusted fingerprint back from the \<open>known_hosts\<close> file. The SSH library is a parameter: what
  a server presents (\<open>server_key\<close>), and the fingerprint of a public key in the file (\<open>import_key\<close>,
  \<open>None\<close> where the library refuses it). \<open>ConnectionError\<close>, a kind of \<open>OSError\<close>, is \<open>OSError\<close> here.
\<close>

record host_key =
  hk_algorithm :: string
  hk_fingerprint :: string
  hk_exported :: string

datatype key_probe = KeyTimeout | KeyFailed string | KeyMissing | KeyPresented host_key

record host_key_candidate =
  hc_host :: string
  hc_port :: int
  hc_algorithm :: string
  hc_fingerprint :: string
  hc_entry :: string

definition host_token :: "string \<Rightarrow> int \<Rightarrow> string" where
  "host_token host port = (if port = 22 then host else ''['' @ host @ '']:'' @ show_int port)"

section \<open>Reading\<close>

definition first_word :: "string \<Rightarrow> string" where
  "first_word s = takeWhile (\<lambda>c. \<not> is_space c) (lstrip s)"

definition after_word :: "string \<Rightarrow> string" where
  "after_word s = lstrip (dropWhile (\<lambda>c. \<not> is_space c) (lstrip s))"

text \<open>The key data of a line that lists the host.\<close>

definition key_line :: "string \<Rightarrow> string \<Rightarrow> string option" where
  "key_line token raw =
     (let line = strip raw in
      if line = [] \<or> hd line = CHR ''#'' \<or> hd line = CHR ''@'' then None
      else if after_word line = [] then None
      else if token \<in> set (split_on (CHR '','') (first_word line)) then Some (after_word line)
      else None)"

primrec collect_fingerprints ::
    "(string \<Rightarrow> string option) \<Rightarrow> string \<Rightarrow> string list \<Rightarrow> exn + string list" where
  "collect_fingerprints import_key message [] = Inr []"
| "collect_fingerprints import_key message (k # ks) =
     (case import_key k of
        None \<Rightarrow> Inl (Exn ConfigurationError message)
      | Some fp \<Rightarrow> map_sum id (Cons fp) (collect_fingerprints import_key message ks))"

definition trusted_fingerprint ::
    "(string \<Rightarrow> string option) \<Rightarrow> string \<Rightarrow> int \<Rightarrow> string list \<Rightarrow> exn + string option" where
  "trusted_fingerprint import_key host port lines =
     (let place = host @ '':'' @ show_int port in
      case collect_fingerprints import_key (''stored SSH host key for '' @ place @ '' cannot be parsed'')
          (List.map_filter (key_line (host_token (strip host) port)) lines) of
        Inl x \<Rightarrow> Inl x
      | Inr [] \<Rightarrow> Inr None
      | Inr (fp # fps) \<Rightarrow>
          (if set fps \<subseteq> {fp} then Inr (Some fp)
           else Inl (Exn ConfigurationError
             (''multiple conflicting SSH host keys are stored for '' @ place))))"

definition load_trusted_host_key_fingerprint ::
    "(string \<Rightarrow> string option) \<Rightarrow> string \<Rightarrow> string \<Rightarrow> int \<Rightarrow> string option act" where
  "load_trusted_host_key_fingerprint import_key path host port =
     bind (get_file path) (\<lambda>content. case content of
       None \<Rightarrow> ret None
     | Some text \<Rightarrow> lift (trusted_fingerprint import_key host port (split_lines text)))"

section \<open>Trusting\<close>

definition inspect_host_key ::
    "(string \<Rightarrow> int \<Rightarrow> key_probe) \<Rightarrow> string \<Rightarrow> int \<Rightarrow> host_key_candidate act" where
  "inspect_host_key server_key host0 port =
     (let host = strip host0; place = host @ '':'' @ show_int port in
      andthen (guard_raise (host = []) ValueError ''SSH host cannot be blank'')
      (andthen (guard_raise (\<not> port_ok port) ValueError ''SSH port must be between 1 and 65535'')
      (case server_key host port of
         KeyTimeout \<Rightarrow> raise TimeoutError (''SSH host-key probe timed out for '' @ place)
       | KeyFailed s \<Rightarrow> raise OSError (''SSH host-key probe failed for '' @ place @ '': '' @ s)
       | KeyMissing \<Rightarrow> raise ConfigurationError (''SSH server '' @ place @ '' did not present a host key'')
       | KeyPresented k \<Rightarrow> ret \<lparr>hc_host = host, hc_port = port, hc_algorithm = hk_algorithm k,
           hc_fingerprint = hk_fingerprint k,
           hc_entry = host_token host port @ '' '' @ strip (hk_exported k) @ newline\<rparr>)))"

definition kept_line :: "string \<Rightarrow> string \<Rightarrow> bool" where
  "kept_line token line \<longleftrightarrow>
     strip line = [] \<or> starts_with ''#'' (lstrip line) \<or> first_word line \<noteq> token"

definition known_hosts_text :: "string \<Rightarrow> string \<Rightarrow> string list \<Rightarrow> string" where
  "known_hosts_text token entry existing =
     rstrip_chr (CHR 0x0A)
       (join_with newline (filter (kept_line token) existing @ [rstrip_chr (CHR 0x0A) entry])) @ newline"

definition write_candidate :: "string \<Rightarrow> host_key_candidate \<Rightarrow> unit act" where
  "write_candidate path c =
     bind fs_oracle (\<lambda>fault.
     if fault = FsMkdir then raise OSError ''mkdir''
     else if fault = FsChmodDir then raise ConfigurationError ''SSH known_hosts directory cannot be secured''
     else
       bind (get_file path) (\<lambda>content.
       let existing = (case content of None \<Rightarrow> [] | Some text \<Rightarrow> split_lines text) in
       if fault = FsTemp \<or> fault = FsWrite then raise OSError ''write''
       else
         andthen (put_file path (known_hosts_text (host_token (hc_host c) (hc_port c)) (hc_entry c) existing))
         (if fault = FsChmodFile then raise OSError ''chmod'' else ret ())))"

definition trust_host_key ::
    "(string \<Rightarrow> int \<Rightarrow> key_probe) \<Rightarrow> string \<Rightarrow> string \<Rightarrow> int \<Rightarrow> string \<Rightarrow> host_key_candidate act" where
  "trust_host_key server_key path host port expected =
     bind (inspect_host_key server_key host port) (\<lambda>c.
     if hc_fingerprint c \<noteq> expected then
       raise ConfigurationError
         (''SSH host key changed before confirmation; refusing to trust it. Expected '' @ expected @
          '', received '' @ hc_fingerprint c @ ''.'')
     else andthen (write_candidate path c) (ret c))"

section \<open>Checking the key of a connection\<close>

text \<open>
  How \<open>AsyncSshCommandExecutor.run\<close> (\<open>app/deployment/ssh.py\<close>) has the library check the server: not at
  all, by one fingerprint, by a file, or by its own default.
\<close>

datatype host_check = CheckNothing | CheckPinned string | CheckFile string | CheckDefault

definition host_check_of :: "(string \<Rightarrow> string option) \<Rightarrow> ssh_target \<Rightarrow> host_check act" where
  "host_check_of import_key t =
     (if \<not> sp_verify_host_key t then ret CheckNothing
      else (case sp_known_hosts t of
          None \<Rightarrow> ret CheckDefault
        | Some path \<Rightarrow>
            bind (load_trusted_host_key_fingerprint import_key path (sp_host t) (sp_port t)) (\<lambda>fp.
            ret (if truthy_text fp then CheckPinned (text_of fp) else CheckFile path))))"

text \<open>\<open>PinnedHostKeyClient.validate_host_public_key\<close>.\<close>

definition pinned_accepts :: "string \<Rightarrow> host_key \<Rightarrow> bool" where
  "pinned_accepts expected k \<longleftrightarrow> hk_fingerprint k = expected"

end
