(* ===== verification/RegistryProps.thy ===== *)
theory RegistryProps
  imports Management Control Samples
begin

text \<open>
  What the registry promises of its rows: registering a node is idempotent and never touches the
  identity of another one, names stay unique whatever their case, a node is removed with everything
  that belongs to it and never when it has a history.
\<close>

section \<open>What a registration does to the database\<close>

definition refreshed_db :: "node_form \<Rightarrow> provider_row \<Rightarrow> node_row \<Rightarrow> db \<Rightarrow> db" where
  "refreshed_db f p n d =
     d\<lparr>t_providers := tbl_upd p_id (p_id p) (provider_defaults f) (t_providers d),
       t_nodes := tbl_upd n_id (n_id n) (refresh_node f) (t_nodes d),
       t_vps := (case current_vps_for_node (n_id n) d of None \<Rightarrow> t_vps d
         | Some v \<Rightarrow> tbl_upd v_id (v_id v) (refresh_current f) (t_vps d)),
       t_creds := (case cred_for_node (n_id n) d of None \<Rightarrow> t_creds d
         | Some c \<Rightarrow> tbl_upd cr_id (cr_id c) (refresh_cred f) (t_creds d))\<rparr>"

definition inserted_db ::
    "node_form \<Rightarrow> provider_row \<Rightarrow> uuid \<Rightarrow> uuid \<Rightarrow> uuid \<Rightarrow> usec \<Rightarrow> usec \<Rightarrow> db \<Rightarrow> db" where
  "inserted_db f p nid cid vid t t' d =
     d\<lparr>t_providers := tbl_upd p_id (p_id p) (provider_defaults f) (t_providers d),
       t_nodes := t_nodes d @ [new_node nid t (provider_defaults f p) f],
       t_creds := t_creds d @ [new_cred cid nid f],
       t_vps := t_vps d @ [new_current vid t' nid (provider_defaults f p) f]\<rparr>"

definition upgraded :: "node_form \<Rightarrow> provider_row \<Rightarrow> db \<Rightarrow> db" where
  "upgraded f p d = set_providers (tbl_upd p_id (p_id p) (provider_defaults f)) d"

lemma provider_defaults_id [simp]: "p_id (provider_defaults f p) = p_id p" "p_key (provider_defaults f p) = p_key p"
  by (simp_all add: provider_defaults_def)

lemma upgraded_queries [simp]:
  "node_by_name x (upgraded f p d) = node_by_name x d"
  "current_vps_for_node i (upgraded f p d) = current_vps_for_node i d"
  "cred_for_node i (upgraded f p d) = cred_for_node i d"
  "node_by_master_id m (upgraded f p d) = node_by_master_id m d"
  "vps_by_provider_identity q s (upgraded f p d) = vps_by_provider_identity q s d"
  "stable_identity f' p' n (upgraded f p d) = stable_identity f' p' n d"
  by (simp_all add: upgraded_def set_providers_def node_by_name_def current_vps_for_node_def cred_for_node_def
      node_by_master_id_def vps_by_provider_identity_def stable_identity_def)

text \<open>The outcome of a registration on the database the session has opened.\<close>

definition registers :: "node_form \<Rightarrow> node_row \<Rightarrow> db \<Rightarrow> db \<Rightarrow> bool" where
  "registers f n d d' \<longleftrightarrow>
     (\<exists>p. provider_by_key (nf_provider_key f) d = Some p \<and> db_ok d' \<and>
       ((\<exists>n0. node_by_name (nf_name f) d = Some n0 \<and> stable_identity f (provider_defaults f p) n0 d \<and>
           n = refresh_node f n0 \<and> d' = refreshed_db f p n0 d) \<or>
        (node_by_name (nf_name f) d = None \<and> node_by_master_id (nf_master_node_id f) d = None \<and>
         vps_by_provider_identity (p_id p) (nf_server_id f) d = None \<and>
         (\<exists>nid cid vid t t'. n = new_node nid t (provider_defaults f p) f \<and>
           d' = inserted_db f p nid cid vid t t' d))))"

lemma registersI_old:
  "provider_by_key (nf_provider_key f) d = Some p \<Longrightarrow> node_by_name (nf_name f) d = Some n0 \<Longrightarrow>
   stable_identity f (provider_defaults f p) n0 d \<Longrightarrow> db_ok (refreshed_db f p n0 d) \<Longrightarrow>
   registers f (refresh_node f n0) d (refreshed_db f p n0 d)"
  unfolding registers_def by blast

lemma registersI_new:
  "provider_by_key (nf_provider_key f) d = Some p \<Longrightarrow> node_by_name (nf_name f) d = None \<Longrightarrow>
   node_by_master_id (nf_master_node_id f) d = None \<Longrightarrow>
   vps_by_provider_identity (p_id p) (nf_server_id f) d = None \<Longrightarrow>
   db_ok (inserted_db f p nid cid vid t t' d) \<Longrightarrow>
   registers f (new_node nid t (provider_defaults f p) f) d (inserted_db f p nid cid vid t t' d)"
  unfolding registers_def by blast

lemma wp_refresh_registration:
  "w_ses w = upgraded f p d \<Longrightarrow> w_db w = d \<Longrightarrow>
   wp (refresh_registration f n0) (\<lambda>n w'. n = refresh_node f n0 \<and> w_db w' = refreshed_db f p n0 d \<and> db_ok (w_db w'))
     (\<lambda>_ w'. w_db w' = d) e w"
  by (simp add: refresh_registration_def hoare upd_node_def upd_vps_def upd_cred_def split: option.split)
    (auto simp: refreshed_db_def upgraded_def db_setters set_providers_def)

lemma inserted_db_fold:
  "set_vps (tbl_add (new_current vid t' nid (provider_defaults f p) f))
     (set_creds (tbl_add (new_cred cid nid f)) (set_nodes (tbl_add (new_node nid t (provider_defaults f p) f))
       (upgraded f p d))) = inserted_db f p nid cid vid t t' d"
  by (simp add: inserted_db_def upgraded_def db_setters set_providers_def tbl_add_def)

lemma wp_insert_registration:
  assumes "w_ses w = upgraded f p d" and "w_db w = d"
  shows "wp (insert_registration f (provider_defaults f p))
     (\<lambda>n w'. node_by_master_id (nf_master_node_id f) d = None \<and>
        vps_by_provider_identity (p_id p) (nf_server_id f) d = None \<and> db_ok (w_db w') \<and>
        (\<exists>nid cid vid t t'. n = new_node nid t (provider_defaults f p) f \<and>
           w_db w' = inserted_db f p nid cid vid t t' d))
     (\<lambda>_ w'. w_db w' = d) e w"
  using assms
  by (simp add: insert_registration_def hoare add_node_def add_cred_def add_vps_def provider_defaults_id inserted_db_fold)
    (intro impI exI conjI; rule refl)

lemma wp_register_node:
  assumes "d = env_others e (w_sessions w) (w_db w)"
  shows "wp (register_node form) (\<lambda>n w'. check_node_form (normalize_node form) = Inr () \<and>
       registers (normalize_node form) n d (w_db w'))
     (\<lambda>_ w'. w_db w' = d \<or> w_db w' = w_db w) e w"
proof -
  let ?f = "normalize_node form"
  show ?thesis
  proof (cases "check_node_form ?f")
    case Inl
    then show ?thesis by (simp add: register_node_def Let_def hoare)
  next
    case ok: (Inr u)
    show ?thesis
    proof (cases "provider_by_key (nf_provider_key ?f) d")
      case None
      then show ?thesis
        by (simp add: register_node_def Let_def hoare ok opened_def closed_def assms [symmetric])
    next
      case (Some p)
      let ?w = "opened e w\<lparr>w_ses := upgraded ?f p d\<rparr>"
      have w: "w_ses ?w = upgraded ?f p d" "w_db ?w = d" by (simp_all add: opened_def assms Let_def)
      have red: "wp (register_node form) Q E e w =
          (case node_by_name (nf_name ?f) d of
             None \<Rightarrow> wp (insert_registration ?f (provider_defaults ?f p)) (\<lambda>a w'. Q a (closed w'))
               (\<lambda>x w'. E x (closed w')) e ?w
           | Some n \<Rightarrow>
               if stable_identity ?f (provider_defaults ?f p) n d
               then wp (refresh_registration ?f n) (\<lambda>a w'. Q a (closed w')) (\<lambda>x w'. E x (closed w')) e ?w
               else E (Exn ValueError (''node '' @ quoted e (nf_name ?f) @
                   '' already exists with different provider/master/server identity; '' @
                   ''refusing to overwrite it'')) (closed ?w))" for Q E
        by (simp add: register_node_def Let_def hoare ok opened_def assms [symmetric] Some upd_provider_def
            upgraded_def [symmetric] split: option.split)
      have o: "w_db (opened e w) = d" by (simp add: opened_def assms Let_def)
      show ?thesis unfolding red
        by (auto simp: closed_def w o ok split: option.split
            intro!: wp_mono [OF wp_insert_registration [OF w]] wp_mono [OF wp_refresh_registration [OF w]]
            intro: registersI_new [OF Some] registersI_old [OF Some])
    qed
  qed
qed

section \<open>Registering again\<close>

lemma find_map: "find P (map h xs) = map_option h (find (\<lambda>x. P (h x)) xs)"
  by (induction xs) auto

lemma insort_map: "(\<And>x. g (h x) = g x) \<Longrightarrow> insort_key g (h x) (map h xs) = map h (insort_key g x xs)"
  by (induction xs) auto

lemma sort_map: "(\<And>x. g (h x) = g x) \<Longrightarrow> sort_key g (map h xs) = map h (sort_key g xs)"
  by (induction xs) (simp_all add: insort_map)

lemma first_row_map: "first_row (map h xs) = map_option h (first_row xs)"
  by (simp add: first_row_def split: list.split)

lemma find_tbl_upd:
  assumes "find P t = Some r" and "\<And>x. P (f x) = P x"
  shows "find P (tbl_upd key (key r) f t) = Some (f r)"
proof -
  have "P (if key x = key r then f x else x) = P x" for x using assms(2) by simp
  with assms(1) show ?thesis by (simp add: tbl_upd_def find_map)
qed

lemma tbl_upd_idem:
  "(\<And>x. key (f x) = key x) \<Longrightarrow> (\<And>x. f (f x) = f x) \<Longrightarrow> tbl_upd key k f (tbl_upd key k f t) = tbl_upd key k f t"
  by (auto simp: tbl_upd_def)

lemma tbl_upd_fixed: "(\<And>x. x \<in> set t \<Longrightarrow> key x = k \<Longrightarrow> f x = x) \<Longrightarrow> tbl_upd key k f t = t"
  by (auto simp: tbl_upd_def intro: map_idI)

lemma provider_defaults_idem: "provider_defaults f (provider_defaults f p) = provider_defaults f p"
  by (simp add: provider_defaults_def given_def split: option.split)

lemma refresh_node_idem: "refresh_node f (refresh_node f n) = refresh_node f n"
  by (simp add: refresh_node_def)

lemma refresh_current_idem: "refresh_current f (refresh_current f v) = refresh_current f v"
  by (simp add: refresh_current_def given_def split: option.split)

lemma refresh_cred_idem: "refresh_cred f (refresh_cred f c) = refresh_cred f c"
  by (simp add: refresh_cred_def Let_def split: option.split)

lemma refresh_node_simps: "n_id (refresh_node f n) = n_id n" "n_name (refresh_node f n) = n_name n"
  "n_provider_id (refresh_node f n) = n_provider_id n" "n_master_node_id (refresh_node f n) = n_master_node_id n"
  "n_state (refresh_node f n) = n_state n" "n_operation_mode (refresh_node f n) = n_operation_mode n"
  by (simp_all add: refresh_node_def)

lemma refresh_current_simps: "v_id (refresh_current f v) = v_id v" "v_node_id (refresh_current f v) = v_node_id v"
  "v_role (refresh_current f v) = v_role v" "v_state (refresh_current f v) = v_state v"
  "v_created_at (refresh_current f v) = v_created_at v" "v_provider_id (refresh_current f v) = v_provider_id v"
  "v_provider_server_id (refresh_current f v) = v_provider_server_id v"
  by (simp_all add: refresh_current_def)

lemma refresh_cred_simps: "cr_id (refresh_cred f c) = cr_id c" "cr_node_id (refresh_cred f c) = cr_node_id c"
  by (simp_all add: refresh_cred_def Let_def split: option.split)

lemma current_after_refresh:
  assumes "current_vps_for_node i d = Some v" and "t_vps d' = tbl_upd v_id (v_id v) (refresh_current f) (t_vps d)"
  shows "current_vps_for_node i d' = Some (refresh_current f v)"
proof -
  let ?h = "\<lambda>x. if v_id x = v_id v then refresh_current f x else x"
  let ?P = "\<lambda>x. v_node_id x = i \<and> v_role x = CURRENT \<and> v_state x \<noteq> VPS_DELETED"
  have P: "?P (?h x) = ?P x" for x by (simp add: refresh_current_simps)
  have "filter ?P (map ?h (t_vps d)) = map ?h (filter ?P (t_vps d))"
    unfolding filter_map comp_def P ..
  moreover have "sort_key (\<lambda>x. - v_created_at x) (map ?h xs) = map ?h (sort_key (\<lambda>x. - v_created_at x) xs)" for xs
    by (rule sort_map) (simp add: refresh_current_simps)
  ultimately have "current_vps_for_node i d' = map_option ?h (current_vps_for_node i d)"
    unfolding current_vps_for_node_def assms(2) tbl_upd_def first_row_map [symmetric] by simp
  with assms(1) show ?thesis by simp
qed

lemma refreshed_again:
  assumes "provider_by_key (nf_provider_key f) d = Some p" and "node_by_name (nf_name f) d = Some n"
    and "stable_identity f (provider_defaults f p) n d"
  shows "provider_by_key (nf_provider_key f) (refreshed_db f p n d) = Some (provider_defaults f p)"
    and "node_by_name (nf_name f) (refreshed_db f p n d) = Some (refresh_node f n)"
    and "stable_identity f (provider_defaults f p) (refresh_node f n) (refreshed_db f p n d)"
    and "refreshed_db f (provider_defaults f p) (refresh_node f n) (refreshed_db f p n d) = refreshed_db f p n d"
proof -
  let ?d = "refreshed_db f p n d"
  obtain v where v: "current_vps_for_node (n_id n) d = Some v" "v_provider_server_id v = nf_server_id f"
    using assms(3) by (auto simp: stable_identity_def split: option.splits)
  obtain c where c: "cred_for_node (n_id n) d = Some c" using assms(3) by (auto simp: stable_identity_def)
  show "provider_by_key (nf_provider_key f) ?d = Some (provider_defaults f p)"
    using find_tbl_upd [of _ "t_providers d" p "provider_defaults f" p_id] assms(1)
    by (simp add: provider_by_key_def refreshed_db_def)
  show "node_by_name (nf_name f) ?d = Some (refresh_node f n)"
    using find_tbl_upd [of _ "t_nodes d" n "refresh_node f" n_id] assms(2)
    by (simp add: node_by_name_def refreshed_db_def refresh_node_simps)
  have v': "current_vps_for_node (n_id n) ?d = Some (refresh_current f v)"
    by (rule current_after_refresh [OF v(1)]) (simp add: refreshed_db_def v(1))
  have c': "cred_for_node (n_id n) ?d = Some (refresh_cred f c)"
    using find_tbl_upd [of _ "t_creds d" c "refresh_cred f" cr_id] c
    by (simp add: cred_for_node_def refreshed_db_def refresh_cred_simps)
  show "stable_identity f (provider_defaults f p) (refresh_node f n) ?d"
    using assms(3) v' c' v(2) by (simp add: stable_identity_def refresh_node_simps refresh_current_simps)
  show "refreshed_db f (provider_defaults f p) (refresh_node f n) ?d = ?d"
    using v v' c c'
    by (simp add: refreshed_db_def refresh_node_simps refresh_current_simps refresh_cred_simps tbl_upd_idem
        provider_defaults_idem refresh_node_idem refresh_current_idem refresh_cred_idem)
qed

lemma find_snoc: "find P (xs @ [x]) = (case find P xs of Some y \<Rightarrow> Some y | None \<Rightarrow> if P x then Some x else None)"
  by (induction xs) auto

lemma new_rows_fixed:
  "refresh_node f (new_node i t p f) = new_node i t p f" "refresh_cred f (new_cred c i f) = new_cred c i f"
  "refresh_current f (new_current v t i p f) = new_current v t i p f"
  by (simp_all add: refresh_node_def new_node_def refresh_cred_def new_cred_def refresh_current_def new_current_def
      given_def Let_def split: option.split)

lemma new_row_keys: "n_id (new_node i t p f) = i" "cr_id (new_cred c i f) = c" "v_id (new_current v t i p f) = v"
  "cr_node_id (new_cred c i f) = i" "v_node_id (new_current v t i p f) = i" "n_name (new_node i t p f) = nf_name f"
  "v_provider_server_id (new_current v t i p f) = nf_server_id f" "n_provider_id (new_node i t p f) = p_id p"
  "n_master_node_id (new_node i t p f) = nf_master_node_id f" "v_provider_id (new_current v t i p f) = p_id p"
  "v_role (new_current v t i p f) = CURRENT" "v_state (new_current v t i p f) = VPS_RUNNING"
  by (simp_all add: new_node_def new_cred_def new_current_def)

text \<open>The rows of a new node: nothing referred to it before.\<close>

lemma inserted_rows:
  assumes "db_ok d" and "db_ok (inserted_db f p nid cid vid t t' d)"
  shows "current_vps_for_node nid (inserted_db f p nid cid vid t t' d) =
      Some (new_current vid t' nid (provider_defaults f p) f)"
    and "cred_for_node nid (inserted_db f p nid cid vid t t' d) = Some (new_cred cid nid f)"
    and "nid \<notin> n_id ` set (t_nodes d)" and "cid \<notin> cr_id ` set (t_creds d)" and "vid \<notin> v_id ` set (t_vps d)"
proof -
  show n: "nid \<notin> n_id ` set (t_nodes d)" and "cid \<notin> cr_id ` set (t_creds d)" and "vid \<notin> v_id ` set (t_vps d)"
    using assms(2) by (simp_all add: db_ok_def nodes_ok_def creds_ok_def vps_ok_def inserted_db_def new_row_keys)
  have "v_node_id v \<noteq> nid" if "v \<in> set (t_vps d)" for v
    using assms(1) n that by (auto simp: db_ok_def vps_ok_def list_all_iff)
  then have "filter (\<lambda>v. v_node_id v = nid \<and> v_role v = CURRENT \<and> v_state v \<noteq> VPS_DELETED) (t_vps d) = []"
    by (simp add: filter_empty_conv)
  then show "current_vps_for_node nid (inserted_db f p nid cid vid t t' d) =
      Some (new_current vid t' nid (provider_defaults f p) f)"
    by (simp add: current_vps_for_node_def inserted_db_def new_row_keys first_row_def)
  have "find (\<lambda>c. cr_node_id c = nid) (t_creds d) = None"
    using assms(1) n by (auto simp: db_ok_def creds_ok_def list_all_iff find_None_iff)
  then show "cred_for_node nid (inserted_db f p nid cid vid t t' d) = Some (new_cred cid nid f)"
    by (simp add: cred_for_node_def inserted_db_def find_snoc new_row_keys)
qed

lemma inserted_again:
  assumes "db_ok d" and "db_ok (inserted_db f p nid cid vid t t' d)"
    and "provider_by_key (nf_provider_key f) d = Some p" and "node_by_name (nf_name f) d = None"
  shows "provider_by_key (nf_provider_key f) (inserted_db f p nid cid vid t t' d) = Some (provider_defaults f p)"
    and "node_by_name (nf_name f) (inserted_db f p nid cid vid t t' d) = Some (new_node nid t (provider_defaults f p) f)"
    and "stable_identity f (provider_defaults f p) (new_node nid t (provider_defaults f p) f)
      (inserted_db f p nid cid vid t t' d)"
    and "refreshed_db f (provider_defaults f p) (new_node nid t (provider_defaults f p) f)
      (inserted_db f p nid cid vid t t' d) = inserted_db f p nid cid vid t t' d"
proof -
  let ?d = "inserted_db f p nid cid vid t t' d"
  note rows = inserted_rows [OF assms(1,2)]
  show "provider_by_key (nf_provider_key f) ?d = Some (provider_defaults f p)"
    using find_tbl_upd [of _ "t_providers d" p "provider_defaults f" p_id] assms(3)
    by (simp add: provider_by_key_def inserted_db_def)
  show "node_by_name (nf_name f) ?d = Some (new_node nid t (provider_defaults f p) f)"
    using assms(4) by (simp add: node_by_name_def inserted_db_def find_snoc new_row_keys)
  show "stable_identity f (provider_defaults f p) (new_node nid t (provider_defaults f p) f) ?d"
    by (simp add: stable_identity_def new_row_keys rows)
  have fixed: "tbl_upd key k h (xs @ [x]) = xs @ [x]" if "h x = x" "k \<notin> key ` set xs"
    for key :: "'r \<Rightarrow> uuid" and k h xs x using that by (intro tbl_upd_fixed) auto
  show "refreshed_db f (provider_defaults f p) (new_node nid t (provider_defaults f p) f) ?d = ?d"
    unfolding refreshed_db_def new_row_keys rows(1,2) option.case
    by (simp add: inserted_db_def fixed new_rows_fixed new_row_keys rows(3-5) tbl_upd_idem provider_defaults_idem)
qed

lemma registers_again:
  assumes "registers f n d d'" and "db_ok d"
  shows "\<exists>p. provider_by_key (nf_provider_key f) d' = Some p \<and> node_by_name (nf_name f) d' = Some n \<and>
    stable_identity f (provider_defaults f p) n d' \<and> refreshed_db f p n d' = d' \<and> refresh_node f n = n \<and> db_ok d'"
proof -
  obtain p where p: "provider_by_key (nf_provider_key f) d = Some p" "db_ok d'"
    and cases: "(\<exists>n0. node_by_name (nf_name f) d = Some n0 \<and> stable_identity f (provider_defaults f p) n0 d \<and>
        n = refresh_node f n0 \<and> d' = refreshed_db f p n0 d) \<or>
      (node_by_name (nf_name f) d = None \<and>
       (\<exists>nid cid vid t t'. n = new_node nid t (provider_defaults f p) f \<and> d' = inserted_db f p nid cid vid t t' d))"
    using assms(1) unfolding registers_def by blast
  from cases show ?thesis
  proof (elim disjE exE conjE)
    fix n0 assume a: "node_by_name (nf_name f) d = Some n0" "stable_identity f (provider_defaults f p) n0 d"
      "n = refresh_node f n0" "d' = refreshed_db f p n0 d"
    from refreshed_again [OF p(1) a(1,2)] p(2) show ?thesis
      unfolding a(3,4) by (intro exI [of _ "provider_defaults f p"]) (simp add: provider_defaults_idem refresh_node_idem)
  next
    fix nid cid vid t t' assume a: "node_by_name (nf_name f) d = None"
      "n = new_node nid t (provider_defaults f p) f" "d' = inserted_db f p nid cid vid t t' d"
    from inserted_again [OF assms(2) p(2) [unfolded a(3)] p(1) a(1)] p(2) show ?thesis
      unfolding a(2,3) by (intro exI [of _ "provider_defaults f p"]) (simp add: provider_defaults_idem new_rows_fixed)
  qed
qed

lemma wp_register_known:
  assumes "d = env_others e (w_sessions w) (w_db w)" and "check_node_form (normalize_node form) = Inr ()"
    and "provider_by_key (nf_provider_key (normalize_node form)) d = Some p"
    and "node_by_name (nf_name (normalize_node form)) d = Some n"
    and "stable_identity (normalize_node form) (provider_defaults (normalize_node form) p) n d"
    and "db_ok (refreshed_db (normalize_node form) p n d)"
  shows "wp (register_node form) (\<lambda>n' w'. n' = refresh_node (normalize_node form) n \<and>
     w_db w' = refreshed_db (normalize_node form) p n d) (\<lambda>_ _. False) e w"
  using assms(2-)
  by (simp add: register_node_def Let_def hoare opened_def closed_def assms(1) [symmetric] upd_provider_def
      upgraded_def [symmetric] refresh_registration_def upd_node_def upd_vps_def upd_cred_def split: option.split)
    (auto simp: refreshed_db_def upgraded_def db_setters set_providers_def stable_identity_def split: option.splits)

section \<open>A registration, as an example\<close>

definition sample_form :: node_form where
  "sample_form = \<lparr>nf_name = ''node-b'', nf_provider_key = '' HETZNER '', nf_master_node_id = ''12'',
     nf_host = ''198.51.100.9'', nf_port = 2053, nf_server_id = ''srv-9'', nf_ssh_username = ''root'',
     nf_ssh_port = 22, nf_ssh_auth = PASSWORD, nf_ssh_secret_ref = ''/secrets/b'', nf_ssh_public_key = None,
     nf_provider_host = None, nf_region = Some ''fsn1'', nf_server_type = None, nf_image = None,
     nf_base_path = None, nf_api_token_ref = Some ''/secrets/token''\<rparr>"

definition sample_normal :: node_form where
  "sample_normal = \<lparr>nf_name = ''node-b'', nf_provider_key = ''hetzner'', nf_master_node_id = ''12'',
     nf_host = ''198.51.100.9'', nf_port = 2053, nf_server_id = ''srv-9'', nf_ssh_username = ''root'',
     nf_ssh_port = 22, nf_ssh_auth = PASSWORD, nf_ssh_secret_ref = ''/secrets/b'', nf_ssh_public_key = None,
     nf_provider_host = Some ''198.51.100.9'', nf_region = Some ''fsn1'', nf_server_type = None, nf_image = None,
     nf_base_path = None, nf_api_token_ref = Some ''/secrets/token''\<rparr>"

lemma sample_form_normal: "normalize_node sample_form = sample_normal"
  by code_simp

lemma sample_form_ok: "check_node_form sample_normal = Inr ()"
  by code_simp

definition registry_db :: db where
  "registry_db = empty_db\<lparr>t_providers := [sample_provider\<lparr>p_key := ''hetzner''\<rparr>]\<rparr>"

lemma registry_db_ok: "db_ok registry_db"
  by (simp add: registry_db_def empty_db_def db_ok_def providers_ok_def nodes_ok_def creds_ok_def checks_ok_def
      vps_ok_def jobs_ok_def deployments_ok_def settings_ok_def sample_provider_def provider_checks_def not_blank_def)

lemma wp_register_new:
  assumes "d = env_others e (w_sessions w) (w_db w)" and "check_node_form (normalize_node form) = Inr ()"
    and "f = normalize_node form" and "provider_by_key (nf_provider_key f) d = Some p" and "node_by_name (nf_name f) d = None"
    and "node_by_master_id (nf_master_node_id f) d = None"
    and "vps_by_provider_identity (p_id p) (nf_server_id f) d = None"
    and "q = provider_defaults f p" and "k = w_tick w" and "nid = env_uuid e k" and "cid = env_uuid e (Suc (Suc k))"
    and "db_ok (set_nodes (tbl_add (new_node nid (env_clock e (Suc k)) q f)) (upgraded f p d))"
    and "db_ok (set_creds (tbl_add (new_cred cid nid f))
      (set_nodes (tbl_add (new_node nid (env_clock e (Suc k)) q f)) (upgraded f p d)))"
    and "db_ok (inserted_db f p nid cid (env_uuid e (Suc (Suc (Suc k)))) (env_clock e (Suc k))
      (env_clock e (Suc (Suc (Suc (Suc k))))) d)"
  shows "wp (register_node form) (\<lambda>_ _. True) (\<lambda>_ _. False) e w"
  using assms(2,4-7,12-)
  unfolding assms(8,3,10,11,9)
  by (simp add: register_node_def Let_def hoare opened_def assms(1) [symmetric] upd_provider_def
      upgraded_def [symmetric] insert_registration_def add_node_def add_cred_def add_vps_def inserted_db_fold)

lemma sample_registers:
  "\<exists>n w'. register_node sample_form (sample_env default_settings) (fresh_world registry_db) = (Inr n, w')"
proof -
  let ?e = "sample_env default_settings" and ?w = "fresh_world registry_db"
  let ?p = "sample_provider\<lparr>p_key := ''hetzner''\<rparr>"
  have w: "w_tick ?w = 0" "env_others ?e (w_sessions ?w) (w_db ?w) = registry_db"
    by (simp_all add: fresh_world_def sample_env_def)
  have found: "provider_by_key (nf_provider_key sample_normal) registry_db = Some ?p"
    "node_by_name (nf_name sample_normal) registry_db = None"
    "node_by_master_id (nf_master_node_id sample_normal) registry_db = None"
    "vps_by_provider_identity (p_id ?p) (nf_server_id sample_normal) registry_db = None"
    by (simp_all add: registry_db_def empty_db_def provider_by_key_def node_by_name_def node_by_master_id_def
        vps_by_provider_identity_def sample_normal_def)
  have oks: "db_ok (set_nodes (tbl_add (new_node n t (provider_defaults sample_normal ?p) sample_normal))
        (upgraded sample_normal ?p registry_db))"
    "db_ok (set_creds (tbl_add (new_cred c n sample_normal)) (set_nodes
        (tbl_add (new_node n t (provider_defaults sample_normal ?p) sample_normal)) (upgraded sample_normal ?p registry_db)))"
    "db_ok (inserted_db sample_normal ?p n c v t t' registry_db)" for n c v t t'
    by (simp_all add: db_ok_def providers_ok_def nodes_ok_def creds_ok_def checks_ok_def vps_ok_def jobs_ok_def
        deployments_ok_def settings_ok_def set_nodes_def set_creds_def upgraded_def set_providers_def registry_db_def
        empty_db_def inserted_db_def tbl_add_def tbl_upd_def new_node_def new_cred_def new_current_def
        provider_defaults_def given_def sample_provider_def sample_normal_def provider_checks_def node_checks_def
        cred_checks_def vps_checks_def not_blank_def port_ok_def)
  have "wp (register_node sample_form) (\<lambda>_ _. True) (\<lambda>_ _. False) ?e ?w"
    by (rule wp_register_new [OF w(2) [symmetric] _ sample_form_normal [symmetric] found refl w(1) [symmetric] refl refl])
      (simp_all only: sample_form_normal sample_form_ok oks)
  then show ?thesis
    by (cases "register_node sample_form ?e ?w") (auto simp: wp_def split: sum.splits)
qed

section \<open>Properties\<close>

text \<open>
  C29. Registering a node again is harmless: where no other process interferes, repeating a successful
  registration succeeds with the same node and leaves the whole registry exactly as it is.
\<close>

theorem register_node_idempotent:
  assumes "env_others e = (\<lambda>_ d. d)" and "db_ok (w_db w)" and "register_node form e w = (Inr n, w')"
  shows "\<exists>w''. register_node form e w' = (Inr n, w'') \<and> w_db w'' = w_db w'"
proof -
  let ?f = "normalize_node form"
  have "wp (register_node form) (\<lambda>n w'. check_node_form ?f = Inr () \<and> registers ?f n (w_db w) (w_db w'))
      (\<lambda>_ w'. w_db w' = w_db w \<or> w_db w' = w_db w) e w"
    by (rule wp_register_node) (simp add: assms(1))
  from wpD_Inr [OF this assms(3)] have c: "check_node_form ?f = Inr ()"
    and r: "registers ?f n (w_db w) (w_db w')" by auto
  obtain p where p: "provider_by_key (nf_provider_key ?f) (w_db w') = Some p"
    "node_by_name (nf_name ?f) (w_db w') = Some n" "stable_identity ?f (provider_defaults ?f p) n (w_db w')"
    "refreshed_db ?f p n (w_db w') = w_db w'" "refresh_node ?f n = n" "db_ok (w_db w')"
    using registers_again [OF r assms(2)] by blast
  have "wp (register_node form) (\<lambda>n' w''. n' = refresh_node ?f n \<and> w_db w'' = refreshed_db ?f p n (w_db w'))
      (\<lambda>_ _. False) e w'"
    by (rule wp_register_known) (use p c in \<open>simp_all add: assms(1)\<close>)
  then show ?thesis unfolding p(4,5)
    by (cases "register_node form e w'") (auto simp: wp_def split: sum.splits)
qed

lemma register_node_idempotent_witness:
  "\<exists>n w' w''. register_node sample_form (sample_env default_settings) (fresh_world registry_db) = (Inr n, w') \<and>
     register_node sample_form (sample_env default_settings) w' = (Inr n, w'') \<and> w_db w'' = w_db w'"
proof -
  obtain n w' where r: "register_node sample_form (sample_env default_settings) (fresh_world registry_db) = (Inr n, w')"
    using sample_registers by blast
  have "env_others (sample_env default_settings) = (\<lambda>_ d. d)" by (simp add: sample_env_def)
  moreover have "db_ok (w_db (fresh_world registry_db))" by (simp add: fresh_world_def registry_db_ok)
  ultimately show ?thesis using register_node_idempotent [OF _ _ r] r by blast
qed



lemma tbl_upd_map: "(\<And>r. g (f r) = g r) \<Longrightarrow> map g (tbl_upd key k f t) = map g t"
  by (simp add: tbl_upd_def)






lemma find_in: "find P t = Some r \<Longrightarrow> r \<in> set t \<and> P r"
  by (auto simp: find_Some_iff)



section \<open>Names\<close>

definition names_unique :: "db \<Rightarrow> bool" where
  "names_unique d \<longleftrightarrow> distinct (map n_id (t_nodes d)) \<and> distinct (map (\<lambda>n. lower (n_name n)) (t_nodes d))"

lemma registers_names:
  assumes "registers f n d d'" and "names_unique d" shows "names_unique d'"
proof -
  obtain p where "db_ok d'" and cases: "(\<exists>n0. d' = refreshed_db f p n0 d) \<or>
      (node_by_name (nf_name f) d = None \<and> (\<exists>nid cid vid t t'. d' = inserted_db f p nid cid vid t t' d))"
    using assms(1) unfolding registers_def by blast
  then have ids: "distinct (map n_id (t_nodes d'))" by (simp add: db_ok_def nodes_ok_def)
  from cases have "distinct (map (\<lambda>n. lower (n_name n)) (t_nodes d'))"
  proof (elim disjE exE conjE)
    fix n0 assume "d' = refreshed_db f p n0 d"
    moreover have "map (\<lambda>n. lower (n_name n)) (t_nodes (refreshed_db f p n0 d)) = map (\<lambda>n. lower (n_name n)) (t_nodes d)"
      by (simp add: refreshed_db_def tbl_upd_map refresh_node_simps)
    ultimately show ?thesis using assms(2) by (simp add: names_unique_def)
  next
    fix nid cid vid t t' assume "node_by_name (nf_name f) d = None" "d' = inserted_db f p nid cid vid t t' d"
    then show ?thesis using assms(2)
      by (auto simp: names_unique_def inserted_db_def new_row_keys node_by_name_def find_None_iff)
  qed
  with ids show ?thesis by (simp add: names_unique_def)
qed

lemma nodes_of_set: "t_nodes (set_nodes g d) = g (t_nodes d)"
  by (simp add: set_nodes_def)

lemma rename_names:
  assumes "names_unique d" and "case node_by_name x d of None \<Rightarrow> True | Some n \<Rightarrow> n_id n = i"
  shows "names_unique (set_nodes (tbl_upd n_id i (\<lambda>n. n\<lparr>n_name := x\<rparr>)) d)"
proof -
  let ?h = "\<lambda>n. if n_id n = i then n\<lparr>n_name := x\<rparr> else n"
  have other: "lower (n_name m) \<noteq> lower x" if "m \<in> set (t_nodes d)" "n_id m \<noteq> i" for m
  proof
    assume same: "lower (n_name m) = lower x"
    have "node_by_name x d \<noteq> None"
      using that(1) same find_None_iff [of "\<lambda>n. lower (n_name n) = lower x" "t_nodes d"]
      unfolding node_by_name_def by blast
    then obtain n where n: "node_by_name x d = Some n" by blast
    then have "n \<in> set (t_nodes d)" "lower (n_name n) = lower (n_name m)"
      using find_in [of _ "t_nodes d" n] same by (auto simp: node_by_name_def)
    then have "n = m" using assms(1) that(1) unfolding names_unique_def
      by (metis (mono_tags, lifting) distinct_key_unique)
    with n assms(2) that(2) show False by simp
  qed
  have "distinct (map (\<lambda>n. lower (n_name (?h n))) ns)"
    if "distinct (map n_id ns)" "distinct (map (\<lambda>n. lower (n_name n)) ns)" "set ns \<subseteq> set (t_nodes d)" for ns
    using that
  proof (induction ns)
    case (Cons m ns)
    have mset: "m \<in> set (t_nodes d)" using Cons.prems(3) by simp
    have apart: "lower (n_name (?h m)) \<noteq> lower (n_name (?h k))" if "k \<in> set ns" for k
    proof -
      have "n_id k \<in> n_id ` set ns" "lower (n_name k) \<in> (\<lambda>n. lower (n_name n)) ` set ns" using that by simp_all
      then have "n_id k \<noteq> n_id m" "lower (n_name k) \<noteq> lower (n_name m)" using Cons.prems(1,2) by auto
      moreover have "k \<in> set (t_nodes d)" using that Cons.prems(3) by auto
      ultimately show ?thesis using other [of k] other [of m] mset by (cases "n_id k = i"; cases "n_id m = i") simp_all
    qed
    have "lower (n_name (?h m)) \<notin> (\<lambda>n. lower (n_name (?h n))) ` set ns"
    proof
      assume "lower (n_name (?h m)) \<in> (\<lambda>n. lower (n_name (?h n))) ` set ns"
      then obtain k where "k \<in> set ns" "lower (n_name (?h m)) = lower (n_name (?h k))" by (rule imageE)
      with apart show False by blast
    qed
    moreover have "distinct (map (\<lambda>n. lower (n_name (?h n))) ns)" using Cons.prems by (intro Cons.IH) simp_all
    ultimately show ?case unfolding list.map distinct.simps set_map by blast
  qed simp
  from this [of "t_nodes d"] have "distinct (map (\<lambda>n. lower (n_name (?h n))) (t_nodes d))"
    using assms(1) by (simp add: names_unique_def)
  moreover have ids: "map (\<lambda>n. n_id (?h n)) (t_nodes d) = map n_id (t_nodes d)" by (rule map_cong) simp_all
  have "distinct (map (\<lambda>n. n_id (?h n)) (t_nodes d))" unfolding ids using assms(1) by (simp add: names_unique_def)
  ultimately show ?thesis unfolding names_unique_def tbl_upd_def nodes_of_set map_map comp_def by blast
qed

section \<open>Removal\<close>

lemma keeps_delete_reference: "keeps e (\<lambda>w. w_db w = d \<and> w_trace w = tr) (delete_reference r)"
  by (auto simp: delete_reference_def keeps_def bind_def ask_env_def ret_def raise_def del_file_def split: option.split)

lemma keeps_discard: "keeps e (\<lambda>w. w_db w = d \<and> w_trace w = tr) (discard_old_secret b r k)"
  unfolding discard_old_secret_def by (intro keeps keeps_delete_reference)

lemma delete_reference_errors: "delete_reference r e w = (Inl x, w') \<Longrightarrow> exn_kind x = ConfigurationError"
  by (auto simp: delete_reference_def bind_def ask_env_def ret_def raise_def del_file_def split: option.splits if_splits)

lemma discard_old_secret_returns: "wp (discard_old_secret b r k) (\<lambda>_ _. True) (\<lambda>_ _. False) e w"
proof -
  have "catches [ConfigurationError] x" if "exn_kind x = ConfigurationError" for x
    using that by (simp add: catches_def isa_def numeral_3_eq_3)
  then show ?thesis
    by (auto simp: discard_old_secret_def hoare wp_def catch_def ret_def dest: delete_reference_errors
        split: prod.split sum.split)
qed

lemma discards_return:
  "wp (mapM (\<lambda>(b, r). discard_old_secret b r None) refs) (\<lambda>_ w'. w_db w' = w_db w \<and> w_trace w' = w_trace w)
     (\<lambda>_ _. False) e w"
proof -
  have "wp (mapM (\<lambda>(b, r). discard_old_secret b r None) refs) (\<lambda>_ _. True) (\<lambda>_ _. False) e w" for w
  proof (induction refs arbitrary: w)
    case (Cons a refs)
    obtain b r where a: "a = (b, r)" by (cases a)
    have "wp (bind (discard_old_secret b r None) (\<lambda>y. bind (mapM (\<lambda>(b, r). discard_old_secret b r None) refs)
        (\<lambda>ys. ret (y # ys)))) (\<lambda>_ _. True) (\<lambda>_ _. False) e w"
      unfolding wp_bind wp_ret by (rule wp_mono [OF discard_old_secret_returns]) (rule Cons.IH, assumption)
    then show ?case by (simp add: mapM_def a)
  qed (simp add: mapM_def hoare)
  moreover have "keeps e (\<lambda>x. w_db x = w_db w \<and> w_trace x = w_trace w) (mapM (\<lambda>(b, r). discard_old_secret b r None) refs)"
    by (intro keeps keeps_discard)
  from keeps_wp [OF this] have "wp (mapM (\<lambda>(b, r). discard_old_secret b r None) refs)
      (\<lambda>_ w'. w_db w' = w_db w \<and> w_trace w' = w_trace w) (\<lambda>_ w'. w_db w' = w_db w \<and> w_trace w' = w_trace w) e w" by simp
  ultimately show ?thesis by (rule wp_mono [OF wp_conj]) simp_all
qed

definition removed_db :: "uuid \<Rightarrow> db \<Rightarrow> db" where
  "removed_db i d = delete_node_rows i (set_vps (tbl_del (\<lambda>v. v_node_id v = i)) d)"

text \<open>Nothing of the history of the registry points to the node or to one of its servers.\<close>

definition no_history :: "uuid \<Rightarrow> db \<Rightarrow> bool" where
  "no_history i d \<longleftrightarrow>
     list_all (\<lambda>j. j_node_id j \<noteq> i \<and>
       (set_option (j_old_vps_id j) \<union> set_option (j_new_vps_id j)) \<inter>
         v_id ` set (filter (\<lambda>v. v_node_id v = i) (t_vps d)) = {}) (t_jobs d) \<and>
     list_all (\<lambda>x. d_vps_id x \<notin> v_id ` set (filter (\<lambda>v. v_node_id v = i) (t_vps d))) (t_deployments d)"

lemma kept_in: "x \<in> f ` set xs \<Longrightarrow> x \<notin> f ` set (filter P xs) \<Longrightarrow> x \<in> f ` set (filter (\<lambda>r. \<not> P r) xs)"
  by auto

lemma removed_servers_ok:
  assumes "db_ok d" and "no_history i d"
  shows "db_ok (set_vps (tbl_del (\<lambda>v. v_node_id v = i)) d)"
proof -
  let ?d = "set_vps (tbl_del (\<lambda>v. v_node_id v = i)) d"
  have d: "providers_ok d" "nodes_ok d" "creds_ok d" "checks_ok d" "vps_ok d" "jobs_ok d" "deployments_ok d" "settings_ok d"
    using assms(1) by (simp_all add: db_ok_def)
  have kept: "x \<in> v_id ` set (t_vps ?d)" if "x \<in> v_id ` set (t_vps d)"
      "x \<notin> v_id ` set (filter (\<lambda>v. v_node_id v = i) (t_vps d))" for x
    using kept_in [OF that] by (simp add: set_vps_def tbl_del_def)
  have j: "set_option (j_old_vps_id j) \<subseteq> v_id ` set (t_vps ?d) \<and> set_option (j_new_vps_id j) \<subseteq> v_id ` set (t_vps ?d)"
    if "j \<in> set (t_jobs d)" for j
  proof -
    have "set_option (j_old_vps_id j) \<union> set_option (j_new_vps_id j) \<subseteq> v_id ` set (t_vps d)"
      using d(6) that unfolding jobs_ok_def list_all_iff by simp
    moreover have "(set_option (j_old_vps_id j) \<union> set_option (j_new_vps_id j)) \<inter>
        v_id ` set (filter (\<lambda>v. v_node_id v = i) (t_vps d)) = {}"
      using assms(2) that unfolding no_history_def list_all_iff by blast
    ultimately have "set_option (j_old_vps_id j) \<union> set_option (j_new_vps_id j) \<subseteq> v_id ` set (t_vps ?d)"
      by (intro subsetI kept) blast+
    then show ?thesis by blast
  qed
  have x: "d_vps_id x \<in> v_id ` set (t_vps ?d)" if "x \<in> set (t_deployments d)" for x
  proof (rule kept)
    show "d_vps_id x \<in> v_id ` set (t_vps d)" using d(7) that unfolding deployments_ok_def list_all_iff by simp
    show "d_vps_id x \<notin> v_id ` set (filter (\<lambda>v. v_node_id v = i) (t_vps d))"
      using assms(2) that unfolding no_history_def list_all_iff by blast
  qed
  have same: "t_jobs ?d = t_jobs d" "t_deployments ?d = t_deployments d" "t_nodes ?d = t_nodes d"
    "t_providers ?d = t_providers d" by (simp_all add: set_vps_def)
  have "vps_ok ?d" using d(5)
    by (auto simp: vps_ok_def set_vps_def tbl_del_def list_all_iff intro: distinct_map_filter)
  moreover have "jobs_ok ?d" using d(6) j
    unfolding jobs_ok_def same list_all_iff set_map by simp
  moreover have "deployments_ok ?d" using d(7) x
    unfolding deployments_ok_def same list_all_iff set_map by simp
  ultimately show ?thesis using d
    by (simp add: db_ok_def providers_ok_def nodes_ok_def creds_ok_def checks_ok_def settings_ok_def set_vps_def)
qed

lemma removed_db_ok:
  assumes "db_ok d" and "no_history i d" shows "db_ok (removed_db i d)"
proof -
  let ?d = "set_vps (tbl_del (\<lambda>v. v_node_id v = i)) d"
  have d: "providers_ok ?d" "nodes_ok ?d" "creds_ok ?d" "checks_ok ?d" "vps_ok ?d" "jobs_ok ?d" "deployments_ok ?d"
    "settings_ok ?d" using removed_servers_ok [OF assms] by (simp_all add: db_ok_def)
  let ?r = "delete_node_rows i ?d"
  have same: "t_jobs ?r = t_jobs ?d" "t_vps ?r = t_vps ?d" "t_providers ?r = t_providers ?d"
    by (simp_all add: delete_node_rows_def)
  have kept: "x \<in> n_id ` set (t_nodes ?r)" if "x \<in> n_id ` set (t_nodes ?d)" "x \<noteq> i" for x
    using that by (auto simp: delete_node_rows_def tbl_del_def)
  have j: "j_node_id j \<in> n_id ` set (t_nodes ?r)" if "j \<in> set (t_jobs ?d)" for j
  proof (rule kept)
    show "j_node_id j \<in> n_id ` set (t_nodes ?d)" using d(6) that unfolding jobs_ok_def list_all_iff by simp
    show "j_node_id j \<noteq> i" using assms(2) that by (simp add: no_history_def list_all_iff set_vps_def)
  qed
  have v: "v_node_id v \<in> n_id ` set (t_nodes ?r)" if "v \<in> set (t_vps ?d)" for v
  proof (rule kept)
    show "v_node_id v \<in> n_id ` set (t_nodes ?d)" using d(5) that unfolding vps_ok_def list_all_iff by simp
    show "v_node_id v \<noteq> i" using that by (simp add: set_vps_def tbl_del_def)
  qed
  have "nodes_ok ?r" using d(2)
    by (auto simp: nodes_ok_def delete_node_rows_def tbl_del_def list_all_iff intro: distinct_map_filter)
  moreover have "creds_ok ?r" using d(3)
    by (auto simp: creds_ok_def delete_node_rows_def tbl_del_def list_all_iff intro: distinct_map_filter)
  moreover have "checks_ok ?r" using d(4)
    by (auto simp: checks_ok_def delete_node_rows_def tbl_del_def list_all_iff)
  moreover have "vps_ok ?r" using d(5) v unfolding vps_ok_def same list_all_iff set_map by simp
  moreover have "jobs_ok ?r" using d(6) j unfolding jobs_ok_def same list_all_iff set_map by simp
  ultimately show ?thesis using d(1,7,8)
    by (simp add: removed_db_def db_ok_def providers_ok_def deployments_ok_def settings_ok_def delete_node_rows_def)
qed

lemma first_row_None [simp]: "first_row xs = None \<longleftrightarrow> xs = []"
  by (cases xs) (simp_all add: first_row_def)

lemma no_history_no_job:
  assumes "no_history i d" shows "latest_job_for_node i d = None" and "active_for_node i d = None"
proof -
  have none: "j_node_id j \<noteq> i" if "j \<in> set (t_jobs d)" for j
    using assms that by (simp add: no_history_def list_all_iff)
  then have "filter (\<lambda>j. j_node_id j = i) (t_jobs d) = []" by (simp add: filter_empty_conv)
  then show "latest_job_for_node i d = None" by (simp add: latest_job_for_node_def)
  show "active_for_node i d = None" using none unfolding active_for_node_def find_None_iff by blast
qed

lemma wp_remove_node:
  assumes "d = env_others e (w_sessions w) (w_db w)"
  shows "wp (remove_node i)
      (\<lambda>_ w'. get_node i d \<noteq> None \<and> latest_job_for_node i d = None \<and>
        w_db w' = removed_db i d \<and> w_trace w' = w_trace w)
      (\<lambda>_ w'. w_db w' = d \<and> w_trace w' = w_trace w \<and>
        \<not> (db_ok d \<and> get_node i d \<noteq> None \<and> no_history i d)) e w"
proof -
  note possible = no_history_no_job [of i d] removed_servers_ok [of d i]
    removed_db_ok [of d i, unfolded removed_db_def]
  show ?thesis
    apply (simp add: remove_node_def hoare opened_def closed_def assms [symmetric] Let_def removed_db_def split: option.split)
    apply (intro conjI impI; (rule wp_mono [OF discards_return])?)
    apply (simp_all add: wp_ret)
    using possible by (cases "no_history i d"; simp)+
qed

text \<open>
  C32. Removing a node from the registry takes its row, its credential, its checks and its servers, and
  clears the reference of its events; every other row stays, and nothing is called outside the
  registry. A node with a job is never removed, a refusal changes nothing, and a node that nothing
  refers to can always be removed.
\<close>

theorem node_removal_is_clean:
  assumes "env_others e = (\<lambda>_ d. d)" and "remove_node i e w = (r, w')"
  shows "w_trace w' = w_trace w \<and> (case r of
      Inl _ \<Rightarrow> w_db w' = w_db w \<and> \<not> (db_ok (w_db w) \<and> get_node i (w_db w) \<noteq> None \<and> no_history i (w_db w))
    | Inr _ \<Rightarrow> get_node i (w_db w) \<noteq> None \<and> latest_job_for_node i (w_db w) = None \<and>
        set (t_nodes (w_db w')) = {n \<in> set (t_nodes (w_db w)). n_id n \<noteq> i} \<and>
        set (t_creds (w_db w')) = {c \<in> set (t_creds (w_db w)). cr_node_id c \<noteq> i} \<and>
        set (t_checks (w_db w')) = {c \<in> set (t_checks (w_db w)). c_node_id c \<noteq> i} \<and>
        set (t_vps (w_db w')) = {v \<in> set (t_vps (w_db w)). v_node_id v \<noteq> i} \<and>
        t_events (w_db w') = map (\<lambda>x. if e_node_id x = Some i then x\<lparr>e_node_id := None\<rparr> else x) (t_events (w_db w)) \<and>
        t_providers (w_db w') = t_providers (w_db w) \<and> t_jobs (w_db w') = t_jobs (w_db w) \<and>
        t_deployments (w_db w') = t_deployments (w_db w) \<and> t_settings (w_db w') = t_settings (w_db w))"
proof -
  have d: "w_db w = env_others e (w_sessions w) (w_db w)" by (simp add: assms(1))
  note removed = removed_db_def delete_node_rows_def set_vps_def tbl_del_def
  show ?thesis
  proof (cases r)
    case Inl
    with wpD_Inl [OF wp_remove_node [OF d, of i]] assms(2) show ?thesis by simp
  next
    case (Inr u)
    with wpD_Inr [OF wp_remove_node [OF d, of i]] assms(2) show ?thesis by (simp add: removed)
  qed
qed

definition quiet_db :: db where
  "quiet_db = sample_db\<lparr>t_jobs := []\<rparr>"

lemma quiet_db_ready: "db_ok quiet_db" "get_node 2 quiet_db = Some (hd (t_nodes sample_db))" "no_history 2 quiet_db"
  "names_unique quiet_db"
  using sample_db_ok
  by (simp_all add: quiet_db_def sample_db_def empty_db_def db_ok_def providers_ok_def nodes_ok_def creds_ok_def
      checks_ok_def vps_ok_def jobs_ok_def deployments_ok_def settings_ok_def get_node_def tbl_get_def sample_node_def
      no_history_def names_unique_def)

lemma node_removal_is_clean_witness:
  "\<exists>w'. remove_node 2 (sample_env default_settings) (fresh_world quiet_db) = (Inr (), w') \<and>
     set (t_nodes (w_db w')) = {} \<and> set (t_vps (w_db w')) = {}"
proof -
  have others: "env_others (sample_env default_settings) = (\<lambda>_ d. d)" by (simp add: sample_env_def)
  obtain r w' where run: "remove_node 2 (sample_env default_settings) (fresh_world quiet_db) = (r, w')" by fastforce
  have w: "w_db (fresh_world quiet_db) = quiet_db" by (simp add: fresh_world_def)
  note clean = node_removal_is_clean [OF others run, unfolded w]
  then obtain u where r: "r = Inr u" by (cases r) (simp_all add: quiet_db_ready)
  have "t_nodes quiet_db = [hd (t_nodes sample_db)]" "n_id (hd (t_nodes sample_db)) = 2" "t_vps quiet_db = [sample_vps]"
    "v_node_id sample_vps = 2"
    by (simp_all add: quiet_db_def sample_db_def sample_node_def empty_db_def sample_vps_def)
  then have "{n \<in> set (t_nodes quiet_db). n_id n \<noteq> 2} = {}" "{v \<in> set (t_vps quiet_db). v_node_id v \<noteq> 2} = {}"
    by auto
  with clean run show ?thesis unfolding r by simp
qed

lemma wp_rename_node:
  assumes "d = env_others e (w_sessions w) (w_db w)"
  shows "wp (rename_node i name)
      (\<lambda>_ w'. w_db w' = set_nodes (tbl_upd n_id i (\<lambda>n. n\<lparr>n_name := strip name\<rparr>)) d \<and>
        (case node_by_name (strip name) d of None \<Rightarrow> True | Some n \<Rightarrow> n_id n = i))
      (\<lambda>_ w'. w_db w' = d \<or> w_db w' = w_db w) e w"
  by (simp add: rename_node_def hoare opened_def closed_def assms [symmetric] Let_def upd_node_def split: option.split)

lemma removed_names: "names_unique d \<Longrightarrow> names_unique (removed_db i d)"
  by (simp add: names_unique_def removed_db_def delete_node_rows_def set_vps_def tbl_del_def distinct_map_filter)

text \<open>
  C33. Two nodes never have the same name up to the case of its letters: registering, renaming and
  removing nodes keep that, whatever they return, as long as the other writers of the database do.
\<close>

theorem names_stay_unique:
  assumes "names_unique (w_db w)" and "names_unique (env_others e (w_sessions w) (w_db w))"
  shows "names_unique (w_db (snd (register_node form e w))) \<and>
    names_unique (w_db (snd (rename_node i name e w))) \<and>
    names_unique (w_db (snd (remove_node i e w)))"
proof -
  define d where "d = env_others e (w_sessions w) (w_db w)"
  have u: "names_unique d" using assms(2) by (simp add: d_def)
  have "wp (register_node form) (\<lambda>_ w'. names_unique (w_db w')) (\<lambda>_ w'. names_unique (w_db w')) e w"
    by (rule wp_mono [OF wp_register_node [OF d_def]]) (use u assms(1) registers_names in \<open>blast, metis\<close>)
  moreover have "wp (rename_node i name) (\<lambda>_ w'. names_unique (w_db w')) (\<lambda>_ w'. names_unique (w_db w')) e w"
    by (rule wp_mono [OF wp_rename_node [OF d_def]]) (use u assms(1) rename_names in \<open>simp, metis\<close>)
  moreover have "wp (remove_node i) (\<lambda>_ w'. names_unique (w_db w')) (\<lambda>_ w'. names_unique (w_db w')) e w"
    by (rule wp_mono [OF wp_remove_node [OF d_def]]) (use u removed_names in simp_all)
  ultimately show ?thesis by (blast dest: wp_snd)
qed

lemma names_stay_unique_witness:
  "names_unique (w_db (snd (rename_node 2 ''b'' (sample_env default_settings) (fresh_world quiet_db))))"
  using names_stay_unique [of "fresh_world quiet_db" "sample_env default_settings" sample_form 2 "''b''"] quiet_db_ready
  by (simp add: fresh_world_def sample_env_def)

end
