(* ===== verification/ControlProps.thy ===== *)
theory ControlProps
  imports RegistryProps
begin

text \<open>
  Properties of the operations an operator starts: admission of a replacement (\<open>trigger\<close>), the lease
  \<open>resume\<close> takes, cancelling, and the change of the operation mode of a node. \<open>still d tr\<close> is the
  invariant of the reads and gates that come first: the database is \<open>d\<close> and the log of external calls
  \<open>tr\<close>. No other process writes the database while the operation runs.
\<close>

section \<open>Reads\<close>

definition still :: "db \<Rightarrow> (db \<times> ext) list \<Rightarrow> world \<Rightarrow> bool" where
  "still d tr w \<longleftrightarrow> w_db w = d \<and> w_trace w = tr"

definition undisturbed :: "env \<Rightarrow> bool" where
  "undisturbed e \<longleftrightarrow> env_others e = (\<lambda>_ d. d)"

lemma sample_undisturbed: "undisturbed (sample_env s)"
  by (simp add: undisturbed_def sample_env_def)

lemma undisturbed_opened: "undisturbed e \<Longrightarrow> opened e w = w\<lparr>w_ses := w_db w, w_sessions := Suc (w_sessions w)\<rparr>"
  by (simp add: undisturbed_def opened_def Let_def)

lemma still_session: "undisturbed e \<Longrightarrow> keeps e (still d tr) m \<Longrightarrow> keeps e (still d tr) (session m)"
  by (intro wp_keeps) (auto simp: hoare undisturbed_opened closed_def still_def intro!: wp_mono [OF keeps_wp])

lemma still_now: "keeps e (still d tr) now" "keeps e (still d tr) new_uuid" "keeps e (still d tr) mono"
  by (simp_all add: keeps_def still_def now_def new_uuid_def mono_def)

lemma still_get_bool: "undisturbed e \<Longrightarrow> keeps e (still d tr) (get_bool k b)"
  unfolding get_bool_def by (intro keeps still_session)

lemma still_gates:
  assumes "undisturbed e"
  shows "keeps e (still d tr) trigger_dry_run" and "keeps e (still d tr) assert_not_paused"
    and "keeps e (still d tr) (assert_not_emergency_stopped dry)" and "keeps e (still d tr) runtime_snapshot"
  unfolding trigger_dry_run_def assert_not_paused_def assert_not_emergency_stopped_def effective_dry_run_def
    runtime_execution_mode_def is_paused_def runtime_snapshot_def monitoring_enabled_def replacement_enabled_def
  by (intro keeps still_session still_get_bool assms)+

section \<open>Admission\<close>

definition requested :: "string option \<Rightarrow> db \<Rightarrow> job_row option" where
  "requested key d = (case key of None \<Rightarrow> None | Some k \<Rightarrow> job_by_request_key k d)"

definition admitted :: "settings \<Rightarrow> uuid \<Rightarrow> bool \<Rightarrow> string option \<Rightarrow> db \<Rightarrow> uuid \<Rightarrow> db \<Rightarrow> bool" where
  "admitted s node_id force key d i d' \<longleftrightarrow>
     (\<exists>j. requested key d = Some j \<and> i = j_id j \<and> d' = d) \<or>
     (\<exists>j. requested key d = None \<and> active_for_node node_id d = Some j \<and> i = j_id j \<and> d' = d) \<or>
     (requested key d = None \<and> active_for_node node_id d = None \<and>
      count_active_jobs d < max_concurrent_replacements s \<and>
      (\<exists>n old t dry. get_node node_id d = Some n \<and> check_trigger_state force n = Inr () \<and>
        t_jobs d' = t_jobs d @ [new_job i t n dry force key (max_replacement_attempts s) old]))"

lemma admitted_new:
  "requested key d = None \<Longrightarrow> active_for_node node_id d = None \<Longrightarrow> count_active_jobs d < max_concurrent_replacements s \<Longrightarrow>
   get_node node_id d = Some n \<Longrightarrow> check_trigger_state force n = Inr () \<Longrightarrow>
   t_jobs d' = t_jobs d @ [new_job i t n dry force key (max_replacement_attempts s) old] \<Longrightarrow>
   admitted s node_id force key d i d'"
  unfolding admitted_def by (intro disjI2 conjI exI)

lemma admitted_cases:
  assumes "admitted s node_id force key d i d'"
  obtains (requested) j where "requested key d = Some j" "i = j_id j" "d' = d"
    | (active) j where "requested key d = None" "active_for_node node_id d = Some j" "i = j_id j" "d' = d"
    | (new) n old t dry where "requested key d = None" "active_for_node node_id d = None"
        "count_active_jobs d < max_concurrent_replacements s" "get_node node_id d = Some n"
        "check_trigger_state force n = Inr ()"
        "t_jobs d' = t_jobs d @ [new_job i t n dry force key (max_replacement_attempts s) old]"
  using assms unfolding admitted_def by (blast intro: that)

definition staged :: "db \<Rightarrow> (db \<times> ext) list \<Rightarrow> job_row list \<Rightarrow> world \<Rightarrow> bool" where
  "staged d tr js w \<longleftrightarrow> still d tr w \<and> t_jobs (w_ses w) = js"

lemma staged_transition:
  "keeps e (staged d tr js) (transition_row (get_node i) step (\<lambda>n. upd_node i (\<lambda>_. n)))"
  by (intro wp_keeps)
    (simp add: hoare upd_node_def staged_def still_def set_nodes_def split: option.split sum.split)

lemma staged_event: "keeps e (staged d tr js) (add_event i ty sev msg payload)"
  unfolding add_event_def
  by (intro keeps wp_keeps)
    (simp_all add: hoare require_job_def add_event_row_def staged_def still_def set_events_def split: option.split)

lemma wp_add_rowI:
  "(db_ok (f (w_ses w)) \<Longrightarrow> Q () (w\<lparr>w_ses := f (w_ses w)\<rparr>)) \<Longrightarrow>
   E (Exn IntegrityError ''constraint violated'') (w\<lparr>w_ses := f (w_ses w)\<rparr>) \<Longrightarrow> wp (add_row f) Q E e w"
  by (simp add: wp_add_row)

lemma wp_start_job:
  assumes "w_ses w = d" and "w_db w = d"
  shows "wp (start_job force key dry n v) (\<lambda>i w'. db_ok (w_db w') \<and> w_trace w' = w_trace w \<and> (\<exists>t. t_jobs (w_db w') =
      t_jobs d @ [new_job i t n dry force key (max_replacement_attempts (env_settings e)) (v_id v)]))
    (\<lambda>_. still d (w_trace w)) e w"
proof -
  let ?j = "new_job (env_uuid e (w_tick w)) (env_clock e (Suc (w_tick w))) n dry force key
    (max_replacement_attempts (env_settings e)) (v_id v)"
  have nodes: "keeps e (staged d (w_trace w) (t_jobs d @ [?j])) (whenM (\<not> dry)
      (if force then node_force_replacing (n_id n) else node_transition_to (n_id n) REPLACING))"
    unfolding node_force_replacing_def node_transition_to_def by (intro keeps staged_transition)
  show ?thesis
    unfolding start_job_def wp_bind wp_settings_of wp_new_uuid wp_now wp_andthen add_job_def
    apply (rule wp_add_rowI)
     apply (rule wp_mono [OF keeps_wp [OF nodes]])
       apply (simp add: assms staged_def still_def set_jobs_def tbl_add_def)
      apply (rule wp_mono [OF keeps_wp [OF staged_event]], assumption)
       apply (auto simp: assms hoare staged_def still_def)
    done
qed

lemma wp_admit_job:
  assumes "w_ses w = d" and "w_db w = d" and "get_node i d = Some n" and "active_for_node i d = None"
    and "requested key d = None"
  shows "wp (admit_job force key dry n) (\<lambda>k w'. admitted (env_settings e) i force key d k (w_db w') \<and>
      w_trace w' = w_trace w) (\<lambda>_. still d (w_trace w)) e w"
proof -
  have i: "n_id n = i" by (rule tbl_get_key [OF assms(3) [unfolded get_node_def]])
  show ?thesis
  proof (cases "check_trigger_state force n = Inr () \<and> count_active_jobs d < max_concurrent_replacements (env_settings e) \<and>
      current_vps_for_node i d \<noteq> None \<and> active_provider (n_provider_id n) d \<noteq> None")
    case True
    then obtain v p where v: "current_vps_for_node i d = Some v" "active_provider (n_provider_id n) d = Some p" by blast
    have red: "wp (admit_job force key dry n) Q E e w = wp (start_job force key dry n v) Q E e w" for Q E
      using True by (simp add: admit_job_def hoare assms(1) i v)
    show ?thesis unfolding red
      by (rule wp_mono [OF wp_start_job [OF assms(1,2)]]) (use True assms(3-) in \<open>auto intro: admitted_new\<close>)
  next
    case False
    then show ?thesis
      by (cases "check_trigger_state force n"; cases "current_vps_for_node i d";
          cases "active_provider (n_provider_id n) d") (simp_all add: admit_job_def hoare assms(1,2) i still_def not_less)
  qed
qed

lemma wp_trigger_session:
  assumes "undisturbed e"
  shows "wp (trigger_session i force key dry) (\<lambda>k w'. admitted (env_settings e) i force key (w_db w) k (w_db w') \<and>
      w_trace w' = w_trace w) (\<lambda>_. still (w_db w) (w_trace w)) e w"
proof (cases "requested key (w_db w) = None \<and> get_node i (w_db w) \<noteq> None \<and> active_for_node i (w_db w) = None")
  case True
  then obtain n where n: "get_node i (w_db w) = Some n" by blast
  have red: "wp (trigger_session i force key dry) Q E e w = wp (admit_job force key dry n) (\<lambda>a w'. Q a (closed w'))
      (\<lambda>x w'. E x (closed w')) e (opened e w)" for Q E
    using True n by (cases key) (simp_all add: requested_def trigger_session_def hoare undisturbed_opened assms)
  show ?thesis unfolding red
    by (rule wp_mono [OF wp_admit_job [where d = "w_db w" and i = i]])
      (use True in \<open>auto simp: undisturbed_opened assms n closed_def still_def\<close>)
next
  case False
  then consider j where "requested key (w_db w) = Some j"
    | "requested key (w_db w) = None" "get_node i (w_db w) = None"
    | j where "requested key (w_db w) = None"
        "get_node i (w_db w) \<noteq> None" "active_for_node i (w_db w) = Some j"
    by (cases "requested key (w_db w)"; cases "get_node i (w_db w)"; cases "active_for_node i (w_db w)") auto
  then show ?thesis
  proof cases
    case 1
    then show ?thesis
      by (cases key) (simp_all add: requested_def trigger_session_def hoare undisturbed_opened assms closed_def still_def admitted_def)
  next
    case 2
    then show ?thesis
      by (cases key) (simp_all add: requested_def trigger_session_def hoare undisturbed_opened assms closed_def still_def)
  next
    case 3
    then show ?thesis
      by (cases key; cases "get_node i (w_db w)")
        (simp_all add: requested_def trigger_session_def hoare undisturbed_opened assms closed_def still_def admitted_def)
  qed
qed

lemma wp_with_admission_lock:
  "wp (with_admission_lock b) Q E e w = wp (b (env_lock e (w_tick w))) Q E e (w\<lparr>w_tick := Suc (w_tick w)\<rparr>)"
  by (simp add: wp_def with_admission_lock_def)

lemma wp_trigger:
  assumes "undisturbed e"
  shows "wp (trigger i force key) (\<lambda>k w'. admitted (env_settings e) i force key (w_db w) k (w_db w') \<and>
      w_trace w' = w_trace w) (\<lambda>_. still (w_db w) (w_trace w)) e w"
proof -
  have start: "still (w_db w) (w_trace w) w" by (simp add: still_def)
  show ?thesis
    unfolding trigger_def wp_andthen wp_bind wp_guard_raise wp_with_admission_lock
    apply (simp add: start)
    apply (intro impI)
    apply (rule wp_mono [OF keeps_wp [OF still_gates(1) [OF assms] start]])
     apply (rule wp_mono [OF keeps_wp [OF still_gates(3) [OF assms]]], assumption)
      apply (rule wp_mono [OF keeps_wp [OF still_gates(2) [OF assms]]], assumption)
       apply (auto simp: still_def intro!: wp_mono [OF wp_trigger_session [OF assms]])
    done
qed

lemma active_jobs_snoc: "j_active_slot j = Some True \<Longrightarrow> t_jobs d' = t_jobs d @ [j] \<Longrightarrow> count_active_jobs d' = count_active_jobs d + 1"
  by (simp add: count_active_jobs_def active_jobs_def)

lemma active_for_node_in: "active_for_node i d = Some j \<Longrightarrow> j \<in> set (t_jobs d)"
  unfolding active_for_node_def by (auto simp: find_Some_iff)

lemma job_by_request_key_in: "job_by_request_key k d = Some j \<Longrightarrow> j \<in> set (t_jobs d) \<and> j_request_key j = Some k"
  unfolding job_by_request_key_def by (auto simp: find_Some_iff)

text \<open>
  C34. Admission of a replacement: a trigger calls nothing outside, and what it returns is either a job
  the registry already has, which it leaves as it was, or exactly one new job at the first checkpoint for
  this node, which had no active one. The new job is admitted only below the limit on concurrent
  replacements, which the active jobs still respect afterwards, and only for a failed node, or, when
  forced, for one that is neither disabled nor in a workflow. A refusal changes nothing.
\<close>

theorem trigger_admission:
  assumes "undisturbed e" and "trigger i force key e w = (r, w')"
  shows "w_trace w' = w_trace w \<and> (case r of Inl _ \<Rightarrow> w_db w' = w_db w | Inr k \<Rightarrow>
     (w_db w' = w_db w \<and> k \<in> j_id ` set (t_jobs (w_db w))) \<or>
     (\<exists>j n. t_jobs (w_db w') = t_jobs (w_db w) @ [j] \<and> j_id j = k \<and> j_node_id j = i \<and> j_checkpoint j = CREATED \<and>
        j_active_slot j = Some True \<and> active_for_node i (w_db w) = None \<and>
        count_active_jobs (w_db w') \<le> max_concurrent_replacements (env_settings e) \<and>
        get_node i (w_db w) = Some n \<and> (if force then n_state n \<notin> insert DISABLED workflow_states
          else n_state n = NODE_FAILED_STATE)))"
proof (cases r)
  case Inl
  with wpD_Inl [OF wp_trigger [OF assms(1)]] assms(2) show ?thesis by (simp add: still_def)
next
  case (Inr k)
  with wpD_Inr [OF wp_trigger [OF assms(1)]] assms(2)
  have tr: "w_trace w' = w_trace w" and adm: "admitted (env_settings e) i force key (w_db w) k (w_db w')" by auto
  from adm show ?thesis
  proof (cases rule: admitted_cases)
    case (requested j)
    with tr Inr show ?thesis by (cases key) (auto simp: requested_def dest: job_by_request_key_in)
  next
    case (active j)
    with tr Inr show ?thesis by (auto dest: active_for_node_in)
  next
    case (new n old t dry)
    let ?j = "new_job k t n dry force key (max_replacement_attempts (env_settings e)) old"
    have n: "n_id n = i" by (rule tbl_get_key [OF new(4) [unfolded get_node_def]])
    have j: "j_id ?j = k" "j_node_id ?j = i" "j_checkpoint ?j = CREATED" "j_active_slot ?j = Some True"
      by (simp_all add: new_job_def n)
    have "count_active_jobs (w_db w') \<le> max_concurrent_replacements (env_settings e)"
      using active_jobs_snoc [OF j(4) new(6)] new(3) by simp
    moreover have "if force then n_state n \<notin> insert DISABLED workflow_states else n_state n = NODE_FAILED_STATE"
      using new(5) by (simp add: check_trigger_state_def split: if_splits)
    ultimately show ?thesis using tr new(2,4,6) j unfolding Inr sum.case
      by - (intro conjI disjI2 exI; assumption)
  qed
qed


lemma quiet_triggers:
  "fst (trigger 2 False (Some ''request-2'') (sample_env default_settings) (fresh_world quiet_db)) = Inr 101"
  by code_simp

lemma trigger_admission_witness:
  "\<exists>j. t_jobs (w_db (snd (trigger 2 False (Some ''request-2'') (sample_env default_settings) (fresh_world quiet_db)))) = [j] \<and>
     j_id j = 101 \<and> j_checkpoint j = CREATED"
proof -
  obtain w' where run: "trigger 2 False (Some ''request-2'') (sample_env default_settings) (fresh_world quiet_db) = (Inr 101, w')"
    using quiet_triggers by (metis prod.collapse)
  have "t_jobs (w_db (fresh_world quiet_db)) = []" by (simp add: quiet_db_def fresh_world_def)
  with trigger_admission [OF sample_undisturbed run] run show ?thesis by auto
qed


section \<open>Jobs in progress\<close>

text \<open>
  C36. A job another worker holds is left alone: while its lease lasts, \<open>resume\<close> raises
  ReplacementBusyError, or that the system is paused, and changes neither the registry nor anything
  outside.
\<close>

theorem leased_job_left_alone:
  assumes "undisturbed e" and "db_ok (w_db w)" and "job_holder i (w_db w) = Some (holder, until)"
    and "\<And>k. env_clock e k < until" and "\<And>k. holder \<noteq> Some (uuid_hex (env_uuid e k))"
    and "resume i e w = (r, w')"
  shows "w_db w' = w_db w \<and> w_trace w' = w_trace w \<and>
    (\<exists>x. r = Inl x \<and> exn_kind x \<in> {ReplacementBusyError, ReplacementDeferredError})"
proof -
  let ?P = "\<lambda>x w'. still (w_db w) (w_trace w) w' \<and> exn_kind x \<in> {ReplacementBusyError, ReplacementDeferredError}"
  have start: "still (w_db w) (w_trace w) w" by (simp add: still_def)
  have ids: "distinct (map j_id (t_jobs (w_db w)))" using assms(2) by (simp add: db_ok_def jobs_ok_def)
  have taken: "try_acquire_workflow_lease i (uuid_hex (env_uuid e k)) (env_clock e k') u (w_db w) = (False, w_db w)" for k k' u
    by (rule job_lease.blocked [OF ids assms(3,5,4)])
  have paused: "wp assert_not_paused (\<lambda>_ _. True) (\<lambda>x _. exn_kind x = ReplacementDeferredError) e w"
    by (simp add: assert_not_paused_def is_paused_def get_bool_def hoare)
  have "wp (resume i) (\<lambda>_ _. False) ?P e w"
    unfolding resume_def wp_andthen
    apply (rule wp_mono [OF wp_conj [OF keeps_wp [OF still_gates(2) [OF assms(1)] start] paused]])
     apply (simp_all add: hoare Let_def acquire_lease_def undisturbed_opened assms(1) still_def taken closed_def assms(2))
    done
  from wpD_Inl [OF this] wpD_Inr [OF this] assms(6) show ?thesis by (cases r) (auto simp: still_def)
qed

definition held_db :: db where
  "held_db = sample_db\<lparr>t_jobs := [sample_job\<lparr>j_lease_token := Some ''worker-1'', j_lease_until := Some 100\<rparr>]\<rparr>"

lemma leased_job_left_alone_witness:
  "w_db (snd (resume 5 (sample_env default_settings\<lparr>env_clock := \<lambda>_. 50\<rparr>) (fresh_world held_db))) = held_db"
proof -
  let ?e = "sample_env default_settings\<lparr>env_clock := \<lambda>_. 50\<rparr>"
  obtain r w' where run: "resume 5 ?e (fresh_world held_db) = (r, w')" by fastforce
  have "db_ok held_db"
    using sample_db_ok
    by (simp add: held_db_def sample_db_def empty_db_def db_ok_def providers_ok_def nodes_ok_def creds_ok_def
      checks_ok_def vps_ok_def jobs_ok_def deployments_ok_def settings_ok_def sample_job_def new_job_def job_checks_def
      unique_on_def)
  moreover have "job_holder 5 held_db = Some (Some ''worker-1'', 100)"
    by (simp add: held_db_def job_holder_def get_job_def table_simps sample_job_def new_job_def)
  moreover have "Some ''worker-1'' \<noteq> Some (uuid_hex u)" for u
    using uuid_hex_length [of u] by (auto dest: arg_cong [of _ _ length])
  ultimately show ?thesis
    using leased_job_left_alone [OF _ _ _ _ _ run, of "Some ''worker-1''" 100] run
    by (simp add: undisturbed_def sample_env_def fresh_world_def)
qed

lemma staged_restore: "keeps e (staged d tr js) (restore_node n j)"
  unfolding restore_node_def node_restore_def node_transition_to_def by (intro keeps staged_transition)

lemma cancel_step: "\<not> terminal (j_checkpoint j) \<Longrightarrow> repl_step t CANCELLED j = Inr (enter_checkpoint CANCELLED t j)"
  by (auto simp: repl_step_def repl_transition_def Let_def repl_allowed_def stamp_or_def terminal_def)

lemma get_job_upd:
  assumes "t_jobs d' = tbl_upd j_id i (\<lambda>_. j') (t_jobs d)" and "get_job i d = Some j" and "j_id j' = j_id j"
  shows "get_job k d' = (if k = i then Some j' else get_job k d)"
proof -
  have i: "j_id j' = i" using assms(3) tbl_get_key [OF assms(2) [unfolded get_job_def]] by simp
  show ?thesis using assms(2) i
    by (cases "k = i") (simp_all add: get_job_def assms(1) tbl_get_upd_same tbl_get_upd_other)
qed

lemma wp_cancel:
  assumes "undisturbed e" and "get_job i (w_db w) = Some j"
  shows "wp (cancel i) (\<lambda>_ w'. w_trace w' = w_trace w \<and> (if terminal (j_checkpoint j) then w_db w' = w_db w else
      j_master_updated_at j = None \<and>
      (\<exists>t. t_jobs (w_db w') = tbl_upd j_id i (\<lambda>_. enter_checkpoint CANCELLED t j) (t_jobs (w_db w)))))
    (\<lambda>x w'. still (w_db w) (w_trace w) w' \<and> \<not> terminal (j_checkpoint j) \<and>
      (j_master_updated_at j \<noteq> None \<longrightarrow> exn_kind x = SafetyViolationError)) e w"
proof (cases "terminal (j_checkpoint j) \<or> j_master_updated_at j \<noteq> None")
  case True
  then show ?thesis
    by (auto simp: cancel_def hoare undisturbed_opened assms require_job_def closed_def still_def)
next
  case False
  let ?j = "enter_checkpoint CANCELLED (env_clock e (w_tick w)) j"
  let ?js = "tbl_upd j_id i (\<lambda>_. ?j) (t_jobs (w_db w))"
  let ?v = "(opened e w)\<lparr>w_tick := Suc (w_tick w), w_ses := set_jobs (tbl_upd j_id i (\<lambda>_. ?j)) (w_db w)\<rparr>"
  define restore where "restore = (\<lambda>o1. case o1 of None \<Rightarrow> ret ()
      | Some node \<Rightarrow> whenM (\<not> j_is_dry_run j) (restore_node node j))"
  have kept: "keeps e (staged (w_db w) (w_trace w) ?js) (restore o1)" for o1
    unfolding restore_def by (intro keeps staged_restore)
  have start: "staged (w_db w) (w_trace w) ?js ?v"
    by (simp add: staged_def still_def undisturbed_opened assms(1) set_jobs_def)
  have red: "wp (cancel i) Q E e w = wp (restore (get_node (j_node_id j) (w_ses ?v)))
      (\<lambda>_. wp commit (\<lambda>a w'. Q a (closed w')) (\<lambda>x w'. E x (closed w')) e) (\<lambda>x w'. E x (closed w')) e ?v" for Q E
    using False unfolding restore_def
    by (simp add: cancel_def hoare undisturbed_opened assms require_job_def job_transition_def cancel_step upd_job_def)
  show ?thesis unfolding red
    by (rule wp_mono [OF keeps_wp [OF kept start]])
      (use False in \<open>auto simp: hoare staged_def still_def closed_def\<close>)
qed

text \<open>
  C37. Cancelling: a job that has ended stays as it is; one whose Master node was already switched is
  refused with SafetyViolationError; any other job is CANCELLED and no longer active. However it ends,
  every other job stays, nothing outside is called, and an error changes nothing.
\<close>

theorem cancel_respects_master_switch:
  assumes "undisturbed e" and "get_job i (w_db w) = Some j" and "cancel i e w = (r, w')"
  shows "w_trace w' = w_trace w \<and> (\<forall>k. k \<noteq> i \<longrightarrow> get_job k (w_db w') = get_job k (w_db w)) \<and>
    (case r of Inl x \<Rightarrow> w_db w' = w_db w | Inr _ \<Rightarrow> \<exists>j'. get_job i (w_db w') = Some j' \<and> terminal (j_checkpoint j')) \<and>
    (terminal (j_checkpoint j) \<longrightarrow> r = Inr () \<and> w_db w' = w_db w) \<and>
    (\<not> terminal (j_checkpoint j) \<and> j_master_updated_at j \<noteq> None \<longrightarrow>
       (\<exists>m. r = Inl (Exn SafetyViolationError m)) \<and> w_db w' = w_db w) \<and>
    (\<not> terminal (j_checkpoint j) \<and> r = Inr () \<longrightarrow> (\<exists>t. get_job i (w_db w') = Some (enter_checkpoint CANCELLED t j)))"
proof (cases r)
  case (Inl x)
  with wpD_Inl [OF wp_cancel [OF assms(1,2)]] assms(3) show ?thesis by (cases x) (auto simp: still_def)
next
  case (Inr u)
  have tr: "w_trace w' = w_trace w" and out: "if terminal (j_checkpoint j) then w_db w' = w_db w else
      j_master_updated_at j = None \<and>
      (\<exists>t. t_jobs (w_db w') = tbl_upd j_id i (\<lambda>_. enter_checkpoint CANCELLED t j) (t_jobs (w_db w)))"
    using wpD_Inr [OF wp_cancel [OF assms(1,2)]] assms(3) Inr by auto
  show ?thesis
  proof (cases "terminal (j_checkpoint j)")
    case True
    with tr out Inr assms(2) show ?thesis by simp
  next
    case False
    then obtain t where "t_jobs (w_db w') = tbl_upd j_id i (\<lambda>_. enter_checkpoint CANCELLED t j) (t_jobs (w_db w))"
      using out by auto
    from get_job_upd [OF this assms(2)] have "get_job k (w_db w') = (if k = i then Some (enter_checkpoint CANCELLED t j)
        else get_job k (w_db w))" for k by simp
    moreover have "terminal CANCELLED" by (simp add: terminal_def)
    ultimately show ?thesis using tr out Inr False by (simp; blast)
  qed
qed

definition switched_db :: db where
  "switched_db = sample_db\<lparr>t_jobs := [sample_job\<lparr>j_checkpoint := MASTER_UPDATED, j_master_updated_at := Some 7\<rparr>]\<rparr>"

lemma cancel_respects_master_switch_witness:
  "(\<exists>m. fst (cancel 5 (sample_env default_settings) (fresh_world switched_db)) = Inl (Exn SafetyViolationError m)) \<and>
   (\<exists>t. get_job 5 (w_db (snd (cancel 5 (sample_env default_settings) (fresh_world sample_db)))) =
      Some (enter_checkpoint CANCELLED t sample_job))"
proof
  obtain r w' where a: "cancel 5 (sample_env default_settings) (fresh_world switched_db) = (r, w')" by fastforce
  have "get_job 5 (w_db (fresh_world switched_db)) =
      Some (sample_job\<lparr>j_checkpoint := MASTER_UPDATED, j_master_updated_at := Some 7\<rparr>)"
    by (simp add: switched_db_def fresh_world_def get_job_def table_simps sample_job_def new_job_def)
  from cancel_respects_master_switch [OF sample_undisturbed this a] a
  show "\<exists>m. fst (cancel 5 (sample_env default_settings) (fresh_world switched_db)) = Inl (Exn SafetyViolationError m)"
    by (simp add: terminal_def)
  obtain r w' where b: "cancel 5 (sample_env default_settings) (fresh_world sample_db) = (r, w')" by fastforce
  have fin: "fst (cancel 5 (sample_env default_settings) (fresh_world sample_db)) = Inr ()" by code_simp
  have "get_job 5 (w_db (fresh_world sample_db)) = Some sample_job" "\<not> terminal (j_checkpoint sample_job)"
    by (simp_all add: sample_db_def fresh_world_def get_job_def table_simps sample_job_def new_job_def terminal_def)
  with cancel_respects_master_switch [OF sample_undisturbed _ b] b fin
  show "\<exists>t. get_job 5 (w_db (snd (cancel 5 (sample_env default_settings) (fresh_world sample_db)))) =
      Some (enter_checkpoint CANCELLED t sample_job)" by simp
qed

section \<open>Operation modes\<close>


lemma get_node_events: "get_node i (set_events f d) = get_node i d"
  by (simp add: get_node_def set_events_def)








end
