(* ===== verification/Diagnostics.thy ===== *)
theory Diagnostics
  imports Discovery CheckHost
begin

text \<open>
  \<open>app/diagnostics/service.py\<close>: read-only checks of what the program depends on. Each check is timed and
  isolated: what it raises becomes its result. The checks of a report are run one after another, where
  the program starts them together; they only read. A check that takes longer than the limit is run to
  its end here and its outcome dropped, where \<open>wait_for\<close> cancels it.
\<close>

datatype health_status = HEALTH_HEALTHY | HEALTH_DEGRADED | HEALTH_FAILED | HEALTH_NOT_CONFIGURED

record health_item =
  hi_key :: string
  hi_label :: string
  hi_category :: string
  hi_status :: health_status
  hi_latency_ms :: "int option"
  hi_detail :: string

definition status_count :: "health_status \<Rightarrow> health_item list \<Rightarrow> nat" where
  "status_count s xs = length (filter (\<lambda>x. hi_status x = s) xs)"

section \<open>One check\<close>

definition not_configured :: "string \<Rightarrow> string \<Rightarrow> string \<Rightarrow> string \<Rightarrow> health_item" where
  "not_configured key label category detail =
     \<lparr>hi_key = key, hi_label = label, hi_category = category, hi_status = HEALTH_NOT_CONFIGURED,
      hi_latency_ms = None, hi_detail = detail\<rparr>"

definition safe_error :: "exn \<Rightarrow> string" where
  "safe_error x =
     (let message = join_with '' '' (words (exn_msg x)); type = class_name (exn_kind x) in
      take 220 (type @ '': '' @ (if message = [] then type else message)))"

definition elapsed_ms :: "real \<Rightarrow> real \<Rightarrow> int" where
  "elapsed_ms started t = max 0 \<lfloor>(t - started) * 1000\<rfloor>"

text \<open>What an action comes to, as a value.\<close>

definition attempt :: "'a act \<Rightarrow> (exn + 'a) act" where
  "attempt m e w = (case m e w of (r, w') \<Rightarrow> (Inr r, w'))"

definition with_timeout :: "'a act \<Rightarrow> 'a act" where
  "with_timeout m =
     bind settings_of (\<lambda>s.
     bind mono (\<lambda>t0. bind (attempt m) (\<lambda>r. bind mono (\<lambda>t1.
       if api_health_timeout_seconds s < t1 - t0 then raise TimeoutError [] else lift r))))"

text \<open>\<open>show\<close> is the format \<open>g\<close> of a number.\<close>

definition timed :: "(real \<Rightarrow> string) \<Rightarrow> string \<Rightarrow> string \<Rightarrow> string \<Rightarrow> string act \<Rightarrow> health_item act" where
  "timed show_g key label category probe =
     bind settings_of (\<lambda>s.
     bind mono (\<lambda>started.
     bind (attempt (with_timeout probe)) (\<lambda>r.
     bind mono (\<lambda>t. ret
       (let item = \<lparr>hi_key = key, hi_label = label, hi_category = category, hi_status = HEALTH_FAILED,
              hi_latency_ms = Some (elapsed_ms started t), hi_detail = []\<rparr> in
        case r of
          Inr detail \<Rightarrow> item\<lparr>hi_status := HEALTH_HEALTHY, hi_detail := detail\<rparr>
        | Inl x \<Rightarrow> (if catches [TimeoutError] x
            then item\<lparr>hi_detail := ''timeout after '' @ show_g (api_health_timeout_seconds s) @ ''s''\<rparr>
            else item\<lparr>hi_detail := safe_error x\<rparr>))))))"

section \<open>The core services\<close>

text \<open>\<open>SELECT 1\<close>.\<close>

definition select_one :: "int act" where
  "select_one = session (query (\<lambda>_. 1))"

definition check_database :: "(real \<Rightarrow> string) \<Rightarrow> health_item act" where
  "check_database show_g =
     timed show_g ''database'' ''PostgreSQL'' ''core''
       (bind select_one (\<lambda>v.
        andthen (guard_raise (v \<noteq> 1) RuntimeError ''database health query returned an unexpected value'')
          (ret ''connected; SELECT 1 succeeded'')))"

definition check_check_host :: "(real \<Rightarrow> string) \<Rightarrow> health_item act" where
  "check_check_host show_g =
     timed show_g ''check-host'' ''Check-Host'' ''core''
       (bind settings_of (\<lambda>s.
        bind (resolve_nodes (check_host_nodes s) (Some (check_host_country_code s)) (check_host_max_nodes s) []) (\<lambda>nodes.
          ret (''API reachable; '' @ show_nat (length nodes) @ '' node(s) available for '' @
            map to_upper (check_host_country_code s) @ '' checks''))))"

definition connection_route :: "string act" where
  "connection_route =
     bind master_conf_of (\<lambda>c. bind get_master (\<lambda>m. ret (mr_label (route_at c (ms_active_route m)))))"

definition check_master :: "(real \<Rightarrow> string) \<Rightarrow> health_item act" where
  "check_master show_g =
     bind settings_of (\<lambda>s.
     if \<not> truthy_text (master_3xui_base_url s) then
       ret (not_configured ''master-3xui'' ''3X-UI Master'' ''core'' ''Master API is not configured'')
     else timed show_g ''master-3xui'' ''3X-UI Master'' ''core''
       (with_master_client (bind master_list_nodes (\<lambda>nodes. bind connection_route (\<lambda>route.
          ret (''authenticated via '' @ route @ ''; '' @ show_nat (length nodes) @ '' Master node(s) visible''))))))"

definition get_me :: "string \<Rightarrow> json act" where
  "get_me token =
     bind (http \<lparr>hr_method = ''GET'', hr_url = ''https://api.telegram.org/bot'' @ token @ ''/getMe'',
       hr_params = [], hr_headers = [], hr_body = None\<rparr>) (\<lambda>out.
     case out of
       HttpResp n (JsonBody v) \<Rightarrow>
         (if n < 200 \<or> 300 \<le> n then raise RuntimeError ''Telegram Bot API getMe request failed'' else ret v)
     | _ \<Rightarrow> raise RuntimeError ''Telegram Bot API getMe request failed'')"

definition telegram_name :: "json \<Rightarrow> string act" where
  "telegram_name payload =
     (case payload of
        JObj fs \<Rightarrow>
          (if jget fs ''ok'' \<noteq> JBool True then raise RuntimeError ''Telegram getMe did not return ok=true''
           else
             (let username = (case jget fs ''result'' of JObj rs \<Rightarrow> jget rs ''username'' | _ \<Rightarrow> JNull) in
              bind (ask_env env_repr) (\<lambda>repr. ret
                (if truthy username then ''authenticated as @'' @ py_str repr username
                 else ''bot token authenticated''))))
      | _ \<Rightarrow> raise RuntimeError ''Telegram getMe did not return ok=true'')"

definition check_telegram :: "(real \<Rightarrow> string) \<Rightarrow> health_item act" where
  "check_telegram show_g =
     bind settings_of (\<lambda>s. case telegram_bot_token s of
       None \<Rightarrow> ret (not_configured ''telegram'' ''Telegram Bot API'' ''core'' ''bot token is not configured'')
     | Some token \<Rightarrow> timed show_g ''telegram'' ''Telegram Bot API'' ''core'' (bind (get_me token) telegram_name))"

definition check_core :: "(real \<Rightarrow> string) \<Rightarrow> health_item list act" where
  "check_core show_g =
     bind (check_database show_g) (\<lambda>a. bind (check_check_host show_g) (\<lambda>b.
     bind (check_master show_g) (\<lambda>c. bind (check_telegram show_g) (\<lambda>d. ret [a, b, c, d]))))"

section \<open>Providers\<close>

definition check_provider :: "(real \<Rightarrow> string) \<Rightarrow> provider_row \<Rightarrow> health_item act" where
  "check_provider show_g p =
     timed show_g (''provider:'' @ uuid_str (p_id p))
       (p_display_name p @ '' ('' @ provider_type_value (p_type p) @ '')'') ''provider''
       (bind (resolve_secret (p_credential_backend p) (p_credential_ref p)) (\<lambda>credential.
        bind (read_only_adapter (p_type p) credential) (\<lambda>a.
        andthen (probe_access a)
          (ret (''authenticated; read access works; '' @
            (if p_is_active p then ''active'' else ''disabled in ASO''))))))"

definition check_providers :: "(real \<Rightarrow> string) \<Rightarrow> health_item list act" where
  "check_providers show_g =
     bind (session (query list_providers)) (\<lambda>ps.
     if ps = [] then ret [not_configured ''providers'' ''Providers'' ''provider'' ''no providers are registered'']
     else mapM (check_provider show_g) ps)"

section \<open>Nodes\<close>

definition node_item :: "node_row \<Rightarrow> string \<Rightarrow> health_item" where
  "node_item n detail =
     \<lparr>hi_key = ''node:'' @ uuid_str (n_id n), hi_label = ''Node '' @ n_name n, hi_category = ''node'',
      hi_status = HEALTH_FAILED, hi_latency_ms = None, hi_detail = detail\<rparr>"

text \<open>\<open>payload.get("version") or payload.get("xrayVersion")\<close>.\<close>

definition node_version :: "(string \<times> json) list \<Rightarrow> json" where
  "node_version fs =
     (if truthy (jget fs ''version'') then jget fs ''version'' else jget fs ''xrayVersion'')"

definition probe_node :: "secret_backend \<Rightarrow> string \<Rightarrow> master_node \<Rightarrow> string act" where
  "probe_node backend reference m =
     bind (resolve_secret backend reference) (\<lambda>token.
     bind (verify_access_url (node_access_url m) token) (\<lambda>fs.
     bind (ask_env env_repr) (\<lambda>repr. ret
       (''authenticated; Xray running'' @
        (if truthy (node_version fs) then ''; version='' @ py_str repr (node_version fs) else [])))))"

definition check_node ::
    "(real \<Rightarrow> string) \<Rightarrow> exn option \<Rightarrow> (int \<times> master_node) list \<Rightarrow> node_row \<times> cred_row option \<Rightarrow> health_item act" where
  "check_node show_g master_error masters = (\<lambda>(n, c).
     case (c, Option.bind c cr_api_token_backend) of
       (Some r, Some backend) \<Rightarrow>
         (if \<not> truthy_text (cr_api_token_ref r) then
            ret ((node_item n ''node API token is not configured'')\<lparr>hi_status := HEALTH_NOT_CONFIGURED\<rparr>)
          else (case int_of (JStr (n_master_node_id n)) of
              Inl x \<Rightarrow> ret (node_item n ''Master node ID is invalid'')
            | Inr master_id \<Rightarrow> (case map_of masters master_id of
                  None \<Rightarrow> ret (node_item n (''Master node endpoint could not be resolved'' @
                    (case master_error of None \<Rightarrow> [] | Some x \<Rightarrow> '': '' @ safe_error x)))
                | Some m \<Rightarrow> timed show_g (''node:'' @ uuid_str (n_id n)) (''Node '' @ n_name n) ''node''
                    (probe_node backend (text_of (cr_api_token_ref r)) m))))
     | _ \<Rightarrow> ret ((node_item n ''node API token is not configured'')\<lparr>hi_status := HEALTH_NOT_CONFIGURED\<rparr>))"

text \<open>
  The nodes the panel lists, by identifier, or why there are none. The client is made outside the
  \<open>try\<close>: what the factory raises goes out of the check.
\<close>

definition listed_masters :: "(exn option \<times> (int \<times> master_node) list) act" where
  "listed_masters =
     bind settings_of (\<lambda>s.
     if truthy_text (master_3xui_base_url s) then
       with_master_client (catch_all
         (bind (with_timeout master_list_nodes) (\<lambda>ns. ret (None, map (\<lambda>m. (mn_id m, m)) (rev ns))))
         (\<lambda>x. ret (Some x, [])))
     else ret (Some (Exn RuntimeError ''Master API is not configured''), []))"

definition load_nodes :: "(node_row \<times> cred_row option) list act" where
  "load_nodes =
     session (query (\<lambda>d. map (\<lambda>n. (n, cred_for_node (n_id n) d)) (sort_key n_name (t_nodes d))))"

definition check_nodes :: "(real \<Rightarrow> string) \<Rightarrow> health_item list act" where
  "check_nodes show_g =
     bind load_nodes (\<lambda>nodes.
     if nodes = [] then ret [not_configured ''nodes'' ''Node APIs'' ''node'' ''no nodes are registered'']
     else bind listed_masters (\<lambda>(master_error, masters). mapM (check_node show_g master_error masters) nodes))"

definition check_all :: "(real \<Rightarrow> string) \<Rightarrow> health_item list act" where
  "check_all show_g =
     bind (check_core show_g) (\<lambda>core. bind (check_providers show_g) (\<lambda>providers.
     bind (check_nodes show_g) (\<lambda>nodes. ret (core @ providers @ nodes))))"

end
