(* ===== verification/Frames.thy ===== *)
theory Frames
  imports JobInv Management Control HostKeys Diagnostics
begin

text \<open>
  What the operations of the registry, of the control service and of the diagnostics leave alone: the
  replacement jobs, and everything outside the process. \<open>observes\<close> says which calls only look: reading
  requests, the login of the panel, the probe of a node by the panel, the readiness command over SSH and
  a TCP connection. The locale \<open>bystander\<close> is the interface of an invariant such operations keep, and
  \<open>jobs_kept\<close> is the invariant the properties use.
\<close>

section \<open>Calls that only look\<close>

definition ends_with :: "string \<Rightarrow> string \<Rightarrow> bool" where
  "ends_with p s \<longleftrightarrow> length p \<le> length s \<and> drop (length s - length p) s = p"

lemma ends_with_append [simp]: "ends_with p (u @ p)"
  by (simp add: ends_with_def)

lemma find_text_starts: "starts_with p s \<Longrightarrow> find_text p s"
  by (cases s) (simp_all add: starts_with_def)

lemma find_text_append [simp]: "find_text p (u @ p @ s)"
proof (induction u)
  case Nil
  show ?case by (simp add: find_text_starts starts_with_def)
qed simp

definition probe_path :: string where
  "probe_path = ''/panel/api/nodes/probe/''"

definition observing_post :: "string \<Rightarrow> bool" where
  "observing_post url \<longleftrightarrow> ends_with ''/login'' url \<or> find_text probe_path url"

definition observes :: "ext \<Rightarrow> bool" where
  "observes x \<longleftrightarrow> (case x of
       ExtHttp r \<Rightarrow> hr_method r = ''GET'' \<or> (hr_method r = ''POST'' \<and> observing_post (hr_url r))
     | ExtSsh t c \<Rightarrow> c = ''printf ASO_SSH_READY''
     | ExtTcp h p \<Rightarrow> True)"

lemma observes_simps [simp]:
  "observes (ExtHttp r) \<longleftrightarrow> hr_method r = ''GET'' \<or> (hr_method r = ''POST'' \<and> observing_post (hr_url r))"
  "observes (ExtSsh t c) \<longleftrightarrow> c = ''printf ASO_SSH_READY''" "observes (ExtTcp h p)"
  by (simp_all add: observes_def)

lemma observes_no_delete: "observes x \<Longrightarrow> \<not> is_delete x"
  by (cases x) (auto simp: is_delete_def)

lemma looks_get: "calls_only get_call m \<Longrightarrow> calls_only observes m"
  by (erule calls_only_mono) (auto simp: get_call_def split: ext.splits)

lemma looks_route:
  "verb = ''GET'' \<or> (verb = ''POST'' \<and> (\<forall>u. observing_post (u @ path))) \<Longrightarrow>
   calls_only observes (request_route r verb path body h)"
  unfolding request_route_def by (rule calls_only_bind, rule calls_only_http) (auto intro!: keeps split: http_outcome.splits)

lemma looks_local [keeps]: "calls_only observes (verify_local_route r h)"
  unfolding verify_local_route_def by (intro keeps looks_route) (auto intro!: keeps split: json.splits)

lemma looks_raw:
  "verb = ''GET'' \<or> (verb = ''POST'' \<and> (\<forall>u. observing_post (u @ path))) \<Longrightarrow>
   calls_only observes (raw_request verb path body a)"
  unfolding raw_request_def select_auto_route_def fallback_request_def probe_tcp_route_def
  by (auto simp: Let_def intro!: keeps looks_route)

lemma login_observes: "observing_post (u @ ''/login'')"
  by (simp only: observing_post_def ends_with_append simp_thms)

lemma looks_login [keeps]: "calls_only observes authenticate"
  unfolding authenticate_def
  by (auto simp del: append_Cons intro!: keeps looks_raw login_observes split: option.splits json.splits)

lemma looks_obj:
  "verb = ''GET'' \<or> (verb = ''POST'' \<and> (\<forall>u. observing_post (u @ path))) \<Longrightarrow>
   calls_only observes (request_obj verb path body)"
  unfolding request_obj_def by (auto intro!: keeps looks_raw split: option.splits json.splits)

lemma probe_observes: "observing_post (u @ ''/panel/api/nodes/probe/'' @ s)"
  unfolding observing_post_def probe_path_def [symmetric] by (simp only: find_text_append simp_thms)

lemma looks_master [keeps]:
  "calls_only observes master_list_nodes" "calls_only observes (master_get_node i)"
  "calls_only observes (master_probe_node i)" "calls_only observes connection_route"
proof -
  have post: "calls_only observes (request_obj ''POST'' (''/panel/api/nodes/probe/'' @ show_int i) None)"
    by (rule looks_obj) (intro disjI2 conjI refl allI probe_observes)
  show "calls_only observes (master_probe_node i)"
    unfolding master_probe_node_def by (rule calls_only_bind [OF post]) (rule keeps)
  show "calls_only observes master_list_nodes" "calls_only observes (master_get_node i)"
    "calls_only observes connection_route"
    unfolding master_list_nodes_def master_get_node_def connection_route_def
    by (auto intro!: keeps looks_obj split: json.splits)
qed

lemma looks_own [keeps]: "calls_only R m \<Longrightarrow> calls_only R (own_master m)"
proof (unfold calls_only_def, intro allI)
  fix e d s ad tr
  assume "\<forall>e d s ad tr. keeps e (net d s ad R tr) m"
  then have m: "keeps e (net d s ad R tr) m" by (elim allE)
  show "keeps e (net d s ad R tr) (own_master m)"
  proof (unfold keeps_def, intro allI impI)
    fix w assume "net d s ad R tr w"
    define w0 where "w0 = w\<lparr>w_master := \<lparr>ms_active_route = 0, ms_route_selected = False,
         ms_local_verified = False, ms_authenticated = False\<rparr>\<rparr>"
    have "net d s ad R tr w0" using \<open>net d s ad R tr w\<close> by (simp add: net_def w0_def)
    from keepsD [OF m this] have n: "net d s ad R tr (snd (m e w0))" .
    have "snd (own_master m e w) = (snd (m e w0))\<lparr>w_master := w_master w\<rparr>"
      by (simp add: own_master_def w0_def split: prod.splits)
    with n show "net d s ad R tr (snd (own_master m e w))" by (simp add: net_def)
  qed
qed

lemma looks_client [keeps]: "calls_only R m \<Longrightarrow> calls_only R (with_master_client m)"
  by (simp add: with_master_client_def keeps)

lemma looks_provider [keeps]:
  "calls_only observes (probe_access a)" "calls_only observes (get_server a i)"
  by (cases a; auto simp: hetzner_probe_access_def linode_probe_access_def hetzner_get_server_def
      linode_get_server_def dry_get_server_def hetzner_request_def linode_request_def Let_def intro!: keeps)+

lemma looks_adapter [keeps]:
  "calls_only R (read_only_adapter pt token)" "calls_only observes (validate_provider_secret pt token)"
  by (simp_all add: validate_provider_secret_def read_only_adapter_def keeps)

lemma looks_url [keeps]: "calls_only observes (verify_access_url u token)"
  unfolding verify_access_url_def
  by (rule calls_only_bind, rule calls_only_http)
    (auto intro!: keeps split: http_outcome.splits http_body.splits)

lemma looks_ssh [keeps]:
  "calls_only observes (ssh_says_ready t)" "calls_only R (ssh_login_target h u p a s)"
  "calls_only observes (verify_ssh h u p a s)"
  by (simp_all add: verify_ssh_def ssh_says_ready_def ssh_login_target_def keeps)

lemma looks_discovery [keeps]: "calls_only observes (discover_existing_node p sid m token o1)"
  unfolding discover_existing_node_def read_server_def check_node_token_def
  by (auto simp: Let_def intro!: keeps split: option.splits prod.splits)

lemma keeps_attempt [keeps]: "keeps e I m \<Longrightarrow> keeps e I (attempt m)"
  by (auto simp: keeps_def attempt_def split: prod.splits)

lemma looks_attempt [keeps]: "calls_only R m \<Longrightarrow> calls_only R (attempt m)"
  by (simp add: calls_only_def keeps_attempt)

section \<open>Operations that leave the jobs alone\<close>

locale bystander = world_inv +
  assumes process: "\<And>w w'. I w \<Longrightarrow> w_db w' = w_db w \<Longrightarrow> w_ses w' = w_ses w \<Longrightarrow> w_trace w' = w_trace w \<Longrightarrow> I w'"
    and calls: "\<And>w x. I w \<Longrightarrow> observes x \<Longrightarrow> I (w\<lparr>w_trace := (w_db w, x) # w_trace w\<rparr>)"
    and rows: "\<And>w d. I w \<Longrightarrow> t_jobs d = t_jobs (w_ses w) \<Longrightarrow> I (w\<lparr>w_ses := d\<rparr>)"
begin

lemma keeps_look:
  assumes "calls_only observes m"
  shows "keeps e I m"
proof (unfold keeps_def, intro allI impI)
  fix w assume w: "I w"
  obtain new where new: "w_trace (snd (m e w)) = new @ w_trace w"
    "\<forall>x \<in> set new. fst x = w_db w \<and> observes (snd x)"
    using calls_only_trace(4) [OF assms, of e w] by blast
  have "(\<forall>x \<in> set new. fst x = w_db w \<and> observes (snd x)) \<Longrightarrow> I (w\<lparr>w_trace := new @ w_trace w\<rparr>)" for new
  proof (induction new)
    case Nil
    show ?case using process [OF w, of "w\<lparr>w_trace := w_trace w\<rparr>"] by simp
  next
    case (Cons x new)
    then have "I (w\<lparr>w_trace := new @ w_trace w\<rparr>)" by simp
    from calls [OF this, of "snd x"] Cons.prems show ?case by (cases x) simp
  qed
  from this [OF new(2)] show "I (snd (m e w))"
    by (rule process) (simp_all add: new(1) calls_only_trace(1,2) [OF assms, of e w])
qed

lemma keeps_rows: "(\<And>d. t_jobs (f d) = t_jobs d) \<Longrightarrow> keeps e I (mod_ses f)"
  by (simp add: keeps_def mod_ses_def rows)

lemma keeps_upd [keeps]:
  "keeps e I (upd_node i fn)" "keeps e I (upd_cred i fc)" "keeps e I (upd_vps i fv)" "keeps e I (upd_provider i fp)"
  unfolding upd_node_def upd_cred_def upd_vps_def upd_provider_def
  by (rule keeps_rows, simp add: set_nodes_def set_creds_def set_vps_def set_providers_def)+

lemma keeps_add [keeps]:
  "keeps e I (add_vps v)" "keeps e I (add_check c)" "keeps e I (add_node n)" "keeps e I (add_cred r)"
  "keeps e I (add_provider p)" "keeps e I (add_event_row x)" "keeps e I (set_value k j desc)"
  unfolding add_vps_def add_check_def add_node_def add_cred_def add_provider_def add_event_row_def set_value_def
    add_row_def
  by (intro keeps keeps_rows; simp add: set_vps_def set_checks_def set_nodes_def set_creds_def set_providers_def
      set_events_def put_setting_def set_settings_def split: option.split)+

lemma keeps_node_transition [keeps]: "keeps e I (node_transition_to i target)"
  unfolding node_transition_to_def transition_row_def by (intro keeps)

lemma keeps_files [keeps]: "keeps e I (get_file p)" "keeps e I (put_file p c)" "keeps e I (del_file p)"
  by (rule keeps_look, intro keeps)+

lemma keeps_secrets [keeps]:
  "keeps e I (write_secret scope name text)" "keeps e I (delete_reference r)" "keeps e I (stage_secret scope name v)"
  "keeps e I (discard_staged_secret r)" "keeps e I (discard_old_secret bk r k)"
  unfolding stage_secret_def discard_staged_secret_def discard_old_secret_def
  by (intro keeps | rule keeps_look, intro keeps | unfold delete_reference_def)+

text \<open>The operational settings and the operations of the control service.\<close>

lemma keeps_switches [keeps]:
  "keeps e I (get_bool k b)" "keeps e I is_paused" "keeps e I runtime_execution_mode" "keeps e I runtime_snapshot"
  "keeps e I (set_paused p a)" "keeps e I (set_runtime_value k j d a msg)" "keeps e I (set_monitoring_enabled b a)"
  "keeps e I (set_replacement_enabled b a)" "keeps e I (set_execution_mode m a)"
  "keeps e I get_event_cursor" "keeps e I (set_event_cursor t i)"
  unfolding set_monitoring_enabled_def set_replacement_enabled_def set_execution_mode_def set_runtime_value_def
    set_paused_def runtime_snapshot_def monitoring_enabled_def replacement_enabled_def is_paused_def
    runtime_execution_mode_def get_bool_def get_event_cursor_def set_event_cursor_def
  by (intro keeps)+

lemma keeps_reads [keeps]:
  "keeps e I dashboard" "keeps e I (control_list_nodes n)" "keeps e I (control_resolve_node t)"
  "keeps e I (get_job_snapshot i)" "keeps e I (list_jobs n)" "keeps e I control_list_providers"
  "keeps e I (control_list_events n)" "keeps e I settings_snapshot" "keeps e I runtime_controls"
  "keeps e I (event_notification_context x)"
  unfolding dashboard_def control_list_nodes_def control_resolve_node_def get_job_snapshot_def list_jobs_def
    control_list_providers_def control_list_events_def settings_snapshot_def runtime_controls_def Let_def
    event_notification_context_def
  by (intro keeps)+

lemma keeps_check [keeps]: "keeps e I (run_node i ns)"
proof -
  have look: "keeps e I (resolve_nodes c k n x)" "keeps e I (create_tcp_check h p ks)" "keeps e I (poll_result rq)" for c k n x h p ks rq
    by (rule keeps_look, rule looks_get, rule keeps)+
  have lease: "keeps e I (acquire_monitoring_lease i tok t u)" for tok t u
    by (auto simp: keeps_def acquire_monitoring_lease_def try_acquire_monitoring_lease_def set_nodes_def
        split: prod.splits intro!: rows)
  have release: "keeps e I (mod_ses (release_monitoring_lease i tok))" for tok
    by (rule keeps_rows) (simp add: release_monitoring_lease_def set_nodes_def)
  have chosen: "keeps e I (case ns of Some (n # ns) \<Rightarrow> ret (n # ns) | _ \<Rightarrow> resolve_check_nodes)"
    unfolding resolve_check_nodes_def by (intro keeps look) (auto intro!: keeps look split: option.splits list.splits)
  show ?thesis
    unfolding run_node_def paused_by_operator_def check_and_persist_def persist_check_def persist_adapter_error_def Let_def
    by (intro keeps look lease release chosen)
qed

lemma keeps_actions [keeps]:
  "keeps e I (manual_check i a)" "keeps e I (set_provider_active i b a)" "keeps e I (set_runtime_monitoring b a)"
  "keeps e I (set_runtime_replacement b a)" "keeps e I (set_runtime_execution_mode m a)"
  "keeps e I (control_set_paused b a)" "keeps e I (set_node_operation_mode i om a)"
  unfolding manual_check_def audit_def set_provider_active_def set_runtime_monitoring_def set_runtime_replacement_def
    set_runtime_execution_mode_def control_set_paused_def set_node_operation_mode_def
  by (intro keeps)+

text \<open>The registry.\<close>

lemma keeps_registration [keeps]:
  "keeps e I (register_provider pf)" "keeps e I (register_node nf)" "keeps e I (validate_and_register_provider pf)"
  unfolding register_provider_def register_node_def validate_and_register_provider_def insert_registration_def
    refresh_registration_def Let_def
  by (intro keeps | rule keeps_look, intro keeps)+

lemma keeps_managed [keeps]:
  "keeps e I managed_providers" "keeps e I (managed_provider i)" "keeps e I managed_nodes" "keeps e I (managed_node_of i)"
  "keeps e I (loaded_provider i)" "keeps e I (loaded_cred i)"
  unfolding managed_providers_def managed_provider_def managed_nodes_def managed_node_of_def loaded_provider_def
    loaded_cred_def
  by (intro keeps)+

lemma keeps_provider_ops [keeps]:
  "keeps e I (commit_provider key name pt r)" "keeps e I (test_provider i)" "keeps e I (replace_provider_token i r)"
  "keeps e I (rename_provider i name)" "keeps e I (remove_provider i)"
  unfolding commit_provider_def test_provider_def replace_provider_token_def rename_provider_def remove_provider_def Let_def
  by (intro keeps | rule keeps_look, intro keeps; fail | rule keeps_rows, simp add: set_providers_def)+

lemma keeps_node_reads [keeps]:
  "keeps e I (discover_node pid sid m tk)" "keeps e I (lookup_node i)" "keeps e I (load_test i)"
  "keeps e I (load_token_change i)" "keeps e I (load_ssh_change i)" "keeps e I (verify_ssh h u p a x)"
  "keeps e I (verify_access_url url x)" "keeps e I (validate_provider_secret pt x)"
  unfolding discover_node_def lookup_node_def load_test_def load_token_change_def load_ssh_change_def
  by (intro keeps | rule keeps_look, intro keeps; fail)+

lemma keeps_node_ops [keeps]:
  "keeps e I (commit_node pid sid m nm tk l)" "keeps e I (test_node i)" "keeps e I (validate_node_api_token i x)"
  "keeps e I (rename_node i name)" "keeps e I (replace_node_api_token i x)" "keeps e I (replace_node_ssh i l)"
  "keeps e I (remove_node i)"
  unfolding commit_node_def resolve_optional_def test_node_def validate_node_api_token_def rename_node_def
    replace_node_api_token_def replace_node_ssh_def remove_node_def Let_def
  by (intro keeps | rule keeps_look, intro keeps; fail | rule keeps_rows, simp add: set_vps_def delete_node_rows_def)+

lemma keeps_host_keys [keeps]:
  "keeps e I (inspect_host_key k h p)" "keeps e I (trust_host_key k path h p x)"
  unfolding trust_host_key_def inspect_host_key_def write_candidate_def Let_def
  by (intro keeps | split key_probe.split, intro conjI allI impI)+

text \<open>The diagnostics.\<close>

lemma keeps_timed [keeps]: "keeps e I m \<Longrightarrow> keeps e I (with_timeout m)" "keeps e I m \<Longrightarrow> keeps e I (timed g key l c m)"
  unfolding with_timeout_def timed_def by (intro keeps | assumption)+

lemma keeps_diagnostics [keeps]:
  "keeps e I (check_core g)" "keeps e I (check_providers g)" "keeps e I (check_nodes g)" "keeps e I (check_all g)"
proof -
  have me: "keeps e I (get_me token)" "keeps e I (telegram_name v)" for token v
    by (rule keeps_look, unfold get_me_def telegram_name_def,
        auto simp: Let_def intro!: keeps split: http_outcome.splits http_body.splits json.splits)+
  have hosts: "keeps e I (resolve_nodes c k n x)" for c k n x
    by (rule keeps_look, rule looks_get, rule keeps)
  have master: "calls_only observes m \<Longrightarrow> keeps e I (with_master_client m)" for m :: "'z act"
    by (intro keeps_look keeps)
  have listed: "keeps e I listed_masters"
    unfolding listed_masters_def with_timeout_def
    by (intro keeps; (rule master)?; intro keeps)
  have probe: "keeps e I (probe_node b r m)" for b r m
    unfolding probe_node_def by (intro keeps)
  have node: "keeps e I (check_node g x ms nc)" for x ms nc
    unfolding check_node_def by (cases nc) (auto intro!: keeps probe split: option.splits sum.splits)
  show core: "keeps e I (check_core g)"
    unfolding check_core_def check_database_def check_check_host_def check_master_def check_telegram_def select_one_def
    by (intro keeps me hosts master)
  show providers: "keeps e I (check_providers g)"
    unfolding check_providers_def check_provider_def by (intro keeps | rule keeps_look, intro keeps; fail)+
  show nodes: "keeps e I (check_nodes g)"
    unfolding check_nodes_def load_nodes_def by (intro keeps listed node)
  show "keeps e I (check_all g)" unfolding check_all_def by (intro keeps core providers nodes)
qed

end

end
