(* ===== verification/Formatters.thy ===== *)
theory Formatters
  imports Control "HOL-Library.Char_ord" "HOL-Library.List_Lexorder"
begin

text \<open>
  \<open>app/bot/formatters.py\<close>: the texts the bot shows. A text is the list of its UTF-8 bytes; the symbols
  outside ASCII have names. \<open>local_text\<close> stands for \<open>value.astimezone().strftime(...)\<close>, whose result
  depends on the time zone of the host.
\<close>

section \<open>Symbols\<close>

definition bytes :: "nat list \<Rightarrow> string" where
  "bytes bs = map char_of bs"

definition tick_mark :: string where
  "tick_mark = bytes [0xE2, 0x9C, 0x85]"

definition progress_mark :: string where
  "progress_mark = bytes [0xF0, 0x9F, 0x94, 0x84]"

definition wait_mark :: string where
  "wait_mark = bytes [0xE2, 0x8F, 0xB3]"

definition warning_mark :: string where
  "warning_mark = bytes [0xE2, 0x9A, 0xA0, 0xEF, 0xB8, 0x8F]"

definition heart_mark :: string where
  "heart_mark = bytes [0xE2, 0x9D, 0xA4, 0xEF, 0xB8, 0x8F]"

definition gear_mark :: string where
  "gear_mark = bytes [0xE2, 0x9A, 0x99, 0xEF, 0xB8, 0x8F]"

definition alarm_mark :: string where
  "alarm_mark = bytes [0xF0, 0x9F, 0x9A, 0xA8]"

definition tool_mark :: string where
  "tool_mark = bytes [0xF0, 0x9F, 0x9B, 0xA0]"

definition cross_mark :: string where
  "cross_mark = bytes [0xE2, 0x9D, 0x8C]"

definition arrow_mark :: string where
  "arrow_mark = bytes [0xE2, 0x86, 0x92]"

definition ellipsis :: string where
  "ellipsis = bytes [0xE2, 0x80, 0xA6]"

definition stop_mark :: string where
  "stop_mark = bytes [0xE2, 0x8F, 0xB9]"

definition play_mark :: string where
  "play_mark = bytes [0xE2, 0x96, 0xB6, 0xEF, 0xB8, 0x8F]"

definition red_mark :: string where
  "red_mark = bytes [0xF0, 0x9F, 0x94, 0xB4]"

definition yellow_mark :: string where
  "yellow_mark = bytes [0xF0, 0x9F, 0x9F, 0xA1]"

definition back_mark :: string where
  "back_mark = bytes [0xE2, 0xAC, 0x85, 0xEF, 0xB8, 0x8F]"

definition block_mark :: string where
  "block_mark = bytes [0xE2, 0x9B, 0x94]"

definition eye_mark :: string where
  "eye_mark = bytes [0xF0, 0x9F, 0x91, 0x81]"

definition puzzle_mark :: string where
  "puzzle_mark = bytes [0xF0, 0x9F, 0xA7, 0xA9]"

definition cloud_mark :: string where
  "cloud_mark = bytes [0xE2, 0x98, 0x81, 0xEF, 0xB8, 0x8F]"

definition screen_mark :: string where
  "screen_mark = bytes [0xF0, 0x9F, 0x96, 0xA5]"

definition white_mark :: string where
  "white_mark = bytes [0xE2, 0x9A, 0xAA, 0xEF, 0xB8, 0x8F]"

definition dot_mark :: string where
  "dot_mark = bytes [0xC2, 0xB7]"

definition green_mark :: string where
  "green_mark = bytes [0xF0, 0x9F, 0x9F, 0xA2]"

definition plus_mark :: string where
  "plus_mark = bytes [0xE2, 0x9E, 0x95]"

definition key_mark :: string where
  "key_mark = bytes [0xF0, 0x9F, 0x94, 0x91]"

definition lock_mark :: string where
  "lock_mark = bytes [0xF0, 0x9F, 0x94, 0x90]"

definition test_mark :: string where
  "test_mark = bytes [0xF0, 0x9F, 0xA7, 0xAA]"

definition pencil_mark :: string where
  "pencil_mark = bytes [0xE2, 0x9C, 0x8F, 0xEF, 0xB8, 0x8F]"

definition toggle_mark :: string where
  "toggle_mark = bytes [0xE2, 0x8F, 0xAF]"

definition trash_mark :: string where
  "trash_mark = bytes [0xF0, 0x9F, 0x97, 0x91]"

section \<open>Values of the enumerations\<close>

fun outcome_value :: "check_outcome \<Rightarrow> string" where
  "outcome_value CHK_REACHABLE = ''reachable''"
| "outcome_value CHK_UNREACHABLE = ''unreachable''"
| "outcome_value CHK_INDETERMINATE = ''indeterminate''"
| "outcome_value CHK_ERROR = ''error''"

fun job_state_value :: "job_state \<Rightarrow> string" where
  "job_state_value JS_PENDING = ''pending''"
| "job_state_value JS_PROVISIONING = ''provisioning''"
| "job_state_value JS_CHECKING_IP = ''checking_ip''"
| "job_state_value JS_DEPLOYING = ''deploying''"
| "job_state_value JS_UPDATING_MASTER = ''updating_master''"
| "job_state_value JS_VERIFYING = ''verifying''"
| "job_state_value JS_CLEANING_UP = ''cleaning_up''"
| "job_state_value JS_COMPLETED = ''completed''"
| "job_state_value JS_FAILED = ''failed''"
| "job_state_value JS_CANCELLED = ''cancelled''"

fun severity_value :: "severity \<Rightarrow> string" where
  "severity_value SEV_INFO = ''info''"
| "severity_value SEV_WARNING = ''warning''"
| "severity_value SEV_ERROR = ''error''"
| "severity_value SEV_CRITICAL = ''critical''"

fun event_type_value :: "event_type \<Rightarrow> string" where
  "event_type_value NODE_FAILED = ''node_failed''"
| "event_type_value NODE_RECOVERED = ''node_recovered''"
| "event_type_value NODE_DEGRADED = ''node_degraded''"
| "event_type_value MONITORING_CHECK_ERROR = ''monitoring_check_error''"
| "event_type_value REPLACEMENT_STARTED = ''replacement_started''"
| "event_type_value VPS_CREATED = ''vps_created''"
| "event_type_value IP_CHECK_STARTED = ''ip_check_started''"
| "event_type_value IP_CHECK_FAILED = ''ip_check_failed''"
| "event_type_value IP_CHECK_PASSED = ''ip_check_passed''"
| "event_type_value DEPLOYMENT_STARTED = ''deployment_started''"
| "event_type_value DEPLOYMENT_FAILED = ''deployment_failed''"
| "event_type_value EV_MASTER_UPDATED = ''master_updated''"
| "event_type_value EV_MASTER_VERIFIED = ''master_verified''"
| "event_type_value OLD_VPS_DELETED = ''old_vps_deleted''"
| "event_type_value REPLACEMENT_COMPLETED = ''replacement_completed''"
| "event_type_value REPLACEMENT_FAILED = ''replacement_failed''"
| "event_type_value CONTROL_ACTION = ''control_action''"
| "event_type_value SETTING_CHANGED = ''setting_changed''"
| "event_type_value SYSTEM_PAUSED = ''system_paused''"
| "event_type_value SYSTEM_RESUMED = ''system_resumed''"
| "event_type_value PROVIDER_UPDATED = ''provider_updated''"

section \<open>Texts\<close>

definition text_lines :: "string list \<Rightarrow> string" where
  "text_lines ls = join_with newline ls"

definition bool_text :: "bool \<Rightarrow> string" where
  "bool_text b = (if b then ''True'' else ''False'')"

definition pad_right :: "nat \<Rightarrow> string \<Rightarrow> string" where
  "pad_right w s = s @ replicate (w - length s) (CHR '' '')"

definition dt_text :: "(usec \<Rightarrow> string) \<Rightarrow> usec option \<Rightarrow> string" where
  "dt_text local_text v = (case v of None \<Rightarrow> em_dash | Some t \<Rightarrow> local_text t)"

definition short_id :: "uuid \<Rightarrow> string" where
  "short_id i = hd (split_on (CHR ''-'') (uuid_str i))"

definition state_count :: "dashboard_snapshot \<Rightarrow> string \<Rightarrow> string" where
  "state_count x k = show_nat (case map_of (ds_node_counts x) k of None \<Rightarrow> 0 | Some n \<Rightarrow> n)"

definition format_dashboard :: "dashboard_snapshot \<Rightarrow> string" where
  "format_dashboard x = text_lines
     [''ASO Node Recovery'', [],
      ''Healthy: '' @ state_count x ''healthy'', ''Degraded: '' @ state_count x ''degraded'',
      ''Failed: '' @ state_count x ''failed'', ''Replacing: '' @ state_count x ''replacing'',
      ''Deploying: '' @ state_count x ''deploying'', ''Verifying: '' @ state_count x ''verifying'',
      ''Disabled: '' @ state_count x ''disabled'', ''Active VPS: '' @ show_int (ds_active_vps_count x),
      ''Active replacement jobs: '' @ show_int (ds_active_replacement_count x), [],
      ''System: '' @ (if ds_paused x then ''PAUSED'' else ''RUNNING''),
      ''DRY_RUN: '' @ bool_text (ds_dry_run x),
      ''Real mutations allowed: '' @ bool_text (ds_real_mutation_allowed x)]"

definition format_nodes :: "node_snapshot list \<Rightarrow> string" where
  "format_nodes ns =
     (if ns = [] then ''No nodes are registered. On the server run: ./asoctl setup''
      else text_lines (''Nodes:'' # map (\<lambda>n.
        ''- '' @ ns_name n @ '' ['' @ node_state_value (ns_state n) @ ''/'' @ mode_value (ns_operation_mode n) @
        ''] '' @ ns_host n @ '':'' @ show_int (ns_port n) @ '' (id '' @ short_id (ns_id n) @ '')'') ns))"

definition or_dash :: "('a \<Rightarrow> string) \<Rightarrow> 'a option \<Rightarrow> string" where
  "or_dash f v = (case v of None \<Rightarrow> em_dash | Some a \<Rightarrow> f a)"

definition format_node_detail :: "(usec \<Rightarrow> string) \<Rightarrow> node_detail_snapshot \<Rightarrow> string" where
  "format_node_detail local_text x =
     (let n = nd_node x in text_lines
       [''Node: '' @ ns_name n, ''ID: '' @ uuid_str (ns_id n), ''State: '' @ node_state_value (ns_state n),
        ''Operation mode: '' @ mode_value (ns_operation_mode n),
        ''Endpoint: '' @ ns_host n @ '':'' @ show_int (ns_port n),
        ''Master Node ID: '' @ nd_master_node_id x,
        ''Monitoring: '' @ (if nd_monitoring_enabled x then ''on'' else ''off''),
        ''Consecutive failures: '' @ show_int (ns_consecutive_failures n),
        ''Last check: '' @ dt_text local_text (nd_last_checked_at x),
        ''Last success: '' @ dt_text local_text (ns_last_successful_check_at n),
        ''Latest check result: '' @ or_dash outcome_value (nd_latest_check_outcome x),
        ''Latest job: '' @ or_dash job_state_value (nd_latest_job_state x),
        ''Latest checkpoint: '' @ or_dash checkpoint_value (nd_latest_job_checkpoint x)])"

definition format_jobs :: "job_snapshot list \<Rightarrow> string" where
  "format_jobs js =
     (if js = [] then ''No replacement jobs found.''
      else text_lines (''Recent replacement jobs:'' # map (\<lambda>j.
        ''- '' @ short_id (js_id j) @ '' node='' @ short_id (js_node_id j) @ '' ['' @
        trigger_mode_value (js_trigger_mode j) @ ''] '' @ job_state_value (js_state j) @ ''/'' @
        checkpoint_value (js_checkpoint j) @ '' attempt='' @ show_int (js_attempt_count j) @ ''/'' @
        show_int (js_max_attempts j)) js))"

text \<open>\<open>_PROGRESS\<close>.\<close>

definition progress_steps :: "(string \<times> checkpoint list) list" where
  "progress_steps =
     [(''Creating VPS'', [CREATED, PROVISIONING, PROVISIONED]),
      (''Checking IP'', [CHECKING_IP, TEMP_CLEANUP, IP_VERIFIED]),
      (''Installing 3X-UI'', [DEPLOYING]),
      (''Verifying node'', [NODE_VERIFIED]),
      (''Updating Master'', [MASTER_UPDATING, MASTER_UPDATED]),
      (''Verifying Master'', [MASTER_VERIFYING, MASTER_VERIFIED]),
      (''Final Check'', [FINAL_CHECK, FINAL_VERIFIED]),
      (''Cleanup'', [OLD_VPS_CLEANUP, COMPLETED])]"

text \<open>The index of the first step with the checkpoint, or 0.\<close>

fun step_index :: "checkpoint \<Rightarrow> nat \<Rightarrow> (string \<times> checkpoint list) list \<Rightarrow> nat" where
  "step_index c k [] = 0"
| "step_index c k ((l, cs) # steps) = (if c \<in> set cs then k else step_index c (Suc k) steps)"

definition progress_icon :: "checkpoint \<Rightarrow> nat \<Rightarrow> nat \<Rightarrow> string" where
  "progress_icon c current k =
     (if c = COMPLETED \<or> k < current then tick_mark else if k = current then progress_mark else wait_mark)"

definition format_job_progress :: "job_snapshot \<Rightarrow> string" where
  "format_job_progress j =
     (if js_checkpoint j = FAILED then
        ''Replacement '' @ short_id (js_id j) @ '': FAILED'' @
        (if truthy_text (js_last_error_message j)
         then newline @ ''Error: '' @ text_of (js_last_error_message j) else [])
      else if js_checkpoint j = CANCELLED then ''Replacement '' @ short_id (js_id j) @ '': CANCELLED''
      else
        (let c = js_checkpoint j; current = step_index c 0 progress_steps in
         text_lines
           ([(if js_trigger_mode j = FORCE then ''Force Repair'' else ''Replacement'') @ '' '' @ short_id (js_id j),
             []] @
            map (\<lambda>(k, label, _). show_nat (Suc k) @ ''/8 '' @ pad_right 18 label @ '' '' @ progress_icon c current k)
              (zip [0..<8] progress_steps) @
            (if c = COMPLETED then [newline @ ''COMPLETED''] else []))))"

definition format_events :: "(usec \<Rightarrow> string) \<Rightarrow> event_snapshot list \<Rightarrow> string" where
  "format_events local_text xs =
     (if xs = [] then ''No audit events found.''
      else text_lines (''Recent events:'' # map (\<lambda>x.
        ''- '' @ dt_text local_text (Some (es_created_at x)) @ '' ['' @ severity_value (es_severity x) @ ''] '' @
        event_type_value (es_event_type x) @ '': '' @ es_message x) xs))"

definition format_providers :: "control_provider_snapshot list \<Rightarrow> string" where
  "format_providers ps =
     (if ps = [] then ''No providers are configured. On the server run: ./asoctl setup''
      else text_lines (''Providers:'' # map (\<lambda>p.
        ''- '' @ cps_display_name p @ '' ('' @ cps_provider_type p @ '') '' @
        (if cps_is_active p then ''ACTIVE'' else ''DISABLED'') @ '' id='' @ short_id (cps_id p)) ps))"

definition format_settings :: "(json \<Rightarrow> string) \<Rightarrow> (string \<times> json) list \<Rightarrow> string" where
  "format_settings repr kvs =
     text_lines (''Effective operational settings:'' # map (\<lambda>(k, v). ''- '' @ k @ '': '' @ py_str repr v)
       (sort_key fst kvs))"

end
