(* ===== verification/Telegram.thy ===== *)
theory Telegram
  imports Callbacks Formatters HostKeys
begin

text \<open>
  What the handlers of the bot (\<open>app/bot\<close>) share: the update they receive, the calls they make to the
  chat, the authorization at their start, and the signatures under their buttons. The library that
  carries a call to Telegram is the parameter \<open>env_chat\<close>: it carries it out or raises. The data an
  authorized user has typed so far (\<open>context.user_data["aso_registry_wizard"]\<close>) is \<open>w_wizard\<close>.
\<close>

section \<open>The chat\<close>

definition chat :: "chat_call \<Rightarrow> unit act" where
  "chat c e w =
     (case env_chat e (w_tick w) c of
        None \<Rightarrow> (Inr (), w\<lparr>w_tick := Suc (w_tick w), w_chat := c # w_chat w\<rparr>)
      | Some x \<Rightarrow> (Inl x, w\<lparr>w_tick := Suc (w_tick w), w_chat := c # w_chat w\<rparr>))"

text \<open>
  An update: the user it comes from, the callback query with its data where it is a text, whether there
  is a message to reply to, its text, the command it is with its arguments, and the chat.
\<close>

record tg_update =
  up_user :: "int option"
  up_query :: "string option option"
  up_message :: bool
  up_text :: "string option"
  up_command :: "string option"
  up_args :: "string list"
  up_chat :: int

text \<open>A rendering goes into the message of a query, or is a new message.\<close>

datatype target = OnQuery | OnMessage

definition edit_or_reply :: "target \<Rightarrow> string \<Rightarrow> keyboard \<Rightarrow> unit act" where
  "edit_or_reply t txt kb = chat (case t of OnQuery \<Rightarrow> EditQuery txt kb | OnMessage \<Rightarrow> Reply txt kb)"

text \<open>\<open>_safe_edit\<close>: a message that would not change is not an error.\<close>

definition safe_call :: "chat_call \<Rightarrow> unit act" where
  "safe_call c =
     catch [BadRequest] (chat c) (\<lambda>x.
       if find_text ''message is not modified'' (lower (exn_msg x)) then ret () else reraise x)"

section \<open>The bot\<close>

text \<open>
  What the libraries answer: the text of a time in the time zone of the host, the format \<open>g\<close> of a
  number, the host key a server presents (it may change from one probe to the next), and the class
  names and texts of an exception and of those it was raised from.
\<close>

record bot_libs =
  lib_local_text :: "usec \<Rightarrow> string"
  lib_real_text :: "real \<Rightarrow> string"
  lib_server_key :: "nat \<Rightarrow> string \<Rightarrow> int \<Rightarrow> key_probe"
  lib_causes :: "exn \<Rightarrow> (string \<times> string) list"

record bot =
  bt_authorized :: "int list"
  bt_signer :: callback_signer
  bt_libs :: bot_libs

definition signer_exn :: "callback_error \<Rightarrow> exn" where
  "signer_exn x =
     (case x of InvalidCallbackData m \<Rightarrow> Exn ValueError m | CallbackValueError m \<Rightarrow> Exn ValueError m
      | CallbackTypeError m \<Rightarrow> Exn TypeError m)"

definition make_bot :: "settings \<Rightarrow> bot_libs \<Rightarrow> exn + bot" where
  "make_bot s libs =
     (case telegram_callback_secret s of
        None \<Rightarrow> Inl (Exn ValueError ''Telegram callback secret is required'')
      | Some secret \<Rightarrow> (case make_signer secret 10 of
            Inl x \<Rightarrow> Inl (signer_exn x)
          | Inr g \<Rightarrow> Inr \<lparr>bt_authorized = telegram_authorized_user_ids s, bt_signer = g,
              bt_libs = libs\<rparr>))"

text \<open>\<open>_authorized\<close>: the user an authorized update comes from.\<close>

definition access_denied :: "tg_update \<Rightarrow> unit act" where
  "access_denied u =
     (if up_query u \<noteq> None then chat (Answer (Some ''Access denied.'') True)
      else if up_message u then chat (Reply ''Access denied.'' []) else ret ())"

definition authorized_user :: "bot \<Rightarrow> tg_update \<Rightarrow> int option" where
  "authorized_user b u = (if is_authorized (bt_authorized b) (up_user u) then up_user u else None)"

text \<open>A handler of a command, and of a query with its data, behind the authorization.\<close>

definition on_message :: "bot \<Rightarrow> tg_update \<Rightarrow> (int \<Rightarrow> unit act) \<Rightarrow> unit act" where
  "on_message b u body =
     (case authorized_user b u of
        None \<Rightarrow> access_denied u
      | Some user \<Rightarrow> (if up_message u then body user else ret ()))"

definition on_query :: "bot \<Rightarrow> tg_update \<Rightarrow> (int \<Rightarrow> string \<Rightarrow> unit act) \<Rightarrow> unit act" where
  "on_query b u body =
     (case authorized_user b u of
        None \<Rightarrow> access_denied u
      | Some user \<Rightarrow> (case up_query u of
            Some (Some data) \<Rightarrow> andthen (chat (Answer None False)) (body user data)
          | _ \<Rightarrow> ret ()))"

definition sign :: "bot \<Rightarrow> string \<Rightarrow> uuid \<Rightarrow> int \<Rightarrow> string act" where
  "sign b action entity user =
     bind now (\<lambda>t. lift (case encode_callback (bt_signer b) action entity user (t div 1000000) of
       Inl x \<Rightarrow> Inl (signer_exn x) | Inr data \<Rightarrow> Inr data))"

definition verify :: "bot \<Rightarrow> string \<Rightarrow> int \<Rightarrow> (callback_error + verified_callback) act" where
  "verify b data user = bind now (\<lambda>t. ret (verify_callback (bt_signer b) data user None (t div 1000000)))"

definition verified :: "bot \<Rightarrow> string \<Rightarrow> int \<Rightarrow> verified_callback act" where
  "verified b data user =
     bind (verify b data user) (\<lambda>r. lift (case r of Inl x \<Rightarrow> Inl (signer_exn x) | Inr v \<Rightarrow> Inr v))"

text \<open>\<open>UUID(hex=text)\<close>.\<close>

definition hex_uuid :: "string \<Rightarrow> uuid act" where
  "hex_uuid s = require_some (parse_uuid s) ValueError ''badly formed hexadecimal UUID string''"

text \<open>The text of an error an operator sees.\<close>

definition one_line_error :: "exn \<Rightarrow> string" where
  "one_line_error x =
     (let t = join_with '' '' (words (exn_msg x)) in
      take 500 (if t = [] then class_name (exn_kind x) else t))"

definition mentions_secret :: "string \<Rightarrow> bool" where
  "mentions_secret t \<longleftrightarrow>
     list_ex (\<lambda>p. find_text p (lower t)) [''token='', ''password='', ''authorization:'']"

definition error_text :: "exn \<Rightarrow> string" where
  "error_text x = (let t = strip (exn_msg x) in if t = [] then class_name (exn_kind x) else t)"

definition safe_operator_error :: "exn \<Rightarrow> string" where
  "safe_operator_error x =
     (let t = take 500 (error_text x) in
      if mentions_secret t then ''operation rejected; sensitive details were hidden. Check service logs.''
      else t)"

definition safe_registry_error :: "exn \<Rightarrow> string" where
  "safe_registry_error x =
     (let t = error_text x in
      if mentions_secret t then ''operation failed; sensitive details were hidden. Check service logs.''
      else take 800 t)"

text \<open>The pattern \<open>^(a|b|...)[.]\<close> of a handler.\<close>

definition has_prefix :: "string list \<Rightarrow> string \<Rightarrow> bool" where
  "has_prefix ps data = list_ex (\<lambda>p. starts_with (p @ ''.'') data) ps"

section \<open>Facts\<close>

lemma wp_chat [hoare]:
  "wp (chat c) Q E e w =
     (case env_chat e (w_tick w) c of
        None \<Rightarrow> Q () (w\<lparr>w_tick := Suc (w_tick w), w_chat := c # w_chat w\<rparr>)
      | Some x \<Rightarrow> E x (w\<lparr>w_tick := Suc (w_tick w), w_chat := c # w_chat w\<rparr>))"
  by (simp add: wp_def chat_def split: option.splits)

end
