(* ===== verification/Wizard.thy ===== *)
theory Wizard
  imports Telegram Management
begin

text \<open>
  The conversations of \<open>app/bot/registry_ui.py\<close>: what the user has typed so far is the dictionary
  \<open>wizard\<close>, with the name of the next question under \<open>stage\<close>, and each text message answers that
  question. A secret is tried before it is staged as a file, its message is deleted first, and only a
  reference to it enters the dictionary.
\<close>

section \<open>The dictionary\<close>

definition wizard_fields :: "(string \<times> json) list act" where
  "wizard_fields e w = (Inr (case w_wizard w of None \<Rightarrow> [] | Some fs \<Rightarrow> fs), w)"

definition has_wizard :: "bool act" where
  "has_wizard e w = (Inr (w_wizard w \<noteq> None), w)"

definition start_wizard :: "(string \<times> json) list \<Rightarrow> unit act" where
  "start_wizard fs e w = (Inr (), w\<lparr>w_wizard := Some fs\<rparr>)"

definition pop_wizard :: "unit act" where
  "pop_wizard e w = (Inr (), w\<lparr>w_wizard := None\<rparr>)"

text \<open>\<open>wizard.update(...)\<close>, and \<open>wizard.pop(key, None)\<close>.\<close>

definition update_wizard :: "(string \<times> json) list \<Rightarrow> unit act" where
  "update_wizard kvs e w =
     (Inr (), w\<lparr>w_wizard := map_option (\<lambda>fs. foldl (\<lambda>a (k, v). jset a k v) fs kvs) (w_wizard w)\<rparr>)"

definition forget_key :: "string \<Rightarrow> unit act" where
  "forget_key k e w = (Inr (), w\<lparr>w_wizard := map_option (filter (\<lambda>(j, v). j \<noteq> k)) (w_wizard w)\<rparr>)"

text \<open>\<open>wizard.get(key)\<close>, and \<open>wizard[key]\<close> where the program takes it as a text or a number.\<close>

definition wizard_get :: "string \<Rightarrow> json act" where
  "wizard_get k = bind wizard_fields (\<lambda>fs. ret (jget fs k))"

definition wizard_item :: "string \<Rightarrow> json act" where
  "wizard_item k =
     bind wizard_fields (\<lambda>fs. bind (ask_env quoted) (\<lambda>q. require_some (map_of fs k) KeyError (q k)))"

definition wizard_text :: "string \<Rightarrow> string act" where
  "wizard_text k =
     bind (wizard_item k) (\<lambda>v. case v of JStr s \<Rightarrow> ret s | _ \<Rightarrow> raise TypeError ''not a text'')"

definition wizard_int :: "string \<Rightarrow> int act" where
  "wizard_int k = bind (wizard_item k) (\<lambda>v. lift (int_of v))"

definition text_option :: "json \<Rightarrow> string option" where
  "text_option v = (case v of JStr s \<Rightarrow> Some s | _ \<Rightarrow> None)"

definition wizard_option :: "string \<Rightarrow> string option act" where
  "wizard_option k = bind (wizard_get k) (\<lambda>v. ret (text_option v))"

definition stage_is :: "string \<Rightarrow> json \<Rightarrow> bool" where
  "stage_is s v \<longleftrightarrow> v = JStr s"

definition next_stage :: "string \<Rightarrow> unit act" where
  "next_stage s = update_wizard [(''stage'', JStr s)]"

definition expect_stage :: "string \<Rightarrow> unit act" where
  "expect_stage s =
     bind has_wizard (\<lambda>present. bind (wizard_get ''stage'') (\<lambda>v.
     guard_raise (\<not> present \<or> \<not> stage_is s v) ValueError ''this setup action expired; start it again''))"

definition require_stage :: "string \<Rightarrow> uuid \<Rightarrow> unit act" where
  "require_stage s entity =
     bind (wizard_get ''stage'') (\<lambda>v. bind (wizard_get ''entity_id'') (\<lambda>i.
     guard_raise (\<not> stage_is s v \<or> i \<noteq> JStr (uuid_str entity)) ValueError
       ''this confirmation no longer matches the active edit''))"

definition cancel_wizard :: "unit act" where
  "cancel_wizard =
     bind wizard_fields (\<lambda>fs.
     andthen pop_wizard
     (andthen (mapM (\<lambda>k. discard_staged_secret (text_option (jget fs k)))
         [''staged_ref'', ''node_api_token_ref'', ''ssh_secret_ref''])
       (ret ())))"

section \<open>Reading what an operator sends\<close>

definition wizard_uuid :: "string \<Rightarrow> uuid act" where
  "wizard_uuid k = bind (wizard_text k) hex_uuid"

definition enum_value :: "(string \<Rightarrow> 'a option) \<Rightarrow> string \<Rightarrow> string \<Rightarrow> 'a act" where
  "enum_value parse class s =
     bind (ask_env quoted) (\<lambda>q. require_some (parse s) ValueError (q s @ '' is not a valid '' @ class))"

definition provider_type_named :: "string \<Rightarrow> provider_type act" where
  "provider_type_named = enum_value provider_type_of ''ProviderType''"

definition ssh_auth_named :: "string \<Rightarrow> ssh_auth_method act" where
  "ssh_auth_named = enum_value ssh_auth_of ''SshAuthMethod''"

definition wizard_auth :: "ssh_auth_method act" where
  "wizard_auth = bind (wizard_text ''ssh_auth_method'') ssh_auth_named"

definition key_chars :: string where
  "key_chars = ''abcdefghijklmnopqrstuvwxyz0123456789-_''"

definition port_of :: "string \<Rightarrow> int act" where
  "port_of s =
     bind (if s = ''-'' then ret 22 else lift (int_of (JStr s))) (\<lambda>p.
     andthen (guard_raise (\<not> port_ok p) ValueError ''SSH port must be between 1 and 65535'') (ret p))"

definition user_or_root :: "string \<Rightarrow> string" where
  "user_or_root s = (if s = ''-'' then ''root'' else s)"

definition delete_secret_message :: "unit act" where
  "delete_secret_message = catch [BadRequest] (chat DeleteMessage) (\<lambda>_. ret ())"

section \<open>Texts\<close>

definition cancel_keyboard :: keyboard where
  "cancel_keyboard = [[(cross_mark @ '' Cancel'', ''r.cancel'')]]"

definition confirm_keyboard :: "string \<Rightarrow> string \<Rightarrow> keyboard" where
  "confirm_keyboard label data =
     [[(tick_mark @ '' '' @ label, data), (cross_mark @ '' Cancel'', ''r.cancel'')]]"

definition opt_text :: "string option \<Rightarrow> string" where
  "opt_text v = (case v of None \<Rightarrow> ''None'' | Some s \<Rightarrow> s)"

definition safe_discovery :: "discovery \<Rightarrow> string" where
  "safe_discovery x =
     (let s = sd_server x; m = sd_master x in
      text_lines
        [''Provider VPS: '' @ ps_name s @ '' / '' @ ps_id s, ''IPv4: '' @ opt_text (ps_ipv4 s),
         ''Region: '' @ opt_text (ps_region s), ''Plan/Type: '' @ opt_text (ps_server_type s),
         ''Image: '' @ opt_text (ps_image s), ''Master: '' @ mn_name m @ '' / ID '' @ show_int (mn_id m),
         ''Node endpoint: '' @ mn_address m @ '':'' @ show_int (mn_port m)] @
      (if sd_warnings x = [] then []
       else newline @ ''Warnings: '' @ join_with ''; '' (sd_warnings x)))"

definition node_add_preview :: "string act" where
  "node_add_preview =
     bind (ask_env env_repr) (\<lambda>repr.
     bind (mapM (\<lambda>k. bind (wizard_item k) (\<lambda>v. ret (py_str repr v)))
       [''name'', ''provider_name'', ''provider_server_id'', ''provider_ipv4'', ''provider_region'',
        ''provider_server_type'', ''provider_image'', ''master_node_id'', ''master_address'', ''master_port'',
        ''ssh_username'', ''provider_ipv4'', ''ssh_port'']) (\<lambda>vs.
     ret (text_lines
       ([tick_mark @ '' Provider/Master/SSH validation passed.'', []] @
        map (\<lambda>(label, v). label @ v)
          (zip [''Name: '', ''Provider: '', ''Instance ID: '', ''IPv4: '', ''Region: '', ''Plan/Type: '',
                ''Image: '', ''Master Node ID: ''] (take 8 vs)) @
        [''Master endpoint: '' @ vs ! 8 @ '':'' @ vs ! 9,
         ''SSH: '' @ vs ! 10 @ ''@'' @ vs ! 11 @ '':'' @ vs ! 12, [],
         ''Save this node to ASO registry?'']))))"

definition ssh_secret_prompt :: "json \<Rightarrow> string" where
  "ssh_secret_prompt stage =
     (case map_of
        [(JStr ''node_ssh_public_key'',
            ''Send the matching SSH public key used for provisioning replacement VPSs.''),
         (JStr ''node_ssh_secret'', ''Send the SSH password. I will validate it and delete the message.''),
         (JStr ''node_ssh_edit_public_key'', ''Send the matching SSH public key.''),
         (JStr ''node_ssh_edit_secret'',
            ''Send the new SSH password/private key. It will be validated and the message deleted.''),
         (JStr ''node_confirm'', ''The saved SSH fingerprint will be enforced. Retry saving the node.'')] stage of
        None \<Rightarrow> ''Continue the SSH credential setup.'' | Some s \<Rightarrow> s)"

section \<open>The host key\<close>

definition untrusted_link :: "string \<times> string \<Rightarrow> bool" where
  "untrusted_link = (\<lambda>(class, message).
     find_text ''hostkeynotverifiable'' (lower class) \<or> find_text ''host key is not trusted'' (lower message) \<or>
     find_text ''host key verification failed'' (lower message))"

text \<open>The exception and at most five it was raised from.\<close>

definition untrusted_host_key :: "bot \<Rightarrow> exn \<Rightarrow> bool" where
  "untrusted_host_key b x = list_ex untrusted_link (take 6 (lib_causes (bt_libs b) x))"

definition seen_key :: "bot \<Rightarrow> (string \<Rightarrow> int \<Rightarrow> key_probe) act" where
  "seen_key b e w = (Inr (lib_server_key (bt_libs b) (w_tick w)), w)"

definition request_host_key :: "bot \<Rightarrow> int \<Rightarrow> string \<Rightarrow> int \<Rightarrow> string \<Rightarrow> unit act" where
  "request_host_key b user host p resume_stage =
     bind has_wizard (\<lambda>present.
     andthen (guard_raise (\<not> present) ValueError ''SSH setup session expired'')
     (bind (seen_key b) (\<lambda>server_key.
     bind (inspect_host_key server_key host p) (\<lambda>c.
     bind new_uuid (\<lambda>ticket.
     andthen (update_wizard [(''stage'', JStr ''ssh_host_key_confirm''), (''ssh_host'', JStr host),
       (''ssh_host_key_algorithm'', JStr (hc_algorithm c)),
       (''ssh_host_key_fingerprint'', JStr (hc_fingerprint c)),
       (''host_key_confirmation_id'', JStr (uuid_str ticket)),
       (''host_key_resume_stage'', JStr resume_stage)])
     (bind (sign b ''hk'' ticket user) (\<lambda>signed.
     chat (ChatMessage
       (lock_mark @ '' SSH host identity confirmation'' @ newline @ newline @
        ''Host: '' @ host @ '':'' @ show_int p @ newline @
        ''Algorithm: '' @ hc_algorithm c @ newline @
        ''SHA256 fingerprint: `'' @ hc_fingerprint c @ ''`'' @ newline @ newline @
        ''Confirm only if this fingerprint belongs to the VPS you intend to manage. '' @
        ''ASO will keep strict SSH host-key verification enabled.'')
       (confirm_keyboard ''Trust this fingerprint'' signed)))))))))"

text \<open>
  Tries an SSH login; a host whose key is not trusted is put to the operator and the secret forgotten.
  The result says whether the login worked.
\<close>

definition try_login :: "bot \<Rightarrow> int \<Rightarrow> string act \<Rightarrow> string \<Rightarrow> string \<Rightarrow> bool act" where
  "try_login b user host_of secret resume_stage =
     catch_all
       (bind host_of (\<lambda>host. bind (wizard_text ''ssh_username'') (\<lambda>username.
        bind (wizard_int ''ssh_port'') (\<lambda>p. bind wizard_auth (\<lambda>auth.
        andthen (verify_ssh host username p auth secret) (ret True))))))
       (\<lambda>x. if untrusted_host_key b x then
          bind host_of (\<lambda>host. bind (wizard_int ''ssh_port'') (\<lambda>p.
          andthen (request_host_key b user host p resume_stage) (ret False)))
        else reraise x)"

end
