(* ===== verification/RegistryUi.thy ===== *)
theory RegistryUi
  imports Wizard
begin

text \<open>
  The handlers of \<open>app/bot/registry_ui.py\<close>: the buttons of the registry, the signed confirmations, and
  the answers to the questions of a conversation. Whatever a handler raises is shown as one message
  without secrets.
\<close>

section \<open>Lists\<close>

definition main_menu_row :: "(string \<times> string) list" where
  "main_menu_row = [(back_mark @ '' Main Menu'', ''m.status'')]"

definition render_providers :: "target \<Rightarrow> unit act" where
  "render_providers t =
     bind managed_providers (\<lambda>ps.
     edit_or_reply t
       (cloud_mark @ '' Providers'' @ newline @ newline @ ''Select a provider to manage it.'' @
        (if ps = [] then newline @ ''No providers configured yet.'' else []))
       (map (\<lambda>p. [((if mp_is_active p then green_mark else white_mark) @ '' '' @ mp_display_name p,
           ''r.p.'' @ uuid_hex (mp_id p))]) (take 30 ps) @
        [[(plus_mark @ '' Add Provider'', ''r.pa'')], main_menu_row]))"

definition render_nodes :: "target \<Rightarrow> unit act" where
  "render_nodes t =
     bind managed_nodes (\<lambda>ns.
     edit_or_reply t
       (screen_mark @ '' Nodes'' @ newline @ newline @ ''Select a node to manage it.'' @
        (if ns = [] then newline @ ''No nodes configured yet.'' else []))
       (map (\<lambda>n. [(screen_mark @ '' '' @ mg_name n, ''r.n.'' @ uuid_hex (mg_id n))]) (take 30 ns) @
        [[(plus_mark @ '' Add Node'', ''r.na'')], main_menu_row]))"

definition back_provider :: "uuid \<Rightarrow> keyboard" where
  "back_provider i = [[(back_mark @ '' Provider'', ''r.p.'' @ uuid_hex i)]]"

definition back_node :: "uuid \<Rightarrow> keyboard" where
  "back_node i = [[(back_mark @ '' Node'', ''r.n.'' @ uuid_hex i)]]"

section \<open>One provider, one node\<close>

definition show_provider :: "uuid \<Rightarrow> unit act" where
  "show_provider i =
     bind (managed_provider i) (\<lambda>found. bind (require_some found ValueError ''provider not found'') (\<lambda>p.
     let d = uuid_hex (mp_id p) in
     chat (EditQuery
       (text_lines [cloud_mark @ '' '' @ mp_display_name p, ''Type: '' @ provider_type_value (mp_type p),
          ''Key: '' @ mp_key p, ''Status: '' @ (if mp_is_active p then ''ACTIVE'' else ''DISABLED''),
          ''Nodes: '' @ show_nat (mp_node_count p), ''Credential: configured (hidden)''])
       [[(test_mark @ '' Test API'', ''r.p.test.'' @ d), (pencil_mark @ '' Rename'', ''r.p.name.'' @ d)],
        [(key_mark @ '' Replace API Token'', ''r.p.token.'' @ d),
         (toggle_mark @ '' Enable/Disable'', ''r.p.toggle.'' @ d)],
        [(trash_mark @ '' Remove from ASO'', ''r.p.remove.'' @ d)],
        [(back_mark @ '' Providers'', ''r.providers'')]])))"

definition or_hyphen :: "string option \<Rightarrow> string" where
  "or_hyphen v = (if truthy_text v then text_of v else ''-'')"

definition managed_node_text :: "managed_node \<Rightarrow> string" where
  "managed_node_text n =
     text_lines
       [screen_mark @ '' '' @ mg_name n,
        ''Provider: '' @ mg_provider_key n @ '' ('' @ provider_type_value (mg_provider_type n) @ '')'',
        ''Instance ID: '' @ mg_provider_server_id n, ''Provider IPv4: '' @ or_hyphen (mg_provider_ipv4 n),
        ''Region: '' @ or_hyphen (mg_provider_region n), ''Plan/Type: '' @ or_hyphen (mg_provider_server_type n),
        ''Image: '' @ or_hyphen (mg_provider_image n), ''Master Node ID: '' @ mg_master_node_id n,
        ''Monitor endpoint: '' @ mg_monitoring_host n @ '':'' @ show_int (mg_monitoring_port n),
        ''SSH: '' @ mg_ssh_username n @ ''@'' @ or_hyphen (mg_provider_ipv4 n) @ '':'' @
          show_int (mg_ssh_port n) @ '' ('' @ ssh_auth_value (mg_ssh_auth n) @ '')'',
        ''Node API Token: '' @ (if mg_has_node_api_token n then ''configured'' else ''not configured'')]"

definition show_node :: "uuid \<Rightarrow> unit act" where
  "show_node i =
     bind (managed_node_of i) (\<lambda>found. bind (require_some found ValueError ''node not found'') (\<lambda>n.
     let d = uuid_hex (mg_id n) in
     chat (EditQuery (managed_node_text n)
       [[(gear_mark @ '' Monitoring / Repair'', ''o.n.'' @ d)],
        [(warning_mark @ '' Force Repair'', ''fr.'' @ d)],
        [(test_mark @ '' Test All Access'', ''r.n.test.'' @ d), (pencil_mark @ '' Rename'', ''r.n.name.'' @ d)],
        [(key_mark @ '' Replace Node API Token'', ''r.n.token.'' @ d), (lock_mark @ '' Replace SSH'', ''r.n.ssh.'' @ d)],
        [(trash_mark @ '' Remove from ASO'', ''r.n.remove.'' @ d)],
        [(back_mark @ '' Nodes'', ''r.nodes'')]])))"

definition start_edit :: "string \<Rightarrow> uuid \<Rightarrow> string \<Rightarrow> keyboard \<Rightarrow> unit act" where
  "start_edit stage i question kb =
     andthen (start_wizard [(''stage'', JStr stage), (''entity_id'', JStr (uuid_str i))])
       (chat (EditQuery question kb))"

definition remove_keyboard :: "string \<Rightarrow> string \<Rightarrow> keyboard" where
  "remove_keyboard data back = [[(warning_mark @ '' Remove from ASO'', data), (''Cancel'', back)]]"

definition toggle_provider :: "int \<Rightarrow> uuid \<Rightarrow> unit act" where
  "toggle_provider user i =
     bind (managed_provider i) (\<lambda>found. bind (require_some found ValueError ''provider not found'') (\<lambda>p.
     andthen (set_provider_active i (\<not> mp_is_active p) user) (show_provider i)))"

definition provider_verb :: "bot \<Rightarrow> int \<Rightarrow> string \<Rightarrow> uuid \<Rightarrow> unit act" where
  "provider_verb b user verb i =
     (if verb = ''test'' then
        andthen (test_provider i)
          (chat (EditQuery (tick_mark @ '' Provider API access is working.'') (back_provider i)))
      else if verb = ''name'' then
        start_edit ''provider_rename'' i ''Send the new provider display name.'' cancel_keyboard
      else if verb = ''token'' then
        start_edit ''provider_token_replace'' i
          ''Send the new provider API token. It will be validated before replacement.'' cancel_keyboard
      else if verb = ''toggle'' then toggle_provider user i
      else bind (sign b ''px'' i user) (\<lambda>signed.
        chat (EditQuery
          (''Remove this provider from the ASO registry?'' @ newline @ ''No provider VPS will be deleted.'')
          (remove_keyboard signed (''r.p.'' @ uuid_hex i)))))"

definition provider_action :: "bot \<Rightarrow> int \<Rightarrow> string list \<Rightarrow> unit act" where
  "provider_action b user parts =
     (if length parts < 3 then ret ()
      else if length parts = 4 \<and> parts ! 2 \<in> {''test'', ''name'', ''token'', ''toggle'', ''remove''} then
        bind (hex_uuid (parts ! 3)) (provider_verb b user (parts ! 2))
      else bind (hex_uuid (parts ! 2)) show_provider)"

definition node_verb :: "bot \<Rightarrow> int \<Rightarrow> string \<Rightarrow> uuid \<Rightarrow> unit act" where
  "node_verb b user verb i =
     (if verb = ''test'' then
        bind (test_node i) (\<lambda>x. chat (EditQuery
          (tick_mark @ '' Provider + Master + Node API + SSH checks passed.'' @ newline @ newline @
           safe_discovery x) (back_node i)))
      else if verb = ''name'' then start_edit ''node_rename'' i ''Send the new node name.'' cancel_keyboard
      else if verb = ''token'' then
        start_edit ''node_token_replace'' i
          ''Send the new 3X-UI Node API token. It will be validated before save.'' cancel_keyboard
      else if verb = ''ssh'' then
        start_edit ''node_ssh_edit_auth'' i ''Choose new SSH authentication method.''
          [[(key_mark @ '' Private Key'', ''r.nsa.private_key.'' @ uuid_hex i),
            (lock_mark @ '' Password'', ''r.nsa.password.'' @ uuid_hex i)], [(''Cancel'', ''r.cancel'')]]
      else bind (sign b ''nx'' i user) (\<lambda>signed.
        chat (EditQuery
          (''Remove this node from ASO registry only?'' @ newline @
           ''The VPS and Master node will NOT be deleted or modified. Nodes with replacement history '' @
           ''are protected from hard removal.'')
          (remove_keyboard signed (''r.n.'' @ uuid_hex i)))))"

definition node_action :: "bot \<Rightarrow> int \<Rightarrow> string list \<Rightarrow> unit act" where
  "node_action b user parts =
     (if length parts < 3 then ret ()
      else if length parts = 4 \<and> parts ! 2 \<in> {''test'', ''name'', ''token'', ''ssh'', ''remove''} then
        bind (hex_uuid (parts ! 3)) (node_verb b user (parts ! 2))
      else bind (hex_uuid (parts ! 2)) show_node)"

section \<open>Adding a provider or a node\<close>

definition start_provider_add :: "unit act" where
  "start_provider_add =
     andthen cancel_wizard
     (andthen (start_wizard [(''stage'', JStr ''provider_type'')])
     (chat (EditQuery ''Choose provider type.''
       [[(''Linode / Akamai'', ''r.pat.linode''), (''Hetzner'', ''r.pat.hetzner'')], [(''Cancel'', ''r.cancel'')]])))"

definition provider_type_selected :: "string \<Rightarrow> unit act" where
  "provider_type_selected raw =
     bind (provider_type_named raw) (\<lambda>pt.
     andthen (start_wizard [(''stage'', JStr ''provider_key''), (''provider_type'', JStr (provider_type_value pt))])
     (chat (EditQuery ''Short unique provider key? Example: linode-main'' cancel_keyboard)))"

text \<open>\<open>wizard.get("staged_ref")\<close>, which the resolution of the secret takes as a text.\<close>

definition staged_reference :: "string act" where
  "staged_reference =
     bind (wizard_option ''staged_ref'') (\<lambda>r. require_some r AttributeError ''strip'')"

definition commit_provider_add :: "unit act" where
  "commit_provider_add =
     andthen (expect_stage ''provider_confirm'')
     (bind (wizard_text ''key'') (\<lambda>key. bind (wizard_text ''display_name'') (\<lambda>name.
     bind (bind (wizard_text ''provider_type'') provider_type_named) (\<lambda>pt.
     bind staged_reference (\<lambda>reference.
     bind (commit_provider key name pt reference) (\<lambda>p.
     andthen pop_wizard
     (chat (EditQuery (tick_mark @ '' Provider '' @ mp_display_name p @ '' added and API access verified.'') []))))))))"

definition start_node_add :: "unit act" where
  "start_node_add =
     andthen cancel_wizard
     (bind managed_providers (\<lambda>all.
     let ps = filter mp_is_active all in
     if ps = [] then chat (EditQuery ''Add and validate a provider first.'' [])
     else
       andthen (start_wizard [(''stage'', JStr ''node_provider'')])
       (chat (EditQuery ''Choose the provider that owns the existing VPS.''
         (map (\<lambda>p. [(mp_display_name p, ''r.nap.'' @ uuid_hex (mp_id p))]) (take 30 ps) @
          [[(''Cancel'', ''r.cancel'')]])))))"

definition node_provider_selected :: "string \<Rightarrow> unit act" where
  "node_provider_selected raw =
     bind (hex_uuid raw) (\<lambda>i.
     bind (managed_provider i) (\<lambda>found.
     case found of
       None \<Rightarrow> raise ValueError ''provider is missing or disabled''
     | Some p \<Rightarrow>
         (if \<not> mp_is_active p then raise ValueError ''provider is missing or disabled''
          else
            andthen (start_wizard [(''stage'', JStr ''node_server_id''), (''provider_id'', JStr (uuid_str i)),
              (''provider_name'', JStr (mp_display_name p))])
            (chat (EditQuery
              (''Send only the existing Provider Instance/Server ID.'' @ newline @
               ''ASO will discover IP, region, plan/type and image automatically.'') cancel_keyboard)))))"

definition node_auth_selected :: "string \<Rightarrow> unit act" where
  "node_auth_selected raw =
     andthen (expect_stage ''node_auth'')
     (bind (ssh_auth_named raw) (\<lambda>auth.
     andthen (update_wizard [(''ssh_auth_method'', JStr (ssh_auth_value auth)),
       (''stage'', JStr ''node_ssh_username'')])
     (chat (EditQuery ''SSH username? Send '-' for root.'' cancel_keyboard))))"

definition node_ssh_edit_auth_selected :: "string list \<Rightarrow> unit act" where
  "node_ssh_edit_auth_selected parts =
     (if length parts \<noteq> 4 then raise ValueError ''invalid SSH edit action''
      else
        bind (ssh_auth_named (parts ! 2)) (\<lambda>auth.
        bind (hex_uuid (parts ! 3)) (\<lambda>i.
        bind has_wizard (\<lambda>present. bind (wizard_get ''entity_id'') (\<lambda>v.
        andthen (guard_raise (\<not> present \<or> v \<noteq> JStr (uuid_str i)) ValueError ''SSH edit session expired'')
        (andthen (update_wizard [(''ssh_auth_method'', JStr (ssh_auth_value auth)),
          (''stage'', JStr ''node_ssh_edit_username'')])
        (chat (EditQuery ''SSH username? Send '-' for root.'' cancel_keyboard))))))))"

definition wizard_login :: "string \<Rightarrow> ssh_login act" where
  "wizard_login reference_key =
     bind (wizard_text ''ssh_username'') (\<lambda>username.
     bind (wizard_int ''ssh_port'') (\<lambda>p.
     bind wizard_auth (\<lambda>auth.
     bind (wizard_text reference_key) (\<lambda>reference.
     bind (wizard_option ''ssh_public_key'') (\<lambda>public.
       ret \<lparr>sl_username = username, sl_port = p, sl_auth = auth, sl_secret_ref = reference,
         sl_public_key = public\<rparr>)))))"

definition commit_node_add :: "unit act" where
  "commit_node_add =
     andthen (expect_stage ''node_confirm'')
     (bind (wizard_uuid ''provider_id'') (\<lambda>pid.
     bind (wizard_text ''provider_server_id'') (\<lambda>server_id.
     bind (wizard_int ''master_node_id'') (\<lambda>master_id.
     bind (wizard_option ''name'') (\<lambda>name.
     bind (wizard_option ''node_api_token_ref'') (\<lambda>token_ref.
     bind (wizard_login ''ssh_secret_ref'') (\<lambda>l.
     bind (commit_node pid server_id master_id name token_ref l) (\<lambda>n.
     andthen pop_wizard
     (chat (EditQuery (tick_mark @ '' Node '' @ mg_name n @
       '' added. Provider, Master, Node API (when required) and SSH access were verified.'') []))))))))))"

text \<open>A node whose host key is not trusted goes back to its confirmation.\<close>

definition save_node :: "bot \<Rightarrow> int \<Rightarrow> unit act" where
  "save_node b user =
     catch_all commit_node_add (\<lambda>x.
       bind wizard_fields (\<lambda>fs.
       if untrusted_host_key b x \<and> stage_is ''node_confirm'' (jget fs ''stage'') \<and>
         truthy (jget fs ''provider_ipv4'') \<and> truthy (jget fs ''ssh_port'') then
         bind (ask_env env_repr) (\<lambda>repr. bind (wizard_int ''ssh_port'') (\<lambda>p.
           request_host_key b user (py_str repr (jget fs ''provider_ipv4'')) p ''node_confirm''))
       else reraise x))"

section \<open>The buttons\<close>

definition show_failure :: "exn \<Rightarrow> unit act" where
  "show_failure x = safe_call (EditQuery (cross_mark @ '' '' @ safe_registry_error x) [])"

definition registry_menu :: "bot \<Rightarrow> int \<Rightarrow> string \<Rightarrow> unit act" where
  "registry_menu b user data =
     (let parts = split_on (CHR ''.'') data in
      if data = ''r.cancel'' then andthen cancel_wizard (chat (EditQuery ''Cancelled.'' []))
      else if data = ''r.providers'' then render_providers OnQuery
      else if data = ''r.nodes'' then render_nodes OnQuery
      else if data = ''r.pa'' then start_provider_add
      else if starts_with ''r.pat.'' data then provider_type_selected (last parts)
      else if data = ''r.pac'' then commit_provider_add
      else if starts_with ''r.p.'' data then provider_action b user parts
      else if data = ''r.na'' then start_node_add
      else if starts_with ''r.nap.'' data then node_provider_selected (last parts)
      else if starts_with ''r.naa.'' data then node_auth_selected (last parts)
      else if data = ''r.nac'' then save_node b user
      else if starts_with ''r.nsa.'' data then node_ssh_edit_auth_selected parts
      else if starts_with ''r.n.'' data then node_action b user parts
      else ret ())"

definition registry_callback :: "bot \<Rightarrow> tg_update \<Rightarrow> unit act" where
  "registry_callback b u = on_query b u (\<lambda>user data. catch_all (registry_menu b user data) show_failure)"

section \<open>The signed confirmations\<close>

definition trust_confirmed :: "bot \<Rightarrow> uuid \<Rightarrow> unit act" where
  "trust_confirmed b ticket =
     bind (wizard_get ''stage'') (\<lambda>stage. bind (wizard_get ''host_key_confirmation_id'') (\<lambda>i.
     andthen (guard_raise (\<not> stage_is ''ssh_host_key_confirm'' stage) ValueError
       ''SSH host-key confirmation session expired'')
     (andthen (guard_raise (i \<noteq> JStr (uuid_str ticket)) ValueError
       ''SSH host-key confirmation does not match this session'')
     (bind (wizard_text ''ssh_host'') (\<lambda>host.
     bind (wizard_int ''ssh_port'') (\<lambda>p.
     bind (wizard_text ''ssh_host_key_fingerprint'') (\<lambda>expected.
     bind (ask_env known_hosts_path) (\<lambda>path.
     bind (seen_key b) (\<lambda>server_key.
     bind (trust_host_key server_key path host p expected) (\<lambda>c.
     bind (wizard_item ''host_key_resume_stage'') (\<lambda>resume_stage.
     andthen (forget_key ''host_key_resume_stage'')
     (andthen (update_wizard [(''stage'', resume_stage)])
     (andthen (forget_key ''host_key_confirmation_id'')
     (chat (EditQuery
       (tick_mark @ '' SSH host key trusted.'' @ newline @
        hc_algorithm c @ '' '' @ dot_mark @ '' '' @ hc_fingerprint c @ newline @ newline @
        ssh_secret_prompt resume_stage)
       (if resume_stage = JStr ''node_confirm'' then confirm_keyboard ''Retry Save Node'' ''r.nac''
        else []))))))))))))))))"

definition finish_edit :: "string \<Rightarrow> unit act" where
  "finish_edit message = andthen pop_wizard (chat (EditQuery (tick_mark @ '' '' @ message) []))"

definition registry_confirmed :: "bot \<Rightarrow> verified_callback \<Rightarrow> unit act" where
  "registry_confirmed b v =
     (let a = vc_action v; i = vc_entity_id v in
      if a = ''hk'' then trust_confirmed b i
      else if a = ''px'' then
        andthen (remove_provider i)
          (chat (EditQuery ''Provider removed from ASO registry only. No VPS was touched.'' []))
      else if a = ''nx'' then
        andthen (remove_node i)
          (chat (EditQuery ''Node removed from ASO registry only. VPS/Master were not changed.'' []))
      else if a = ''pc'' then
        andthen (require_stage ''provider_token'' i)
        (bind (wizard_text ''staged_ref'') (\<lambda>reference.
         andthen (replace_provider_token i reference)
           (finish_edit ''Provider API token validated and replaced.'')))
      else if a = ''nc'' then
        andthen (require_stage ''node_token'' i)
        (bind (wizard_text ''staged_ref'') (\<lambda>reference.
         andthen (replace_node_api_token i reference)
           (finish_edit ''Node API token validated and replaced.'')))
      else if a = ''sc'' then
        andthen (require_stage ''node_ssh'' i)
        (bind (wizard_login ''staged_ref'') (\<lambda>l.
         andthen (replace_node_ssh i l) (finish_edit ''SSH credentials validated and replaced.'')))
      else ret ())"

definition registry_signed_callback :: "bot \<Rightarrow> tg_update \<Rightarrow> unit act" where
  "registry_signed_callback b u =
     on_query b u (\<lambda>user data.
       catch_all (bind (verified b data user) (registry_confirmed b)) show_failure)"

end
