(* ===== verification/WizardSteps.thy ===== *)
theory WizardSteps
  imports RegistryUi
begin

text \<open>
  \<open>TelegramRegistryController.message\<close> of \<open>app/bot/registry_ui.py\<close>: one step per question. A step that
  raises leaves the question open and shows what went wrong.
\<close>

section \<open>Adding a provider\<close>

definition step_provider_key :: "string \<Rightarrow> unit act" where
  "step_provider_key s =
     (let key = lower s in
      andthen (guard_raise (key = [] \<or> list_ex (\<lambda>c. c \<notin> set key_chars) key) ValueError
        (''provider key must use letters, digits, '-' or '_'' @ [CHR 0x27]))
      (andthen (update_wizard [(''key'', JStr key), (''stage'', JStr ''provider_name'')])
      (chat (Reply ''Display name for this provider?'' []))))"

definition step_provider_name :: "string \<Rightarrow> unit act" where
  "step_provider_name s =
     andthen (guard_raise (s = []) ValueError ''display name cannot be blank'')
     (andthen (update_wizard [(''display_name'', JStr s), (''stage'', JStr ''provider_token'')])
     (chat (Reply (''Send the provider API token. I will validate it read-only and delete the token '' @
       ''message.'') [])))"

definition step_provider_token :: "string \<Rightarrow> unit act" where
  "step_provider_token s =
     andthen delete_secret_message
     (bind (bind (wizard_text ''provider_type'') provider_type_named) (\<lambda>pt.
     andthen (validate_provider_secret pt s)
     (bind (wizard_text ''key'') (\<lambda>key.
     bind (stage_secret ''provider'' key s) (\<lambda>reference.
     andthen (update_wizard [(''staged_ref'', JStr reference), (''stage'', JStr ''provider_confirm'')])
     (bind (wizard_text ''display_name'') (\<lambda>name.
     chat (ChatMessage
       (tick_mark @ '' Provider API access verified.'' @ newline @ newline @
        ''Type: '' @ provider_type_value pt @ newline @ ''Key: '' @ key @ newline @ ''Name: '' @ name @
        newline @ newline @ ''Save this provider?'')
       (confirm_keyboard ''Save'' ''r.pac'')))))))))"

definition step_provider_rename :: "string \<Rightarrow> unit act" where
  "step_provider_rename s =
     bind (wizard_uuid ''entity_id'') (\<lambda>i.
     andthen (rename_provider i s)
     (andthen pop_wizard (chat (Reply (tick_mark @ '' Provider renamed.'') []))))"

definition step_provider_token_replace :: "bot \<Rightarrow> int \<Rightarrow> string \<Rightarrow> unit act" where
  "step_provider_token_replace b user s =
     andthen delete_secret_message
     (bind (wizard_uuid ''entity_id'') (\<lambda>i.
     bind (managed_provider i) (\<lambda>found.
     bind (require_some found ValueError ''provider not found'') (\<lambda>p.
     andthen (validate_provider_secret (mp_type p) s)
     (bind (stage_secret ''provider'' (mp_key p @ ''-replace'') s) (\<lambda>reference.
     andthen (update_wizard [(''staged_ref'', JStr reference), (''stage'', JStr ''provider_token'')])
     (bind (sign b ''pc'' i user) (\<lambda>data.
     chat (ChatMessage (tick_mark @ '' New token works. Replace the stored provider token?'')
       (confirm_keyboard ''Replace'' data))))))))))"

section \<open>Adding a node\<close>

definition step_node_server_id :: "string \<Rightarrow> unit act" where
  "step_node_server_id s =
     andthen (guard_raise (s = []) ValueError ''provider instance/server ID cannot be blank'')
     (andthen (update_wizard [(''provider_server_id'', JStr s), (''stage'', JStr ''node_master_id'')])
     (chat (Reply ''3X-UI Master Node ID?'' [])))"

definition discovery_fields :: "discovery \<Rightarrow> string \<Rightarrow> (string \<times> json) list" where
  "discovery_fields x host =
     [(''suggested_name'', JStr (suggested_name x)), (''provider_ipv4'', JStr host),
      (''provider_region'', opt_json (ps_region (sd_server x))),
      (''provider_server_type'', opt_json (ps_server_type (sd_server x))),
      (''provider_image'', opt_json (ps_image (sd_server x))),
      (''master_address'', JStr (mn_address (sd_master x))), (''master_port'', JInt (mn_port (sd_master x))),
      (''master_base_path'', JStr (mn_base_path (sd_master x))), (''stage'', JStr ''node_name'')]"

definition discovered :: "discovery \<Rightarrow> unit act" where
  "discovered x =
     bind (lift (discovered_host x)) (\<lambda>host.
     andthen (update_wizard (discovery_fields x host))
     (chat (ChatMessage
       (tick_mark @ '' Provider instance and Master node verified.'' @ newline @ newline @ safe_discovery x @
        newline @ newline @ ''Send node name, or '-' to use: '' @ suggested_name x) cancel_keyboard)))"

definition ask_node_token :: "unit act" where
  "ask_node_token =
     andthen (next_stage ''node_api_token'')
     (chat (ChatMessage
       (''Master reports this node uses an API token. Send the current 3X-UI Node API token; it will be '' @
        ''validated and the message deleted.'') cancel_keyboard))"

definition try_node_discovery :: "string option \<Rightarrow> unit act" where
  "try_node_discovery token =
     bind (catch [ValueError]
       (bind (wizard_uuid ''provider_id'') (\<lambda>pid.
        bind (wizard_text ''provider_server_id'') (\<lambda>server_id.
        bind (wizard_int ''master_node_id'') (\<lambda>master_id.
        bind (discover_node pid server_id master_id token) (\<lambda>x. ret (Some x))))))
       (\<lambda>x. if token = None \<and> find_text ''api token'' (lower (exn_msg x))
          then andthen ask_node_token (ret None) else reraise x)) (\<lambda>found.
     case found of None \<Rightarrow> ret () | Some x \<Rightarrow> discovered x)"

definition step_node_master_id :: "string \<Rightarrow> unit act" where
  "step_node_master_id s =
     bind (lift (int_of (JStr s))) (\<lambda>master_id.
     andthen (guard_raise (master_id < 1) ValueError ''Master Node ID must be positive'')
     (andthen (update_wizard [(''master_node_id'', JInt master_id)]) (try_node_discovery None)))"

definition step_node_api_token :: "string \<Rightarrow> unit act" where
  "step_node_api_token s =
     andthen delete_secret_message
     (andthen (try_node_discovery (Some s))
     (bind (wizard_int ''master_node_id'') (\<lambda>master_id.
     bind (stage_secret ''node-api'' (''master-'' @ show_int master_id) s) (\<lambda>reference.
       update_wizard [(''node_api_token_ref'', JStr reference)]))))"

definition step_node_name :: "string \<Rightarrow> unit act" where
  "step_node_name s =
     bind (wizard_text ''suggested_name'') (\<lambda>suggested.
     andthen (update_wizard [(''name'', JStr (if s = ''-'' then suggested else s)), (''stage'', JStr ''node_auth'')])
     (chat (Reply ''SSH authentication method?''
       [[(key_mark @ '' Private Key'', ''r.naa.private_key''), (lock_mark @ '' Password'', ''r.naa.password'')]])))"

definition step_username :: "string \<Rightarrow> string \<Rightarrow> unit act" where
  "step_username follow s =
     andthen (update_wizard [(''ssh_username'', JStr (user_or_root s)), (''stage'', JStr follow)])
     (chat (Reply ''SSH port? Send '-' for 22.'' []))"

text \<open>The question after the port and the host key: the public key comes before the private one.\<close>

definition after_host_key :: "string \<Rightarrow> string \<Rightarrow> string act" where
  "after_host_key with_key with_password =
     bind (wizard_item ''ssh_auth_method'') (\<lambda>v.
       ret (if v = JStr (ssh_auth_value PRIVATE_KEY) then with_key else with_password))"

definition step_node_ssh_port :: "bot \<Rightarrow> int \<Rightarrow> string \<Rightarrow> unit act" where
  "step_node_ssh_port b user s =
     bind (port_of s) (\<lambda>p.
     andthen (update_wizard [(''ssh_port'', JInt p)])
     (bind (after_host_key ''node_ssh_public_key'' ''node_ssh_secret'') (\<lambda>resume_stage.
     bind (wizard_text ''provider_ipv4'') (\<lambda>host. request_host_key b user host p resume_stage))))"

definition step_public_key :: "string \<Rightarrow> string \<Rightarrow> string \<Rightarrow> unit act" where
  "step_public_key follow question s =
     andthen (guard_raise (\<not> starts_with ''ssh-'' s) ValueError ''send a valid OpenSSH public key'')
     (andthen (update_wizard [(''ssh_public_key'', JStr s), (''stage'', JStr follow)])
     (chat (Reply question [])))"

definition step_node_ssh_secret :: "bot \<Rightarrow> int \<Rightarrow> string \<Rightarrow> unit act" where
  "step_node_ssh_secret b user s =
     andthen delete_secret_message
     (bind (try_login b user (wizard_text ''provider_ipv4'') s ''node_ssh_secret'') (\<lambda>works.
     whenM works
       (bind (wizard_text ''provider_server_id'') (\<lambda>server_id.
        bind (stage_secret ''node-ssh'' server_id s) (\<lambda>reference.
        andthen (update_wizard [(''ssh_secret_ref'', JStr reference), (''stage'', JStr ''node_confirm'')])
        (bind node_add_preview (\<lambda>preview.
        chat (ChatMessage preview (confirm_keyboard ''Save Node'' ''r.nac'')))))))))"

section \<open>Changing a node\<close>

definition step_node_rename :: "string \<Rightarrow> unit act" where
  "step_node_rename s =
     bind (wizard_uuid ''entity_id'') (\<lambda>i.
     andthen (rename_node i s)
     (andthen pop_wizard (chat (Reply (tick_mark @ '' Node renamed.'') []))))"

definition step_node_token_replace :: "bot \<Rightarrow> int \<Rightarrow> string \<Rightarrow> unit act" where
  "step_node_token_replace b user s =
     andthen delete_secret_message
     (bind (wizard_uuid ''entity_id'') (\<lambda>i.
     andthen (validate_node_api_token i s)
     (bind (stage_secret ''node-api'' (''node-'' @ uuid_hex i @ ''-replace'') s) (\<lambda>reference.
     andthen (update_wizard [(''staged_ref'', JStr reference), (''stage'', JStr ''node_token'')])
     (bind (sign b ''nc'' i user) (\<lambda>data.
     chat (ChatMessage (tick_mark @ '' New Node API token works. Replace the stored token?'')
       (confirm_keyboard ''Replace'' data))))))))"

definition node_address :: "uuid \<Rightarrow> string act" where
  "node_address i =
     bind (managed_node_of i) (\<lambda>found. case found of
       None \<Rightarrow> raise ValueError ''node/provider IP missing''
     | Some n \<Rightarrow> (if truthy_text (mg_provider_ipv4 n) then ret (text_of (mg_provider_ipv4 n))
         else raise ValueError ''node/provider IP missing''))"

definition step_ssh_edit_port :: "bot \<Rightarrow> int \<Rightarrow> string \<Rightarrow> unit act" where
  "step_ssh_edit_port b user s =
     bind (port_of s) (\<lambda>p.
     andthen (update_wizard [(''ssh_port'', JInt p)])
     (bind (wizard_uuid ''entity_id'') (\<lambda>i.
     bind (node_address i) (\<lambda>host.
     bind (after_host_key ''node_ssh_edit_public_key'' ''node_ssh_edit_secret'') (\<lambda>resume_stage.
       request_host_key b user host p resume_stage)))))"

definition step_ssh_edit_secret :: "bot \<Rightarrow> int \<Rightarrow> string \<Rightarrow> unit act" where
  "step_ssh_edit_secret b user s =
     andthen delete_secret_message
     (bind (wizard_uuid ''entity_id'') (\<lambda>i.
     bind (node_address i) (\<lambda>host.
     bind (try_login b user (ret host) s ''node_ssh_edit_secret'') (\<lambda>works.
     whenM works
       (bind (stage_secret ''node-ssh'' (''node-'' @ uuid_hex i @ ''-replace'') s) (\<lambda>reference.
        andthen (update_wizard [(''staged_ref'', JStr reference), (''stage'', JStr ''node_ssh'')])
        (bind (sign b ''sc'' i user) (\<lambda>data.
        chat (ChatMessage (tick_mark @ '' SSH access verified. Replace the stored SSH credentials?'')
          (confirm_keyboard ''Replace'' data))))))))))"

section \<open>The step of a message\<close>

definition wizard_step :: "bot \<Rightarrow> int \<Rightarrow> json \<Rightarrow> string \<Rightarrow> unit act" where
  "wizard_step b user stage s =
     (if stage_is ''provider_key'' stage then step_provider_key s
      else if stage_is ''provider_name'' stage then step_provider_name s
      else if stage_is ''provider_token'' stage then step_provider_token s
      else if stage_is ''provider_rename'' stage then step_provider_rename s
      else if stage_is ''provider_token_replace'' stage then step_provider_token_replace b user s
      else if stage_is ''node_server_id'' stage then step_node_server_id s
      else if stage_is ''node_master_id'' stage then step_node_master_id s
      else if stage_is ''node_api_token'' stage then step_node_api_token s
      else if stage_is ''node_name'' stage then step_node_name s
      else if stage_is ''node_ssh_username'' stage then step_username ''node_ssh_port'' s
      else if stage_is ''node_ssh_port'' stage then step_node_ssh_port b user s
      else if stage_is ''node_ssh_public_key'' stage then
        step_public_key ''node_ssh_secret''
          ''Send the SSH private key. I will validate it and delete the message.'' s
      else if stage_is ''node_ssh_secret'' stage then step_node_ssh_secret b user s
      else if stage_is ''node_rename'' stage then step_node_rename s
      else if stage_is ''node_token_replace'' stage then step_node_token_replace b user s
      else if stage_is ''node_ssh_edit_username'' stage then step_username ''node_ssh_edit_port'' s
      else if stage_is ''node_ssh_edit_port'' stage then step_ssh_edit_port b user s
      else if stage_is ''node_ssh_edit_public_key'' stage then
        step_public_key ''node_ssh_edit_secret'' ''Send the new SSH private key.'' s
      else if stage_is ''node_ssh_edit_secret'' stage then step_ssh_edit_secret b user s
      else ret ())"

definition registry_message :: "bot \<Rightarrow> tg_update \<Rightarrow> unit act" where
  "registry_message b u =
     on_message b u (\<lambda>user.
     bind has_wizard (\<lambda>present. whenM present
       (bind (wizard_get ''stage'') (\<lambda>stage.
        catch_all (wizard_step b user stage (strip (text_of (up_text u))))
          (\<lambda>x. chat (ChatMessage (cross_mark @ '' '' @ safe_registry_error x) [])))))) "

end
