(* ===== verification/RuntimeUi.thy ===== *)
theory RuntimeUi
  imports Telegram
begin

text \<open>
  \<open>app/bot/runtime_ui.py\<close>: the buttons of the runtime switches and of the operation mode of a node. Every
  button that changes something carries a signature for its user; the two switches that allow more,
  LIVE and AUTO REPAIR, ask for a confirmation first.
\<close>

definition global_id :: uuid where
  "global_id = 0"

definition blank :: string where
  "blank = newline @ newline"

definition on_off :: "bool \<Rightarrow> string" where
  "on_off b = (if b then ''ON'' else ''OFF'')"

definition controls_text :: "runtime_control_snapshot \<Rightarrow> string" where
  "controls_text s =
     gear_mark @ '' Runtime Controls'' @ blank @
     ''System: '' @ (if rc_paused s then ''PAUSED'' else ''RUNNING'') @ newline @
     ''Monitoring: '' @ on_off (rc_monitoring_enabled s) @ newline @
     ''Auto Repair Worker: '' @ on_off (rc_replacement_enabled s) @ newline @
     ''Execution: '' @ (if rc_effective_dry_run s then ''DRY RUN'' else ''LIVE'') @ newline @
     ''LIVE capability: '' @ (if rc_live_capable s then ''available''
        else ''locked: '' @ (case rc_live_block_reason s of None \<Rightarrow> ''None'' | Some r \<Rightarrow> r)) @ blank @
     ''AUTO REPAIR only applies to nodes explicitly configured for it.'' @ newline @
     ''Environment safety gates always override Telegram controls.''"

definition render_controls :: "bot \<Rightarrow> target \<Rightarrow> int \<Rightarrow> unit act" where
  "render_controls b t user =
     bind runtime_controls (\<lambda>s.
     bind (sign b (if rc_monitoring_enabled s then ''md'' else ''me'') global_id user) (\<lambda>monitoring.
     bind (if rc_replacement_enabled s then sign b ''ad'' global_id user else ret ''o.auto.confirm'') (\<lambda>auto.
     bind (if rc_effective_dry_run s then ret (red_mark @ '' Request LIVE'', ''o.live.confirm'')
           else bind (sign b ''xd'' global_id user) (\<lambda>d. ret (yellow_mark @ '' Switch to DRY RUN'', d))) (\<lambda>mode.
       edit_or_reply t (controls_text s)
         [[(if rc_monitoring_enabled s then stop_mark @ '' Monitoring OFF'' else play_mark @ '' Monitoring ON'', monitoring)],
          [(if rc_replacement_enabled s then stop_mark @ '' Auto Repair OFF'' else play_mark @ '' Auto Repair ON'', auto)],
          [mode],
          [(back_mark @ '' Main Menu'', ''m.status'')]]))))"

definition node_mode_text :: "node_detail_snapshot \<Rightarrow> string" where
  "node_mode_text x =
     gear_mark @ '' '' @ ns_name (nd_node x) @ '' '' @ em_dash @ '' Operation Mode'' @ blank @
     ''Current: '' @ mode_value (ns_operation_mode (nd_node x)) @ blank @
     ''DISABLED: no scheduled monitoring or auto repair.'' @ newline @
     ''MONITOR ONLY: Check-Host monitoring only.'' @ newline @
     ''AUTO REPAIR: monitoring + eligible for automatic replacement when globally enabled.''"

definition chosen :: "bool \<Rightarrow> string" where
  "chosen c = (if c then '' '' @ tick_mark else [])"

definition render_node_mode :: "bot \<Rightarrow> target \<Rightarrow> uuid \<Rightarrow> int \<Rightarrow> unit act" where
  "render_node_mode b t node_id user =
     bind (control_resolve_node (uuid_str node_id)) (\<lambda>found. case found of
       None \<Rightarrow> edit_or_reply t ''Node not found.'' [[(back_mark @ '' Nodes'', ''r.nodes'')]]
     | Some x \<Rightarrow>
         let mode = ns_operation_mode (nd_node x) in
         bind (sign b ''nd'' node_id user) (\<lambda>disabled.
         bind (sign b ''nm'' node_id user) (\<lambda>monitor.
         bind (if mode = AUTO_REPAIR then sign b ''na'' node_id user
               else ret (''o.n.auto.confirm.'' @ uuid_hex node_id)) (\<lambda>auto.
           edit_or_reply t (node_mode_text x)
             [[(block_mark @ '' Disabled'' @ chosen (mode = MODE_DISABLED), disabled)],
              [(eye_mark @ '' Monitor Only'' @ chosen (mode = MONITOR_ONLY), monitor)],
              [(tool_mark @ '' Auto Repair'' @ chosen (mode = AUTO_REPAIR), auto)],
              [(back_mark @ '' Node'', ''r.n.'' @ uuid_hex node_id)]]))))"

definition controls_command :: "bot \<Rightarrow> tg_update \<Rightarrow> unit act" where
  "controls_command b u = on_message b u (\<lambda>user. render_controls b OnMessage user)"

definition confirm_live :: "bot \<Rightarrow> int \<Rightarrow> unit act" where
  "confirm_live b user =
     bind (sign b ''xl'' global_id user) (\<lambda>signed.
     chat (EditQuery (warning_mark @ '' Enable LIVE execution?'' @ blank @
         ''This only succeeds if server-side safety gates already allow real infrastructure '' @
         ''mutation. Telegram cannot bypass DRY_RUN or Emergency Stop.'')
       [[(tick_mark @ '' Confirm LIVE'', signed)], [(''Cancel'', ''o.controls'')]]))"

definition confirm_auto :: "bot \<Rightarrow> int \<Rightarrow> unit act" where
  "confirm_auto b user =
     bind (sign b ''ae'' global_id user) (\<lambda>signed.
     chat (EditQuery (''Enable automatic repair worker?'' @ blank @
         ''Only nodes explicitly set to AUTO REPAIR are eligible. In DRY_RUN it will not '' @
         ''auto-trigger real replacements.'')
       [[(tick_mark @ '' Enable Auto Repair'', signed)], [(''Cancel'', ''o.controls'')]]))"

definition confirm_node_auto :: "bot \<Rightarrow> uuid \<Rightarrow> int \<Rightarrow> unit act" where
  "confirm_node_auto b node_id user =
     bind (sign b ''na'' node_id user) (\<lambda>signed.
     chat (EditQuery (''Enable AUTO REPAIR for this node?'' @ blank @
         ''Monitoring failures may automatically start replacement only when global Auto '' @
         ''Repair is enabled and execution is LIVE-capable.'')
       [[(tick_mark @ '' Confirm AUTO REPAIR'', signed)],
        [(''Cancel'', ''o.n.'' @ uuid_hex node_id)]]))"

definition runtime_menu :: "bot \<Rightarrow> int \<Rightarrow> string \<Rightarrow> unit act" where
  "runtime_menu b user data =
     (if data = ''o.controls'' then render_controls b OnQuery user
      else if data = ''o.live.confirm'' then confirm_live b user
      else if data = ''o.auto.confirm'' then confirm_auto b user
      else if starts_with ''o.n.'' data then
        (case split_on (CHR ''.'') data of
           [_, _, i] \<Rightarrow> bind (hex_uuid i) (\<lambda>node_id. render_node_mode b OnQuery node_id user)
         | [_, _, a, c, i] \<Rightarrow> (if a = ''auto'' \<and> c = ''confirm''
               then bind (hex_uuid i) (\<lambda>node_id. confirm_node_auto b node_id user) else ret ())
         | _ \<Rightarrow> ret ())
      else ret ())"

definition runtime_callback :: "bot \<Rightarrow> tg_update \<Rightarrow> unit act" where
  "runtime_callback b u = on_query b u (runtime_menu b)"

definition change_mode :: "bot \<Rightarrow> int \<Rightarrow> uuid \<Rightarrow> node_operation_mode \<Rightarrow> unit act" where
  "change_mode b user node_id mode =
     bind (catch_all (andthen (set_node_operation_mode node_id mode user) (ret True)) (\<lambda>x.
       andthen (chat (EditQuery (''Node mode change failed:'' @ newline @ one_line_error x)
           [[(back_mark @ '' Node Mode'', ''o.n.'' @ uuid_hex node_id)]]))
         (ret False))) (\<lambda>done.
     whenM done (render_node_mode b OnQuery node_id user))"

definition request_live :: "bot \<Rightarrow> int \<Rightarrow> unit act" where
  "request_live b user =
     bind (catch_all (andthen (set_runtime_execution_mode LIVE user) (ret True)) (\<lambda>x.
       andthen (chat (EditQuery (''LIVE mode refused by safety gates:'' @ newline @ one_line_error x)
           [[(back_mark @ '' Controls'', ''o.controls'')]]))
         (ret False))) (\<lambda>done.
     whenM done (render_controls b OnQuery user))"

text \<open>What a verified button does.\<close>

definition runtime_action :: "bot \<Rightarrow> int \<Rightarrow> verified_callback \<Rightarrow> unit act" where
  "runtime_action b user v =
     (let a = vc_action v; again = render_controls b OnQuery user in
      if a = ''me'' then andthen (set_runtime_monitoring True user) again
      else if a = ''md'' then andthen (set_runtime_monitoring False user) again
      else if a = ''ae'' then andthen (set_runtime_replacement True user) again
      else if a = ''ad'' then andthen (set_runtime_replacement False user) again
      else if a = ''xd'' then andthen (set_runtime_execution_mode MODE_DRY_RUN user) again
      else if a = ''xl'' then request_live b user
      else if a = ''nd'' then change_mode b user (vc_entity_id v) MODE_DISABLED
      else if a = ''nm'' then change_mode b user (vc_entity_id v) MONITOR_ONLY
      else if a = ''na'' then change_mode b user (vc_entity_id v) AUTO_REPAIR
      else ret ())"

definition runtime_signed :: "bot \<Rightarrow> int \<Rightarrow> string \<Rightarrow> unit act" where
  "runtime_signed b user data =
     bind (verify b data user) (\<lambda>r. case r of
       Inr v \<Rightarrow> runtime_action b user v
     | Inl (InvalidCallbackData _) \<Rightarrow> chat (EditQuery ''This confirmation is invalid or expired.'' [])
     | Inl x \<Rightarrow> reraise (signer_exn x))"

definition runtime_signed_callback :: "bot \<Rightarrow> tg_update \<Rightarrow> unit act" where
  "runtime_signed_callback b u = on_query b u (runtime_signed b)"

definition runtime_patterns :: "string list" where
  "runtime_patterns = [''me'', ''md'', ''ae'', ''ad'', ''xl'', ''xd'', ''na'', ''nm'', ''nd'']"

end
