(* ===== verification/HealthUi.thy ===== *)
theory HealthUi
  imports Telegram Diagnostics
begin

text \<open>
  \<open>app/bot/health_ui.py\<close>: the reports of the diagnostics in the chat. A failure of the report itself is
  shown as one message.
\<close>

definition health_keyboard :: keyboard where
  "health_keyboard =
     [[(progress_mark @ '' Refresh All'', ''h.refresh'')],
      [(puzzle_mark @ '' Core APIs'', ''h.core''), (cloud_mark @ '' Providers'', ''h.providers'')],
      [(screen_mark @ '' Node APIs'', ''h.nodes'')],
      [(back_mark @ '' Main Menu'', ''m.status'')]]"

fun health_icon :: "health_status \<Rightarrow> string" where
  "health_icon HEALTH_HEALTHY = tick_mark"
| "health_icon HEALTH_DEGRADED = warning_mark"
| "health_icon HEALTH_FAILED = cross_mark"
| "health_icon HEALTH_NOT_CONFIGURED = white_mark"

definition format_result :: "health_item \<Rightarrow> string" where
  "format_result x =
     health_icon (hi_status x) @ '' '' @ hi_label x @
     (case hi_latency_ms x of None \<Rightarrow> [] | Some ms \<Rightarrow> '' '' @ dot_mark @ '' '' @ show_int ms @ ''ms'') @
     newline @ ''   '' @ hi_detail x"

text \<open>What is to be checked: everything, or the checks of one category.\<close>

datatype health_scope = All_Checks | Core_Checks | Provider_Checks | Node_Checks

fun scope_title :: "health_scope \<Rightarrow> string" where
  "scope_title All_Checks = heart_mark @ '' API Health Center''"
| "scope_title Core_Checks = puzzle_mark @ '' Core API Health''"
| "scope_title Provider_Checks = cloud_mark @ '' Provider API Health''"
| "scope_title Node_Checks = screen_mark @ '' Node API Health''"

definition format_report :: "health_item list \<Rightarrow> health_scope \<Rightarrow> string" where
  "format_report xs scope =
     text_lines
       ([scope_title scope, []] @ map format_result xs @
        [[], ''Healthy: '' @ show_nat (status_count HEALTH_HEALTHY xs) @
           '' | Failed: '' @ show_nat (status_count HEALTH_FAILED xs) @
           '' | Degraded: '' @ show_nat (status_count HEALTH_DEGRADED xs),
         ''Read-only diagnostics only; no VPS/Master mutation is performed.''])"

fun run_checks :: "(real \<Rightarrow> string) \<Rightarrow> health_scope \<Rightarrow> health_item list act" where
  "run_checks show_g All_Checks = check_all show_g"
| "run_checks show_g Core_Checks = check_core show_g"
| "run_checks show_g Provider_Checks = check_providers show_g"
| "run_checks show_g Node_Checks = check_nodes show_g"

definition render_health :: "bot \<Rightarrow> target \<Rightarrow> health_scope \<Rightarrow> unit act" where
  "render_health b t scope =
     bind (run_checks (lib_real_text (bt_libs b)) scope) (\<lambda>xs.
       edit_or_reply t (format_report xs scope) health_keyboard)"

definition health_menu :: "bot \<Rightarrow> string \<Rightarrow> unit act" where
  "health_menu b data =
     (if data = ''h.all'' \<or> data = ''h.refresh'' then render_health b OnQuery All_Checks
      else if data = ''h.core'' then render_health b OnQuery Core_Checks
      else if data = ''h.providers'' then render_health b OnQuery Provider_Checks
      else if data = ''h.nodes'' then render_health b OnQuery Node_Checks
      else chat (EditQuery ''Unknown health action.'' []))"

definition health_callback :: "bot \<Rightarrow> tg_update \<Rightarrow> unit act" where
  "health_callback b u =
     (case up_query u of
        None \<Rightarrow> ret ()
      | Some data \<Rightarrow>
          (if \<not> is_authorized (bt_authorized b) (up_user u) then chat (Answer (Some ''Access denied.'') True)
           else
             andthen (chat (Answer (Some (''Running read-only health checks'' @ ellipsis)) False))
             (catch_all (health_menu b (text_of data)) (\<lambda>x.
               chat (EditQuery
                 (cross_mark @ '' API Health Center failed unexpectedly. No infrastructure mutation was attempted.'')
                 health_keyboard)))))"

end
