(* ===== verification/Notifier.thy ===== *)
theory Notifier
  imports Telegram
begin

text \<open>
  \<open>app/bot/notifier.py\<close>: the notifier reads the audit events after its cursor in the order of their
  time, sends a message for those of the five notifiable types, and moves the cursor past each event
  once it has dealt with it. A message that cannot be sent ends the run with the cursor before its event.
\<close>

definition notifiable :: "event_type set" where
  "notifiable = {NODE_FAILED, NODE_RECOVERED, REPLACEMENT_STARTED, REPLACEMENT_COMPLETED, REPLACEMENT_FAILED}"

text \<open>\<open>_TITLES\<close>; an event of another type has a title of its own.\<close>

fun event_title :: "event_type \<Rightarrow> string" where
  "event_title NODE_FAILED = alarm_mark @ '' ASO Node Failed''"
| "event_title NODE_RECOVERED = tick_mark @ '' ASO Node Recovered''"
| "event_title REPLACEMENT_STARTED = tool_mark @ '' ASO Replacement Started''"
| "event_title REPLACEMENT_COMPLETED = tick_mark @ '' ASO Replacement Completed''"
| "event_title REPLACEMENT_FAILED = cross_mark @ '' ASO Replacement Failed''"
| "event_title t = ''ASO event: '' @ event_type_value t"

definition provider_label :: "notification_context \<Rightarrow> string option" where
  "provider_label c =
     (if truthy_text (nc_provider_name c) \<and> truthy_text (nc_provider_type c) then
        (let name = text_of (nc_provider_name c); type = text_of (nc_provider_type c) in
         if lower name = lower type then Some name else Some (name @ '' ('' @ type @ '')''))
      else if truthy_text (nc_provider_name c) then nc_provider_name c else nc_provider_type c)"

text \<open>The payload of an event is an object; an empty or missing one has no states.\<close>

definition state_transition :: "(json \<Rightarrow> string) \<Rightarrow> json option \<Rightarrow> node_state option \<Rightarrow> string option" where
  "state_transition repr payload state =
     (let fields = (case payload of Some (JObj fs) \<Rightarrow> fs | _ \<Rightarrow> []);
          previous = jget fields ''previous_state''; current = jget fields ''current_state'' in
      if truthy previous \<and> truthy current then
        Some (py_str repr previous @ '' '' @ arrow_mark @ '' '' @ py_str repr current)
      else map_option node_state_value state)"

text \<open>\<open>value.replace("_", " ").title()\<close>.\<close>

definition capital :: "string \<Rightarrow> string" where
  "capital s = (case s of [] \<Rightarrow> [] | c # cs \<Rightarrow> to_upper c # lower cs)"

definition title_text :: "string \<Rightarrow> string" where
  "title_text s = join_with '' '' (map capital (split_on (CHR ''_'') s))"

definition optional_line :: "string \<Rightarrow> string option \<Rightarrow> string list" where
  "optional_line label v = (if truthy_text v then [label @ text_of v] else [])"

definition target_lines :: "notification_context \<Rightarrow> string list" where
  "target_lines c =
     (if truthy_text (nc_target_host c) then
        (let host = text_of (nc_target_host c);
             target = (case nc_target_port c of None \<Rightarrow> host
               | Some p \<Rightarrow> if p = 0 then host else host @ '':'' @ show_int p) in
         if nc_vps_host c = Some target then [] else [''Monitor target: '' @ target])
      else [])"

definition count_lines :: "event_type \<Rightarrow> notification_context \<Rightarrow> string list" where
  "count_lines t c =
     (if t = NODE_FAILED \<and> nc_consecutive_failures c \<noteq> None then
        [''Consecutive failures: '' @ show_int (the (nc_consecutive_failures c))]
      else if t = NODE_RECOVERED \<and> nc_consecutive_successes c \<noteq> None then
        [''Consecutive successes: '' @ show_int (the (nc_consecutive_successes c))]
      else [])"

definition opt_line :: "('a \<Rightarrow> string) \<Rightarrow> 'a option \<Rightarrow> string list" where
  "opt_line f v = (case v of None \<Rightarrow> [] | Some a \<Rightarrow> [f a])"

definition format_notification :: "(json \<Rightarrow> string) \<Rightarrow> event_snapshot \<Rightarrow> notification_context \<Rightarrow> string" where
  "format_notification repr x c =
     (let transition = state_transition repr (es_payload x) (nc_state c) in
      text_lines
       ([event_title (es_event_type x), []] @
        optional_line ''Node: '' (nc_node_name c) @
        opt_line (\<lambda>i. ''Node ID: '' @ short_id i) (nc_node_id c) @
        optional_line ''Provider: '' (provider_label c) @
        optional_line ''VPS IP/Host: '' (nc_vps_host c) @
        target_lines c @
        (if truthy_text transition then [''State: '' @ text_of transition]
         else opt_line (\<lambda>s. ''State: '' @ node_state_value s) (nc_state c)) @
        count_lines (es_event_type x) c @
        opt_line (\<lambda>m. ''Mode: '' @ title_text (mode_value m)) (nc_operation_mode c) @
        opt_line (\<lambda>i. ''Job: '' @ short_id i) (nc_job_id c) @
        opt_line (\<lambda>t. ''Trigger: '' @ (if t = FORCE then ''Force Repair'' else ''Automatic/Standard''))
          (nc_trigger_mode c) @
        opt_line (\<lambda>d. ''Execution: '' @ (if d then ''DRY RUN'' else ''LIVE'')) (nc_is_dry_run c) @
        [''Time: '' @ utc_text (es_created_at x) @ '' UTC'', [], es_message x]))"

definition notify_event :: "int \<Rightarrow> event_snapshot \<Rightarrow> unit act" where
  "notify_event chat_id x =
     bind (event_notification_context x) (\<lambda>c.
     bind (ask_env env_repr) (\<lambda>repr. chat (SendTo chat_id (format_notification repr x c))))"

fun notify_events :: "int \<Rightarrow> event_snapshot list \<Rightarrow> nat \<Rightarrow> nat act" where
  "notify_events chat_id [] sent = ret sent"
| "notify_events chat_id (x # xs) sent =
     andthen (whenM (es_event_type x \<in> notifiable) (notify_event chat_id x))
     (andthen (advance_event_cursor x)
     (notify_events chat_id xs (if es_event_type x \<in> notifiable then Suc sent else sent)))"

definition notifier_run :: "int \<Rightarrow> nat act" where
  "notifier_run chat_id =
     bind initialize_event_cursor (\<lambda>fresh.
     if fresh then ret 0
     else bind (list_events_after_cursor 100) (\<lambda>events. notify_events chat_id events 0))"

text \<open>The repeated task of the job queue (\<open>notify\<close> in \<open>build_telegram_application\<close>): a failed run is
  logged and the next one starts where it stopped.\<close>

definition notify_tick :: "int \<Rightarrow> unit act" where
  "notify_tick chat_id = catch_all (andthen (notifier_run chat_id) (ret ())) (\<lambda>x. ret ())"

end
