(* ===== verification/Application.thy ===== *)
theory Application
  imports WizardSteps RuntimeUi HealthUi Notifier
begin

text \<open>
  \<open>app/bot/application.py\<close>: the commands and buttons of the bot, the confirmations, the task that follows
  a workflow, and which handler an update goes to. The library hands over one update at a time; the
  tasks it is asked to start run beside them.
\<close>

section \<open>Texts\<close>

definition main_menu :: keyboard where
  "main_menu =
     [[(''Status'', ''m.status''), (''Nodes'', ''m.nodes''), (''Providers'', ''m.providers'')],
      [(heart_mark @ '' API Health'', ''m.health''), (gear_mark @ '' Controls'', ''m.controls'')],
      [(''Jobs'', ''m.jobs''), (''Logs'', ''m.logs''), (''Settings'', ''m.settings'')]]"

definition node_text :: "bot \<Rightarrow> node_detail_snapshot \<Rightarrow> string" where
  "node_text b = format_node_detail (lib_local_text (bt_libs b))"

definition events_text :: "bot \<Rightarrow> event_snapshot list \<Rightarrow> string" where
  "events_text b = format_events (lib_local_text (bt_libs b))"

definition settings_text :: "string act" where
  "settings_text = bind settings_snapshot (\<lambda>kvs. bind (ask_env env_repr) (\<lambda>repr. ret (format_settings repr kvs)))"

text \<open>What follows the first point of the data of a button.\<close>

definition after_point :: "string \<Rightarrow> string option" where
  "after_point data =
     (case dropWhile (\<lambda>c. c \<noteq> CHR ''.'') data of [] \<Rightarrow> None | _ # rest \<Rightarrow> Some rest)"

definition before_point :: "string \<Rightarrow> string" where
  "before_point data = takeWhile (\<lambda>c. c \<noteq> CHR ''.'') data"

section \<open>Commands that read\<close>

definition cmd_start :: "bot \<Rightarrow> tg_update \<Rightarrow> unit act" where
  "cmd_start b u = on_message b u (\<lambda>_.
     bind control_list_providers (\<lambda>ps. bind (control_list_nodes 1) (\<lambda>ns.
     chat (Reply
       (''ASO Node Recovery'' @ newline @ newline @
        ''Registry: '' @ show_nat (length ps) @ '' provider(s), '' @ (if ns = [] then ''0'' else ''1+'') @ '' node(s).'' @
        (if ps = [] \<or> ns = [] then newline @ ''Setup required on server: ./asoctl setup'' else []) @
        newline @ newline @ ''Use the menu below or commands:'' @ newline @
        ''/status /nodes /node <id|name> /check <id|name>'' @ newline @
        ''/replace <id|name> /force <id|name> /jobs /logs /providers /settings'' @ newline @
        ''/controls /pause /resume'')
       main_menu))))"

definition cmd_status :: "bot \<Rightarrow> tg_update \<Rightarrow> unit act" where
  "cmd_status b u = on_message b u (\<lambda>_. bind dashboard (\<lambda>x. chat (Reply (format_dashboard x) [])))"

definition cmd_nodes :: "bot \<Rightarrow> tg_update \<Rightarrow> unit act" where
  "cmd_nodes b u = on_message b u (\<lambda>_. render_nodes OnMessage)"

definition cmd_providers :: "bot \<Rightarrow> tg_update \<Rightarrow> unit act" where
  "cmd_providers b u = on_message b u (\<lambda>_. render_providers OnMessage)"

definition cmd_logs :: "bot \<Rightarrow> tg_update \<Rightarrow> unit act" where
  "cmd_logs b u = on_message b u (\<lambda>_. bind (control_list_events 15) (\<lambda>xs. chat (Reply (events_text b xs) [])))"

definition cmd_settings :: "bot \<Rightarrow> tg_update \<Rightarrow> unit act" where
  "cmd_settings b u = on_message b u (\<lambda>_. bind settings_text (\<lambda>s. chat (Reply s [])))"

definition cmd_api_health :: "bot \<Rightarrow> tg_update \<Rightarrow> unit act" where
  "cmd_api_health b u = on_message b u (\<lambda>_. render_health b OnMessage All_Checks)"

definition job_buttons :: "job_snapshot \<Rightarrow> (string \<times> string) list" where
  "job_buttons j =
     [(''Resume '' @ take 8 (uuid_str (js_id j)), ''ju.'' @ uuid_hex (js_id j)),
      (''Cancel '' @ take 8 (uuid_str (js_id j)), ''ja.'' @ uuid_hex (js_id j))]"

definition cmd_jobs :: "bot \<Rightarrow> tg_update \<Rightarrow> unit act" where
  "cmd_jobs b u = on_message b u (\<lambda>_.
     bind (list_jobs 20) (\<lambda>js.
     chat (Reply (format_jobs js) (map job_buttons (filter js_active (take 10 js))))))"

text \<open>A command about the node its arguments name.\<close>

definition about_node :: "bot \<Rightarrow> tg_update \<Rightarrow> string \<Rightarrow> (int \<Rightarrow> node_detail_snapshot \<Rightarrow> unit act) \<Rightarrow> unit act" where
  "about_node b u usage body = on_message b u (\<lambda>user.
     if up_args u = [] then chat (Reply (''Usage: '' @ usage @ '' <uuid|name>'') [])
     else bind (control_resolve_node (join_with '' '' (up_args u))) (\<lambda>found. case found of
         None \<Rightarrow> chat (Reply ''Node not found.'' [])
       | Some x \<Rightarrow> body user x))"

definition cmd_node :: "bot \<Rightarrow> tg_update \<Rightarrow> unit act" where
  "cmd_node b u = about_node b u ''/node'' (\<lambda>_ x.
     let d = uuid_hex (ns_id (nd_node x)) in
     chat (Reply (node_text b x)
       [[(''Check'', ''ck.'' @ d), (''Replace'', ''rp.'' @ d)], [(warning_mark @ '' Force Repair'', ''fr.'' @ d)]]))"

section \<open>Commands that act\<close>

definition checked_text :: "bot \<Rightarrow> uuid \<Rightarrow> string \<Rightarrow> string act" where
  "checked_text b i result =
     bind (control_resolve_node (uuid_str i)) (\<lambda>found.
       ret (''Manual check result: '' @ result @
         (case found of None \<Rightarrow> [] | Some x \<Rightarrow> newline @ newline @ node_text b x)))"

definition cmd_check :: "bot \<Rightarrow> tg_update \<Rightarrow> unit act" where
  "cmd_check b u = about_node b u ''/check'' (\<lambda>user x.
     let i = ns_id (nd_node x) in
     bind (manual_check i user) (\<lambda>result. bind (checked_text b i result) (\<lambda>s. chat (Reply s []))))"

definition replace_question :: string where
  "replace_question = ''Replace this node? The old VPS is protected until all verification gates pass.''"

definition replace_keyboard :: "string \<Rightarrow> keyboard" where
  "replace_keyboard data = [[(''Confirm replacement'', data)]]"

definition force_keyboard :: "string \<Rightarrow> keyboard" where
  "force_keyboard data = [[(warning_mark @ '' CONFIRM FORCE REPAIR'', data)]]"

definition send_replace_confirmation :: "bot \<Rightarrow> uuid \<Rightarrow> int \<Rightarrow> unit act" where
  "send_replace_confirmation b i user =
     bind (sign b ''rc'' i user) (\<lambda>data. chat (Reply replace_question (replace_keyboard data)))"

definition edit_replace_confirmation :: "bot \<Rightarrow> uuid \<Rightarrow> int \<Rightarrow> unit act" where
  "edit_replace_confirmation b i user =
     bind (sign b ''rc'' i user) (\<lambda>data. chat (EditQuery replace_question (replace_keyboard data)))"

definition send_force_confirmation :: "bot \<Rightarrow> uuid \<Rightarrow> int \<Rightarrow> unit act" where
  "send_force_confirmation b i user =
     bind (sign b ''fc'' i user) (\<lambda>data. chat (Reply
       (warning_mark @ '' FORCE REPAIR'' @ newline @ newline @
        ''This starts replacement even if Check-Host currently reports the node reachable. '' @
        ''It bypasses ONLY the initial FAILED-state requirement. New-IP checks, SSH/3X-UI '' @
        ''verification, Master verification, final health check, concurrency limits and old-VPS '' @
        ''deletion protection remain mandatory.'' @ newline @ newline @ ''Continue?'')
       (force_keyboard data)))"

definition edit_force_confirmation :: "bot \<Rightarrow> uuid \<Rightarrow> int \<Rightarrow> unit act" where
  "edit_force_confirmation b i user =
     bind (sign b ''fc'' i user) (\<lambda>data. chat (EditQuery
       (warning_mark @ '' FORCE REPAIR'' @ newline @ newline @
        ''The node does not need to be FAILED. All downstream safety and verification gates '' @
        ''still apply. The old VPS remains protected until the normal final cleanup gate.'' @ newline @ newline @
        ''Confirm?'')
       (force_keyboard data)))"

definition cmd_replace :: "bot \<Rightarrow> tg_update \<Rightarrow> unit act" where
  "cmd_replace b u = about_node b u ''/replace'' (\<lambda>user x. send_replace_confirmation b (ns_id (nd_node x)) user)"

definition cmd_force :: "bot \<Rightarrow> tg_update \<Rightarrow> unit act" where
  "cmd_force b u = about_node b u ''/force'' (\<lambda>user x. send_force_confirmation b (ns_id (nd_node x)) user)"

definition cmd_pause :: "bot \<Rightarrow> tg_update \<Rightarrow> unit act" where
  "cmd_pause b u = on_message b u (\<lambda>user.
     bind (control_set_paused True user) (\<lambda>changed.
     chat (Reply (if changed then ''System paused.'' else ''System was already paused.'') [])))"

definition cmd_resume :: "bot \<Rightarrow> tg_update \<Rightarrow> unit act" where
  "cmd_resume b u = on_message b u (\<lambda>user.
     bind (control_set_paused False user) (\<lambda>changed.
     chat (Reply (if changed then ''System resumed.'' else ''System was already running.'') [])))"

section \<open>The menu\<close>

definition show_text :: "string act \<Rightarrow> unit act" where
  "show_text m = bind m (\<lambda>s. chat (EditQuery s main_menu))"

definition menu_action :: "bot \<Rightarrow> int \<Rightarrow> string \<Rightarrow> unit act" where
  "menu_action b user a =
     (if a = ''status'' then show_text (bind dashboard (\<lambda>x. ret (format_dashboard x)))
      else if a = ''nodes'' then render_nodes OnQuery
      else if a = ''providers'' then render_providers OnQuery
      else if a = ''health'' then render_health b OnQuery All_Checks
      else if a = ''controls'' then render_controls b OnQuery user
      else if a = ''jobs'' then show_text (bind (list_jobs 20) (\<lambda>js. ret (format_jobs js)))
      else if a = ''logs'' then show_text (bind (control_list_events 15) (\<lambda>xs. ret (events_text b xs)))
      else if a = ''settings'' then show_text settings_text
      else show_text (ret ''Unknown menu action.''))"

definition menu_callback :: "bot \<Rightarrow> tg_update \<Rightarrow> unit act" where
  "menu_callback b u = on_query b u (\<lambda>user data.
     bind (require_some (after_point data) OtherError ''list index out of range'') (menu_action b user))"

section \<open>Confirmed actions\<close>

definition force_request_key :: "string \<Rightarrow> int \<Rightarrow> string" where
  "force_request_key data user =
     ''tg-force:'' @ take 48 (hexdigest (sha256 (map of_char (show_int user @ '':'' @ data))))"

definition confirmed_replace :: "int \<Rightarrow> int \<Rightarrow> uuid \<Rightarrow> unit act" where
  "confirmed_replace chat_id user i =
     bind (trigger_replacement i user) (\<lambda>job_id.
     andthen (chat (EditQuery (''Replacement accepted. Starting workflow'' @ ellipsis) []))
       (chat (StartProgress chat_id job_id user)))"

definition confirmed_force :: "int \<Rightarrow> int \<Rightarrow> uuid \<Rightarrow> string \<Rightarrow> unit act" where
  "confirmed_force chat_id user i data =
     bind (attempt (trigger_force_repair i user (force_request_key data user))) (\<lambda>r. case r of
       Inl x \<Rightarrow> chat (EditQuery (''Force Repair rejected: '' @ safe_operator_error x) [])
     | Inr job_id \<Rightarrow>
         andthen (chat (EditQuery
           (''Force Repair accepted. Only the initial health-state requirement was bypassed; '' @
            ''all replacement safety gates remain enforced. Starting workflow'' @ ellipsis) []))
           (chat (StartProgress chat_id job_id user)))"

definition ask_resume :: "bot \<Rightarrow> int \<Rightarrow> uuid \<Rightarrow> unit act" where
  "ask_resume b user i =
     bind (sign b ''jr'' i user) (\<lambda>data.
       chat (EditQuery ''Resume this replacement job?'' [[(''Confirm resume'', data)]]))"

definition ask_cancel :: "bot \<Rightarrow> int \<Rightarrow> uuid \<Rightarrow> unit act" where
  "ask_cancel b user i =
     bind (sign b ''jc'' i user) (\<lambda>data.
       chat (EditQuery ''Cancel this replacement job? Cancellation is refused after Master switch.''
         [[(''Confirm cancel'', data)]]))"

definition ask_toggle :: "bot \<Rightarrow> int \<Rightarrow> uuid \<Rightarrow> unit act" where
  "ask_toggle b user i =
     bind control_list_providers (\<lambda>ps. case find (\<lambda>p. cps_id p = i) ps of
       None \<Rightarrow> chat (EditQuery ''Provider not found.'' [])
     | Some p \<Rightarrow>
         let verb = (if cps_is_active p then ''disable'' else ''enable'') in
         bind (sign b (if cps_is_active p then ''pd'' else ''pe'') i user) (\<lambda>data.
           chat (EditQuery (''Confirm '' @ verb @ '' provider '' @ cps_display_name p @ ''?'')
             [[(''Confirm '' @ verb, data)]])))"

definition signed_actions :: "string list" where
  "signed_actions = [''rc'', ''fc'', ''jr'', ''jc'', ''pe'', ''pd'']"

text \<open>The entity a button is about: a button that changes something must carry a valid signature.\<close>

definition button_entity :: "bot \<Rightarrow> int \<Rightarrow> string \<Rightarrow> uuid option act" where
  "button_entity b user data =
     (case after_point data of
        None \<Rightarrow> ret None
      | Some raw \<Rightarrow>
          (if before_point data \<in> set signed_actions then
             bind (verify b data user) (\<lambda>r. case r of
               Inr v \<Rightarrow> ret (Some (vc_entity_id v))
             | Inl (CallbackTypeError m) \<Rightarrow> raise TypeError m
             | Inl _ \<Rightarrow> ret None)
           else ret (parse_uuid raw)))"

definition button_action :: "bot \<Rightarrow> int \<Rightarrow> int \<Rightarrow> string \<Rightarrow> uuid \<Rightarrow> unit act" where
  "button_action b chat_id user data i =
     (let a = before_point data in
      if a = ''ck'' then
        bind (manual_check i user) (\<lambda>result.
        bind (checked_text b i result) (\<lambda>s. chat (EditQuery s [])))
      else if a = ''rp'' then edit_replace_confirmation b i user
      else if a = ''rc'' then confirmed_replace chat_id user i
      else if a = ''fr'' then edit_force_confirmation b i user
      else if a = ''fc'' then confirmed_force chat_id user i data
      else if a = ''ju'' then ask_resume b user i
      else if a = ''jr'' then
        andthen (chat (EditQuery ''Resume accepted.'' [])) (chat (StartProgress chat_id i user))
      else if a = ''ja'' then ask_cancel b user i
      else if a = ''jc'' then
        andthen (cancel_job i user) (chat (EditQuery ''Replacement job cancelled.'' []))
      else if a = ''pt'' then ask_toggle b user i
      else if a = ''pe'' \<or> a = ''pd'' then
        andthen (set_provider_active i (a = ''pe'') user)
          (chat (EditQuery (''Provider '' @ (if a = ''pe'' then ''enabled'' else ''disabled'') @ ''.'') []))
      else ret ())"

definition button_callback :: "bot \<Rightarrow> tg_update \<Rightarrow> unit act" where
  "button_callback b u = on_query b u (\<lambda>user data.
     bind (button_entity b user data) (\<lambda>entity. case entity of
       None \<Rightarrow> chat (EditQuery ''This action is invalid or expired.'' [])
     | Some i \<Rightarrow> button_action b (up_chat u) user data i))"

end
