(* ===== verification/Dispatch.thy ===== *)
theory Dispatch
  imports Application
begin

text \<open>
  The task that follows a workflow in the chat, and \<open>build_telegram_application\<close> with the \<open>register\<close>
  methods of the four controllers: which handler an update goes to. No two patterns accept the same
  button, so one handler runs for an update.
\<close>

section \<open>The progress of a workflow\<close>

definition progress_poll :: "uuid \<Rightarrow> string \<Rightarrow> string act" where
  "progress_poll job_id shown =
     bind (get_job_snapshot job_id) (\<lambda>found. case found of
       None \<Rightarrow> ret shown
     | Some j \<Rightarrow>
         let s = format_job_progress j in
         if s = shown then ret shown else andthen (safe_call (EditSent s)) (ret s))"

text \<open>
  The polls until the workflow is done: \<open>n\<close> of them, as often as the event loop comes to it. They only
  read the job.
\<close>

fun progress_polls :: "nat \<Rightarrow> uuid \<Rightarrow> string \<Rightarrow> unit act" where
  "progress_polls 0 job_id shown = ret ()"
| "progress_polls (Suc n) job_id shown =
     bind (progress_poll job_id shown) (\<lambda>s.
     bind settings_of (\<lambda>cfg. andthen (sleep (telegram_progress_interval_seconds cfg)) (progress_polls n job_id s)))"

definition progress_failed :: "exn \<Rightarrow> unit act" where
  "progress_failed x = safe_call (EditSent (''Replacement workflow error: '' @ exn_msg x))"

text \<open>
  \<open>_run_job_progress\<close>. The workflow is a task of its own, which goes on when the polls fail; it is run
  after them here, where the program runs the two side by side.
\<close>

definition run_job_progress :: "nat \<Rightarrow> int \<Rightarrow> uuid \<Rightarrow> int \<Rightarrow> unit act" where
  "run_job_progress n chat_id job_id user =
     andthen (chat (SendTo chat_id (''Loading replacement'' @ ellipsis)))
     (bind (attempt (progress_polls n job_id [])) (\<lambda>polls.
     bind (attempt (resume_job job_id user)) (\<lambda>workflow.
     case (polls, workflow) of
       (Inl x, _) \<Rightarrow> progress_failed x
     | (Inr _, Inl x) \<Rightarrow> progress_failed x
     | _ \<Rightarrow> bind (get_job_snapshot job_id) (\<lambda>found. case found of
           None \<Rightarrow> ret () | Some j \<Rightarrow> safe_call (EditSent (format_job_progress j))))))"

section \<open>The handlers\<close>

definition command_handlers :: "(string \<times> (bot \<Rightarrow> tg_update \<Rightarrow> unit act)) list" where
  "command_handlers =
     [(''start'', cmd_start), (''help'', cmd_start), (''status'', cmd_status), (''nodes'', cmd_nodes),
      (''node'', cmd_node), (''check'', cmd_check), (''replace'', cmd_replace), (''force'', cmd_force),
      (''jobs'', cmd_jobs), (''logs'', cmd_logs), (''settings'', cmd_settings), (''providers'', cmd_providers),
      (''apihealth'', cmd_api_health), (''pause'', cmd_pause), (''resume'', cmd_resume),
      (''controls'', controls_command)]"

definition button_handlers :: "(string list \<times> (bot \<Rightarrow> tg_update \<Rightarrow> unit act)) list" where
  "button_handlers =
     [([''m''], menu_callback),
      ([''ck'', ''rp'', ''rc'', ''fr'', ''fc'', ''ju'', ''jr'', ''ja'', ''jc'', ''pt'', ''pe'', ''pd''], button_callback),
      ([''r''], registry_callback),
      ([''px'', ''nx'', ''pc'', ''nc'', ''sc'', ''hk''], registry_signed_callback),
      ([''h''], health_callback),
      ([''o''], runtime_callback),
      (runtime_patterns, runtime_signed_callback)]"

text \<open>An update is a command, the press of a button, another text, or nothing the bot listens to.\<close>

definition handle_update :: "bot \<Rightarrow> tg_update \<Rightarrow> unit act" where
  "handle_update b u =
     (case up_query u of
        Some None \<Rightarrow> ret ()
      | Some (Some data) \<Rightarrow> (case find (\<lambda>(ps, h). has_prefix ps data) button_handlers of
            None \<Rightarrow> ret () | Some (ps, h) \<Rightarrow> h b u)
      | None \<Rightarrow> (case up_command u of
            Some c \<Rightarrow> (case map_of command_handlers (lower c) of None \<Rightarrow> ret () | Some h \<Rightarrow> h b u)
          | None \<Rightarrow> if up_text u = None then ret () else registry_message b u))"

definition start_bot :: "settings \<Rightarrow> bot_libs \<Rightarrow> exn + bot \<times> int option" where
  "start_bot s libs =
     (if \<not> telegram_bot_enabled s then
        Inl (Exn ValueError ''ASO_TELEGRAM_BOT_ENABLED must be true to start Telegram'')
      else if telegram_bot_token s = None then Inl (Exn ValueError ''ASO_TELEGRAM_BOT_TOKEN is required'')
      else (case make_bot s libs of
          Inl x \<Rightarrow> Inl x | Inr b \<Rightarrow> Inr (b, telegram_notification_chat_id s)))"

lemma button_prefixes_disjoint:
  "distinct (concat (map fst button_handlers))" "list_all (\<lambda>p. CHR ''.'' \<notin> set p) (concat (map fst button_handlers))"
  by (simp_all add: button_handlers_def runtime_patterns_def)

end
