(* ===== verification/BotFrames.thy ===== *)
theory BotFrames
  imports Frames Dispatch
begin

text \<open>
  The handlers of the bot as bystanders of the replacement jobs: every handler but the buttons that
  confirm a replacement, a forced one or a cancellation.
\<close>

context bystander
begin

lemma keeps_chat [keeps]: "keeps e I (chat c)"
  by (auto simp: keeps_def chat_def intro: process split: option.splits)

lemma keeps_wizard [keeps]:
  "keeps e I wizard_fields" "keeps e I has_wizard" "keeps e I (start_wizard fs)" "keeps e I pop_wizard"
  "keeps e I (update_wizard fs)" "keeps e I (forget_key k)" "keeps e I (seen_key b)"
  by (auto simp: keeps_def wizard_fields_def has_wizard_def start_wizard_def pop_wizard_def update_wizard_def
      forget_key_def seen_key_def intro: process)

lemma keeps_bot [keeps]:
  "keeps e I (sign b a i user)" "keeps e I (verify b data user)" "keeps e I (verified b data user)"
  "keeps e I (edit_or_reply t s kb)" "keeps e I (safe_call c)" "keeps e I (hex_uuid s)" "keeps e I (access_denied u)"
  unfolding sign_def verified_def verify_def edit_or_reply_def safe_call_def hex_uuid_def access_denied_def
  by (intro keeps)+

lemma keeps_on [keeps]:
  "(\<And>user. keeps e I (f user)) \<Longrightarrow> keeps e I (on_message b u f)"
  "(\<And>user data. keeps e I (g user data)) \<Longrightarrow> keeps e I (on_query b u g)"
  unfolding on_message_def on_query_def by (auto intro!: keeps split: option.splits)

lemma keeps_wizard_reads [keeps]:
  "keeps e I (wizard_get k)" "keeps e I (wizard_item k)" "keeps e I (wizard_text k)" "keeps e I (wizard_int k)"
  "keeps e I (wizard_option k)" "keeps e I (next_stage s)" "keeps e I (expect_stage s)" "keeps e I (require_stage s i)"
  "keeps e I (wizard_uuid k)" "keeps e I wizard_auth" "keeps e I (provider_type_named s)" "keeps e I (ssh_auth_named s)"
  "keeps e I (port_of s)" "keeps e I delete_secret_message" "keeps e I cancel_wizard" "keeps e I node_add_preview"
  unfolding wizard_get_def wizard_item_def wizard_text_def wizard_int_def wizard_option_def next_stage_def
    expect_stage_def require_stage_def wizard_uuid_def wizard_auth_def provider_type_named_def ssh_auth_named_def
    enum_value_def port_of_def delete_secret_message_def cancel_wizard_def node_add_preview_def
  by (intro keeps | (auto intro!: keeps split: json.splits)[1])+

lemma keeps_host_key_request [keeps]:
  "keeps e I (request_host_key b user host p stage)"
  "keeps e I hm \<Longrightarrow> keeps e I (try_login b user hm x stage)"
  unfolding request_host_key_def try_login_def by (intro keeps | assumption)+

lemma keeps_registry_menu [keeps]:
  "keeps e I (render_providers t)" "keeps e I (render_nodes t)" "keeps e I (show_provider i)" "keeps e I (show_node i)"
  "keeps e I (provider_action b user parts)" "keeps e I (node_action b user parts)" "keeps e I (show_failure x)"
  unfolding render_providers_def render_nodes_def show_provider_def show_node_def provider_action_def node_action_def
    provider_verb_def node_verb_def toggle_provider_def start_edit_def show_failure_def Let_def
  by (intro keeps)+

lemma keeps_registry_add [keeps]:
  "keeps e I start_provider_add" "keeps e I (provider_type_selected s)" "keeps e I commit_provider_add"
  "keeps e I start_node_add" "keeps e I (node_provider_selected s)" "keeps e I (node_auth_selected s)"
  "keeps e I (node_ssh_edit_auth_selected parts)" "keeps e I (wizard_login k)" "keeps e I commit_node_add"
  "keeps e I (save_node b user)"
  unfolding start_provider_add_def provider_type_selected_def commit_provider_add_def staged_reference_def
    start_node_add_def node_provider_selected_def node_auth_selected_def node_ssh_edit_auth_selected_def
    wizard_login_def commit_node_add_def save_node_def Let_def
  by (intro keeps)+

lemma keeps_registry [keeps]:
  "keeps e I (registry_callback b u)" "keeps e I (registry_signed_callback b u)"
  unfolding registry_callback_def registry_menu_def registry_signed_callback_def registry_confirmed_def
    trust_confirmed_def finish_edit_def Let_def
  by (intro keeps)+

lemma keeps_provider_steps [keeps]:
  "keeps e I (step_provider_key s)" "keeps e I (step_provider_name s)" "keeps e I (step_provider_token s)"
  "keeps e I (step_provider_rename s)" "keeps e I (step_provider_token_replace b user s)"
  unfolding step_provider_key_def step_provider_name_def step_provider_token_def step_provider_rename_def
    step_provider_token_replace_def Let_def
  by (intro keeps)+

lemma keeps_node_steps [keeps]:
  "keeps e I (step_node_server_id s)" "keeps e I (try_node_discovery t)" "keeps e I (step_node_master_id s)"
  "keeps e I (step_node_api_token s)" "keeps e I (step_node_name s)" "keeps e I (step_username k s)"
  "keeps e I (step_node_ssh_port b user s)" "keeps e I (step_public_key k q s)" "keeps e I (step_node_ssh_secret b user s)"
  unfolding step_node_server_id_def try_node_discovery_def ask_node_token_def discovered_def step_node_master_id_def
    step_node_api_token_def step_node_name_def step_username_def step_node_ssh_port_def after_host_key_def
    step_public_key_def step_node_ssh_secret_def
  by (intro keeps)+

lemma keeps_edit_steps [keeps]:
  "keeps e I (step_node_rename s)" "keeps e I (step_node_token_replace b user s)" "keeps e I (node_address i)"
  "keeps e I (step_ssh_edit_port b user s)" "keeps e I (step_ssh_edit_secret b user s)"
  unfolding step_node_rename_def step_node_token_replace_def node_address_def step_ssh_edit_port_def
    after_host_key_def step_ssh_edit_secret_def
  by (intro keeps)+

lemma keeps_message [keeps]: "keeps e I (registry_message b u)"
  unfolding registry_message_def wizard_step_def by (intro keeps)

lemma keeps_runtime [keeps]:
  "keeps e I (render_controls b t user)" "keeps e I (render_node_mode b t i user)" "keeps e I (controls_command b u)"
  "keeps e I (runtime_callback b u)" "keeps e I (runtime_signed_callback b u)"
  unfolding render_controls_def render_node_mode_def controls_command_def runtime_callback_def runtime_menu_def
    confirm_live_def confirm_auto_def confirm_node_auto_def runtime_signed_callback_def runtime_signed_def
    runtime_action_def request_live_def change_mode_def Let_def
  by (intro keeps | (auto intro!: keeps split: list.splits callback_error.splits)[1])+

lemma keeps_health [keeps]: "keeps e I (render_health b t scope)" "keeps e I (health_callback b u)"
proof -
  have run: "keeps e I (run_checks g scope)" for g scope by (cases scope) (simp_all add: keeps)
  show render: "keeps e I (render_health b t scope)" for t scope
    unfolding render_health_def by (intro keeps run)
  show "keeps e I (health_callback b u)"
    unfolding health_callback_def health_menu_def by (intro keeps render)
qed

end

end
