(* ===== verification/BotProps.thy ===== *)
theory BotProps
  imports BotFrames ControlProps
begin

text \<open>
  Properties of the bot: what an update can change, and for whom. \<open>jobs_kept\<close> and \<open>looked\<close> are the
  invariants of the handlers, both interpretations of the locale \<open>bystander\<close>. No other process writes the
  database while an update is handled (\<open>alone\<close>).
\<close>

lemma find_SomeD: "find P xs = Some x \<Longrightarrow> x \<in> set xs \<and> P x"
  by (auto simp: find_Some_iff)

section \<open>The invariants\<close>

definition alone :: "env \<Rightarrow> env" where
  "alone e = e\<lparr>env_others := \<lambda>_ d. d\<rparr>"

lemma undisturbed_alone: "undisturbed (alone e)" "undisturbed e \<Longrightarrow> alone e = e"
  by (simp_all add: undisturbed_def alone_def)

definition jobs_kept :: "job_row list \<Rightarrow> world \<Rightarrow> bool" where
  "jobs_kept js w \<longleftrightarrow> t_jobs (w_db w) = js \<and> t_jobs (w_ses w) = js"

definition looked :: "(db \<times> ext) list \<Rightarrow> world \<Rightarrow> bool" where
  "looked tr w \<longleftrightarrow> (\<exists>new. w_trace w = new @ tr \<and> (\<forall>x \<in> set new. observes (snd x)))"

interpretation jobs: bystander "alone e" "jobs_kept js"
  by unfold_locales (simp_all add: jobs_kept_def undisturbed_opened undisturbed_alone closed_def)

lemma looked_call:
  assumes "looked tr w" and "observes x"
  shows "looked tr (w\<lparr>w_trace := (w_db w, x) # w_trace w\<rparr>)"
proof -
  obtain new where "w_trace w = new @ tr" "\<forall>x \<in> set new. observes (snd x)" using assms(1) by (auto simp: looked_def)
  with assms(2) show ?thesis by (auto simp: looked_def intro!: exI [of _ "(w_db w, x) # new"])
qed

lemma looked_same: "looked tr w \<Longrightarrow> w_trace w' = w_trace w \<Longrightarrow> looked tr w'"
  by (simp add: looked_def)

interpretation looks: bystander "alone e" "looked tr"
  by unfold_locales (auto intro: looked_same looked_call simp: undisturbed_opened undisturbed_alone closed_def)

lemma looked_start: "looked (w_trace w) w"
  by (simp add: looked_def)

section \<open>Starting and cancelling only look\<close>

lemma looked_trigger [keeps]: "keeps (alone e) (looked tr) (trigger i force key)"
proof (rule wp_keeps)
  fix w assume w: "looked tr w"
  show "wp (trigger i force key) (\<lambda>_. looked tr) (\<lambda>_. looked tr) (alone e) w"
    by (rule wp_mono [OF wp_trigger [OF undisturbed_alone(1)]])
      (use w in \<open>auto simp: still_def intro: looked_same\<close>)
qed

lemma looked_cancel [keeps]: "keeps (alone e) (looked tr) (cancel i)"
proof (rule wp_keeps)
  fix w assume w: "looked tr w"
  show "wp (cancel i) (\<lambda>_. looked tr) (\<lambda>_. looked tr) (alone e) w"
  proof (cases "get_job i (w_db w)")
    case None
    then show ?thesis
      using w by (auto simp: cancel_def hoare undisturbed_opened undisturbed_alone require_job_def closed_def intro: looked_same)
  next
    case (Some j)
    show ?thesis
      by (rule wp_mono [OF wp_cancel [OF undisturbed_alone(1) Some]])
        (use w in \<open>auto simp: still_def intro: looked_same\<close>)
  qed
qed

lemmas opened_action_defs = trigger_replacement_def trigger_force_repair_def cancel_job_def audit_def

lemma looked_control [keeps]:
  "keeps (alone e) (looked tr) (trigger_replacement i user)" "keeps (alone e) (looked tr) (trigger_force_repair i user k)"
  "keeps (alone e) (looked tr) (cancel_job i user)"
  unfolding opened_action_defs by (intro keeps looks.keeps_session looks.keeps_commit looks.keeps_now looks.keeps_add)+

section \<open>Handlers\<close>

context bystander
begin

lemma keeps_commands: "(c, h) \<in> set command_handlers \<Longrightarrow> keeps e I (h b u)"
proof -
  have about: "(\<And>user x. keeps e I (f user x)) \<Longrightarrow> keeps e I (about_node b u s f)" for s f
    unfolding about_node_def by (intro keeps)
  show "(c, h) \<in> set command_handlers \<Longrightarrow> keeps e I (h b u)"
    unfolding command_handlers_def cmd_start_def cmd_status_def cmd_nodes_def cmd_node_def cmd_check_def cmd_replace_def
      cmd_force_def cmd_jobs_def cmd_logs_def cmd_settings_def cmd_providers_def cmd_api_health_def cmd_pause_def
      cmd_resume_def settings_text_def checked_text_def send_replace_confirmation_def send_force_confirmation_def
    by (simp, elim disjE conjE; simp only: cmd_start_def cmd_status_def cmd_nodes_def cmd_node_def cmd_check_def cmd_replace_def
      cmd_force_def cmd_jobs_def cmd_logs_def cmd_settings_def cmd_providers_def cmd_api_health_def cmd_pause_def
      cmd_resume_def settings_text_def checked_text_def send_replace_confirmation_def send_force_confirmation_def Let_def;
      intro keeps about)
qed

lemma keeps_menu: "keeps e I (menu_callback b u)"
  unfolding menu_callback_def menu_action_def show_text_def settings_text_def by (intro keeps)

lemma keeps_button_entity [keeps]: "keeps e I (button_entity b user data)"
  unfolding button_entity_def by (auto intro!: keeps split: option.splits callback_error.splits sum.splits)

lemma keeps_button_action:
  assumes "before_point data = ''rc'' \<Longrightarrow> keeps e I (trigger_replacement i user)"
    and "before_point data = ''fc'' \<Longrightarrow> keeps e I (trigger_force_repair i user (force_request_key data user))"
    and "before_point data = ''jc'' \<Longrightarrow> keeps e I (cancel_job i user)"
  shows "keeps e I (button_action b chat_id user data i)"
  unfolding button_action_def checked_text_def edit_replace_confirmation_def confirmed_replace_def
    edit_force_confirmation_def confirmed_force_def ask_resume_def ask_cancel_def ask_toggle_def Let_def
  by (intro keeps | use assms in simp)+

lemma keeps_update:
  "handle_update b u = button_callback b u \<or> keeps e I (handle_update b u)"
proof (cases "up_query u")
  case None
  show ?thesis
    unfolding handle_update_def None option.case
    by (intro disjI2 keeps) (auto dest: map_of_SomeD intro: keeps_commands)
next
  case (Some q)
  show ?thesis
  proof (cases q)
    case None
    then show ?thesis by (simp add: handle_update_def Some keeps)
  next
    case (Some data)
    note data = \<open>up_query u = Some q\<close> Some
    show ?thesis
    proof (cases "find (\<lambda>(ps, h). has_prefix ps data) button_handlers")
      case None
      then show ?thesis by (simp add: handle_update_def data keeps)
    next
      case (Some x)
      obtain ps h where x: "x = (ps, h)" by (cases x)
      have "(ps, h) \<in> set button_handlers" using Some x by (auto dest: find_SomeD)
      then have "h b u = button_callback b u \<or> keeps e I (h b u)"
        unfolding button_handlers_def by (auto intro: keeps keeps_menu)
      then show ?thesis by (simp add: handle_update_def data Some x)
    qed
  qed
qed

end

section \<open>Who may do what\<close>

lemma denied_update:
  assumes "\<not> is_authorized (bt_authorized b) (up_user u)"
  shows "handle_update b u = ret () \<or> handle_update b u = access_denied u"
proof -
  have no: "authorized_user b u = None" using assms by (simp add: authorized_user_def)
  have on: "on_message b u f = access_denied u" "on_query b u g = access_denied u" for f g
    by (simp_all add: on_message_def on_query_def no)
  have cmds: "h b u = access_denied u" if "(c, h) \<in> set command_handlers" for c h
    using that unfolding command_handlers_def
    by (simp, elim disjE conjE; simp only: cmd_start_def cmd_status_def cmd_nodes_def cmd_node_def cmd_check_def
      cmd_replace_def cmd_force_def cmd_jobs_def cmd_logs_def cmd_settings_def cmd_providers_def cmd_api_health_def
      cmd_pause_def cmd_resume_def controls_command_def about_node_def on)
  have health: "health_callback b u = access_denied u" if "up_query u = Some q" for q
    using that assms by (simp add: health_callback_def access_denied_def)
  have buttons: "h b u = access_denied u" if "up_query u = Some q" "(ps, h) \<in> set button_handlers" for ps h q
    using that(2) unfolding button_handlers_def
    by (simp, elim disjE conjE; simp only: menu_callback_def button_callback_def registry_callback_def
      registry_signed_callback_def health [OF that(1)] runtime_callback_def runtime_signed_callback_def on)
  show ?thesis
  proof (cases "up_query u")
    case None
    note query = this
    show ?thesis
    proof (cases "up_command u")
      case None
      with query show ?thesis by (simp add: handle_update_def registry_message_def on)
    next
      case (Some c)
      with query show ?thesis
        by (cases "map_of command_handlers (lower c)") (simp_all add: handle_update_def cmds [OF map_of_SomeD])
    qed
  next
    case (Some q)
    note query = this
    show ?thesis
    proof (cases q)
      case None
      with query show ?thesis by (simp add: handle_update_def)
    next
      case (Some data)
      show ?thesis
      proof (cases "find (\<lambda>(ps, h). has_prefix ps data) button_handlers")
        case None
        with query Some show ?thesis by (simp add: handle_update_def)
      next
        case (Some x)
        obtain ps h where x: "x = (ps, h)" by (cases x)
        have "(ps, h) \<in> set button_handlers" using find_SomeD [OF Some] x by simp
        then have "h b u = access_denied u" by (rule buttons [OF query])
        with query \<open>q = Some data\<close> Some x show ?thesis by (simp add: handle_update_def)
      qed
    qed
  qed
qed

lemma access_denied_run:
  assumes "access_denied u e w = (r, w')"
  shows "w' = w \<or> w' = w\<lparr>w_tick := Suc (w_tick w), w_chat := Answer (Some ''Access denied.'') True # w_chat w\<rparr> \<or>
    w' = w\<lparr>w_tick := Suc (w_tick w), w_chat := Reply ''Access denied.'' [] # w_chat w\<rparr>"
  using assms unfolding access_denied_def chat_def ret_def
  by (cases "up_query u = None"; cases "up_message u")
    (simp_all add: Let_def split: option.splits)

lemma jobs_kept_session: "jobs_kept js w \<Longrightarrow> t_jobs (w_db w) = js"
  by (simp add: jobs_kept_def)

text \<open>A button that starts or cancels a replacement does nothing without a valid signature.\<close>

lemma unsigned_entity:
  assumes w: "jobs_kept js w" and signed: "before_point data \<in> {''rc'', ''fc'', ''jc''}"
    and bad: "\<And>v. verify_callback (bt_signer b) data user None (env_clock e (w_tick w) div 1000000) \<noteq> Inr v"
  shows "wp (button_entity b user data) (\<lambda>x w'. x = None \<and> jobs_kept js w') (\<lambda>_. jobs_kept js) e w"
proof -
  obtain x where x: "verify_callback (bt_signer b) data user None (env_clock e (w_tick w) div 1000000) = Inl x"
    using bad by (cases "verify_callback (bt_signer b) data user None (env_clock e (w_tick w) div 1000000)") blast+
  have s: "before_point data \<in> set signed_actions" using signed by (auto simp: signed_actions_def)
  have later: "jobs_kept js (w\<lparr>w_tick := Suc (w_tick w)\<rparr>)" using w by (simp add: jobs_kept_def)
  show ?thesis
    by (cases "after_point data"; cases x) (simp_all add: button_entity_def verify_def s hoare x w later)
qed

lemma unsigned_button:
  assumes w: "jobs_kept js w" and signed: "before_point data \<in> {''rc'', ''fc'', ''jc''}"
    and bad: "\<And>v. verify_callback (bt_signer b) data user None (env_clock e (Suc (w_tick w)) div 1000000) \<noteq> Inr v"
    and query: "up_query u = Some (Some data)" "authorized_user b u = Some user"
  shows "wp (button_callback b u) (\<lambda>_. jobs_kept js) (\<lambda>_. jobs_kept js) e w"
proof -
  have chat_kept: "wp (chat c) (\<lambda>_ w'. jobs_kept js w' \<and> w_tick w' = Suc (w_tick w0)) (\<lambda>_. jobs_kept js) e w0"
    if "jobs_kept js w0" for c w0
    using that by (simp add: wp_chat jobs_kept_def split: option.split)
  have "wp (button_entity b user data) (\<lambda>x w'. x = None \<and> jobs_kept js w') (\<lambda>_. jobs_kept js) e w1"
    if "jobs_kept js w1" "w_tick w1 = Suc (w_tick w)" for w1
    using that by (intro unsigned_entity signed) (simp_all add: bad)
  note entity = this
  show ?thesis
    unfolding button_callback_def on_query_def query option.case wp_andthen wp_bind
    by (rule wp_mono [OF chat_kept [OF w]], elim conjE, rule wp_mono [OF entity])
      (auto intro: wp_mono [OF chat_kept])
qed

lemma keeps_button:
  assumes "\<And>data. up_query u = Some (Some data) \<Longrightarrow> before_point data \<notin> {''rc'', ''fc'', ''jc''}"
  shows "keeps (alone e) (jobs_kept js) (button_callback b u)"
proof -
  have "before_point data = ''rc'' \<Longrightarrow> False" "before_point data = ''fc'' \<Longrightarrow> False" "before_point data = ''jc'' \<Longrightarrow> False"
    if "up_query u = Some (Some data)" for data
    using assms that by blast+
  then show ?thesis
    unfolding button_callback_def on_query_def access_denied_def
    by (intro keeps jobs.keeps_chat jobs.keeps_button_entity jobs.keeps_button_action) blast+
qed

lemma looked_button: "keeps (alone e) (looked tr) (button_callback b u)"
  unfolding button_callback_def
  by (intro looks.keeps_on looks.keeps_button_entity looks.keeps_button_action looked_control conjI keeps looks.keeps_chat)

lemma looked_update: "keeps (alone e) (looked tr) (handle_update b u)"
  using looks.keeps_update [of b u] looked_button by metis

lemma unsigned_update:
  assumes "jobs_kept js w"
    and "\<And>user data v. is_authorized (bt_authorized b) (Some user) \<Longrightarrow> up_user u = Some user \<Longrightarrow>
      up_query u = Some (Some data) \<Longrightarrow> before_point data \<in> {''rc'', ''fc'', ''jc''} \<Longrightarrow>
      verify_callback (bt_signer b) data user None (env_clock (alone e) (Suc (w_tick w)) div 1000000) \<noteq> Inr v"
  shows "jobs_kept js (snd (handle_update b u (alone e) w))"
proof (cases "handle_update b u = button_callback b u")
  case False
  then show ?thesis using jobs.keeps_update [of b u] keepsD assms(1) by blast
next
  case True
  show ?thesis
  proof (cases "\<exists>user data. authorized_user b u = Some user \<and> up_query u = Some (Some data) \<and>
      before_point data \<in> {''rc'', ''fc'', ''jc''}")
    case True
    then obtain user data where d: "authorized_user b u = Some user" "up_query u = Some (Some data)"
      "before_point data \<in> {''rc'', ''fc'', ''jc''}" by blast
    have user: "up_user u = Some user" "is_authorized (bt_authorized b) (Some user)"
      using d(1) by (auto simp: authorized_user_def split: if_splits)
    have "wp (button_callback b u) (\<lambda>_. jobs_kept js) (\<lambda>_. jobs_kept js) (alone e) w"
      by (rule unsigned_button [OF assms(1) d(3) assms(2) d(2,1)]) (use user d in auto)
    then show ?thesis
      unfolding \<open>handle_update b u = button_callback b u\<close> wp_def by (auto split: sum.splits prod.splits)
  next
    case False
    show ?thesis
    proof (cases "authorized_user b u")
      case None
      show ?thesis
        unfolding True button_callback_def on_query_def access_denied_def None option.case
        by (rule keepsD, intro keeps jobs.keeps_chat, rule assms(1))
    next
      case (Some user)
      with False have "keeps (alone e) (jobs_kept js) (button_callback b u)" by (intro keeps_button) blast
      then show ?thesis unfolding True using assms(1) by (rule keepsD)
    qed
  qed
qed

text \<open>
  C14. An update of a user who is not authorized does nothing: whatever command, button or text it is,
  the bot at most answers it with "Access denied.", and reads and writes nothing else.
\<close>

theorem unauthorized_changes_nothing:
  assumes "\<not> is_authorized (bt_authorized b) (up_user u)" and "handle_update b u e w = (r, w')"
  shows "w' = w \<or> w' = w\<lparr>w_tick := Suc (w_tick w), w_chat := Answer (Some ''Access denied.'') True # w_chat w\<rparr> \<or>
    w' = w\<lparr>w_tick := Suc (w_tick w), w_chat := Reply ''Access denied.'' [] # w_chat w\<rparr>"
proof (cases "handle_update b u = access_denied u")
  case True
  with assms(2) show ?thesis by (intro access_denied_run [of u e w r w']) simp
next
  case False
  with denied_update [OF assms(1)] have "handle_update b u = ret ()" by simp
  with assms(2) show ?thesis by (simp add: ret_def)
qed

text \<open>
  C5. Handling an update never changes anything outside: every call it makes only looks (reads of the
  providers, of Check-Host and of the Master panel, the login, the test command on a server). And the
  replacement jobs in the database change only for a press of a button that starts or cancels one,
  by an authorized user, with a signature that is valid for that user at that minute.
\<close>

theorem replacement_needs_signed_button:
  assumes "undisturbed e" and "t_jobs (w_ses w) = t_jobs (w_db w)" and "handle_update b u e w = (r, w')"
  shows "(\<exists>new. w_trace w' = new @ w_trace w \<and> list_all (\<lambda>x. observes (snd x)) new) \<and>
    (t_jobs (w_db w') = t_jobs (w_db w) \<or>
     (\<exists>user data v. is_authorized (bt_authorized b) (Some user) \<and> up_user u = Some user \<and>
       up_query u = Some (Some data) \<and> before_point data \<in> {''rc'', ''fc'', ''jc''} \<and>
       verify_callback (bt_signer b) data user None (env_clock e (Suc (w_tick w)) div 1000000) = Inr v))"
proof -
  have e: "alone e = e" using undisturbed_alone(2) [OF assms(1)] .
  have w': "w' = snd (handle_update b u e w)" using assms(3) by simp
  have "looked (w_trace w) w'"
    unfolding w' using keepsD [OF looked_update [of e]] looked_start by (simp add: e)
  moreover have "jobs_kept (t_jobs (w_db w)) w" using assms(2) by (simp add: jobs_kept_def)
  then have "t_jobs (w_db w') = t_jobs (w_db w)"
    if "\<not> (\<exists>user data v. is_authorized (bt_authorized b) (Some user) \<and> up_user u = Some user \<and>
       up_query u = Some (Some data) \<and> before_point data \<in> {''rc'', ''fc'', ''jc''} \<and>
       verify_callback (bt_signer b) data user None (env_clock e (Suc (w_tick w)) div 1000000) = Inr v)"
    unfolding w' using that by (intro jobs_kept_session unsigned_update [where e = e, unfolded e]) blast+
  ultimately show ?thesis unfolding looked_def list_all_iff by blast
qed

section \<open>Instances\<close>

definition sample_bot :: bot where
  "sample_bot = \<lparr>bt_authorized = [1], bt_signer = \<lparr>sg_secret = replicate 32 7, sg_ttl_minutes = 10\<rparr>,
     bt_libs = \<lparr>lib_local_text = \<lambda>_. [], lib_real_text = \<lambda>_. [],
       lib_server_key = \<lambda>_ _ _. KeyTimeout, lib_causes = \<lambda>_. []\<rparr>\<rparr>"

definition sample_press :: "int \<Rightarrow> string \<Rightarrow> tg_update" where
  "sample_press user data = \<lparr>up_user = Some user, up_query = Some (Some data), up_message = True, up_text = None,
     up_command = None, up_args = [], up_chat = 9\<rparr>"

lemma unauthorized_changes_nothing_witness:
  "\<not> is_authorized (bt_authorized sample_bot) (up_user (sample_press 2 ''rc.1'')) \<and>
   w_db (snd (handle_update sample_bot (sample_press 2 ''rc.1'') (sample_env default_settings) (fresh_world sample_db))) = sample_db"
proof -
  let ?u = "sample_press 2 ''rc.1''"
  obtain r w' where run: "handle_update sample_bot ?u (sample_env default_settings) (fresh_world sample_db) = (r, w')"
    by fastforce
  have stranger: "\<not> is_authorized (bt_authorized sample_bot) (up_user ?u)"
    by (simp add: sample_bot_def sample_press_def is_authorized_def)
  from unauthorized_changes_nothing [OF this run] have "w_db w' = w_db (fresh_world sample_db)" by (elim disjE) simp_all
  with stranger run show ?thesis by (simp add: fresh_world_def)
qed

lemma replacement_needs_signed_button_witness:
  "t_jobs (w_db (snd (handle_update sample_bot (sample_press 1 ''ja.1'') (sample_env default_settings) (fresh_world sample_db)))) =
     [sample_job]"
proof -
  let ?u = "sample_press 1 ''ja.1''"
  obtain r w' where run: "handle_update sample_bot ?u (sample_env default_settings) (fresh_world sample_db) = (r, w')"
    by fastforce
  have jobs: "t_jobs (w_ses (fresh_world sample_db)) = t_jobs (w_db (fresh_world sample_db))" by (simp add: fresh_world_def)
  have "before_point ''ja.1'' \<notin> {''rc'', ''fc'', ''jc''}" by (simp add: before_point_def)
  then show ?thesis
    using replacement_needs_signed_button [OF sample_undisturbed jobs run] run
    by (auto simp: sample_press_def fresh_world_def sample_db_def empty_db_def)
qed

end
