(* ===== verification/PressProps.thy ===== *)
theory PressProps
  imports BotProps CallbackProps
begin

text \<open>
  A confirmation that is pressed twice. The request key of a forced replacement comes from the button and
  the user, so the second press finds the job of the first. \<open>keyed\<close> is the invariant of the first press,
  \<open>jobs_kept\<close> that of the second.
\<close>

section \<open>The trigger ends with a closed session\<close>




section \<open>Two presses\<close>












section \<open>An instance\<close>
















end
