(* ===== verification/NotifierProps.thy ===== *)
theory NotifierProps
  imports Notifier ControlProps "HOL-Library.Product_Lexorder"
begin

text \<open>
  Properties of the notifier: in which order it announces the audit events, and where a run that fails
  in the middle leaves its cursor. No other process writes while it runs.
\<close>

section \<open>The order of the events\<close>

definition event_key :: "event_row \<Rightarrow> usec \<times> uuid" where
  "event_key x = (e_created_at x, e_id x)"

lemma event_le_key: "event_le x y \<longleftrightarrow> event_key x \<le> event_key y"
  by (auto simp: event_le_def event_key_def less_eq_prod_def)

lemma event_after_key: "event_after (Some t) (Some i) x \<longleftrightarrow> (t, i) < event_key x"
  by (auto simp: event_after_def event_key_def less_prod_def)

lemma insert_event_insort: "insert_event x xs = insort_key event_key x xs"
  by (induction xs) (simp_all add: event_le_key)

lemma sort_events_sort: "sort_events xs = sort_key event_key xs"
  by (simp add: sort_events_def sort_key_def insert_event_insort [abs_def])

text \<open>Reading on after an event of a sorted list gives what follows it.\<close>

lemma filter_after_nth:
  fixes f :: "'a \<Rightarrow> 'b :: linorder"
  assumes "sorted (map f xs)" and "distinct (map f xs)" and "k < length xs"
  shows "filter (\<lambda>y. f (xs ! k) < f y) xs = drop (Suc k) xs"
  using assms
proof (induction xs arbitrary: k)
  case (Cons x xs)
  have first: "f x < f y" if "y \<in> set xs" for y
    using that Cons.prems by (auto simp: less_le image_iff)
  show ?case
  proof (cases k)
    case 0
    then show ?thesis using first by (simp add: filter_id_conv)
  next
    case (Suc j)
    then have "xs ! j \<in> set xs" using Cons.prems by simp
    then have "\<not> f (xs ! j) < f x" using first by fastforce
    then show ?thesis using Cons Suc by simp
  qed
qed simp

lemma events_after_nth:
  assumes "distinct (map event_key (t_events d))" and "all = sort_events (filter (event_after (Some t) (Some i)) (t_events d))"
    and "k < length all"
  shows "list_events_after (Some (e_created_at (all ! k))) (Some (e_id (all ! k))) n d = take n (drop (Suc k) all)"
proof -
  let ?x = "all ! k"
  have "?x \<in> set all" using assms(3) by (rule nth_mem)
  then have x: "(t, i) < event_key ?x" by (simp add: assms(2) sort_events_sort event_after_key)
  have key: "event_after (Some (e_created_at ?x)) (Some (e_id ?x)) y \<longleftrightarrow> event_key ?x < event_key y" for y
    by (simp only: event_after_key event_key_def [of ?x])
  have "filter (event_after (Some (e_created_at ?x)) (Some (e_id ?x))) (t_events d) =
      filter (\<lambda>y. event_key ?x < event_key y) (filter (event_after (Some t) (Some i)) (t_events d))"
    unfolding filter_filter
    by (rule filter_cong [OF refl]) (use less_trans [OF x] in \<open>auto simp only: key, simp only: event_after_key\<close>)
  then have "sort_events (filter (event_after (Some (e_created_at ?x)) (Some (e_id ?x))) (t_events d)) =
      filter (\<lambda>y. event_key ?x < event_key y) all"
    by (simp only: assms(2) sort_events_sort filter_sort)
  also have "\<dots> = drop (Suc k) all"
    by (rule filter_after_nth [OF _ _ assms(3)])
      (use assms(1) in \<open>simp_all add: assms(2) sort_events_sort distinct_map inj_on_def\<close>)
  finally show ?thesis by (simp add: list_events_after_def)
qed

section \<open>The cursor\<close>

definition moved :: "event_snapshot \<Rightarrow> db \<Rightarrow> db" where
  "moved x d = put_setting TELEGRAM_EVENT_CURSOR_KEY (cursor_value (es_created_at x) (es_id x))
     (Some ''Last audit event processed by Telegram notifier'') d"

lemma put_setting_settings: "\<exists>s. put_setting k v desc d = d\<lparr>t_settings := s\<rparr>"
  unfolding put_setting_def set_settings_def by (cases "setting_by_key k d") (simp only: option.case, rule exI, rule refl)+

lemma moved_settings: "\<exists>s. moved x d = d\<lparr>t_settings := s\<rparr>"
  unfolding moved_def by (rule put_setting_settings)

lemma moved_events [simp]: "t_events (moved x d) = t_events d"
  using moved_settings [of x d] by auto

lemma moved_context [simp]: "notification_context_of y (moved x d) = notification_context_of y d"
proof -
  obtain s where s: "moved x d = d\<lparr>t_settings := s\<rparr>" using moved_settings by blast
  show ?thesis
    unfolding s
    by (simp add: notification_context_of_def get_job_def get_node_def get_provider_def current_vps_for_node_def
      cong: option.case_cong)
qed

lemma put_setting_ok:
  assumes "db_ok d" and "k \<noteq> []"
  shows "db_ok (put_setting k v desc d)"
proof -
  have rows: "distinct (map s_key (t_settings d))" "list_all (\<lambda>s. s_key s \<noteq> []) (t_settings d)"
    using assms(1) by (simp_all add: db_ok_def settings_ok_def)
  have upd: "map s_key (tbl_upd s_key k f t) = map s_key t" if "\<And>r. s_key (f r) = s_key r" for f t
    using that by (induction t) (simp_all add: tbl_upd_def)
  have keys: "map s_key (t_settings (put_setting k v desc d)) = (if setting_by_key k d = None
      then map s_key (t_settings d) @ [k] else map s_key (t_settings d))"
    by (cases "setting_by_key k d"; cases desc) (simp_all add: put_setting_def set_settings_def tbl_add_def upd)
  have fresh: "setting_by_key k d = None \<Longrightarrow> k \<notin> set (map s_key (t_settings d))"
    by (auto simp: setting_by_key_def find_None_iff)
  have blank: "list_all (\<lambda>s. s_key s \<noteq> []) t \<longleftrightarrow> [] \<notin> set (map s_key t)" for t
    by (auto simp: list_all_iff image_iff)
  have s: "settings_ok (put_setting k v desc d)"
    using rows fresh assms(2) unfolding settings_ok_def blank keys by simp
  obtain t where "put_setting k v desc d = d\<lparr>t_settings := t\<rparr>" using put_setting_settings by blast
  then show ?thesis
    using assms(1) s by (simp add: db_ok_def providers_ok_def nodes_ok_def creds_ok_def checks_ok_def vps_ok_def
      jobs_ok_def deployments_ok_def)
qed

lemma moved_ok: "db_ok d \<Longrightarrow> db_ok (moved x d)"
  unfolding moved_def by (rule put_setting_ok) (simp_all add: TELEGRAM_EVENT_CURSOR_KEY_def)

lemma wp_advance:
  assumes "undisturbed e" and "db_ok (w_db w)"
  shows "wp (advance_event_cursor x) (\<lambda>_ w'. w_db w' = moved x (w_db w) \<and> w_chat w' = w_chat w) (\<lambda>_ _. False) e w"
  using moved_ok [OF assms(2), of x]
  by (simp add: advance_event_cursor_def set_event_cursor_def set_value_def hoare undisturbed_opened [OF assms(1)]
    closed_def moved_def)

lemma wp_get_cursor:
  assumes "undisturbed e"
  shows "wp get_event_cursor (\<lambda>c w'. w_db w' = w_db w \<and> w_chat w' = w_chat w \<and>
    c = (case setting_by_key TELEGRAM_EVENT_CURSOR_KEY (w_db w) of None \<Rightarrow> (None, None) | Some r \<Rightarrow> read_cursor (s_value r) e))
    (\<lambda>_ _. False) e w"
  by (simp add: get_event_cursor_def hoare undisturbed_opened [OF assms] closed_def split: option.split)

definition cursor_of :: "env \<Rightarrow> db \<Rightarrow> usec option \<times> uuid option" where
  "cursor_of e d =
     (case setting_by_key TELEGRAM_EVENT_CURSOR_KEY d of None \<Rightarrow> (None, None) | Some r \<Rightarrow> read_cursor (s_value r) e)"

lemma cursor_of_moved:
  assumes "1 \<le> dt_year (utc_date (es_created_at x))" and "dt_year (utc_date (es_created_at x)) \<le> 9999"
  shows "cursor_of e (moved x d) = (Some (es_created_at x), Some (es_id x))"
proof -
  have iso: "fromisoformat_utc (isoformat (es_created_at x)) = Some (es_created_at x)" using assms by (rule isoformat_reads)
  then have "isoformat (es_created_at x) \<noteq> []" by (auto simp: isoformat_def)
  moreover have "uuid_str (es_id x) \<noteq> []" using uuid_hex_length [of "es_id x"] uuid_str_digits [of "es_id x"] by auto
  ultimately have "read_cursor (cursor_value (es_created_at x) (es_id x)) e = (Some (es_created_at x), Some (es_id x))"
    by (simp add: read_cursor_def cursor_value_def cursor_text_def iso parse_uuid_str)
  then show ?thesis by (simp add: cursor_of_def moved_def setting_by_key_put split: option.split)
qed

section \<open>A run\<close>

definition announcement :: "env \<Rightarrow> int \<Rightarrow> db \<Rightarrow> event_snapshot \<Rightarrow> chat_call" where
  "announcement e chat_id d x = SendTo chat_id (format_notification (env_repr e) x (notification_context_of x d))"

definition announcements :: "env \<Rightarrow> int \<Rightarrow> db \<Rightarrow> event_snapshot list \<Rightarrow> chat_call list" where
  "announcements e chat_id d xs = map (announcement e chat_id d) (filter (\<lambda>x. es_event_type x \<in> notifiable) xs)"

lemma announcement_moved [simp]: "announcement e chat_id (moved y d) x = announcement e chat_id d x"
  by (simp add: announcement_def)

lemma announcements_moved [simp]: "announcements e chat_id (moved y d) xs = announcements e chat_id d xs"
  by (simp add: announcements_def)

lemma announcements_simps [simp]:
  "announcements e chat_id d [] = []"
  "announcements e chat_id d (x # xs) =
     (if es_event_type x \<in> notifiable then [announcement e chat_id d x] else []) @ announcements e chat_id d xs"
  by (simp_all add: announcements_def)

definition announced :: "env \<Rightarrow> int \<Rightarrow> world \<Rightarrow> event_snapshot list \<Rightarrow> world \<Rightarrow> bool" where
  "announced e chat_id w xs w' \<longleftrightarrow> w_db w' = fold moved xs (w_db w) \<and>
     w_chat w' = rev (announcements e chat_id (w_db w) xs) @ w_chat w"

definition broken_off :: "env \<Rightarrow> int \<Rightarrow> world \<Rightarrow> event_snapshot list \<Rightarrow> event_snapshot \<Rightarrow> world \<Rightarrow> bool" where
  "broken_off e chat_id w xs x w' \<longleftrightarrow> es_event_type x \<in> notifiable \<and>
     (\<exists>k. env_chat e k (announcement e chat_id (w_db w) x) \<noteq> None) \<and> w_db w' = fold moved xs (w_db w) \<and>
     w_chat w' = announcement e chat_id (w_db w) x # rev (announcements e chat_id (w_db w) xs) @ w_chat w"

lemma wp_notify_event:
  assumes "undisturbed e"
  shows "wp (notify_event chat_id x)
    (\<lambda>_ w'. w_db w' = w_db w \<and> w_chat w' = announcement e chat_id (w_db w) x # w_chat w)
    (\<lambda>_ w'. w_db w' = w_db w \<and> w_chat w' = announcement e chat_id (w_db w) x # w_chat w \<and>
      (\<exists>k. env_chat e k (announcement e chat_id (w_db w) x) \<noteq> None)) e w"
  by (auto simp add: notify_event_def event_notification_context_def hoare undisturbed_opened [OF assms] closed_def
    announcement_def split: option.split)

lemma wp_notify_step:
  assumes "undisturbed e" and "db_ok (w_db w)"
  shows "wp (andthen (whenM (es_event_type x \<in> notifiable) (notify_event chat_id x)) (advance_event_cursor x))
    (\<lambda>_. announced e chat_id w [x]) (\<lambda>_. broken_off e chat_id w [] x) e w"
proof (cases "es_event_type x \<in> notifiable")
  case True
  show ?thesis
    unfolding wp_andthen using True
    by (simp add: whenM_def)
      (rule wp_mono [OF wp_notify_event [OF assms(1)]],
       rule wp_mono [OF wp_advance [OF assms(1)]],
       use assms(2) in \<open>simp_all add: announced_def broken_off_def\<close>)
next
  case False
  then show ?thesis
    by (simp add: hoare whenM_def) (rule wp_mono [OF wp_advance [OF assms]], simp_all add: announced_def)
qed

lemma wp_notify_events:
  assumes "undisturbed e" and "db_ok (w_db w)"
  shows "wp (notify_events chat_id xs n)
    (\<lambda>m w'. m = n + length (announcements e chat_id (w_db w) xs) \<and> announced e chat_id w xs w')
    (\<lambda>_ w'. \<exists>sent x rest. xs = sent @ x # rest \<and> broken_off e chat_id w sent x w') e w"
  using assms(2)
proof (induction xs arbitrary: n w)
  case Nil
  then show ?case by (simp add: hoare announced_def)
next
  case (Cons x xs)
  have first: "wp (andthen m (andthen k l)) Q E e w = wp (andthen m k) (\<lambda>_. wp l Q E e) E e w" for m k l Q E
  proof -
    have "wp (andthen k l) Q E e = wp k (\<lambda>_. wp l Q E e) E e" by (rule ext) (rule wp_andthen)
    then show ?thesis by (simp only: wp_andthen)
  qed
  show ?case
    unfolding notify_events.simps first
  proof (rule wp_mono [OF wp_notify_step [OF assms(1) Cons.prems]])
    fix w1 assume one: "announced e chat_id w [x] w1"
    then have d: "w_db w1 = moved x (w_db w)"
      and c: "w_chat w1 = rev (announcements e chat_id (w_db w) [x]) @ w_chat w" by (simp_all add: announced_def)
    have ok: "db_ok (w_db w1)" using moved_ok [OF Cons.prems] by (simp add: d)
    have "wp (notify_events chat_id xs k) (\<lambda>m w'. m = n + length (announcements e chat_id (w_db w) (x # xs)) \<and>
        announced e chat_id w (x # xs) w') (\<lambda>_ w'. \<exists>sent y rest. x # xs = sent @ y # rest \<and> broken_off e chat_id w sent y w') e w1"
      if k: "k = (if es_event_type x \<in> notifiable then Suc n else n)" for k
    proof (rule wp_mono [OF Cons.IH [OF ok]])
      fix m w' assume "m = k + length (announcements e chat_id (w_db w1) xs) \<and> announced e chat_id w1 xs w'"
      then show "m = n + length (announcements e chat_id (w_db w) (x # xs)) \<and> announced e chat_id w (x # xs) w'"
        by (simp add: k announced_def d c)
    next
      fix ex w' assume "\<exists>sent y rest. xs = sent @ y # rest \<and> broken_off e chat_id w1 sent y w'"
      then obtain sent y rest where xs: "xs = sent @ y # rest" and b: "broken_off e chat_id w1 sent y w'" by blast
      have "broken_off e chat_id w (x # sent) y w'" using b by (simp add: broken_off_def d c)
      moreover have "x # xs = (x # sent) @ y # rest" using xs by simp
      ultimately show "\<exists>sent y rest. x # xs = sent @ y # rest \<and> broken_off e chat_id w sent y w'" by blast
    qed
    then show "wp (notify_events chat_id xs (if es_event_type x \<in> notifiable then Suc n else n))
       (\<lambda>m w'. m = n + length (announcements e chat_id (w_db w) (x # xs)) \<and> announced e chat_id w (x # xs) w')
       (\<lambda>_ w'. \<exists>sent y rest. x # xs = sent @ y # rest \<and> broken_off e chat_id w sent y w') e w1" by simp
  next
    fix ex w' assume b: "broken_off e chat_id w [] x w'"
    show "\<exists>sent y rest. x # xs = sent @ y # rest \<and> broken_off e chat_id w sent y w'"
      by (rule exI [of _ "[]"], rule exI [of _ x], rule exI [of _ xs]) (simp add: b)
  qed
qed

lemma wp_initialized:
  assumes "undisturbed e" and "cursor_of e (w_db w) = (Some t, Some i)"
  shows "wp initialize_event_cursor (\<lambda>fresh w'. \<not> fresh \<and> w_db w' = w_db w \<and> w_chat w' = w_chat w) (\<lambda>_ _. False) e w"
  unfolding initialize_event_cursor_def wp_bind
  by (rule wp_mono [OF wp_get_cursor [OF assms(1)]]) (simp_all add: assms(2) cursor_of_def [symmetric] hoare)

lemma wp_after_cursor:
  assumes "undisturbed e" and "cursor_of e (w_db w) = (t, i)"
  shows "wp (list_events_after_cursor n) (\<lambda>xs w'. xs = map control_event_snapshot (list_events_after t i n (w_db w)) \<and>
    w_db w' = w_db w \<and> w_chat w' = w_chat w) (\<lambda>_ _. False) e w"
  unfolding list_events_after_cursor_def wp_bind
  by (rule wp_mono [OF wp_get_cursor [OF assms(1)]])
    (simp_all add: assms(2) cursor_of_def [symmetric] hoare undisturbed_opened [OF assms(1)] closed_def)

definition run_outcome :: "env \<Rightarrow> int \<Rightarrow> world \<Rightarrow> event_snapshot list \<Rightarrow> exn + nat \<Rightarrow> world \<Rightarrow> bool" where
  "run_outcome e chat_id w events r w' \<longleftrightarrow>
     (case r of
        Inr n \<Rightarrow> announced e chat_id w events w' \<and> n = length (announcements e chat_id (w_db w) events)
      | Inl _ \<Rightarrow> \<exists>sent x rest. events = sent @ x # rest \<and> broken_off e chat_id w sent x w')"

lemma notifier_run_outcome:
  assumes e: "undisturbed e" and ok: "db_ok (w_db w)" and cursor: "cursor_of e (w_db w) = (Some t, Some i)"
    and run: "notifier_run chat_id e w = (r, w')"
  shows "run_outcome e chat_id w (map control_event_snapshot (list_events_after (Some t) (Some i) 100 (w_db w))) r w'"
proof -
  define events where "events = map control_event_snapshot (list_events_after (Some t) (Some i) 100 (w_db w))"
  have "wp (notifier_run chat_id) (\<lambda>n. run_outcome e chat_id w events (Inr n)) (\<lambda>x. run_outcome e chat_id w events (Inl x)) e w"
    unfolding notifier_run_def wp_bind
  proof (rule wp_mono [OF wp_initialized [OF e cursor]])
    fix fresh and w1 :: world assume a: "\<not> fresh \<and> w_db w1 = w_db w \<and> w_chat w1 = w_chat w"
    have c1: "cursor_of e (w_db w1) = (Some t, Some i)" using a cursor by simp
    have "wp (bind (list_events_after_cursor 100) (\<lambda>events. notify_events chat_id events 0))
       (\<lambda>n. run_outcome e chat_id w events (Inr n)) (\<lambda>x. run_outcome e chat_id w events (Inl x)) e w1"
      unfolding wp_bind
    proof (rule wp_mono [OF wp_after_cursor [OF e c1]])
      fix xs and w2 :: world assume "xs = map control_event_snapshot (list_events_after (Some t) (Some i) 100 (w_db w1)) \<and>
        w_db w2 = w_db w1 \<and> w_chat w2 = w_chat w1"
      with a have xs: "xs = events" and w2: "w_db w2 = w_db w" "w_chat w2 = w_chat w" by (simp_all add: events_def)
      show "wp (notify_events chat_id xs 0) (\<lambda>n. run_outcome e chat_id w events (Inr n))
        (\<lambda>x. run_outcome e chat_id w events (Inl x)) e w2"
        unfolding xs
        by (rule wp_mono [OF wp_notify_events [OF e]])
          (simp_all add: w2 ok run_outcome_def announced_def broken_off_def)
    qed simp
    with a show "wp (if fresh then ret 0 else bind (list_events_after_cursor 100) (\<lambda>events. notify_events chat_id events 0))
       (\<lambda>n. run_outcome e chat_id w events (Inr n)) (\<lambda>x. run_outcome e chat_id w events (Inl x)) e w1" by simp
  qed simp
  then show ?thesis using run unfolding events_def wp_def by (cases r) simp_all
qed

section \<open>The next run\<close>

lemma fold_moved_events: "t_events (fold moved xs d) = t_events d"
  by (induction xs arbitrary: d) simp_all

lemma cursor_after_fold:
  assumes "xs \<noteq> []" and "1 \<le> dt_year (utc_date (es_created_at (last xs)))" and "dt_year (utc_date (es_created_at (last xs))) \<le> 9999"
  shows "cursor_of e (fold moved xs d) = (Some (es_created_at (last xs)), Some (es_id (last xs)))"
proof -
  have "fold moved xs d = moved (last xs) (fold moved (butlast xs) d)"
    using fold_append [of moved "butlast xs" "[last xs]"] append_butlast_last_id [OF assms(1)] by simp
  then show ?thesis using cursor_of_moved [OF assms(2,3)] by simp
qed

definition dated :: "event_row \<Rightarrow> bool" where
  "dated x \<longleftrightarrow> 1 \<le> dt_year (utc_date (e_created_at x)) \<and> dt_year (utc_date (e_created_at x)) \<le> 9999"

lemma events_after_fold:
  assumes e: "undisturbed e" and cursor: "cursor_of e d = (Some t, Some i)"
    and unique: "distinct (map event_key (t_events d))" and dated: "list_all dated (t_events d)"
    and all: "all = sort_events (filter (event_after (Some t) (Some i)) (t_events d))"
    and k: "k \<le> length all" and db: "w_db w' = fold moved (map control_event_snapshot (take k all)) d"
  shows "fst (list_events_after_cursor n e w') = Inr (take n (drop k (map control_event_snapshot all)))"
proof -
  have run: "fst (list_events_after_cursor n e w') = Inr (map control_event_snapshot (list_events_after t' i' n d))"
    if "cursor_of e (w_db w') = (t', i')" for t' i'
  proof -
    have "list_events_after t' i' n (w_db w') = list_events_after t' i' n d"
      by (simp add: list_events_after_def db fold_moved_events)
    then show ?thesis
      using wp_after_cursor [OF e that, of n] by (auto simp: wp_def split: prod.splits sum.splits)
  qed
  show ?thesis
  proof (cases k)
    case 0
    then show ?thesis using run [of "Some t" "Some i"] cursor db by (simp add: list_events_after_def all take_map)
  next
    case (Suc j)
    then have j: "j < length all" using k by simp
    define x where "x = all ! j"
    have "x \<in> set all" using j by (simp add: x_def)
    then have "dated x" using dated by (simp add: all sort_events_sort list_all_iff)
    have last: "last (map control_event_snapshot (take k all)) = control_event_snapshot x"
      using j by (simp add: Suc x_def take_Suc_conv_app_nth)
    have ne: "map control_event_snapshot (take k all) \<noteq> []" using j Suc by (cases all) simp_all
    have "cursor_of e (w_db w') = (Some (e_created_at x), Some (e_id x))"
      unfolding db using cursor_after_fold [OF ne] \<open>dated x\<close>
      by (simp add: last control_event_snapshot_def dated_def)
    from run [OF this] events_after_nth [OF unique all j] show ?thesis
      by (simp add: x_def Suc take_map drop_map)
  qed
qed

section \<open>Run after run\<close>

text \<open>What waits behind the cursor.\<close>

definition waiting_for :: "usec \<Rightarrow> uuid \<Rightarrow> db \<Rightarrow> event_snapshot list" where
  "waiting_for t i d = map control_event_snapshot (sort_events (filter (event_after (Some t) (Some i)) (t_events d)))"

text \<open>The repeated task, \<open>m\<close> times.\<close>

fun notify_ticks :: "nat \<Rightarrow> int \<Rightarrow> unit act" where
  "notify_ticks 0 chat_id = ret ()"
| "notify_ticks (Suc m) chat_id = andthen (notify_tick chat_id) (notify_ticks m chat_id)"

lemma working_chat_run:
  assumes "undisturbed e" and "db_ok (w_db w)" and "cursor_of e (w_db w) = (Some t, Some i)"
    and chat: "env_chat e = (\<lambda>_ _. None)"
  shows "\<exists>w'. notify_tick chat_id e w = (Inr (), w') \<and> announced e chat_id w (take 100 (waiting_for t i (w_db w))) w'"
proof -
  obtain r w' where run: "notifier_run chat_id e w = (r, w')" by fastforce
  have result: "run_outcome e chat_id w (take 100 (waiting_for t i (w_db w))) r w'"
    using notifier_run_outcome [OF assms(1-3) run] by (simp add: list_events_after_def waiting_for_def take_map)
  then obtain n where r: "r = Inr n" by (cases r) (auto simp: run_outcome_def broken_off_def chat)
  have "notify_tick chat_id e w = (Inr (), w')"
    by (simp add: notify_tick_def catch_all_def andthen_def bind_def ret_def run r)
  with result show ?thesis by (auto simp: r run_outcome_def)
qed

lemma waiting_after:
  assumes unique: "distinct (map event_key (t_events d))" and dated: "list_all dated (t_events d)"
    and cursor: "cursor_of e d = (Some t, Some i)" and k: "k \<le> length (waiting_for t i d)"
  shows "\<exists>t' i'. cursor_of e (fold moved (take k (waiting_for t i d)) d) = (Some t', Some i') \<and>
    waiting_for t' i' d = drop k (waiting_for t i d)"
proof (cases k)
  case 0
  then show ?thesis using cursor by simp
next
  case (Suc j)
  define all where "all = sort_events (filter (event_after (Some t) (Some i)) (t_events d))"
  have w: "waiting_for t i d = map control_event_snapshot all" by (simp add: waiting_for_def all_def)
  have j: "j < length all" using k Suc by (simp add: w)
  have "all ! j \<in> set all" using j by simp
  then have d: "dated (all ! j)" using dated by (simp add: all_def sort_events_sort list_all_iff)
  have last: "last (take k (waiting_for t i d)) = control_event_snapshot (all ! j)"
    using j by (simp add: Suc w take_map take_Suc_conv_app_nth)
  have ne: "take k (waiting_for t i d) \<noteq> []" using j Suc by (cases all) (simp_all add: w)
  have cur: "cursor_of e (fold moved (take k (waiting_for t i d)) d) = (Some (e_created_at (all ! j)), Some (e_id (all ! j)))"
    using cursor_after_fold [OF ne] d by (simp add: last control_event_snapshot_def dated_def)
  have "sort_events (filter (event_after (Some (e_created_at (all ! j))) (Some (e_id (all ! j)))) (t_events d)) =
      drop (Suc j) all"
    using events_after_nth [OF unique all_def j, where n = "length (t_events d) + length all"]
    by (simp add: list_events_after_def sort_events_sort le_trans [OF length_filter_le])
  then have "waiting_for (e_created_at (all ! j)) (e_id (all ! j)) d = drop k (waiting_for t i d)"
    by (simp add: waiting_for_def [of "e_created_at (all ! j)"] w Suc drop_map)
  with cur show ?thesis by blast
qed

lemma waiting_for_moved: "waiting_for t i (fold moved xs d) = waiting_for t i d"
  by (simp add: waiting_for_def fold_moved_events)

lemma announcements_fold: "announcements e chat_id (fold moved xs d) ys = announcements e chat_id d ys"
  by (induction xs arbitrary: d) simp_all

lemma announcements_append:
  "announcements e chat_id d (xs @ ys) = announcements e chat_id d xs @ announcements e chat_id d ys"
  by (simp add: announcements_def)

lemma fold_moved_ok: "db_ok d \<Longrightarrow> db_ok (fold moved xs d)"
  by (induction xs arbitrary: d) (simp_all add: moved_ok)

lemma ticks_announce:
  assumes e: "undisturbed e" "env_chat e = (\<lambda>_ _. None)"
    and "db_ok (w_db w)" and "cursor_of e (w_db w) = (Some t, Some i)"
    and "distinct (map event_key (t_events (w_db w)))" and "list_all dated (t_events (w_db w))"
  shows "\<exists>w'. notify_ticks m chat_id e w = (Inr (), w') \<and> announced e chat_id w (take (m * 100) (waiting_for t i (w_db w))) w'"
  using assms(3-)
proof (induction m arbitrary: w t i)
  case 0
  then show ?case by (simp add: ret_def announced_def)
next
  case (Suc m)
  let ?ws = "waiting_for t i (w_db w)"
  obtain w1 where w1: "notify_tick chat_id e w = (Inr (), w1)" "announced e chat_id w (take 100 ?ws) w1"
    using working_chat_run [OF e(1) Suc.prems(1,2) e(2)] by blast
  have db: "w_db w1 = fold moved (take 100 ?ws) (w_db w)" using w1(2) by (simp add: announced_def)
  have "take (min 100 (length ?ws)) ?ws = take 100 ?ws" by (simp add: min_def)
  then obtain t' i' where c: "cursor_of e (w_db w1) = (Some t', Some i')"
    and rest: "waiting_for t' i' (w_db w) = drop (min 100 (length ?ws)) ?ws"
    using waiting_after [OF Suc.prems(3,4,2), of "min 100 (length ?ws)"] by (auto simp: db)
  have rest': "waiting_for t' i' (w_db w1) = drop 100 ?ws"
    using rest by (simp add: db waiting_for_moved min_def)
  have same: "t_events (w_db w1) = t_events (w_db w)" by (simp add: db fold_moved_events)
  have ok: "db_ok (w_db w1)" using fold_moved_ok [OF Suc.prems(1)] by (simp only: db)
  obtain w2 where w2: "notify_ticks m chat_id e w1 = (Inr (), w2)"
    "announced e chat_id w1 (take (m * 100) (drop 100 ?ws)) w2"
    using Suc.IH [OF ok c] Suc.prems(3,4) unfolding same rest' by blast
  have "take (Suc m * 100) ?ws = take 100 ?ws @ take (m * 100) (drop 100 ?ws)"
    by (simp add: take_add [symmetric] add.commute)
  then have "announced e chat_id w (take (Suc m * 100) ?ws) w2"
    using w1(2) w2(2) unfolding announced_def by (simp add: announcements_append announcements_fold)
  with w1(1) w2(1) show ?case by (simp add: andthen_def bind_def)
qed

section \<open>What operators can rely on\<close>

text \<open>
  C15. The notifier announces in order and keeps its place: a run that succeeds has sent exactly one
  message for each notifiable event it read, in the order of their times, each with the text of the
  event and its node, and its cursor stands at the last one; a run fails only because the chat did not
  take the message of some notifiable event, it has sent those before it, and its cursor stands before it.
\<close>

theorem notifier_announces_in_order:
  assumes "undisturbed e" and "db_ok (w_db w)" and "cursor_of e (w_db w) = (Some t, Some i)"
    and "notifier_run chat_id e w = (r, w')"
    and "events = map control_event_snapshot (list_events_after (Some t) (Some i) 100 (w_db w))"
  shows "case r of
      Inr n \<Rightarrow> n = length (announcements e chat_id (w_db w) events) \<and> w_db w' = fold moved events (w_db w) \<and>
        w_chat w' = rev (announcements e chat_id (w_db w) events) @ w_chat w
    | Inl _ \<Rightarrow> \<exists>sent x rest. events = sent @ x # rest \<and> es_event_type x \<in> notifiable \<and>
        (\<exists>k. env_chat e k (announcement e chat_id (w_db w) x) \<noteq> None) \<and> w_db w' = fold moved sent (w_db w) \<and>
        w_chat w' = announcement e chat_id (w_db w) x # rev (announcements e chat_id (w_db w) sent) @ w_chat w"
  using notifier_run_outcome [OF assms(1-4)]
  by (auto simp: run_outcome_def announced_def broken_off_def assms(5) split: sum.splits)

text \<open>
  C16. No event is passed over and none is read twice: whatever the chat does, after a run that dealt
  with the first \<open>k\<close> of the waiting events the next run reads those that follow them, in order. A run
  that succeeds has dealt with all of them, up to one hundred.
\<close>

theorem notifier_resumes_where_it_stopped:
  assumes "undisturbed e" and "db_ok (w_db w)" and "cursor_of e (w_db w) = (Some t, Some i)"
    and "distinct (map event_key (t_events (w_db w)))" and "list_all dated (t_events (w_db w))"
    and "notifier_run chat_id e w = (r, w')"
    and "waiting = map control_event_snapshot (sort_events (filter (event_after (Some t) (Some i)) (t_events (w_db w))))"
  shows "\<exists>k \<le> length waiting. w_db w' = fold moved (take k waiting) (w_db w) \<and>
    (\<forall>n. fst (list_events_after_cursor n e w') = Inr (take n (drop k waiting))) \<and>
    (case r of Inr _ \<Rightarrow> k = min 100 (length waiting) | Inl _ \<Rightarrow> k < min 100 (length waiting))"
proof -
  define all where "all = sort_events (filter (event_after (Some t) (Some i)) (t_events (w_db w)))"
  have w: "waiting = map control_event_snapshot all" by (simp add: assms(7) all_def)
  have events: "map control_event_snapshot (list_events_after (Some t) (Some i) 100 (w_db w)) = take 100 waiting"
    by (simp add: w all_def list_events_after_def take_map)
  have result: "run_outcome e chat_id w (take 100 waiting) r w'"
    using notifier_run_outcome [OF assms(1-3,6)] by (simp add: events)
  have "\<exists>k \<le> length waiting. w_db w' = fold moved (take k waiting) (w_db w) \<and>
    (case r of Inr _ \<Rightarrow> k = min 100 (length waiting) | Inl _ \<Rightarrow> k < min 100 (length waiting))"
  proof (cases r)
    case (Inr n)
    then have "w_db w' = fold moved (take (min 100 (length waiting)) waiting) (w_db w)"
      using result by (cases "100 \<le> length waiting") (simp_all add: run_outcome_def announced_def min_def)
    with Inr show ?thesis by (intro exI [of _ "min 100 (length waiting)"]) simp
  next
    case (Inl x)
    then obtain sent y rest where s: "take 100 waiting = sent @ y # rest" "w_db w' = fold moved sent (w_db w)"
      using result by (auto simp: run_outcome_def broken_off_def)
    have len: "min 100 (length waiting) = length sent + Suc (length rest)"
      using arg_cong [OF s(1), of length] by (simp add: min.commute)
    have "length sent \<le> 100" using len min.cobounded1 [of 100 "length waiting"] by linarith
    then have "take (length sent) waiting = take (length sent) (take 100 waiting)" by (simp add: min_def)
    then have "sent = take (length sent) waiting" using s(1) by simp
    with s(2) len Inl show ?thesis by (intro exI [of _ "length sent"]) auto
  qed
  then obtain k where k: "k \<le> length waiting" "w_db w' = fold moved (take k waiting) (w_db w)"
    "case r of Inr _ \<Rightarrow> k = min 100 (length waiting) | Inl _ \<Rightarrow> k < min 100 (length waiting)" by blast
  have "fst (list_events_after_cursor n e w') = Inr (take n (drop k waiting))" for n
    using events_after_fold [OF assms(1,3,4,5) all_def] k(1,2) by (simp add: w take_map)
  with k show ?thesis by blast
qed

text \<open>
  C17. The notifier catches up: as long as the chat takes its messages, as many runs as there are
  hundreds of waiting events send a message for every notifiable one, each once and in order, and
  leave nothing behind the cursor.
\<close>

theorem notifier_catches_up:
  assumes "undisturbed e" and "env_chat e = (\<lambda>_ _. None)"
    and "db_ok (w_db w)" and "cursor_of e (w_db w) = (Some t, Some i)"
    and "distinct (map event_key (t_events (w_db w)))" and "list_all dated (t_events (w_db w))"
    and "waiting = map control_event_snapshot (sort_events (filter (event_after (Some t) (Some i)) (t_events (w_db w))))"
    and "length waiting \<le> m * 100"
  shows "\<exists>w'. notify_ticks m chat_id e w = (Inr (), w') \<and>
    w_chat w' = rev (announcements e chat_id (w_db w) waiting) @ w_chat w \<and>
    (\<forall>n. fst (list_events_after_cursor n e w') = Inr [])"
proof -
  define all where "all = sort_events (filter (event_after (Some t) (Some i)) (t_events (w_db w)))"
  have w: "waiting = map control_event_snapshot all" by (simp add: assms(7) all_def)
  have "take (m * 100) (waiting_for t i (w_db w)) = waiting" using assms(8) by (simp add: waiting_for_def assms(7))
  then obtain w' where run: "notify_ticks m chat_id e w = (Inr (), w')" "announced e chat_id w waiting w'"
    using ticks_announce [OF assms(1-6)] by metis
  have "fst (list_events_after_cursor n e w') = Inr (take n (drop (length all) (map control_event_snapshot all)))" for n
    using run(2) by (intro events_after_fold [OF assms(1,4,5,6) all_def]) (simp_all add: announced_def w)
  then show ?thesis using run by (auto simp: announced_def w)
qed

definition sample_event :: "uuid \<Rightarrow> event_type \<Rightarrow> usec \<Rightarrow> event_row" where
  "sample_event i k t = \<lparr>e_node_id = Some 2, e_job_id = None, e_type = k, e_severity = SEV_INFO,
     e_message = ''Node changed'', e_payload = None, e_created_at = t, e_id = i\<rparr>"

definition waiting_db :: db where
  "waiting_db = moved (control_event_snapshot (sample_event 20 SYSTEM_PAUSED 1000000))
     (sample_db\<lparr>t_events := [sample_event 20 SYSTEM_PAUSED 1000000, sample_event 21 NODE_FAILED 2000000]\<rparr>)"

lemma waiting_db_facts:
  "db_ok (w_db (fresh_world waiting_db))"
  "cursor_of (sample_env default_settings) (w_db (fresh_world waiting_db)) = (Some 1000000, Some 20)"
  "t_events (w_db (fresh_world waiting_db)) = [sample_event 20 SYSTEM_PAUSED 1000000, sample_event 21 NODE_FAILED 2000000]"
proof -
  have "dt_year (utc_date 1000000) = 1970" by code_simp
  then show "cursor_of (sample_env default_settings) (w_db (fresh_world waiting_db)) = (Some 1000000, Some 20)"
    by (simp add: fresh_world_def waiting_db_def cursor_of_moved control_event_snapshot_def sample_event_def)
  have "db_ok (sample_db\<lparr>t_events := v\<rparr>)" for v
    using sample_db_ok by (simp add: db_ok_def settings_ok_def providers_ok_def nodes_ok_def creds_ok_def
      checks_ok_def vps_ok_def jobs_ok_def deployments_ok_def)
  then show "db_ok (w_db (fresh_world waiting_db))" by (simp add: fresh_world_def waiting_db_def moved_ok)
  show "t_events (w_db (fresh_world waiting_db)) = [sample_event 20 SYSTEM_PAUSED 1000000, sample_event 21 NODE_FAILED 2000000]"
    by (simp add: fresh_world_def waiting_db_def)
qed

lemma notifier_announces_in_order_witness:
  "case notifier_run 5 (sample_env default_settings) (fresh_world waiting_db) of
     (Inr n, w') \<Rightarrow> n = 1 \<and> length (w_chat w') = 1
   | (Inl _, w') \<Rightarrow> w_chat w' \<noteq> []"
proof -
  obtain r w' where run: "notifier_run 5 (sample_env default_settings) (fresh_world waiting_db) = (r, w')" by fastforce
  have "list_events_after (Some 1000000) (Some 20) 100 (w_db (fresh_world waiting_db)) = [sample_event 21 NODE_FAILED 2000000]"
    by (simp add: list_events_after_def waiting_db_facts event_after_def sample_event_def sort_events_def)
  with notifier_announces_in_order [OF sample_undisturbed waiting_db_facts(1,2) run refl] show ?thesis
    unfolding run by (cases r) (auto simp: fresh_world_def control_event_snapshot_def sample_event_def notifiable_def)
qed

lemma notifier_resumes_where_it_stopped_witness:
  "\<exists>k \<le> 1. fst (list_events_after_cursor 7 (sample_env default_settings)
       (snd (notifier_run 5 (sample_env default_settings) (fresh_world waiting_db)))) =
     Inr (drop k [control_event_snapshot (sample_event 21 NODE_FAILED 2000000)])"
proof -
  obtain r w' where run: "notifier_run 5 (sample_env default_settings) (fresh_world waiting_db) = (r, w')" by fastforce
  have waiting: "sort_events (filter (event_after (Some 1000000) (Some 20)) (t_events (w_db (fresh_world waiting_db)))) =
      [sample_event 21 NODE_FAILED 2000000]"
    by (simp add: waiting_db_facts event_after_def sample_event_def sort_events_def)
  have "dt_year (utc_date 1000000) = 1970" "dt_year (utc_date 2000000) = 1970" by code_simp+
  then have "list_all dated (t_events (w_db (fresh_world waiting_db)))"
    by (simp add: waiting_db_facts dated_def sample_event_def)
  moreover have "distinct (map event_key (t_events (w_db (fresh_world waiting_db))))"
    by (simp add: waiting_db_facts event_key_def sample_event_def)
  ultimately show ?thesis
    using notifier_resumes_where_it_stopped [OF sample_undisturbed waiting_db_facts(1,2) _ _ run refl]
    unfolding run waiting by (auto simp: take_Cons' drop_Cons')
qed

lemma notifier_catches_up_witness:
  "\<exists>w'. notify_ticks 1 5 (sample_env default_settings) (fresh_world waiting_db) = (Inr (), w') \<and> length (w_chat w') = 1 \<and>
     (\<forall>n. fst (list_events_after_cursor n (sample_env default_settings) w') = Inr [])"
proof -
  have waiting: "sort_events (filter (event_after (Some 1000000) (Some 20)) (t_events (w_db (fresh_world waiting_db)))) =
      [sample_event 21 NODE_FAILED 2000000]"
    by (simp add: waiting_db_facts event_after_def sample_event_def sort_events_def)
  have chat: "env_chat (sample_env default_settings) = (\<lambda>_ _. None)" by (simp add: sample_env_def)
  have "dt_year (utc_date 1000000) = 1970" "dt_year (utc_date 2000000) = 1970" by code_simp+
  then have dates: "list_all dated (t_events (w_db (fresh_world waiting_db)))"
    by (simp add: waiting_db_facts dated_def sample_event_def)
  have keys: "distinct (map event_key (t_events (w_db (fresh_world waiting_db))))"
    by (simp add: waiting_db_facts event_key_def sample_event_def)
  show ?thesis
    using notifier_catches_up [OF sample_undisturbed chat waiting_db_facts(1,2) keys dates refl, of 1 5]
    unfolding waiting by (auto simp: control_event_snapshot_def sample_event_def notifiable_def fresh_world_def)
qed

end
