(* ===== verification/Cli.thy ===== *)
theory Cli
  imports HostKeys Management OpSettings "HOL-Library.Char_ord" "HOL-Library.List_Lexorder"
begin

text \<open>
  The command lines of \<open>scripts/registry_cli.py\<close> and \<open>scripts/runtime_control_cli.py\<close>. \<open>argparse\<close> splits
  the words of the command line into the subcommand and its options with their texts (its abbreviations
  and \<open>--name=text\<close> are among them); what the two programs declare of their options is the table
  \<open>cli_parser\<close>. A run gives the lines it prints and the exit code.
\<close>

section \<open>JSON texts\<close>

text \<open>\<open>json.dumps(value, indent=2, sort_keys=True)\<close>, for ASCII texts; \<open>rt\<close> writes a float.\<close>

definition indented :: "nat \<Rightarrow> string" where
  "indented n = newline @ replicate (2 * n) (CHR '' '')"

definition bracketed :: "string \<Rightarrow> string \<Rightarrow> nat \<Rightarrow> string list \<Rightarrow> string" where
  "bracketed a z level items =
     (if items = [] then a @ z
      else a @ indented (Suc level) @ join_with ('','' @ indented (Suc level)) items @ indented level @ z)"

primrec json_text :: "(real \<Rightarrow> string) \<Rightarrow> json \<Rightarrow> nat \<Rightarrow> string" where
  "json_text rt JNull = (\<lambda>level. ''null'')"
| "json_text rt (JBool b) = (\<lambda>level. if b then ''true'' else ''false'')"
| "json_text rt (JInt i) = (\<lambda>level. show_int i)"
| "json_text rt (JReal r) = (\<lambda>level. rt r)"
| "json_text rt (JStr s) = (\<lambda>level. json_dumps_str s)"
| "json_text rt (JList xs) = (\<lambda>level. bracketed ''['' '']'' level (map (\<lambda>f. f (Suc level)) (map (json_text rt) xs)))"
| "json_text rt (JObj fs) = (\<lambda>level. bracketed ''{'' ''}'' level
     (map (\<lambda>(k, f). json_dumps_str k @ '': '' @ f (Suc level)) (sort_key fst (map (map_prod id (json_text rt)) fs))))"

section \<open>The options\<close>

record cli_option =
  co_name :: string
  co_int :: bool
  co_required :: bool
  co_default :: json
  co_choices :: "string list option"

definition required :: "string \<Rightarrow> cli_option" where
  "required n = \<lparr>co_name = n, co_int = False, co_required = True, co_default = JNull, co_choices = None\<rparr>"

definition optional :: "string \<Rightarrow> cli_option" where
  "optional n = (required n)\<lparr>co_required := False\<rparr>"

definition required_int :: "string \<Rightarrow> cli_option" where
  "required_int n = (required n)\<lparr>co_int := True\<rparr>"

definition ssh_port_option :: "string \<Rightarrow> cli_option" where
  "ssh_port_option n = (optional n)\<lparr>co_int := True, co_default := JInt 22\<rparr>"

definition with_default :: "string \<Rightarrow> string \<Rightarrow> cli_option" where
  "with_default n d = (optional n)\<lparr>co_default := JStr d\<rparr>"

definition provider_type_option :: cli_option where
  "provider_type_option = (required ''type'')\<lparr>co_choices := Some (map provider_type_value [HETZNER, LINODE])\<rparr>"

definition ssh_auth_option :: cli_option where
  "ssh_auth_option = (required ''ssh-auth-method'')\<lparr>co_choices := Some (map ssh_auth_value [PASSWORD, PRIVATE_KEY])\<rparr>"

definition smart_node_options :: "cli_option list" where
  "smart_node_options =
     [required ''provider-key'', required ''provider-server-id'', required_int ''master-node-id'',
      optional ''api-token-ref'', optional ''region-override'', optional ''server-type-override'',
      optional ''image-override'']"

definition cli_parser :: "(string \<times> cli_option list) list" where
  "cli_parser =
     [(''list'', []), (''readiness'', []),
      (''ssh-host-key-preview'', [required ''host'', ssh_port_option ''port'']),
      (''ssh-host-key-trust'', [required ''host'', ssh_port_option ''port'', required ''fingerprint'']),
      (''secret-write'', [required ''scope'', required ''name'']),
      (''add-provider'',
        [required ''key'', required ''display-name'', provider_type_option, required ''credential-ref'',
         required ''region'', required ''server-type'', required ''image'']),
      (''smart-add-provider'',
        [required ''key'', required ''display-name'', provider_type_option, required ''credential-ref'',
         (with_default ''credential-backend'' ''file'')\<lparr>co_choices := Some [''file'', ''environment'']\<rparr>]),
      (''add-node'',
        [required ''name'', required ''provider-key'', required ''master-node-id'', required ''host'',
         required_int ''port'', required ''provider-server-id'', optional ''provider-host'', optional ''region'',
         optional ''server-type'', optional ''provider-image'', with_default ''ssh-username'' ''root'',
         ssh_port_option ''ssh-port'', ssh_auth_option, required ''ssh-secret-ref'', optional ''ssh-public-key'',
         optional ''panel-base-path'', optional ''api-token-ref'']),
      (''smart-preview-node'', smart_node_options),
      (''smart-add-node'', smart_node_options @
        [optional ''name'', with_default ''ssh-username'' ''root'', ssh_port_option ''ssh-port'', ssh_auth_option,
         required ''ssh-secret-ref'', optional ''ssh-public-key''])]"

text \<open>The arguments of a run: the value of every option of its subcommand. \<open>argparse\<close> exits with code 2.\<close>

type_synonym cli_args = "(string \<times> json) list"

definition option_value :: "(string \<times> string) list \<Rightarrow> cli_option \<Rightarrow> json option" where
  "option_value given_options o1 =
     (case map_of (rev given_options) (co_name o1) of
        None \<Rightarrow> (if co_required o1 then None else Some (co_default o1))
      | Some s \<Rightarrow>
          (if co_int o1 then (case int_of (JStr s) of Inl _ \<Rightarrow> None | Inr i \<Rightarrow> Some (JInt i))
           else if (case co_choices o1 of None \<Rightarrow> False | Some cs \<Rightarrow> s \<notin> set cs) then None
           else Some (JStr s)))"

fun option_values :: "(string \<times> string) list \<Rightarrow> cli_option list \<Rightarrow> cli_args option" where
  "option_values given_options [] = Some []"
| "option_values given_options (o1 # os) =
     (case (option_value given_options o1, option_values given_options os) of
        (Some v, Some vs) \<Rightarrow> Some ((co_name o1, v) # vs) | _ \<Rightarrow> None)"

definition parse_args :: "string \<Rightarrow> (string \<times> string) list \<Rightarrow> cli_args option" where
  "parse_args command given_options =
     (case map_of cli_parser command of
        None \<Rightarrow> None
      | Some os \<Rightarrow>
          (if set (map fst given_options) \<subseteq> set (map co_name os) then option_values given_options os else None))"

definition arg_text :: "cli_args \<Rightarrow> string \<Rightarrow> string" where
  "arg_text a k = (case map_of a k of Some (JStr s) \<Rightarrow> s | _ \<Rightarrow> [])"

definition arg_option :: "cli_args \<Rightarrow> string \<Rightarrow> string option" where
  "arg_option a k = (case map_of a k of Some (JStr s) \<Rightarrow> Some s | _ \<Rightarrow> None)"

definition arg_int :: "cli_args \<Rightarrow> string \<Rightarrow> int" where
  "arg_int a k = (case map_of a k of Some (JInt i) \<Rightarrow> i | _ \<Rightarrow> 0)"

definition arg_provider_type :: "cli_args \<Rightarrow> provider_type" where
  "arg_provider_type a = (case provider_type_of (arg_text a ''type'') of Some t \<Rightarrow> t | None \<Rightarrow> HETZNER)"

definition arg_auth :: "cli_args \<Rightarrow> ssh_auth_method" where
  "arg_auth a = (case ssh_auth_of (arg_text a ''ssh-auth-method'') of Some m \<Rightarrow> m | None \<Rightarrow> PASSWORD)"

definition arg_overrides :: "cli_args \<Rightarrow> overrides" where
  "arg_overrides a = \<lparr>ov_region = arg_option a ''region-override'', ov_server_type = arg_option a ''server-type-override'',
     ov_image = arg_option a ''image-override''\<rparr>"

section \<open>The registry commands\<close>

type_synonym cli_result = "string list \<times> int"

definition or_dash :: "string option \<Rightarrow> string" where
  "or_dash v = (if truthy_text v then text_of v else ''-'')"

definition provider_line :: "provider_row \<Rightarrow> string" where
  "provider_line p = ''  - '' @ p_key p @ '': '' @ provider_type_value (p_type p) @ '' region='' @
     or_dash (p_default_region p) @ '' type='' @ or_dash (p_default_server_type p) @ '' image='' @
     or_dash (p_default_image p)"

definition node_line :: "node_row \<Rightarrow> string" where
  "node_line n = ''  - '' @ n_name n @ '': '' @ n_current_host n @ '':'' @ show_int (n_current_port n) @
     '' master='' @ n_master_node_id n @ '' state='' @ node_state_value (n_state n)"

definition or_none :: "string list \<Rightarrow> string list" where
  "or_none xs = (if xs = [] then [''  (none)''] else xs)"

definition cli_list :: "cli_result act" where
  "cli_list =
     bind registry_providers (\<lambda>ps. bind registry_nodes (\<lambda>ns.
       ret ([''Providers:''] @ or_none (map provider_line ps) @ [''Nodes:''] @ or_none (map node_line ns), 0)))"

definition cli_readiness :: "cli_result act" where
  "cli_readiness =
     bind readiness (\<lambda>r.
       ret ([''providers='' @ show_nat (rr_providers r), ''nodes='' @ show_nat (rr_nodes r),
             ''current_vps='' @ show_nat (rr_current_vps r), ''node_credentials='' @ show_nat (rr_credentials r),
             ''ready='' @ (if registry_ready r then ''yes'' else ''no'')],
            if registry_ready r then 0 else 3))"

definition cli_key_preview :: "(string \<Rightarrow> int \<Rightarrow> key_probe) \<Rightarrow> cli_args \<Rightarrow> cli_result act" where
  "cli_key_preview server_key a =
     bind (inspect_host_key server_key (arg_text a ''host'') (arg_int a ''port'')) (\<lambda>c.
       ret ([''host='' @ hc_host c, ''port='' @ show_int (hc_port c), ''algorithm='' @ hc_algorithm c,
             ''fingerprint='' @ hc_fingerprint c], 0))"

definition cli_key_trust :: "(string \<Rightarrow> int \<Rightarrow> key_probe) \<Rightarrow> cli_args \<Rightarrow> cli_result act" where
  "cli_key_trust server_key a =
     bind (ask_env known_hosts_path) (\<lambda>path.
     bind (trust_host_key server_key path (arg_text a ''host'') (arg_int a ''port'') (arg_text a ''fingerprint'')) (\<lambda>c.
       ret ([''Trusted SSH host key: '' @ hc_host c @ '':'' @ show_int (hc_port c),
             ''algorithm='' @ hc_algorithm c, ''fingerprint='' @ hc_fingerprint c], 0)))"

definition cli_secret_write :: "string \<Rightarrow> cli_args \<Rightarrow> cli_result act" where
  "cli_secret_write stdin a =
     andthen (guard_raise (strip stdin = []) ValueError ''secret input is empty'')
     (bind (write_secret (arg_text a ''scope'') (arg_text a ''name'') (rstrip_chr (CHR 0x0A) stdin)) (\<lambda>reference.
       ret ([reference], 0)))"

definition provider_form_of :: "secret_backend \<Rightarrow> cli_args \<Rightarrow> provider_form" where
  "provider_form_of bk a =
     \<lparr>pf_key = arg_text a ''key'', pf_display_name = arg_text a ''display-name'', pf_type = arg_provider_type a,
      pf_credential_ref = arg_text a ''credential-ref'', pf_region = arg_option a ''region'',
      pf_server_type = arg_option a ''server-type'', pf_image = arg_option a ''image'', pf_backend = bk\<rparr>"

definition cli_add_provider :: "cli_args \<Rightarrow> cli_result act" where
  "cli_add_provider a =
     bind (register_provider (provider_form_of ENVIRONMENT a)) (\<lambda>p.
       ret ([''Provider ready: '' @ p_key p @ '' ('' @ provider_type_value (p_type p) @ '')''], 0))"

definition cli_smart_add_provider :: "cli_args \<Rightarrow> cli_result act" where
  "cli_smart_add_provider a =
     bind (validate_and_register_provider
       (provider_form_of (if arg_text a ''credential-backend'' = ''environment'' then ENVIRONMENT else FILE) a)) (\<lambda>p.
       ret ([''Provider API verified and registered: '' @ p_key p @ '' ('' @ provider_type_value (p_type p) @ '')''], 0))"

definition node_form_of :: "cli_args \<Rightarrow> node_form" where
  "node_form_of a =
     \<lparr>nf_name = arg_text a ''name'', nf_provider_key = arg_text a ''provider-key'',
      nf_master_node_id = arg_text a ''master-node-id'', nf_host = arg_text a ''host'', nf_port = arg_int a ''port'',
      nf_server_id = arg_text a ''provider-server-id'', nf_ssh_username = arg_text a ''ssh-username'',
      nf_ssh_port = arg_int a ''ssh-port'', nf_ssh_auth = arg_auth a, nf_ssh_secret_ref = arg_text a ''ssh-secret-ref'',
      nf_ssh_public_key = arg_option a ''ssh-public-key'', nf_provider_host = arg_option a ''provider-host'',
      nf_region = arg_option a ''region'', nf_server_type = arg_option a ''server-type'',
      nf_image = arg_option a ''provider-image'', nf_base_path = arg_option a ''panel-base-path'',
      nf_api_token_ref = arg_option a ''api-token-ref''\<rparr>"

definition cli_add_node :: "cli_args \<Rightarrow> cli_result act" where
  "cli_add_node a =
     bind (register_node (node_form_of a)) (\<lambda>n.
       ret ([''Node ready: '' @ n_name n @ '' ('' @ uuid_str (n_id n) @ '')''], 0))"

definition cli_smart_preview :: "(real \<Rightarrow> string) \<Rightarrow> cli_args \<Rightarrow> cli_result act" where
  "cli_smart_preview rt a =
     bind (smart_discover_node (arg_text a ''provider-key'') (arg_text a ''provider-server-id'')
       (arg_int a ''master-node-id'') (arg_option a ''api-token-ref'') (arg_overrides a)) (\<lambda>x.
       ret ([json_text rt (safe_summary x) 0], 0))"

definition cli_login :: "cli_args \<Rightarrow> ssh_login" where
  "cli_login a =
     \<lparr>sl_username = arg_text a ''ssh-username'', sl_port = arg_int a ''ssh-port'', sl_auth = arg_auth a,
      sl_secret_ref = arg_text a ''ssh-secret-ref'', sl_public_key = arg_option a ''ssh-public-key''\<rparr>"

definition cli_smart_add_node :: "(real \<Rightarrow> string) \<Rightarrow> cli_args \<Rightarrow> cli_result act" where
  "cli_smart_add_node rt a =
     bind (validate_and_register_node (arg_option a ''name'') (arg_text a ''provider-key'')
       (arg_text a ''provider-server-id'') (arg_int a ''master-node-id'') (cli_login a)
       (arg_option a ''api-token-ref'') (arg_overrides a)) (\<lambda>(n, x).
       ret ([json_text rt (safe_summary x) 0,
             ''Node verified and registered: '' @ n_name n @ '' ('' @ uuid_str (n_id n) @ '')''], 0))"

text \<open>What the process brings with it: its standard input, the server that presents a host key, the text of a float.\<close>

record cli_input =
  ci_stdin :: string
  ci_server_key :: "string \<Rightarrow> int \<Rightarrow> key_probe"
  ci_real_text :: "real \<Rightarrow> string"

definition cli_run :: "cli_input \<Rightarrow> string \<Rightarrow> cli_args \<Rightarrow> cli_result act" where
  "cli_run inp command a =
     (if command = ''secret-write'' then cli_secret_write (ci_stdin inp) a
      else if command = ''ssh-host-key-preview'' then cli_key_preview (ci_server_key inp) a
      else if command = ''ssh-host-key-trust'' then cli_key_trust (ci_server_key inp) a
      else if command = ''list'' then cli_list
      else if command = ''readiness'' then cli_readiness
      else if command = ''add-provider'' then cli_add_provider a
      else if command = ''smart-add-provider'' then cli_smart_add_provider a
      else if command = ''add-node'' then cli_add_node a
      else if command = ''smart-preview-node'' then cli_smart_preview (ci_real_text inp) a
      else if command = ''smart-add-node'' then cli_smart_add_node (ci_real_text inp) a
      else raise RuntimeError ''unsupported command'')"

text \<open>\<open>main\<close>: an exception becomes a line on the error output and the code 1.\<close>

definition cli_main :: "cli_input \<Rightarrow> string \<Rightarrow> (string \<times> string) list \<Rightarrow> cli_result act" where
  "cli_main inp command given_options =
     (case parse_args command given_options of
        None \<Rightarrow> ret ([], 2)
      | Some a \<Rightarrow> catch_all (cli_run inp command a) (\<lambda>x. ret ([''Registry setup failed: '' @ exn_msg x], 1)))"

section \<open>The runtime switches\<close>

definition runtime_commands :: "string list" where
  "runtime_commands =
     [''show'', ''monitoring-on'', ''monitoring-off'', ''auto-on'', ''auto-off'', ''dry-run'', ''live'']"

definition runtime_change :: "string \<Rightarrow> unit act" where
  "runtime_change command =
     (let done = (\<lambda>m :: bool act. andthen m (ret ())) in
      if command = ''monitoring-on'' then done (set_monitoring_enabled True None)
      else if command = ''monitoring-off'' then done (set_monitoring_enabled False None)
      else if command = ''auto-on'' then done (set_replacement_enabled True None)
      else if command = ''auto-off'' then done (set_replacement_enabled False None)
      else if command = ''dry-run'' then done (set_execution_mode MODE_DRY_RUN None)
      else if command = ''live'' then done (set_execution_mode LIVE None)
      else ret ())"

definition py_bool :: "bool \<Rightarrow> string" where
  "py_bool b = (if b then ''True'' else ''False'')"

definition runtime_lines :: "runtime_control_snapshot \<Rightarrow> string list" where
  "runtime_lines c =
     [''monitoring_enabled='' @ py_bool (rc_monitoring_enabled c),
      ''auto_repair_enabled='' @ py_bool (rc_replacement_enabled c),
      ''execution_mode='' @ execution_mode_value (rc_execution_mode c),
      ''effective_dry_run='' @ py_bool (rc_effective_dry_run c), ''live_capable='' @ py_bool (rc_live_capable c)] @
     (if truthy_text (rc_live_block_reason c) then [''live_block_reason='' @ text_of (rc_live_block_reason c)] else [])"

definition runtime_cli :: "string \<Rightarrow> cli_result act" where
  "runtime_cli command =
     (if command \<notin> set runtime_commands then ret ([], 2)
      else andthen (runtime_change command) (bind runtime_snapshot (\<lambda>c. ret (runtime_lines c, 0))))"

section \<open>Facts\<close>

text \<open>What the parser lets through has a value of its type for every option.\<close>

definition option_typed :: "cli_option \<Rightarrow> json \<Rightarrow> bool" where
  "option_typed o1 v \<longleftrightarrow>
     (if co_int o1 then (\<exists>i. v = JInt i)
      else (v = JNull \<and> \<not> co_required o1 \<or>
        (\<exists>s. v = JStr s \<and> (case co_choices o1 of None \<Rightarrow> True | Some cs \<Rightarrow> s \<in> set cs))))"

lemma option_value_typed:
  assumes "option_value g o1 = Some v" and "\<not> co_required o1 \<longrightarrow> option_typed o1 (co_default o1)"
  shows "option_typed o1 v"
  using assms by (auto simp: option_value_def option_typed_def split: option.splits if_splits sum.splits)

lemma option_values_typed:
  assumes "option_values g os = Some a" and "distinct (map co_name os)"
    and "list_all (\<lambda>o1. co_required o1 \<or> option_typed o1 (co_default o1)) os" and "o1 \<in> set os"
  shows "\<exists>v. map_of a (co_name o1) = Some v \<and> option_typed o1 v"
  using assms
proof (induction os arbitrary: a)
  case (Cons x os)
  then obtain v vs where v: "option_value g x = Some v" "option_values g os = Some vs" "a = (co_name x, v) # vs"
    by (auto split: option.splits)
  show ?case
  proof (cases "o1 = x")
    case True
    with v option_value_typed [OF v(1)] Cons.prems(3) show ?thesis by (cases "co_required x") simp_all
  next
    case False
    then have "o1 \<in> set os" using Cons.prems(4) by simp
    moreover from imageI [OF this, of co_name] have "co_name o1 \<noteq> co_name x" using Cons.prems(2) by auto
    ultimately show ?thesis using Cons.IH [OF v(2)] Cons.prems(2,3) v(3) by simp
  qed
qed simp

lemma parser_defaults:
  "list_all (\<lambda>(c, os). distinct (map co_name os) \<and> list_all (\<lambda>o1. co_required o1 \<or> option_typed o1 (co_default o1)) os)
     cli_parser"
  by (simp add: cli_parser_def smart_node_options_def required_def optional_def required_int_def ssh_port_option_def
    with_default_def provider_type_option_def ssh_auth_option_def option_typed_def)

end
