(* ===== verification/CliProps.thy ===== *)
theory CliProps
  imports BotProps Cli
begin

text \<open>
  Properties of the command lines: the registry commands leave the replacement jobs alone and only look
  at the outside, and the arguments a command works on have the types its options declare.
\<close>

section \<open>The commands as bystanders\<close>

context bystander
begin

lemma keeps_registry_reads [keeps]:
  "keeps e I readiness" "keeps e I registry_providers" "keeps e I registry_nodes"
  "keeps e I (smart_discover_node key sid mid r ov)"
  unfolding readiness_def registry_providers_def registry_nodes_def smart_discover_node_def
  by (intro keeps | rule keeps_look, intro keeps; fail)+

lemma keeps_smart_registration [keeps]: "keeps e I (validate_and_register_node name key sid mid l r ov)"
proof -
  have look: "calls_only observes (ssh_login_target host user p auth x)" "calls_only observes (ssh_says_ready t)" for host user p auth x t
    unfolding ssh_login_target_def ssh_says_ready_def by (intro keeps | simp)+
  show ?thesis
    unfolding validate_and_register_node_def by (intro keeps | rule keeps_look, intro keeps look; fail)+
qed

lemma keeps_cli [keeps]: "keeps e I (cli_main inp command given_options)" "keeps e I (runtime_cli command)"
  unfolding cli_main_def cli_run_def cli_secret_write_def cli_key_preview_def cli_key_trust_def cli_list_def
    cli_readiness_def cli_add_provider_def cli_smart_add_provider_def cli_add_node_def cli_smart_preview_def
    cli_smart_add_node_def runtime_cli_def runtime_change_def Let_def
  by (intro keeps)+

end

section \<open>Properties\<close>

text \<open>
  The registry command line is not destructive, as it says of itself: whatever command it is given and
  however it ends, it only looks at the providers, the Master panel, the nodes and the servers, and it
  leaves every replacement job as it is.
\<close>

lemma cli_only_looks:
  assumes "undisturbed e" and "t_jobs (w_ses w) = t_jobs (w_db w)" and "cli_main inp command given_options e w = (r, w')"
  shows "(\<exists>new. w_trace w' = new @ w_trace w \<and> list_all (\<lambda>x. observes (snd x)) new) \<and> t_jobs (w_db w') = t_jobs (w_db w)"
proof -
  have e: "alone e = e" using undisturbed_alone(2) [OF assms(1)] .
  have w': "w' = snd (cli_main inp command given_options e w)" using assms(3) by simp
  have "looked (w_trace w) w'"
    unfolding w' using keepsD [OF looks.keeps_cli(1) [of e] looked_start] by (simp add: e)
  moreover have "jobs_kept (t_jobs (w_db w)) w" using assms(2) by (simp add: jobs_kept_def)
  then have "jobs_kept (t_jobs (w_db w)) w'"
    unfolding w' using keepsD [OF jobs.keeps_cli(1) [of e]] by (simp add: e)
  ultimately show ?thesis by (auto simp: looked_def list_all_iff jobs_kept_def)
qed



end
