(* ===== verification/Backup.thy ===== *)
theory Backup
  imports Calendar OrchCore
begin

text \<open>
  \<open>app/backup/manager.py\<close>: dumps of the database, their retention and the gated restore. The state is
  the files with the times of their last change and their modes, and the commands that were run with
  the variables of the connection they were given. \<open>pg_dump\<close> and \<open>pg_restore\<close> are a parameter: they
  succeed or not, and leave the files as they leave them.
\<close>

section \<open>The state\<close>

record dump_file =
  df_path :: string
  df_mtime :: int
  df_mode :: nat

record backup_state =
  bw_files :: "dump_file list"
  bw_dirs :: "(string \<times> nat) list"
  bw_calls :: "(string list \<times> (string \<times> string) list) list"

text \<open>
  What the host answers: its environment variables, the absolute form of a path, the time, and whether
  a tool succeeds, with the files after it.
\<close>

record backup_host =
  bh_environ :: "(string \<times> string) list"
  bh_path :: "string \<Rightarrow> string"
  bh_now :: usec
  bh_tool :: "string list \<Rightarrow> dump_file list \<Rightarrow> bool \<times> dump_file list"

text \<open>The parts \<open>make_url\<close> finds in a database URL.\<close>

record db_url =
  du_backend :: string
  du_host :: "string option"
  du_port :: "int option"
  du_username :: "string option"
  du_password :: "string option"
  du_database :: "string option"

record backup_manager =
  bm_url :: db_url
  bm_dir :: string
  bm_retention :: int
  bm_allow_restore :: bool

type_synonym 'a backup_act = "backup_host \<Rightarrow> backup_state \<Rightarrow> (exn + 'a) \<times> backup_state"

definition bret :: "'a \<Rightarrow> 'a backup_act" where
  "bret a h s = (Inr a, s)"

definition bfail :: "exn_class \<Rightarrow> string \<Rightarrow> 'a backup_act" where
  "bfail c m h s = (Inl (Exn c m), s)"

definition bbind :: "'a backup_act \<Rightarrow> ('a \<Rightarrow> 'b backup_act) \<Rightarrow> 'b backup_act" where
  "bbind m f h s = (case m h s of (Inl x, s') \<Rightarrow> (Inl x, s') | (Inr a, s') \<Rightarrow> f a h s')"

definition bthen :: "'a backup_act \<Rightarrow> 'b backup_act \<Rightarrow> 'b backup_act" where
  "bthen m k = bbind m (\<lambda>_. k)"

definition bguard :: "bool \<Rightarrow> exn_class \<Rightarrow> string \<Rightarrow> unit backup_act" where
  "bguard b c m = (if b then bfail c m else bret ())"

section \<open>The manager\<close>

definition RESTORE_CONFIRMATION :: string where
  "RESTORE_CONFIRMATION = ''RESTORE_ASO_DATABASE''"

definition make_backup_manager ::
    "(string \<Rightarrow> string) \<Rightarrow> db_url \<Rightarrow> string \<Rightarrow> int \<Rightarrow> bool \<Rightarrow> exn + backup_manager" where
  "make_backup_manager resolve url dir retention allow =
     (if du_backend url \<noteq> ''postgresql'' then
        Inl (Exn ConfigurationError ''backup manager supports PostgreSQL only'')
      else if \<not> truthy_text (du_database url) then
        Inl (Exn ConfigurationError ''PostgreSQL database name is required'')
      else Inr \<lparr>bm_url = url, bm_dir = resolve dir, bm_retention = retention, bm_allow_restore = allow\<rparr>)"

definition bm_database :: "backup_manager \<Rightarrow> string" where
  "bm_database m = text_of (du_database (bm_url m))"

text \<open>\<open>env[key] = value\<close>.\<close>

definition set_variable :: "string \<Rightarrow> string option \<Rightarrow> (string \<times> string) list \<Rightarrow> (string \<times> string) list" where
  "set_variable k v env = (if truthy_text v then filter (\<lambda>(j, _). j \<noteq> k) env @ [(k, text_of v)] else env)"

definition connection_env :: "backup_manager \<Rightarrow> string option \<Rightarrow> (string \<times> string) list \<Rightarrow> (string \<times> string) list" where
  "connection_env m database env =
     (let u = bm_url m;
          port = (case du_port u of None \<Rightarrow> None | Some p \<Rightarrow> if p = 0 then None else Some (show_int p)) in
      set_variable ''PGDATABASE'' (if truthy_text database then database else du_database u)
        (set_variable ''PGPASSWORD'' (du_password u)
          (set_variable ''PGUSER'' (du_username u)
            (set_variable ''PGPORT'' port (set_variable ''PGHOST'' (du_host u) env)))))"

text \<open>\<open>subprocess.run(command, check=True, env=env)\<close>.\<close>

definition run_command :: "string list \<Rightarrow> (string \<times> string) list \<Rightarrow> unit backup_act" where
  "run_command command env h s =
     (case bh_tool h command (bw_files s) of (ok, files) \<Rightarrow>
        (if ok then Inr () else Inl (Exn OtherError ''command returned non-zero exit status''),
         s\<lparr>bw_files := files, bw_calls := (command, env) # bw_calls s\<rparr>))"

definition run_tool :: "backup_manager \<Rightarrow> string list \<Rightarrow> bool \<Rightarrow> unit backup_act" where
  "run_tool m command include_database_env h =
     run_command command (if include_database_env then connection_env m None (bh_environ h) else bh_environ h) h"

definition validated_path :: "string \<Rightarrow> string backup_act" where
  "validated_path path h s =
     (let p = bh_path h path in
      if p \<in> set (map df_path (bw_files s)) then (Inr p, s) else (Inl (Exn OSError p), s))"

definition validate_backup :: "backup_manager \<Rightarrow> string \<Rightarrow> unit backup_act" where
  "validate_backup m path =
     bbind (validated_path path) (\<lambda>backup. run_tool m [''pg_restore'', ''--list'', backup] False)"

definition chmod_file :: "string \<Rightarrow> nat \<Rightarrow> unit backup_act" where
  "chmod_file path mode h s =
     (Inr (), s\<lparr>bw_files := map (\<lambda>f. if df_path f = path then f\<lparr>df_mode := mode\<rparr> else f) (bw_files s)\<rparr>)"

definition secure_dir :: "string \<Rightarrow> unit backup_act" where
  "secure_dir path h s = (Inr (), s\<lparr>bw_dirs := (path, 448) # filter (\<lambda>(p, _). p \<noteq> path) (bw_dirs s)\<rparr>)"

text \<open>\<open>strftime("%Y%m%dT%H%M%SZ")\<close>, and the files \<open>aso-*.dump\<close> of the directory.\<close>

definition backup_stamp :: "usec \<Rightarrow> string" where
  "backup_stamp t =
     filter (\<lambda>c. c \<noteq> CHR ''-'') (date_text (utc_date t)) @ ''T'' @ filter (\<lambda>c. c \<noteq> CHR '':'') (clock_text t) @ ''Z''"

definition backup_target :: "backup_manager \<Rightarrow> usec \<Rightarrow> string" where
  "backup_target m t = bm_dir m @ ''/aso-'' @ backup_stamp t @ ''.dump''"

definition is_backup :: "string \<Rightarrow> string \<Rightarrow> bool" where
  "is_backup dir path \<longleftrightarrow>
     starts_with (dir @ ''/aso-'') path \<and>
     (let name = drop (length dir + 1) path in
      9 \<le> length name \<and> CHR ''/'' \<notin> set name \<and> drop (length name - 5) name = ''.dump'')"

definition old_backups :: "backup_manager \<Rightarrow> dump_file list \<Rightarrow> dump_file list" where
  "old_backups m files =
     (let backups = sort_key (\<lambda>f. - df_mtime f) (filter (\<lambda>f. is_backup (bm_dir m) (df_path f)) files) in
      drop (nat (if bm_retention m < 0 then int (length backups) + bm_retention m else bm_retention m)) backups)"

definition apply_retention :: "backup_manager \<Rightarrow> unit backup_act" where
  "apply_retention m h s =
     (Inr (), s\<lparr>bw_files := filter (\<lambda>f. df_path f \<notin> set (map df_path (old_backups m (bw_files s)))) (bw_files s)\<rparr>)"

definition create_backup :: "backup_manager \<Rightarrow> string backup_act" where
  "create_backup m h =
     (let target = backup_target m (bh_now h) in
      bthen (secure_dir (bm_dir m))
      (bthen (run_tool m [''pg_dump'', ''--format=custom'', ''--file'', target] True)
      (bthen (\<lambda>h s. bguard (target \<notin> set (map df_path (bw_files s))) RuntimeError
         ''pg_dump reported success but backup file is missing'' h s)
      (bthen (chmod_file target 384)
      (bthen (validate_backup m target)
      (bthen (apply_retention m) (bret target)))))) h)"

definition restore_backup :: "backup_manager \<Rightarrow> string \<Rightarrow> string \<Rightarrow> unit backup_act" where
  "restore_backup m path phrase =
     bthen (bguard (\<not> bm_allow_restore m) SafetyViolationError ''database restore is disabled by configuration'')
     (bthen (bguard (phrase \<noteq> RESTORE_CONFIRMATION) SafetyViolationError
        ''database restore confirmation phrase is invalid'')
     (bbind (validated_path path) (\<lambda>backup.
      bthen (validate_backup m backup)
        (run_tool m [''pg_restore'', ''--clean'', ''--if-exists'', ''--exit-on-error'', ''--no-owner'',
           ''--no-privileges'', ''--dbname'', bm_database m, backup] True))))"

definition restore_test :: "backup_manager \<Rightarrow> string \<Rightarrow> string \<Rightarrow> unit backup_act" where
  "restore_test m path target_database =
     bthen (bguard (strip target_database = [] \<or> target_database = bm_database m) SafetyViolationError
        ''restore test requires a separate target database'')
     (bbind (validated_path path) (\<lambda>backup.
      bthen (validate_backup m backup)
        (\<lambda>h. run_command [''pg_restore'', ''--exit-on-error'', ''--no-owner'', ''--no-privileges'', ''--dbname'',
           target_database, backup] (connection_env m (Some target_database) (bh_environ h)) h)))"

section \<open>The scripts\<close>

text \<open>\<open>scripts/backup_db.py\<close> and \<open>scripts/restore_db.py\<close>; \<open>url\<close> is what the setting reads as.\<close>

definition script_manager :: "(string \<Rightarrow> db_url) \<Rightarrow> settings \<Rightarrow> backup_host \<Rightarrow> exn + backup_manager" where
  "script_manager url s h =
     (case database_url s of
        None \<Rightarrow> Inl (Exn OtherError ''ASO_DATABASE_URL is required'')
      | Some u \<Rightarrow> make_backup_manager (bh_path h) (url u) (backup_dir s) (backup_retention_count s)
          (allow_database_restore s))"

definition backup_script :: "(string \<Rightarrow> db_url) \<Rightarrow> settings \<Rightarrow> string backup_act" where
  "backup_script url s h =
     (case script_manager url s h of Inl x \<Rightarrow> (\<lambda>st. (Inl x, st)) | Inr m \<Rightarrow> create_backup m h)"

definition restore_script :: "(string \<Rightarrow> db_url) \<Rightarrow> settings \<Rightarrow> string \<Rightarrow> string \<Rightarrow> unit backup_act" where
  "restore_script url s backup confirm h =
     (case script_manager url s h of Inl x \<Rightarrow> (\<lambda>st. (Inl x, st)) | Inr m \<Rightarrow> restore_backup m backup confirm h)"

section \<open>Facts\<close>

lemmas backup_defs = bthen_def bbind_def bguard_def bret_def bfail_def

text \<open>A restore that is not allowed, or not confirmed, runs nothing and changes nothing.\<close>

lemma restore_gated:
  assumes "\<not> bm_allow_restore m \<or> phrase \<noteq> RESTORE_CONFIRMATION"
  shows "\<exists>msg. restore_backup m path phrase h s = (Inl (Exn SafetyViolationError msg), s)"
  using assms by (auto simp: restore_backup_def backup_defs)

text \<open>A test restore is refused for the database of the program, and otherwise connects to the other one.\<close>

lemma restore_test_refused:
  assumes "strip target = [] \<or> target = bm_database m"
  shows "restore_test m path target h s =
    (Inl (Exn SafetyViolationError ''restore test requires a separate target database''), s)"
  using assms by (auto simp: restore_test_def backup_defs)

lemma map_of_without: "map_of (filter (\<lambda>(j, _). j \<noteq> k) vs) k = None"
  by (induction vs) auto

lemma map_of_set_variable: "truthy_text v \<Longrightarrow> map_of (set_variable k v vs) k = v"
  by (cases v) (simp_all add: set_variable_def map_of_without text_of_def truthy_text_def map_add_def)

lemma connection_database:
  assumes "truthy_text target"
  shows "map_of (connection_env m target vars) ''PGDATABASE'' = target"
  unfolding connection_env_def Let_def if_P [OF assms] by (rule map_of_set_variable [OF assms])

text \<open>After the retention there are at most as many dumps as the setting allows.\<close>

lemma retention_bounds:
  assumes "distinct (map df_path (bw_files s))" and "0 \<le> bm_retention m"
  shows "length (filter (\<lambda>f. is_backup (bm_dir m) (df_path f)) (bw_files (snd (apply_retention m h s)))) \<le> nat (bm_retention m)"
proof -
  let ?P = "\<lambda>f. is_backup (bm_dir m) (df_path f)"
  let ?bs = "sort_key (\<lambda>f. - df_mtime f) (filter ?P (bw_files s))"
  let ?n = "nat (bm_retention m)"
  have old: "old_backups m (bw_files s) = drop ?n ?bs" using assms(2) by (simp add: old_backups_def Let_def)
  have rest: "filter ?P (bw_files (snd (apply_retention m h s))) =
      filter (\<lambda>f. df_path f \<notin> set (map df_path (drop ?n ?bs))) (filter ?P (bw_files s))"
    by (simp add: apply_retention_def old conj_commute)
  have "set (filter (\<lambda>f. df_path f \<notin> set (map df_path (drop ?n ?bs))) (filter ?P (bw_files s))) \<subseteq> set (take ?n ?bs)"
  proof
    fix f assume f: "f \<in> set (filter (\<lambda>f. df_path f \<notin> set (map df_path (drop ?n ?bs))) (filter ?P (bw_files s)))"
    then have "f \<in> set ?bs" by simp
    then have "f \<in> set (take ?n ?bs) \<or> f \<in> set (drop ?n ?bs)" by (metis Un_iff set_append append_take_drop_id)
    moreover have "f \<notin> set (drop ?n ?bs)" using f by auto
    ultimately show "f \<in> set (take ?n ?bs)" by blast
  qed
  then have "card (set (filter ?P (bw_files (snd (apply_retention m h s))))) \<le> card (set (take ?n ?bs))"
    unfolding rest by (intro card_mono) simp_all
  also have "\<dots> \<le> ?n" using card_length [of "take ?n ?bs"] by simp
  moreover have "distinct (filter ?P (bw_files (snd (apply_retention m h s))))"
    using assms(1) unfolding rest by (simp only: distinct_filter distinct_map)
  ultimately show ?thesis by (simp only: distinct_card)
qed

end
