(* ===== verification/Service.thy ===== *)
theory Service
  imports ReplWorker MonWorker "HOL-Library.Word"
begin

unbundle bit_operations_syntax

text \<open>
  The processes around the workers: the periodic jobs of \<open>workers/scheduler.py\<close> and
  \<open>monitoring/scheduler.py\<close>, the life of the worker process (\<open>workers/runner.py\<close>), the objects that
  \<open>runtime.py\<close> builds from the settings, the health endpoint of the API, and the
  review of the host (\<open>scripts/security_review.py\<close>). The library that runs the
  periodic jobs, the signals of the host and the web framework are not modelled; what they are given is.
\<close>

section \<open>The schedulers\<close>

datatype cycle = MonitoringCycle | ReplacementCycle

record periodic_job =
  pj_cycle :: cycle
  pj_seconds :: int
  pj_id :: string
  pj_replace_existing :: bool
  pj_coalesce :: bool
  pj_max_instances :: nat

definition monitoring_job :: "int \<Rightarrow> periodic_job" where
  "monitoring_job n =
     \<lparr>pj_cycle = MonitoringCycle, pj_seconds = n, pj_id = ''aso-monitoring-cycle'', pj_replace_existing = True,
      pj_coalesce = True, pj_max_instances = 1\<rparr>"

definition replacement_job :: "int \<Rightarrow> periodic_job" where
  "replacement_job n =
     \<lparr>pj_cycle = ReplacementCycle, pj_seconds = n, pj_id = ''aso-replacement-cycle'', pj_replace_existing = True,
      pj_coalesce = True, pj_max_instances = 1\<rparr>"

text \<open>The state of a scheduler: the jobs it was started with.\<close>

type_synonym scheduler = "periodic_job list option"

definition start_system :: "settings \<Rightarrow> scheduler \<Rightarrow> scheduler" where
  "start_system s current =
     (case current of
        Some js \<Rightarrow> Some js
      | None \<Rightarrow> Some [monitoring_job (check_interval_seconds s), replacement_job (replacement_worker_interval_seconds s)])"

definition start_monitoring :: "int \<Rightarrow> scheduler \<Rightarrow> scheduler" where
  "start_monitoring n current = (case current of Some js \<Rightarrow> Some js | None \<Rightarrow> Some [monitoring_job n])"

definition shutdown :: "scheduler \<Rightarrow> scheduler" where
  "shutdown current = (case current of None \<Rightarrow> None | Some _ \<Rightarrow> None)"

text \<open>The function a job runs.\<close>

definition run_cycle_job :: "cycle \<Rightarrow> unit act" where
  "run_cycle_job c =
     (case c of
        MonitoringCycle \<Rightarrow> andthen monitoring_run_cycle (ret ())
      | ReplacementCycle \<Rightarrow> andthen replacement_run_cycle (ret ()))"

section \<open>The worker process\<close>

text \<open>What \<open>RuntimeContainer.build\<close> takes from the settings for its parts.\<close>

record runtime_parts =
  rt_check_host_url :: string
  rt_check_host_timeout :: real
  rt_max_attempts :: int
  rt_max_temporary :: int
  rt_max_concurrent :: int
  rt_provisioning_timeout :: real
  rt_provisioning_poll :: real
  rt_ssh_timeout :: real
  rt_ssh_poll :: real
  rt_three_xui_version :: "string option"
  rt_three_xui_tls :: bool
  rt_node_api_timeout :: real
  rt_master :: master_conf

definition build_runtime :: "settings \<Rightarrow> exn + runtime_parts" where
  "build_runtime s =
     (case runtime_master s of
        Inl x \<Rightarrow> Inl x
      | Inr m \<Rightarrow> Inr
          \<lparr>rt_check_host_url = check_host_base_url s, rt_check_host_timeout = check_host_result_timeout_seconds s,
           rt_max_attempts = max_replacement_attempts s, rt_max_temporary = max_temporary_servers s,
           rt_max_concurrent = max_concurrent_replacements s,
           rt_provisioning_timeout = provisioning_timeout_seconds s,
           rt_provisioning_poll = provisioning_poll_interval_seconds s, rt_ssh_timeout = ssh_ready_timeout_seconds s,
           rt_ssh_poll = ssh_poll_interval_seconds s, rt_three_xui_version = three_xui_version s,
           rt_three_xui_tls = three_xui_verify_tls s, rt_node_api_timeout = master_3xui_timeout_seconds s,
           rt_master = m\<rparr>)"

section \<open>The health endpoint\<close>

record health_response =
  hr_status :: string
  hr_service :: string
  hr_version :: string
  hr_environment :: string
  hr_dry_run :: bool

text \<open>\<open>get_version\<close>: the file VERSION, where it can be read and is not blank.\<close>

definition fallback_version :: string where
  "fallback_version = ''0.3.0-registry-monitoring''"

definition get_version :: "string option \<Rightarrow> string" where
  "get_version content =
     (case content of None \<Rightarrow> fallback_version
      | Some s \<Rightarrow> (if strip s = [] then fallback_version else strip s))"

definition health_endpoint :: "string option \<Rightarrow> settings \<Rightarrow> health_response" where
  "health_endpoint version_file s =
     \<lparr>hr_status = ''ok'', hr_service = ''aso-node-recovery'', hr_version = get_version version_file,
      hr_environment = environment s, hr_dry_run = dry_run s\<rparr>"

section \<open>The review of the host\<close>

text \<open>What \<open>stat\<close> tells of a path: the permission bits and the owner. \<open>None\<close> where it does not exist.\<close>

record file_stat =
  fs_mode :: "12 word"
  fs_uid :: nat

definition owner_checks :: "string \<Rightarrow> string \<Rightarrow> nat \<Rightarrow> file_stat option \<Rightarrow> (string \<times> bool) list" where
  "owner_checks only owned user st =
     (case st of None \<Rightarrow> []
      | Some f \<Rightarrow> [(only, fs_mode f AND 63 = 0), (owned, fs_uid f = user)])"

definition security_checks ::
    "settings \<Rightarrow> string \<Rightarrow> (string \<Rightarrow> file_stat option) \<Rightarrow> nat \<Rightarrow> (string \<times> bool) list" where
  "security_checks s known_hosts stat user =
     [(''production environment'', environment s = ''production''),
      (''node TLS verification'', three_xui_verify_tls s),
      (''master TLS verification'', master_3xui_verify_tls s),
      (''database restore disabled'', \<not> allow_database_restore s)] @
     (if telegram_bot_enabled s then
        [(''Telegram authorized users configured'', telegram_authorized_user_ids s \<noteq> []),
         (''Telegram callback secret configured'', telegram_callback_secret s \<noteq> None)]
      else []) @
     owner_checks ''runtime secret directory is owner-only''
       ''runtime secret directory is owned by the runtime user'' user (stat (runtime_secret_dir s)) @
     owner_checks ''SSH known_hosts is owner-only'' ''SSH known_hosts is owned by the runtime user'' user
       (stat known_hosts) @
     owner_checks ''runtime backup directory is owner-only''
       ''runtime backup directory is owned by the runtime user'' user (stat (backup_dir s))"

definition python_bool :: "bool \<Rightarrow> string" where
  "python_bool b = (if b then ''True'' else ''False'')"

text \<open>The lines it prints, and the message it exits with when a check has failed.\<close>

definition security_review ::
    "settings \<Rightarrow> string \<Rightarrow> (string \<Rightarrow> file_stat option) \<Rightarrow> nat \<Rightarrow> string list \<times> string option" where
  "security_review s known_hosts stat user =
     (let checks = security_checks s known_hosts stat user;
          failed = map fst (filter (\<lambda>(n, ok). \<not> ok) checks)
      in (map (\<lambda>(n, ok). ''['' @ (if ok then ''PASS'' else ''FAIL'') @ ''] '' @ n) checks @
          [''[INFO] SSH_HOST_KEY_VERIFICATION='' @
             (if ssh_verify_host_key s then ''enabled'' else ''disabled (ephemeral-node mode)''),
           ''[INFO] DRY_RUN='' @ python_bool (dry_run s),
           ''[INFO] ALLOW_REAL_INFRASTRUCTURE_MUTATION='' @ python_bool (allow_real_infrastructure_mutation s),
           ''[INFO] ALLOW_OLD_VPS_DELETION='' @ python_bool (allow_old_vps_deletion s),
           ''[INFO] REPLACEMENT_EMERGENCY_STOP='' @ python_bool (replacement_emergency_stop s)],
          if failed = [] then None
          else Some (''Security review failed: '' @ join_with '', '' failed)))"

section \<open>Facts\<close>

lemma start_idempotent: "start_system s (start_system s c) = start_system s c"
  by (simp add: start_system_def split: option.split)

lemma restart_after_shutdown: "start_system s (shutdown c) = start_system s None"
  by (simp add: shutdown_def split: option.split)

lemma version_not_blank: "get_version content \<noteq> []"
  by (simp add: get_version_def fallback_version_def split: option.split)

lemma all_owner_checks:
  "list_all snd (owner_checks a b user st) \<longleftrightarrow> (\<forall>f. st = Some f \<longrightarrow> fs_mode f AND 63 = 0 \<and> fs_uid f = user)"
  by (cases st) (simp_all add: owner_checks_def)

lemma review_verdict:
  "snd (security_review s known_hosts stat user) = None \<longleftrightarrow>
     list_all snd (security_checks s known_hosts stat user)"
proof -
  have "map fst (filter (\<lambda>(n, ok). \<not> ok) cs) = [] \<longleftrightarrow> list_all snd cs" for cs :: "(string \<times> bool) list"
    by (induction cs) auto
  then show ?thesis unfolding security_review_def Let_def by (simp only: snd_conv split: if_split) simp
qed

text \<open>
  A review that passes has seen production settings with verified connections and a closed restore, and
  every directory of secrets and dumps there is belongs to the user alone.
\<close>

lemma review_passes:
  "snd (security_review s known_hosts stat user) = None \<longleftrightarrow>
     environment s = ''production'' \<and> three_xui_verify_tls s \<and> master_3xui_verify_tls s \<and>
     \<not> allow_database_restore s \<and>
     (telegram_bot_enabled s \<longrightarrow> telegram_authorized_user_ids s \<noteq> [] \<and> telegram_callback_secret s \<noteq> None) \<and>
     (\<forall>path f. path \<in> {runtime_secret_dir s, known_hosts, backup_dir s} \<and> stat path = Some f \<longrightarrow>
        fs_mode f AND 63 = 0 \<and> fs_uid f = user)"
  unfolding review_verdict security_checks_def
  by (cases "telegram_bot_enabled s") (auto simp only: list_all_append list.pred_inject snd_conv all_owner_checks if_True if_False)

end
