(* ===== verification/Migrations.thy ===== *)
theory Migrations
  imports Formatters
begin

text \<open>
  The migrations of the database (\<open>migrations/versions\<close>): each is the list of the statements its
  \<open>upgrade\<close> and \<open>downgrade\<close> ask Alembic for, in their order, and a statement changes the schema as
  PostgreSQL documents it. A statement about something that is missing, or that is there already, fails.
  An enumerated column carries the check that SQLAlchemy makes of its values. The values of the checks
  are compared with the enumerations of \<open>Enums\<close>.
\<close>

section \<open>Schemas\<close>

datatype sql_type =
  VarChar nat | UuidType | BooleanType | IntegerType | JsonType | TextType | TimeType
| EnumType string "string list" nat

datatype sql_check = CheckSql string | CheckIn string "string list" | CheckNullOrIn string "string list"

datatype constraint =
  Check string sql_check
| PrimaryKey string string
| Unique string "string list"
| Foreign string string string string

record column =
  cl_name :: string
  cl_type :: sql_type
  cl_nullable :: bool
  cl_default :: "string option"

record table =
  tb_columns :: "column list"
  tb_constraints :: "constraint list"

record schema =
  sm_tables :: "(string \<times> table) list"
  sm_indexes :: "(string \<times> string \<times> string list) list"

definition needed :: "string \<Rightarrow> sql_type \<Rightarrow> column" where
  "needed n t = \<lparr>cl_name = n, cl_type = t, cl_nullable = False, cl_default = None\<rparr>"

definition nullable :: "string \<Rightarrow> sql_type \<Rightarrow> column" where
  "nullable n t = \<lparr>cl_name = n, cl_type = t, cl_nullable = True, cl_default = None\<rparr>"

definition defaulted :: "string \<Rightarrow> column \<Rightarrow> column" where
  "defaulted d c = c\<lparr>cl_default := Some d\<rparr>"

definition stamped :: "string \<Rightarrow> column" where
  "stamped n = defaulted ''now()'' (needed n TimeType)"

section \<open>Statements\<close>

datatype ddl =
  CreateTable string "column list" "constraint list"
| DropTable string
| CreateIndex string string "string list"
| AddColumn string column
| DropColumn string string
| AddCheck string string sql_check
| AddNamedCheck string string sql_check
| AddUnique string string "string list"
| DropConstraint string string
| ClearDefault string string
| UpdateNodeModes

text \<open>The naming convention of \<open>app/database/base.py\<close> for a check whose name is not final.\<close>

definition check_name :: "string \<Rightarrow> string \<Rightarrow> string" where
  "check_name t n = ''ck_'' @ t @ ''_'' @ n"

definition enum_checks :: "string \<Rightarrow> column list \<Rightarrow> constraint list" where
  "enum_checks t cs =
     List.map_filter (\<lambda>c. case cl_type c of
         EnumType n vs k \<Rightarrow> Some (Check (check_name t n) (CheckIn (cl_name c) vs)) | _ \<Rightarrow> None) cs"

fun constraint_name :: "constraint \<Rightarrow> string" where
  "constraint_name (Check n e) = n"
| "constraint_name (PrimaryKey n c) = n"
| "constraint_name (Unique n cs) = n"
| "constraint_name (Foreign n c r d) = n"

fun constraint_columns :: "constraint \<Rightarrow> string list" where
  "constraint_columns (Check n (CheckSql e)) = []"
| "constraint_columns (Check n (CheckIn c vs)) = [c]"
| "constraint_columns (Check n (CheckNullOrIn c vs)) = [c]"
| "constraint_columns (PrimaryKey n c) = [c]"
| "constraint_columns (Unique n cs) = cs"
| "constraint_columns (Foreign n c r d) = [c]"

definition refers_to :: "string \<Rightarrow> constraint \<Rightarrow> bool" where
  "refers_to t k = (case k of Foreign n c r d \<Rightarrow> r = t @ ''.id'' | _ \<Rightarrow> False)"

definition on_table :: "string \<Rightarrow> (table \<Rightarrow> table option) \<Rightarrow> schema \<Rightarrow> schema option" where
  "on_table t f s =
     (case map_of (sm_tables s) t of
        None \<Rightarrow> None
      | Some b \<Rightarrow> (case f b of
            None \<Rightarrow> None
          | Some b' \<Rightarrow> Some (s\<lparr>sm_tables := map (\<lambda>(n, x). if n = t then (n, b') else (n, x)) (sm_tables s)\<rparr>)))"

definition add_constraint :: "constraint \<Rightarrow> table \<Rightarrow> table option" where
  "add_constraint k b =
     (if constraint_name k \<in> set (map constraint_name (tb_constraints b)) then None
      else Some (b\<lparr>tb_constraints := tb_constraints b @ [k]\<rparr>))"

fun apply_ddl :: "ddl \<Rightarrow> schema \<Rightarrow> schema option" where
  "apply_ddl (CreateTable t cs ks) s =
     (if t \<in> set (map fst (sm_tables s)) then None
      else Some (s\<lparr>sm_tables := sm_tables s @ [(t, \<lparr>tb_columns = cs, tb_constraints = ks @ enum_checks t cs\<rparr>)]\<rparr>))"
| "apply_ddl (DropTable t) s =
     (if t \<notin> set (map fst (sm_tables s)) \<or>
         list_ex (\<lambda>(n, b). n \<noteq> t \<and> list_ex (refers_to t) (tb_constraints b)) (sm_tables s) then None
      else Some \<lparr>sm_tables = filter (\<lambda>(n, b). n \<noteq> t) (sm_tables s),
        sm_indexes = filter (\<lambda>(i, n, cs). n \<noteq> t) (sm_indexes s)\<rparr>)"
| "apply_ddl (CreateIndex i t cs) s =
     (case map_of (sm_tables s) t of
        None \<Rightarrow> None
      | Some b \<Rightarrow>
          (if i \<in> set (map fst (sm_indexes s)) \<or> \<not> set cs \<subseteq> set (map cl_name (tb_columns b)) then None
           else Some (s\<lparr>sm_indexes := sm_indexes s @ [(i, t, cs)]\<rparr>)))"
| "apply_ddl (AddColumn t c) s =
     on_table t (\<lambda>b. if cl_name c \<in> set (map cl_name (tb_columns b)) then None
       else Some \<lparr>tb_columns = tb_columns b @ [c], tb_constraints = tb_constraints b @ enum_checks t [c]\<rparr>) s"
| "apply_ddl (DropColumn t c) s =
     map_option (\<lambda>s'. s'\<lparr>sm_indexes := filter (\<lambda>(i, n, cs). n \<noteq> t \<or> c \<notin> set cs) (sm_indexes s')\<rparr>)
       (on_table t (\<lambda>b. if c \<notin> set (map cl_name (tb_columns b)) then None
         else Some \<lparr>tb_columns = filter (\<lambda>x. cl_name x \<noteq> c) (tb_columns b),
           tb_constraints = filter (\<lambda>k. c \<notin> set (constraint_columns k)) (tb_constraints b)\<rparr>) s)"
| "apply_ddl (AddCheck t n e) s = on_table t (add_constraint (Check n e)) s"
| "apply_ddl (AddNamedCheck t n e) s = on_table t (add_constraint (Check (check_name t n) e)) s"
| "apply_ddl (AddUnique t n cs) s = on_table t (add_constraint (Unique n cs)) s"
| "apply_ddl (DropConstraint t n) s =
     on_table t (\<lambda>b. if n \<notin> set (map constraint_name (tb_constraints b)) then None
       else Some (b\<lparr>tb_constraints := filter (\<lambda>k. constraint_name k \<noteq> n) (tb_constraints b)\<rparr>)) s"
| "apply_ddl (ClearDefault t c) s =
     on_table t (\<lambda>b. if c \<notin> set (map cl_name (tb_columns b)) then None
       else Some (b\<lparr>tb_columns := map (\<lambda>x. if cl_name x = c then x\<lparr>cl_default := None\<rparr> else x) (tb_columns b)\<rparr>)) s"
| "apply_ddl UpdateNodeModes s = Some s"

primrec apply_all :: "ddl list \<Rightarrow> schema \<Rightarrow> schema option" where
  "apply_all [] s = Some s"
| "apply_all (x # xs) s = (case apply_ddl x s of None \<Rightarrow> None | Some s' \<Rightarrow> apply_all xs s')"

definition empty_schema :: schema where
  "empty_schema = \<lparr>sm_tables = [], sm_indexes = []\<rparr>"

text \<open>The rows of migration 0005: the mode a node gets, from whether it was monitored and its state.\<close>

definition migrated_mode :: "bool \<Rightarrow> node_state \<Rightarrow> node_operation_mode" where
  "migrated_mode monitored st =
     (if \<not> monitored \<or> st = DISABLED then MODE_DISABLED else MONITOR_ONLY)"

section \<open>The first schema\<close>

definition create_providers :: ddl where
  "create_providers = CreateTable ''providers''
     [needed ''key'' (VarChar 64), needed ''display_name'' (VarChar 120),
      needed ''provider_type'' (EnumType ''provider_type'' [''hetzner'', ''linode''] 32),
      needed ''is_active'' BooleanType,
      needed ''credential_backend'' (EnumType ''secret_reference_backend'' [''environment'', ''file'',
        ''external'', ''database_encrypted''] 32),
      needed ''credential_ref'' (VarChar 255), needed ''id'' UuidType, stamped ''created_at'',
      stamped ''updated_at'']
     [Check ''ck_providers_key_not_blank'' (CheckSql ''char_length(key) > 0''),
      Check ''ck_providers_display_name_not_blank'' (CheckSql ''char_length(display_name) > 0''),
      Check ''ck_providers_credential_ref_not_blank'' (CheckSql ''char_length(credential_ref) > 0''),
      PrimaryKey ''pk_providers'' ''id'', Unique ''uq_providers_key'' [''key'']]"

definition create_settings :: ddl where
  "create_settings = CreateTable ''settings''
     [needed ''key'' (VarChar 160), needed ''value'' JsonType, nullable ''description'' (VarChar 500),
      needed ''id'' UuidType, stamped ''created_at'', stamped ''updated_at'']
     [Check ''ck_settings_key_not_blank'' (CheckSql ''char_length(key) > 0''),
      PrimaryKey ''pk_settings'' ''id'', Unique ''uq_settings_key'' [''key'']]"

definition create_nodes :: ddl where
  "create_nodes = CreateTable ''nodes''
     [needed ''name'' (VarChar 120), needed ''master_node_id'' (VarChar 128), needed ''provider_id'' UuidType,
      needed ''current_host'' (VarChar 255), needed ''current_port'' IntegerType,
      needed ''state'' (EnumType ''node_state'' [''unknown'', ''healthy'', ''degraded'', ''failed'',
        ''replacing'', ''deploying'', ''verifying'', ''disabled''] 32),
      needed ''state_changed_at'' TimeType, needed ''monitoring_enabled'' BooleanType,
      needed ''consecutive_failures'' IntegerType, needed ''consecutive_successes'' IntegerType,
      nullable ''last_checked_at'' TimeType, nullable ''last_successful_check_at'' TimeType,
      nullable ''monitoring_lease_token'' (VarChar 64), nullable ''monitoring_lease_until'' TimeType,
      needed ''id'' UuidType, stamped ''created_at'', stamped ''updated_at'']
     [Check ''ck_nodes_name_not_blank'' (CheckSql ''char_length(name) > 0''),
      Check ''ck_nodes_master_node_id_not_blank'' (CheckSql ''char_length(master_node_id) > 0''),
      Check ''ck_nodes_current_host_not_blank'' (CheckSql ''char_length(current_host) > 0''),
      Check ''ck_nodes_current_port_range'' (CheckSql ''current_port BETWEEN 1 AND 65535''),
      Check ''ck_nodes_consecutive_failures_nonnegative'' (CheckSql ''consecutive_failures >= 0''),
      Check ''ck_nodes_consecutive_successes_nonnegative'' (CheckSql ''consecutive_successes >= 0''),
      Foreign ''fk_nodes_provider_id_providers'' ''provider_id'' ''providers.id'' ''RESTRICT'',
      PrimaryKey ''pk_nodes'' ''id'', Unique ''uq_nodes_master_node_id'' [''master_node_id''],
      Unique ''uq_nodes_name'' [''name'']]"

definition create_node_credentials :: ddl where
  "create_node_credentials = CreateTable ''node_credentials''
     [needed ''node_id'' UuidType, needed ''ssh_username'' (VarChar 64), needed ''ssh_port'' IntegerType,
      needed ''ssh_auth_method'' (EnumType ''ssh_auth_method'' [''private_key'', ''password''] 32),
      needed ''secret_backend'' (EnumType ''node_secret_reference_backend'' [''environment'', ''file'',
        ''external'', ''database_encrypted''] 32),
      needed ''ssh_secret_ref'' (VarChar 255), nullable ''panel_username'' (VarChar 128),
      nullable ''panel_password_ref'' (VarChar 255), nullable ''api_token_ref'' (VarChar 255),
      needed ''id'' UuidType, stamped ''created_at'', stamped ''updated_at'']
     [Check ''ck_node_credentials_ssh_username_not_blank'' (CheckSql ''char_length(ssh_username) > 0''),
      Check ''ck_node_credentials_ssh_port_range'' (CheckSql ''ssh_port BETWEEN 1 AND 65535''),
      Check ''ck_node_credentials_ssh_secret_ref_not_blank'' (CheckSql ''char_length(ssh_secret_ref) > 0''),
      Foreign ''fk_node_credentials_node_id_nodes'' ''node_id'' ''nodes.id'' ''CASCADE'',
      PrimaryKey ''pk_node_credentials'' ''id'', Unique ''uq_node_credentials_node_id'' [''node_id'']]"

definition create_node_checks :: ddl where
  "create_node_checks = CreateTable ''node_checks''
     [needed ''node_id'' UuidType, nullable ''request_id'' (VarChar 128), needed ''target_host'' (VarChar 255),
      needed ''target_port'' IntegerType,
      needed ''outcome'' (EnumType ''node_check_outcome'' [''reachable'', ''unreachable'', ''indeterminate'',
        ''error''] 32),
      needed ''success_count'' IntegerType, needed ''failure_count'' IntegerType,
      needed ''pending_count'' IntegerType, needed ''malformed_count'' IntegerType,
      needed ''total_nodes'' IntegerType, nullable ''details'' JsonType, nullable ''error_code'' (VarChar 64),
      nullable ''error_message'' TextType, needed ''checked_at'' TimeType, nullable ''completed_at'' TimeType,
      needed ''id'' UuidType]
     [Check ''ck_node_checks_target_port_range'' (CheckSql ''target_port BETWEEN 1 AND 65535''),
      Check ''ck_node_checks_success_count_nonnegative'' (CheckSql ''success_count >= 0''),
      Check ''ck_node_checks_failure_count_nonnegative'' (CheckSql ''failure_count >= 0''),
      Check ''ck_node_checks_pending_count_nonnegative'' (CheckSql ''pending_count >= 0''),
      Check ''ck_node_checks_malformed_count_nonnegative'' (CheckSql ''malformed_count >= 0''),
      Check ''ck_node_checks_total_nodes_nonnegative'' (CheckSql ''total_nodes >= 0''),
      Foreign ''fk_node_checks_node_id_nodes'' ''node_id'' ''nodes.id'' ''CASCADE'',
      PrimaryKey ''pk_node_checks'' ''id'']"

definition create_vps_instances :: ddl where
  "create_vps_instances = CreateTable ''vps_instances''
     [needed ''provider_id'' UuidType, needed ''node_id'' UuidType,
      needed ''provider_server_id'' (VarChar 160),
      needed ''role'' (EnumType ''vps_instance_role'' [''current'', ''replacement''] 32),
      needed ''state'' (EnumType ''vps_instance_state'' [''provisioning'', ''running'', ''deleting'',
        ''deleted'', ''error''] 32),
      nullable ''host'' (VarChar 255), nullable ''region'' (VarChar 96), nullable ''server_type'' (VarChar 96),
      needed ''id'' UuidType, stamped ''created_at'', stamped ''updated_at'']
     [Check ''ck_vps_instances_host_not_blank'' (CheckSql ''host IS NULL OR char_length(host) > 0''),
      Foreign ''fk_vps_instances_node_id_nodes'' ''node_id'' ''nodes.id'' ''RESTRICT'',
      Foreign ''fk_vps_instances_provider_id_providers'' ''provider_id'' ''providers.id'' ''RESTRICT'',
      PrimaryKey ''pk_vps_instances'' ''id'',
      Unique ''provider_server_identity'' [''provider_id'', ''provider_server_id'']]"

definition create_replacement_jobs :: ddl where
  "create_replacement_jobs = CreateTable ''replacement_jobs''
     [needed ''node_id'' UuidType,
      needed ''state'' (EnumType ''replacement_job_state'' [''pending'', ''provisioning'', ''checking_ip'',
        ''deploying'', ''updating_master'', ''verifying'', ''cleaning_up'', ''completed'', ''failed'',
          ''cancelled''] 32),
      nullable ''active_slot'' BooleanType, needed ''attempt_count'' IntegerType,
      needed ''max_attempts'' IntegerType, nullable ''old_vps_instance_id'' UuidType,
      nullable ''new_vps_instance_id'' UuidType, nullable ''last_error_code'' (VarChar 64),
      nullable ''last_error_message'' TextType, nullable ''started_at'' TimeType,
      nullable ''completed_at'' TimeType, needed ''id'' UuidType, stamped ''created_at'', stamped ''updated_at'']
     [Check ''ck_replacement_jobs_attempt_count_nonnegative'' (CheckSql ''attempt_count >= 0''),
      Check ''ck_replacement_jobs_max_attempts_positive'' (CheckSql ''max_attempts > 0''),
      Foreign ''fk_replacement_jobs_new_vps_instance_id_vps_instances'' ''new_vps_instance_id'' ''vps_instances.id'' ''RESTRICT'',
      Foreign ''fk_replacement_jobs_node_id_nodes'' ''node_id'' ''nodes.id'' ''RESTRICT'',
      Foreign ''fk_replacement_jobs_old_vps_instance_id_vps_instances'' ''old_vps_instance_id'' ''vps_instances.id'' ''RESTRICT'',
      PrimaryKey ''pk_replacement_jobs'' ''id'',
      Unique ''one_active_replacement_per_node'' [''node_id'', ''active_slot'']]"

definition create_deployments :: ddl where
  "create_deployments = CreateTable ''deployments''
     [needed ''replacement_job_id'' UuidType, needed ''vps_instance_id'' UuidType,
      needed ''attempt_number'' IntegerType,
      needed ''state'' (EnumType ''deployment_state'' [''pending'', ''waiting_ssh'', ''bootstrapping'',
        ''installing'', ''verifying'', ''succeeded'', ''failed''] 32),
      nullable ''started_at'' TimeType, nullable ''completed_at'' TimeType,
      nullable ''error_code'' (VarChar 64), nullable ''error_message'' TextType, needed ''id'' UuidType,
      stamped ''created_at'', stamped ''updated_at'']
     [Check ''ck_deployments_attempt_number_positive'' (CheckSql ''attempt_number > 0''),
      Foreign ''fk_deployments_replacement_job_id_replacement_jobs'' ''replacement_job_id'' ''replacement_jobs.id'' ''CASCADE'',
      Foreign ''fk_deployments_vps_instance_id_vps_instances'' ''vps_instance_id'' ''vps_instances.id'' ''RESTRICT'',
      PrimaryKey ''pk_deployments'' ''id'',
      Unique ''deployment_attempt_per_job'' [''replacement_job_id'', ''attempt_number'']]"

definition create_events :: ddl where
  "create_events = CreateTable ''events''
     [nullable ''node_id'' UuidType, nullable ''replacement_job_id'' UuidType,
      needed ''event_type'' (EnumType ''event_type'' [''node_failed'', ''node_recovered'', ''node_degraded'',
        ''monitoring_check_error'', ''replacement_started'', ''vps_created'', ''ip_check_started'',
          ''ip_check_failed'', ''ip_check_passed'', ''deployment_started'', ''deployment_failed'',
            ''master_updated'', ''master_verified'', ''old_vps_deleted'', ''replacement_completed'',
              ''replacement_failed''] 64),
      needed ''severity'' (EnumType ''event_severity'' [''info'', ''warning'', ''error'', ''critical''] 16),
      needed ''message'' (VarChar 500), nullable ''payload'' JsonType, needed ''created_at'' TimeType,
      needed ''id'' UuidType]
     [Foreign ''fk_events_node_id_nodes'' ''node_id'' ''nodes.id'' ''SET NULL'',
      Foreign ''fk_events_replacement_job_id_replacement_jobs'' ''replacement_job_id'' ''replacement_jobs.id'' ''SET NULL'',
      PrimaryKey ''pk_events'' ''id'']"

definition upgrade_0001 :: "ddl list" where
  "upgrade_0001 =
     [create_providers, create_settings, create_nodes,
      CreateIndex ''ix_nodes_provider_id'' ''nodes'' [''provider_id''],
      CreateIndex ''ix_nodes_provider_state'' ''nodes'' [''provider_id'', ''state''], create_node_credentials,
      create_node_checks, CreateIndex ''ix_node_checks_node_id'' ''node_checks'' [''node_id''],
      CreateIndex ''ix_node_checks_node_checked_at'' ''node_checks'' [''node_id'', ''checked_at''],
      create_vps_instances, CreateIndex ''ix_vps_instances_node_id'' ''vps_instances'' [''node_id''],
      CreateIndex ''ix_vps_instances_provider_id'' ''vps_instances'' [''provider_id''],
      CreateIndex ''ix_vps_instances_node_state'' ''vps_instances'' [''node_id'', ''state''],
      create_replacement_jobs, CreateIndex ''ix_replacement_jobs_node_id'' ''replacement_jobs'' [''node_id''],
      CreateIndex ''ix_replacement_jobs_node_state'' ''replacement_jobs'' [''node_id'', ''state''],
      create_deployments,
      CreateIndex ''ix_deployments_replacement_job_id'' ''deployments'' [''replacement_job_id''],
      CreateIndex ''ix_deployments_vps_instance_id'' ''deployments'' [''vps_instance_id''], create_events,
      CreateIndex ''ix_events_node_id'' ''events'' [''node_id''],
      CreateIndex ''ix_events_replacement_job_id'' ''events'' [''replacement_job_id''],
      CreateIndex ''ix_events_node_created_at'' ''events'' [''node_id'', ''created_at''],
      CreateIndex ''ix_events_job_created_at'' ''events'' [''replacement_job_id'', ''created_at'']]"

definition downgrade_0001 :: "ddl list" where
  "downgrade_0001 =
     [DropTable ''events'', DropTable ''deployments'', DropTable ''replacement_jobs'',
      DropTable ''vps_instances'', DropTable ''node_checks'', DropTable ''node_credentials'',
      DropTable ''nodes'', DropTable ''settings'', DropTable ''providers'']"

section \<open>The migrations after it\<close>

definition secret_backend_values :: "string list" where
  "secret_backend_values = [''environment'', ''file'', ''external'', ''database_encrypted'']"

definition checkpoint_values :: "string list" where
  "checkpoint_values =
     [''created'', ''provisioning'', ''provisioned'', ''checking_ip'', ''temp_cleanup'', ''ip_verified'',
      ''deploying'', ''node_verified'', ''master_updating'', ''master_updated'', ''master_verifying'',
      ''master_verified'', ''final_check'', ''final_verified'', ''old_vps_cleanup'', ''completed'',
      ''failed'', ''cancelled'']"

definition base_event_types :: "string list" where
  "base_event_types =
     [''node_failed'', ''node_recovered'', ''node_degraded'', ''monitoring_check_error'', ''replacement_started'',
      ''vps_created'', ''ip_check_started'', ''ip_check_failed'', ''ip_check_passed'', ''deployment_started'',
      ''deployment_failed'', ''master_updated'', ''master_verified'', ''old_vps_deleted'', ''replacement_completed'',
      ''replacement_failed'']"

definition phase7_event_types :: "string list" where
  "phase7_event_types = base_event_types @
     [''control_action'', ''setting_changed'', ''system_paused'', ''system_resumed'', ''provider_updated'']"

definition event_types_check :: "string list \<Rightarrow> sql_check" where
  "event_types_check vs = CheckIn ''event_type'' vs"

definition upgrade_0002 :: "ddl list" where
  "upgrade_0002 =
     [AddColumn ''providers'' (nullable ''default_region'' (VarChar 96)),
      AddColumn ''providers'' (nullable ''default_server_type'' (VarChar 96)),
      AddColumn ''providers'' (nullable ''default_image'' (VarChar 160)),
      AddCheck ''providers'' ''ck_providers_default_region_not_blank''
        (CheckSql ''default_region IS NULL OR char_length(default_region) > 0''),
      AddCheck ''providers'' ''ck_providers_default_server_type_not_blank''
        (CheckSql ''default_server_type IS NULL OR char_length(default_server_type) > 0''),
      AddCheck ''providers'' ''ck_providers_default_image_not_blank''
        (CheckSql ''default_image IS NULL OR char_length(default_image) > 0''),
      AddColumn ''node_credentials'' (nullable ''ssh_public_key'' (VarChar 1024)),
      AddColumn ''node_credentials'' (nullable ''panel_base_path'' (VarChar 255)),
      AddColumn ''node_credentials'' (nullable ''panel_password_backend'' (VarChar 32)),
      AddColumn ''node_credentials'' (nullable ''api_token_backend'' (VarChar 32)),
      AddCheck ''node_credentials'' ''ck_node_credentials_panel_password_secret_backend''
        (CheckNullOrIn ''panel_password_backend'' secret_backend_values),
      AddCheck ''node_credentials'' ''ck_node_credentials_api_token_secret_backend''
        (CheckNullOrIn ''api_token_backend'' secret_backend_values),
      AddColumn ''replacement_jobs'' (defaulted ([CHR 0x27] @ ''created'' @ [CHR 0x27]) (needed ''checkpoint'' (VarChar 32))),
      AddCheck ''replacement_jobs'' ''ck_replacement_jobs_replacement_checkpoint''
        (CheckIn ''checkpoint'' checkpoint_values),
      AddColumn ''replacement_jobs'' (defaulted (''false'') (needed ''is_dry_run'' BooleanType)),
      AddColumn ''replacement_jobs'' (nullable ''workflow_lease_token'' (VarChar 64)),
      AddColumn ''replacement_jobs'' (nullable ''workflow_lease_until'' TimeType),
      AddColumn ''replacement_jobs'' (nullable ''provisioning_requested_at'' TimeType),
      AddColumn ''replacement_jobs'' (nullable ''master_snapshot'' JsonType),
      AddColumn ''replacement_jobs'' (nullable ''new_ip_verified_at'' TimeType),
      AddColumn ''replacement_jobs'' (nullable ''deployment_verified_at'' TimeType),
      AddColumn ''replacement_jobs'' (nullable ''master_updated_at'' TimeType),
      AddColumn ''replacement_jobs'' (nullable ''master_verified_at'' TimeType),
      AddColumn ''replacement_jobs'' (nullable ''final_health_verified_at'' TimeType),
      AddColumn ''replacement_jobs'' (nullable ''old_vps_deleted_at'' TimeType),
      ClearDefault ''replacement_jobs'' ''checkpoint'', ClearDefault ''replacement_jobs'' ''is_dry_run'',
      AddColumn ''deployments'' (nullable ''panel_username'' (VarChar 128)),
      AddColumn ''deployments'' (nullable ''panel_port'' IntegerType),
      AddColumn ''deployments'' (nullable ''web_base_path'' (VarChar 255)),
      AddColumn ''deployments'' (nullable ''access_url'' (VarChar 1024)),
      AddColumn ''deployments'' (nullable ''api_token_ref'' (VarChar 255)),
      AddColumn ''deployments'' (nullable ''panel_password_ref'' (VarChar 255)),
      AddColumn ''deployments'' (nullable ''db_type'' (VarChar 32)),
      AddCheck ''deployments'' ''ck_deployments_panel_port_range''
        (CheckSql ''panel_port IS NULL OR panel_port BETWEEN 1 AND 65535'')]"

definition downgrade_0002 :: "ddl list" where
  "downgrade_0002 =
     [DropConstraint ''deployments'' ''ck_deployments_panel_port_range'',
      DropColumn ''deployments'' ''db_type'', DropColumn ''deployments'' ''panel_password_ref'',
      DropColumn ''deployments'' ''api_token_ref'', DropColumn ''deployments'' ''access_url'',
      DropColumn ''deployments'' ''web_base_path'', DropColumn ''deployments'' ''panel_port'',
      DropColumn ''deployments'' ''panel_username'', DropColumn ''replacement_jobs'' ''old_vps_deleted_at'',
      DropColumn ''replacement_jobs'' ''final_health_verified_at'',
      DropColumn ''replacement_jobs'' ''master_verified_at'',
      DropColumn ''replacement_jobs'' ''master_updated_at'',
      DropColumn ''replacement_jobs'' ''deployment_verified_at'',
      DropColumn ''replacement_jobs'' ''new_ip_verified_at'',
      DropColumn ''replacement_jobs'' ''master_snapshot'',
      DropColumn ''replacement_jobs'' ''provisioning_requested_at'',
      DropColumn ''replacement_jobs'' ''workflow_lease_until'',
      DropColumn ''replacement_jobs'' ''workflow_lease_token'', DropColumn ''replacement_jobs'' ''is_dry_run'',
      DropConstraint ''replacement_jobs'' ''ck_replacement_jobs_replacement_checkpoint'',
      DropColumn ''replacement_jobs'' ''checkpoint'',
      DropConstraint ''node_credentials'' ''ck_node_credentials_api_token_secret_backend'',
      DropConstraint ''node_credentials'' ''ck_node_credentials_panel_password_secret_backend'',
      DropColumn ''node_credentials'' ''api_token_backend'',
      DropColumn ''node_credentials'' ''panel_password_backend'',
      DropColumn ''node_credentials'' ''panel_base_path'', DropColumn ''node_credentials'' ''ssh_public_key'',
      DropConstraint ''providers'' ''ck_providers_default_image_not_blank'',
      DropConstraint ''providers'' ''ck_providers_default_server_type_not_blank'',
      DropConstraint ''providers'' ''ck_providers_default_region_not_blank'',
      DropColumn ''providers'' ''default_image'', DropColumn ''providers'' ''default_server_type'',
      DropColumn ''providers'' ''default_region'']"

definition upgrade_0003 :: "ddl list" where
  "upgrade_0003 =
     [DropConstraint ''events'' ''ck_events_event_type'',
      AddCheck ''events'' ''ck_events_event_type'' (event_types_check phase7_event_types)]"

definition downgrade_0003 :: "ddl list" where
  "downgrade_0003 =
     [DropConstraint ''events'' ''ck_events_event_type'',
      AddCheck ''events'' ''ck_events_event_type'' (event_types_check base_event_types)]"

definition upgrade_0004 :: "ddl list" where
  "upgrade_0004 =
     [AddColumn ''vps_instances'' (nullable ''image'' (VarChar 160))]"

definition downgrade_0004 :: "ddl list" where
  "downgrade_0004 =
     [DropColumn ''vps_instances'' ''image'']"

definition upgrade_0005 :: "ddl list" where
  "upgrade_0005 =
     [AddColumn ''nodes'' (defaulted (''monitor_only'') (needed ''operation_mode'' (VarChar 32))),
      UpdateNodeModes,
      AddNamedCheck ''nodes'' ''node_operation_mode'' (CheckIn ''operation_mode'' [''disabled'',
        ''monitor_only'', ''auto_repair'']),
      ClearDefault ''nodes'' ''operation_mode'']"

definition downgrade_0005 :: "ddl list" where
  "downgrade_0005 =
     [DropConstraint ''nodes'' ''ck_nodes_node_operation_mode'', DropColumn ''nodes'' ''operation_mode'']"

definition upgrade_0006 :: "ddl list" where
  "upgrade_0006 =
     [AddColumn ''replacement_jobs'' (defaulted (''standard'') (needed ''trigger_mode'' (VarChar 16))),
      AddColumn ''replacement_jobs'' (nullable ''request_key'' (VarChar 64)),
      AddColumn ''replacement_jobs'' (nullable ''original_node_state'' (VarChar 32)),
      AddNamedCheck ''replacement_jobs'' ''replacement_trigger_mode'' (CheckIn ''trigger_mode'' [''standard'',
        ''force'']),
      AddNamedCheck ''replacement_jobs'' ''replacement_original_node_state''
        (CheckNullOrIn ''original_node_state'' [''unknown'', ''healthy'', ''degraded'', ''failed'']),
      AddUnique ''replacement_jobs'' ''replacement_request_key_unique'' [''request_key''],
      ClearDefault ''replacement_jobs'' ''trigger_mode'']"

definition downgrade_0006 :: "ddl list" where
  "downgrade_0006 =
     [DropConstraint ''replacement_jobs'' ''replacement_request_key_unique'',
      DropConstraint ''replacement_jobs'' ''ck_replacement_jobs_replacement_original_node_state'',
      DropConstraint ''replacement_jobs'' ''ck_replacement_jobs_replacement_trigger_mode'',
      DropColumn ''replacement_jobs'' ''original_node_state'', DropColumn ''replacement_jobs'' ''request_key'',
      DropColumn ''replacement_jobs'' ''trigger_mode'']"

section \<open>The history\<close>

definition upgrades :: "ddl list list" where
  "upgrades = [upgrade_0001, upgrade_0002, upgrade_0003, upgrade_0004, upgrade_0005, upgrade_0006]"

definition downgrades :: "ddl list list" where
  "downgrades = [downgrade_0001, downgrade_0002, downgrade_0003, downgrade_0004, downgrade_0005, downgrade_0006]"

definition schema_at :: "nat \<Rightarrow> schema option" where
  "schema_at n = apply_all (concat (take n upgrades)) empty_schema"

text \<open>
  A migration of one table is undone exactly when the names it adds are free: the table as a whole is
  replaced by each statement, and dropping what was just added gives the table back.
\<close>

definition put_table :: "string \<Rightarrow> table \<Rightarrow> schema \<Rightarrow> schema" where
  "put_table t b s = s\<lparr>sm_tables := map (\<lambda>(n, x). if n = t then (n, b) else (n, x)) (sm_tables s)\<rparr>"

definition has_table :: "string \<Rightarrow> table \<Rightarrow> schema \<Rightarrow> bool" where
  "has_table t b s \<longleftrightarrow> map_of (sm_tables s) t = Some b \<and> distinct (map fst (sm_tables s))"

lemma map_of_put: "map_of (map (\<lambda>(n, x). if n = t then (n, c) else (n, x)) xs) t =
    map_option (\<lambda>_. c) (map_of xs t)" for c :: table
  by (induction xs) auto

lemma on_table_put:
  "has_table t b s \<Longrightarrow> on_table t f s = map_option (\<lambda>b'. put_table t b' s) (f b)"
  by (simp add: on_table_def has_table_def put_table_def split: option.splits)

definition known_table :: "string \<Rightarrow> schema \<Rightarrow> bool" where
  "known_table t s \<longleftrightarrow> t \<in> set (map fst (sm_tables s)) \<and> distinct (map fst (sm_tables s))"

lemma has_known: "has_table t b s \<Longrightarrow> known_table t s"
  by (force simp: has_table_def known_table_def dest: map_of_SomeD)

lemma put_names [simp]: "map fst (sm_tables (put_table u b s)) = map fst (sm_tables s)"
  by (auto simp: put_table_def)

lemma known_put [simp]: "known_table t (put_table u b s) = known_table t s"
  by (simp only: known_table_def put_names)

lemma has_put [simp]: "known_table t s \<Longrightarrow> has_table t c (put_table t c s)"
proof -
  assume k: "known_table t s"
  then obtain b where "map_of (sm_tables s) t = Some b"
    by (metis known_table_def list.set_map map_of_eq_None_iff option.exhaust)
  then have "map_of (sm_tables (put_table t c s)) t = Some c"
    by (simp add: put_table_def map_of_put)
  moreover have "distinct (map fst (sm_tables (put_table t c s)))"
    using k by (simp only: put_names known_table_def)
  ultimately show ?thesis by (simp add: has_table_def)
qed

lemma put_put [simp]: "put_table t b (put_table t c s) = put_table t b s"
proof -
  have "(\<lambda>(n, x). if n = t then (n, b) else (n, x)) \<circ> (\<lambda>(n, x). if n = t then (n, c) else (n, x)) =
      (\<lambda>(n, x). if n = t then (n, b) else (n, x))"
    by (auto simp: fun_eq_iff)
  then show ?thesis by (simp add: put_table_def)
qed

lemma put_same [simp]: "has_table t b s \<Longrightarrow> put_table t b s = s"
proof -
  assume h: "has_table t b s"
  then have "map (\<lambda>(n, x). if n = t then (n, b) else (n, x)) (sm_tables s) = sm_tables s"
    by (intro map_idI) (auto simp: has_table_def intro: eq_key_imp_eq_value dest: map_of_SomeD)
  then show ?thesis by (simp add: put_table_def)
qed

lemma put_indexes [simp]: "sm_indexes (put_table t b s) = sm_indexes s"
  by (simp add: put_table_def)

lemma plain_column [simp]:
  "cl_name (nullable n k) = n" "cl_name (needed n k) = n" "cl_name (defaulted d x) = cl_name x"
  "cl_type (nullable n k) = k" "cl_type (needed n k) = k" "cl_type (defaulted d x) = cl_type x"
  by (simp_all add: nullable_def needed_def defaulted_def)

lemma no_enum_check:
  "case cl_type x of EnumType n vs k \<Rightarrow> False | _ \<Rightarrow> True \<Longrightarrow> enum_checks t [x] = []"
  by (simp add: enum_checks_def map_filter_simps split: sql_type.splits)

lemma add_column:
  assumes "known_table t s" and "case cl_type x of EnumType n vs k \<Rightarrow> False | _ \<Rightarrow> True"
    and "cl_name x \<notin> cl_name ` set cs"
  shows "apply_ddl (AddColumn t x) (put_table t \<lparr>tb_columns = cs, tb_constraints = ks\<rparr> s) =
      Some (put_table t \<lparr>tb_columns = cs @ [x],
      tb_constraints = ks\<rparr> s)"
  using assms by (simp add: on_table_put [OF has_put] no_enum_check)

lemma clear_default:
  assumes "known_table t s" and "c \<in> cl_name ` set cs"
  shows "apply_ddl (ClearDefault t c) (put_table t \<lparr>tb_columns = cs, tb_constraints = ks\<rparr> s) =
      Some (put_table t \<lparr>tb_columns = map (\<lambda>x. if cl_name x = c then x\<lparr>cl_default := None\<rparr> else x) cs,
      tb_constraints = ks\<rparr> s)"
  using assms by (simp add: on_table_put [OF has_put])

lemma add_constraints:
  assumes "known_table t s"
  shows "check_name t n \<notin> constraint_name ` set ks \<Longrightarrow>
      apply_ddl (AddNamedCheck t n e) (put_table t \<lparr>tb_columns = cs, tb_constraints = ks\<rparr> s) =
      Some (put_table t \<lparr>tb_columns = cs,
      tb_constraints = ks @ [Check (check_name t n) e]\<rparr> s)"
    and "n \<notin> constraint_name ` set ks \<Longrightarrow>
      apply_ddl (AddUnique t n ds) (put_table t \<lparr>tb_columns = cs, tb_constraints = ks\<rparr> s) =
      Some (put_table t \<lparr>tb_columns = cs,
      tb_constraints = ks @ [Unique n ds]\<rparr> s)"
  using assms by (simp_all add: on_table_put [OF has_put] add_constraint_def)

lemma drop_constraint:
  assumes "known_table t s" and "n \<in> constraint_name ` set ks"
  shows "apply_ddl (DropConstraint t n) (put_table t \<lparr>tb_columns = cs, tb_constraints = ks\<rparr> s) =
      Some (put_table t \<lparr>tb_columns = cs,
      tb_constraints = filter (\<lambda>k. constraint_name k \<noteq> n) ks\<rparr> s)"
  using assms by (simp add: on_table_put [OF has_put])

definition free_in :: "string \<Rightarrow> string \<Rightarrow> schema \<Rightarrow> bool" where
  "free_in t c s \<longleftrightarrow> list_all (\<lambda>(i, n, ds). n = t \<longrightarrow> c \<notin> set ds) (sm_indexes s)"

lemma free_in_put [simp]: "free_in t c (put_table u b s) = free_in t c s"
  by (simp add: free_in_def)

lemma drop_column:
  assumes "known_table t s" and "c \<in> cl_name ` set cs" and "free_in t c s"
  shows "apply_ddl (DropColumn t c) (put_table t \<lparr>tb_columns = cs, tb_constraints = ks\<rparr> s) =
      Some (put_table t \<lparr>tb_columns = filter (\<lambda>x. cl_name x \<noteq> c) cs,
      tb_constraints = filter (\<lambda>k. c \<notin> set (constraint_columns k)) ks\<rparr> s)"
proof -
  have "filter (\<lambda>(i, n, cs). n \<noteq> t \<or> c \<notin> set cs) (sm_indexes s) = sm_indexes s"
    using assms(3) by (intro filter_True) (auto simp: list_all_iff free_in_def)
  then show ?thesis using assms(1,2) by (simp add: on_table_put [OF has_put])
qed

lemmas table_steps = add_column clear_default add_constraints drop_constraint drop_column

lemma filters_left:
  "c \<notin> cl_name ` set cs \<Longrightarrow> filter (\<lambda>x. cl_name x \<noteq> c) cs = cs"
  "n \<notin> constraint_name ` set ks \<Longrightarrow> filter (\<lambda>k. constraint_name k \<noteq> n) ks = ks"
  "c \<notin> (\<Union>k\<in>set ks. set (constraint_columns k)) \<Longrightarrow> filter (\<lambda>k. c \<notin> set (constraint_columns k)) ks = ks"
  by (auto intro!: filter_True)

lemma new_column_undone:
  assumes "has_table t \<lparr>tb_columns = cs, tb_constraints = ks\<rparr> s"
    and "case cl_type x of EnumType n vs k \<Rightarrow> False | _ \<Rightarrow> True"
    and "cl_name x = c" and "c \<notin> cl_name ` set cs"
    and "c \<notin> (\<Union>k\<in>set ks. set (constraint_columns k))" and "free_in t c s"
  shows "apply_all [AddColumn t x, DropColumn t c] s = Some s"
proof -
  have s: "put_table t \<lparr>tb_columns = cs, tb_constraints = ks\<rparr> s = s" and k: "known_table t s"
    using assms(1) by (auto dest: has_known)
  have "apply_all [AddColumn t x, DropColumn t c] (put_table t \<lparr>tb_columns = cs, tb_constraints = ks\<rparr> s) =
      Some (put_table t \<lparr>tb_columns = cs, tb_constraints = ks\<rparr> s)"
    using assms k by (simp del: apply_ddl.simps UN_iff put_same add: table_steps filters_left)
  then show ?thesis by (simp only: s)
qed

definition free_column :: "string \<Rightarrow> table \<Rightarrow> string \<Rightarrow> schema \<Rightarrow> bool" where
  "free_column t b c s \<longleftrightarrow> c \<notin> cl_name ` set (tb_columns b) \<and>
     c \<notin> (\<Union>k\<in>set (tb_constraints b). set (constraint_columns k)) \<and> free_in t c s"

definition free_constraint :: "table \<Rightarrow> string \<Rightarrow> bool" where
  "free_constraint b n \<longleftrightarrow> n \<notin> constraint_name ` set (tb_constraints b)"

lemma three_columns_undone:
  assumes "has_table t b s" and "free_column t b x s" and "free_column t b y s" and "free_column t b z s"
    and "free_constraint b (check_name t m)" and "free_constraint b (check_name t n)" and "free_constraint b u"
    and "distinct [x, y, z]" and "distinct [check_name t m, check_name t n, u]"
    and plain: "case i of EnumType n vs k \<Rightarrow> False | _ \<Rightarrow> True" "case j of EnumType n vs k \<Rightarrow> False | _ \<Rightarrow> True"
      "case l of EnumType n vs k \<Rightarrow> False | _ \<Rightarrow> True"
  shows "apply_all ([AddColumn t (defaulted d (needed x i)), AddColumn t (nullable y j), AddColumn t (nullable z l),
      AddNamedCheck t m (CheckIn x vs), AddNamedCheck t n (CheckNullOrIn z ws), AddUnique t u [y], ClearDefault t x] @
     [DropConstraint t u, DropConstraint t (check_name t n), DropConstraint t (check_name t m),
      DropColumn t z, DropColumn t y, DropColumn t x]) s = Some s"
proof -
  obtain cs ks where b: "b = \<lparr>tb_columns = cs, tb_constraints = ks\<rparr>" by (cases b)
  have s: "put_table t \<lparr>tb_columns = cs, tb_constraints = ks\<rparr> s = s" and k: "known_table t s"
    using assms(1) b by (auto dest: has_known)
  have same: "map (\<lambda>c. if cl_name c = x then c\<lparr>cl_default := None\<rparr> else c) cs = cs"
    using assms(2) b by (auto simp: free_column_def intro!: map_idI)
  have ne: "x \<noteq> y" "y \<noteq> x" "x \<noteq> z" "z \<noteq> x" "y \<noteq> z" "z \<noteq> y"
      "check_name t m \<noteq> check_name t n" "check_name t n \<noteq> check_name t m"
      "check_name t m \<noteq> u" "u \<noteq> check_name t m" "check_name t n \<noteq> u" "u \<noteq> check_name t n"
    using assms(8,9) by auto
  have "apply_all ([AddColumn t (defaulted d (needed x i)), AddColumn t (nullable y j), AddColumn t (nullable z l),
      AddNamedCheck t m (CheckIn x vs), AddNamedCheck t n (CheckNullOrIn z ws), AddUnique t u [y], ClearDefault t x] @
     [DropConstraint t u, DropConstraint t (check_name t n), DropConstraint t (check_name t m),
      DropColumn t z, DropColumn t y, DropColumn t x]) (put_table t \<lparr>tb_columns = cs, tb_constraints = ks\<rparr> s) =
      Some (put_table t \<lparr>tb_columns = cs, tb_constraints = ks\<rparr> s)"
    using assms(2-7) plain k ne
    by (simp del: apply_ddl.simps UN_iff put_same
        add: table_steps filters_left free_column_def free_constraint_def b same)
  then show ?thesis by (simp only: s)
qed

lemma column_with_check_undone:
  assumes "has_table t b s" and "free_column t b x s" and "free_constraint b (check_name t m)"
    and plain: "case i of EnumType n vs k \<Rightarrow> False | _ \<Rightarrow> True"
  shows "apply_all ([AddColumn t (defaulted d (needed x i)), UpdateNodeModes,
      AddNamedCheck t m (CheckIn x vs), ClearDefault t x] @
     [DropConstraint t (check_name t m), DropColumn t x]) s = Some s"
proof -
  obtain cs ks where b: "b = \<lparr>tb_columns = cs, tb_constraints = ks\<rparr>" by (cases b)
  have s: "put_table t \<lparr>tb_columns = cs, tb_constraints = ks\<rparr> s = s" and k: "known_table t s"
    using assms(1) b by (auto dest: has_known)
  have same: "map (\<lambda>c. if cl_name c = x then c\<lparr>cl_default := None\<rparr> else c) cs = cs"
    using assms(2) b by (auto simp: free_column_def intro!: map_idI)
  have u: "apply_ddl UpdateNodeModes r = Some r" for r by simp
  have "apply_all ([AddColumn t (defaulted d (needed x i)), UpdateNodeModes,
      AddNamedCheck t m (CheckIn x vs), ClearDefault t x] @
     [DropConstraint t (check_name t m), DropColumn t x]) (put_table t \<lparr>tb_columns = cs, tb_constraints = ks\<rparr> s) =
      Some (put_table t \<lparr>tb_columns = cs, tb_constraints = ks\<rparr> s)"
    using assms(2,3) plain k
    by (simp del: apply_ddl.simps UN_iff put_same
        add: u table_steps filters_left free_column_def free_constraint_def b same)
  then show ?thesis by (simp only: s)
qed

text \<open>
  The last three migrations are undone exactly by their downgrades, on every schema that has the table
  and where the names they add are free.
\<close>

lemma vps_image_undone:
  assumes "has_table ''vps_instances'' b s" and "free_column ''vps_instances'' b ''image'' s"
  shows "apply_all (upgrade_0004 @ downgrade_0004) s = Some s"
proof -
  obtain cs ks where b: "b = \<lparr>tb_columns = cs, tb_constraints = ks\<rparr>" by (cases b)
  show ?thesis
    using new_column_undone [of _ cs ks s "nullable ''image'' (VarChar 160)" "''image''"] assms
    unfolding upgrade_0004_def downgrade_0004_def b free_column_def by simp
qed

lemma operation_mode_undone:
  assumes "has_table ''nodes'' b s" and "free_column ''nodes'' b ''operation_mode'' s"
    and "free_constraint b ''ck_nodes_node_operation_mode''"
  shows "apply_all (upgrade_0005 @ downgrade_0005) s = Some s"
proof -
  have n: "check_name ''nodes'' ''node_operation_mode'' = ''ck_nodes_node_operation_mode''"
    by (simp add: check_name_def)
  show ?thesis
    unfolding upgrade_0005_def downgrade_0005_def
    by (rule column_with_check_undone [where m = "''node_operation_mode''" and t = "''nodes''", unfolded n])
      (use assms in simp_all)
qed

lemma force_repair_undone:
  assumes "has_table ''replacement_jobs'' b s" and "free_column ''replacement_jobs'' b ''trigger_mode'' s"
    and "free_column ''replacement_jobs'' b ''request_key'' s"
    and "free_column ''replacement_jobs'' b ''original_node_state'' s"
    and "free_constraint b ''ck_replacement_jobs_replacement_trigger_mode''"
    and "free_constraint b ''ck_replacement_jobs_replacement_original_node_state''"
    and "free_constraint b ''replacement_request_key_unique''"
  shows "apply_all (upgrade_0006 @ downgrade_0006) s = Some s"
proof -
  let ?t = "''replacement_jobs''"
  have m: "check_name ?t ''replacement_trigger_mode'' = ''ck_replacement_jobs_replacement_trigger_mode''"
    and n: "check_name ?t ''replacement_original_node_state'' =
      ''ck_replacement_jobs_replacement_original_node_state''"
    by (simp_all add: check_name_def)
  show ?thesis
    unfolding upgrade_0006_def downgrade_0006_def
    by (rule three_columns_undone [where m = "''replacement_trigger_mode''" and t = ?t
          and n = "''replacement_original_node_state''", unfolded m n])
      (rule assms | simp; fail)+
qed

section \<open>The checks and the enumerations\<close>

text \<open>The members of an enumeration, in the order of the source.\<close>

instantiation checkpoint :: enum
begin

definition enum_checkpoint :: "checkpoint list" where
  "enum_checkpoint =
    [CREATED, PROVISIONING, PROVISIONED, CHECKING_IP, TEMP_CLEANUP, IP_VERIFIED, DEPLOYING,
     NODE_VERIFIED, MASTER_UPDATING, MASTER_UPDATED, MASTER_VERIFYING, MASTER_VERIFIED, FINAL_CHECK,
     FINAL_VERIFIED, OLD_VPS_CLEANUP, COMPLETED, FAILED, CANCELLED]"

definition enum_all_checkpoint :: "(checkpoint \<Rightarrow> bool) \<Rightarrow> bool" where
  "enum_all_checkpoint P = list_all P (Enum.enum :: checkpoint list)"

definition enum_ex_checkpoint :: "(checkpoint \<Rightarrow> bool) \<Rightarrow> bool" where
  "enum_ex_checkpoint P = list_ex P (Enum.enum :: checkpoint list)"

instance proof
  show all: "(UNIV :: checkpoint set) = set Enum.enum"
    by (auto simp: enum_checkpoint_def intro: checkpoint.exhaust)
  show "distinct (Enum.enum :: checkpoint list)"
    by (simp add: enum_checkpoint_def)
  show "Enum.enum_all P \<longleftrightarrow> Ball UNIV P" "Enum.enum_ex P \<longleftrightarrow> Bex UNIV P" for P :: "checkpoint \<Rightarrow> bool"
    by (simp_all add: enum_all_checkpoint_def enum_ex_checkpoint_def all list_all_iff list_ex_iff)
qed

end

instantiation event_type :: enum
begin

definition enum_event_type :: "event_type list" where
  "enum_event_type =
    [NODE_FAILED, NODE_RECOVERED, NODE_DEGRADED, MONITORING_CHECK_ERROR, REPLACEMENT_STARTED,
     VPS_CREATED, IP_CHECK_STARTED, IP_CHECK_FAILED, IP_CHECK_PASSED, DEPLOYMENT_STARTED,
     DEPLOYMENT_FAILED, EV_MASTER_UPDATED, EV_MASTER_VERIFIED, OLD_VPS_DELETED, REPLACEMENT_COMPLETED,
     REPLACEMENT_FAILED, CONTROL_ACTION, SETTING_CHANGED, SYSTEM_PAUSED, SYSTEM_RESUMED, PROVIDER_UPDATED]"

definition enum_all_event_type :: "(event_type \<Rightarrow> bool) \<Rightarrow> bool" where
  "enum_all_event_type P = list_all P (Enum.enum :: event_type list)"

definition enum_ex_event_type :: "(event_type \<Rightarrow> bool) \<Rightarrow> bool" where
  "enum_ex_event_type P = list_ex P (Enum.enum :: event_type list)"

instance proof
  show all: "(UNIV :: event_type set) = set Enum.enum"
    by (auto simp: enum_event_type_def intro: event_type.exhaust)
  show "distinct (Enum.enum :: event_type list)"
    by (simp add: enum_event_type_def)
  show "Enum.enum_all P \<longleftrightarrow> Ball UNIV P" "Enum.enum_ex P \<longleftrightarrow> Bex UNIV P" for P :: "event_type \<Rightarrow> bool"
    by (simp_all add: enum_all_event_type_def enum_ex_event_type_def all list_all_iff list_ex_iff)
qed

end

instantiation secret_backend :: enum
begin

definition enum_secret_backend :: "secret_backend list" where
  "enum_secret_backend =
    [ENVIRONMENT, FILE, EXTERNAL, DATABASE_ENCRYPTED]"

definition enum_all_secret_backend :: "(secret_backend \<Rightarrow> bool) \<Rightarrow> bool" where
  "enum_all_secret_backend P = list_all P (Enum.enum :: secret_backend list)"

definition enum_ex_secret_backend :: "(secret_backend \<Rightarrow> bool) \<Rightarrow> bool" where
  "enum_ex_secret_backend P = list_ex P (Enum.enum :: secret_backend list)"

instance proof
  show all: "(UNIV :: secret_backend set) = set Enum.enum"
    by (auto simp: enum_secret_backend_def intro: secret_backend.exhaust)
  show "distinct (Enum.enum :: secret_backend list)"
    by (simp add: enum_secret_backend_def)
  show "Enum.enum_all P \<longleftrightarrow> Ball UNIV P" "Enum.enum_ex P \<longleftrightarrow> Bex UNIV P" for P :: "secret_backend \<Rightarrow> bool"
    by (simp_all add: enum_all_secret_backend_def enum_ex_secret_backend_def all list_all_iff list_ex_iff)
qed

end

text \<open>The values the checks of the last schema let in are the values of the enumerations, and no others.\<close>

lemma checks_match_enumerations:
  "checkpoint_values = map checkpoint_value Enum.enum"
  "secret_backend_values = map backend_value Enum.enum"
  "phase7_event_types = map event_type_value Enum.enum"
  by (simp_all add: checkpoint_values_def secret_backend_values_def phase7_event_types_def base_event_types_def
      enum_checkpoint_def enum_secret_backend_def enum_event_type_def)

lemma checks_cover_enumerations:
  "set checkpoint_values = range checkpoint_value"
  "set secret_backend_values = range backend_value"
  "set phase7_event_types = range event_type_value"
  by (simp_all only: checks_match_enumerations list.set_map enum_UNIV)

end
