(* ===== verification/Logging.thy ===== *)
theory Logging
  imports Calendar ProviderBase
begin

text \<open>
  \<open>app/core/logging.py\<close>: the structured log lines and the redaction of secrets in them. A value handed
  to the logger is a \<open>log_value\<close>: a mapping is the list of its entries in the order of iteration, each
  with the text \<open>str\<close> gives its key; lists, tuples and sets are sequences; any other object is the text
  \<open>str\<close> gives it. What is shown: a line does not depend on what is stored under a secret name, wherever
  in the record it is, and everything else is in the line as it was.
\<close>

section \<open>Redaction\<close>

datatype log_value =
  LNone
| LBool bool
| LInt int
| LReal real
| LText string
| LOther string
| LSequence "log_value list"
| LMapping "(string \<times> log_value) list"

definition secret_words :: "string list" where
  "secret_words =
     [''authorization'', ''cookie'', ''password'', ''passwd'', ''secret'', ''token'',
      ''apikey'', ''api_key'', ''api-key'', ''privatekey'', ''private_key'', ''private-key'']"

text \<open>\<open>_SECRET_KEY_PATTERN.search(key)\<close>, which ignores the case of the letters.\<close>

definition secret_key :: "string \<Rightarrow> bool" where
  "secret_key key \<longleftrightarrow> list_ex (\<lambda>p. find_text p (lower key)) secret_words"

definition REDACTED :: string where
  "REDACTED = ''***REDACTED***''"

text \<open>The entries of \<open>{k: v for ...}\<close>: the first place of a key, and its last value.\<close>

fun dict_put :: "(string \<times> 'a) list \<Rightarrow> string \<times> 'a \<Rightarrow> (string \<times> 'a) list" where
  "dict_put [] e = [e]"
| "dict_put ((k, v) # es) (k', v') =
     (if k = k' then (k, v') # es else (k, v) # dict_put es (k', v'))"

definition dict_of :: "(string \<times> 'a) list \<Rightarrow> (string \<times> 'a) list" where
  "dict_of es = foldl dict_put [] es"

definition hidden :: "string option \<Rightarrow> bool" where
  "hidden key = (case key of None \<Rightarrow> False | Some k \<Rightarrow> secret_key k)"

fun redact_secrets :: "string option \<Rightarrow> log_value \<Rightarrow> log_value" where
  "redact_secrets key (LMapping es) =
     (if hidden key then LText REDACTED
      else LMapping (dict_of (map (\<lambda>(k, v). (k, redact_secrets (Some k) v)) es)))"
| "redact_secrets key (LSequence vs) =
     (if hidden key then LText REDACTED else LSequence (map (redact_secrets None) vs))"
| "redact_secrets key v = (if hidden key then LText REDACTED else v)"

section \<open>A line of the log\<close>

text \<open>
  The record of a call of the logger, as far as the formatter reads it: the attributes of the record
  (the standard ones and those of \<open>extra\<close>) with their values, the message with its arguments filled in,
  and the text of the exception, where there is one.
\<close>

record log_record =
  lr_levelname :: string
  lr_name :: string
  lr_message :: string
  lr_attributes :: "(string \<times> log_value) list"
  lr_exception :: "string option"

text \<open>\<open>logging.makeLogRecord({}).__dict__\<close>.\<close>

definition standard_record_keys :: "string list" where
  "standard_record_keys =
     [''name'', ''msg'', ''args'', ''levelname'', ''levelno'', ''pathname'', ''filename'', ''module'',
      ''exc_info'', ''exc_text'', ''stack_info'', ''lineno'', ''funcName'', ''created'', ''msecs'',
      ''relativeCreated'', ''thread'', ''threadName'', ''processName'', ''process'', ''taskName'']"

definition extra_attribute :: "string \<Rightarrow> bool" where
  "extra_attribute key \<longleftrightarrow> key \<notin> set standard_record_keys \<and> \<not> starts_with ''_'' key"

definition entries :: "log_value \<Rightarrow> (string \<times> log_value) list" where
  "entries v = (case v of LMapping es \<Rightarrow> es | _ \<Rightarrow> [])"

definition log_payload :: "usec \<Rightarrow> log_record \<Rightarrow> (string \<times> log_value) list" where
  "log_payload t r =
     (let base = [(''timestamp'', LText (isoformat t)), (''level'', LText (lr_levelname r)),
            (''logger'', LText (lr_name r)), (''message'', LText (lr_message r))];
          extras = LMapping (filter (\<lambda>(k, v). extra_attribute k) (lr_attributes r));
          payload = foldl dict_put base (entries (redact_secrets None extras))
      in case lr_exception r of None \<Rightarrow> payload | Some x \<Rightarrow> dict_put payload (''exception'', LText x))"

text \<open>\<open>json.dumps(payload, ensure_ascii=False, default=str)\<close>; \<open>rt\<close> writes a float.\<close>

definition log_string :: "string \<Rightarrow> string" where
  "log_string s =
     [CHR 0x22] @ concat (map (\<lambda>c. if c = CHR 0x7F then [c] else escape_char c) s) @ [CHR 0x22]"

fun log_text :: "(real \<Rightarrow> string) \<Rightarrow> log_value \<Rightarrow> string" where
  "log_text rt LNone = ''null''"
| "log_text rt (LBool b) = (if b then ''true'' else ''false'')"
| "log_text rt (LInt i) = show_int i"
| "log_text rt (LReal x) = rt x"
| "log_text rt (LText s) = log_string s"
| "log_text rt (LOther s) = log_string s"
| "log_text rt (LSequence vs) = ''['' @ join_with '', '' (map (log_text rt) vs) @ '']''"
| "log_text rt (LMapping es) =
     ''{'' @ join_with '', '' (map (\<lambda>(k, v). log_string k @ '': '' @ log_text rt v) es) @ ''}''"

definition log_line :: "(real \<Rightarrow> string) \<Rightarrow> usec \<Rightarrow> log_record \<Rightarrow> string" where
  "log_line rt t r = log_text rt (LMapping (log_payload t r))"

section \<open>Secret names\<close>

text \<open>A name is secret when it contains one of the words, in whatever letters.\<close>

definition secret_name :: "string \<Rightarrow> bool" where
  "secret_name key \<longleftrightarrow> (\<exists>u w v. key = u @ w @ v \<and> lower w \<in> set secret_words)"

lemma starts_with_iff: "starts_with p s \<longleftrightarrow> (\<exists>v. s = p @ v)"
  by (auto simp: starts_with_def) (metis append_take_drop_id)

lemma find_text_iff: "find_text p s \<longleftrightarrow> (\<exists>u v. s = u @ p @ v)"
proof (induction s)
  case (Cons c cs)
  have "(\<exists>u v. c # cs = u @ p @ v) \<longleftrightarrow> (\<exists>v. c # cs = p @ v) \<or> (\<exists>u v. cs = u @ p @ v)"
    by (metis append_Cons append_Nil list.exhaust list.sel(3))
  then show ?case using Cons.IH by (simp add: starts_with_iff)
qed simp

lemma lower_split: "lower s = u @ p @ v \<longleftrightarrow> (\<exists>a w b. s = a @ w @ b \<and> lower a = u \<and> lower w = p \<and> lower b = v)"
  by (auto simp: lower_def map_eq_append_conv append_eq_map_conv)

lemma secret_key_iff: "secret_key key \<longleftrightarrow> secret_name key"
  by (auto simp: secret_key_def secret_name_def list_ex_iff find_text_iff lower_split)

text \<open>Two values that differ at most in what is stored under secret names.\<close>

inductive same_public :: "log_value \<Rightarrow> log_value \<Rightarrow> bool" where
  same: "same_public v v"
| sequence: "list_all2 same_public vs ws \<Longrightarrow> same_public (LSequence vs) (LSequence ws)"
| mapping: "list_all2 (\<lambda>p q. fst p = fst q \<and> (secret_name (fst p) \<or> same_public (snd p) (snd q))) es fs \<Longrightarrow>
    same_public (LMapping es) (LMapping fs)"

lemma redact_hidden: "secret_name k \<Longrightarrow> redact_secrets (Some k) v = LText REDACTED"
  by (cases v) (simp_all add: hidden_def secret_key_iff)

lemma redact_same_public: "same_public v w \<Longrightarrow> redact_secrets key v = redact_secrets key w"
proof (induction arbitrary: key rule: same_public.induct)
  case (sequence vs ws)
  have "map (redact_secrets None) vs = map (redact_secrets None) ws"
    using sequence by (induction rule: list_all2_induct) auto
  then show ?case by simp
next
  case (mapping es fs)
  have "map (\<lambda>(k, v). (k, redact_secrets (Some k) v)) es = map (\<lambda>(k, v). (k, redact_secrets (Some k) v)) fs"
    using mapping by (induction rule: list_all2_induct) (auto simp: redact_hidden)
  then show ?case by simp
qed simp

section \<open>What is not secret stays\<close>

lemma dict_put_new: "k \<notin> fst ` set es \<Longrightarrow> dict_put es (k, v) = es @ [(k, v)]"
  by (induction es) auto

lemma dict_of_distinct: "distinct (map fst es) \<Longrightarrow> dict_of es = es"
proof -
  have "distinct (map fst (ds @ es)) \<Longrightarrow> foldl dict_put ds es = ds @ es" for ds
    by (induction es arbitrary: ds) (auto simp: dict_put_new)
  from this [of "[]"] show "distinct (map fst es) \<Longrightarrow> dict_of es = es" by (simp add: dict_of_def)
qed

lemma dict_put_keys: "map fst (dict_put es e) = (if fst e \<in> fst ` set es then map fst es else map fst es @ [fst e])"
  by (induction es e rule: dict_put.induct) auto

lemma dict_of_keys: "distinct (map fst (dict_of es))"
proof -
  have "distinct (map fst ds) \<Longrightarrow> distinct (map fst (foldl dict_put ds es))" for ds
    by (induction es arbitrary: ds) (auto simp: dict_put_keys)
  then show ?thesis by (simp add: dict_of_def)
qed

text \<open>A value in which every key is public, and distinct in its mapping.\<close>

fun public :: "log_value \<Rightarrow> bool" where
  "public (LMapping es) = (distinct (map fst es) \<and> list_all (\<lambda>(k, v). \<not> secret_key k \<and> public v) es)"
| "public (LSequence vs) = list_all public vs"
| "public v = True"

lemma redact_public: "public v \<Longrightarrow> \<not> hidden key \<Longrightarrow> redact_secrets key v = v"
proof (induction v arbitrary: key)
  case (LSequence vs)
  then have "map (redact_secrets None) vs = vs"
    by (intro map_idI) (auto simp: list_all_iff hidden_def)
  then show ?case using LSequence by simp
next
  case (LMapping es)
  then have "map (\<lambda>(k, v). (k, redact_secrets (Some k) v)) es = es"
    by (intro map_idI) (fastforce simp: list_all_iff hidden_def)
  then show ?case using LMapping by (simp add: dict_of_distinct)
qed simp_all

lemma dict_of_set: "set (dict_of es) \<subseteq> set es"
proof -
  have put: "set (dict_put ds e) \<subseteq> insert e (set ds)" for ds :: "(string \<times> 'a) list" and e
    by (induction ds e rule: dict_put.induct) auto
  have "set (foldl dict_put ds es) \<subseteq> set ds \<union> set es" for ds
    using put by (induction es arbitrary: ds) (simp, force)
  from this [of "[]"] show ?thesis by (simp add: dict_of_def)
qed

text \<open>Redacting a value again changes nothing.\<close>

lemma redact_idempotent: "redact_secrets key (redact_secrets key v) = redact_secrets key v"
proof (induction v arbitrary: key)
  case (LMapping es)
  let ?ds = "dict_of (map (\<lambda>(k, v). (k, redact_secrets (Some k) v)) es)"
  have "map (\<lambda>(k, v). (k, redact_secrets (Some k) v)) ?ds = ?ds"
    using LMapping dict_of_set [of "map (\<lambda>(k, v). (k, redact_secrets (Some k) v)) es"]
    by (intro map_idI) fastforce
  then show ?case by (simp add: dict_of_distinct dict_of_keys)
qed (simp_all add: hidden_def)

section \<open>Lines\<close>

lemma same_filter:
  assumes "same_public (LMapping es) (LMapping fs)"
  shows "same_public (LMapping (filter (\<lambda>(k, v). P k) es)) (LMapping (filter (\<lambda>(k, v). P k) fs))"
  using assms
proof (cases rule: same_public.cases)
  case mapping
  then have "list_all2 (\<lambda>p q. fst p = fst q \<and> (secret_name (fst p) \<or> same_public (snd p) (snd q))) es fs"
    by simp
  then have "list_all2 (\<lambda>p q. fst p = fst q \<and> (secret_name (fst p) \<or> same_public (snd p) (snd q)))
      (filter (\<lambda>(k, v). P k) es) (filter (\<lambda>(k, v). P k) fs)"
    by (induction rule: list_all2_induct) auto
  then show ?thesis by (rule same_public.mapping)
qed (simp add: same_public.same)

text \<open>
  C39. A line of the log does not tell a secret: two records of the logger that differ only in what is
  stored under secret names, at any depth and inside lists, give the same line. A name is secret when
  it contains one of the words of the pattern, whatever the case of its letters.
\<close>

theorem log_hides_secrets:
  assumes "same_public (LMapping (lr_attributes r)) (LMapping attributes)"
  shows "log_line rt t (r\<lparr>lr_attributes := attributes\<rparr>) = log_line rt t r"
proof -
  have "redact_secrets None (LMapping (filter (\<lambda>(k, v). extra_attribute k) (lr_attributes r))) =
      redact_secrets None (LMapping (filter (\<lambda>(k, v). extra_attribute k) attributes))"
    using assms by (intro redact_same_public same_filter)
  then show ?thesis
    by (cases "lr_exception r") (simp_all del: redact_secrets.simps add: log_line_def log_payload_def Let_def)
qed

definition sample_record :: "string \<Rightarrow> log_record" where
  "sample_record secret =
     \<lparr>lr_levelname = ''WARNING'', lr_name = ''app'', lr_message = ''request_failed'',
      lr_attributes = [(''node_id'', LText ''n1''),
        (''attempts'', LSequence [LMapping [(''X-Api-Key'', LText secret), (''status'', LInt 401)]])],
      lr_exception = None\<rparr>"

theorem log_hides_secrets_witness:
  "log_line (\<lambda>x. []) 0 (sample_record ''hunter2'') = log_line (\<lambda>x. []) 0 (sample_record ''other'')"
proof -
  have "''X-Api-Key'' = ''X-'' @ ''Api-Key'' @ []" by simp
  moreover have "lower ''Api-Key'' \<in> set secret_words" by code_simp
  ultimately have key: "secret_name ''X-Api-Key''" unfolding secret_name_def by blast
  have "same_public (LMapping (lr_attributes (sample_record ''other'')))
      (LMapping (lr_attributes (sample_record ''hunter2'')))"
    by (auto simp: sample_record_def key intro!: same_public.intros)
  from log_hides_secrets [OF this]
  show ?thesis by (simp add: sample_record_def)
qed

end
