(* ===== verification/Spec2Isabelle.thy ===== *)
theory Spec2Isabelle
  imports ReplWorker MonWorker ComponentProps WorkflowProps PlatformProps Management Control CallbackProps HostKeyProps RegistryProps ControlProps PressProps NotifierProps CliProps Backup Service Migrations Logging
begin

text \<open>
  \<^bold>\<open>What is modelled.\<close> The recovery service of this repository replaces the remote 3X-UI nodes of a
  Master panel when the monitoring finds that they can no longer be reached. Its parts share one
  registry, a PostgreSQL database:

    the monitoring worker checks every due node through Check-Host and moves its state;
    the replacement worker resumes the open jobs and starts one for each failed node it may repair;
    the orchestrator takes a job through its checkpoints: provision a server, check its address, deploy
      the panel on it, verify the node, move the Master panel over, verify it, check the health again,
      delete the old server, with every step recorded before the next one;
    the control service and the registry management are what operators call, from the bot or from the
      command lines: triggers, cancellations, switches, registration and removal of providers and nodes;
    the bot is the front end: commands, signed buttons, dialogues, and a notifier of the events.

  \<^bold>\<open>How code becomes a definition.\<close> A coroutine of the program is an \<open>act\<close> (\<open>World\<close>): given the
  environment (\<open>env\<close>) it maps a \<open>world\<close> to a result, a value or an exception (\<open>exn + 'a\<close>), and a new world.
  \<open>bind\<close>, \<open>ret\<close>, \<open>raise\<close>, \<open>catch\<close> and \<open>session\<close> are sequencing, exceptions and \<open>async with
  session_scope()\<close>. A world holds the committed database, the private copy of the open session (which
  commit publishes and an exception drops), the files, the cached adapters, the simulated servers, the
  state of the Master client, the dialogue of the user, the messages of the bot, and the log of every
  external call together with the database at that moment; the safety properties are statements about this
  log. Rows are records (\<open>Models\<close>), tables are lists of rows, and an update or insertion that would break a
  constraint raises \<open>IntegrityError\<close> at the flush or commit. Times are integers in microseconds, intervals and the
  monotonic clock real numbers, Python integers are \<open>int\<close>, texts are ASCII, and the words of SHA-256 are
  \<open>32 word\<close>. Names follow the source; a class prefix tells equal names apart (\<open>control_resolve_node\<close>, \<open>hetzner_get_server\<close>).

  \<^bold>\<open>Theories and sources.\<close>

    Library:  \<open>Prelude\<close> (named collections, lists, options, texts), \<open>Json\<close>, \<open>Uuid\<close>, \<open>Calendar\<close>, \<open>Url\<close>, \<open>Ip\<close>,
      \<open>Sha256\<close> (what the program uses of the standard library), \<open>Machine\<close> (state machines as locales, with
      what is reachable along their edges), \<open>Hoare\<close> (weakest preconditions for acts and the locale
      \<open>world_inv\<close>), \<open>Samples\<close> (the concrete inputs of the instances).
    Data:  \<open>Enums\<close>, \<open>Models\<close> (app/models), \<open>Config\<close> (app/core/config.py), \<open>World\<close> (app/core/errors.py,
      app/database/session.py), \<open>Repositories\<close> (app/database/repositories), \<open>OpSettings\<close>
      (app/services/operational_settings.py), \<open>Secrets\<close> (app/core/secrets.py), \<open>Migrations\<close>
      (migrations/versions).
    State machines:  \<open>NodeState\<close> (app/services/node_state.py), \<open>ReplState\<close> (app/replacement/state.py),
      \<open>DeployState\<close> (app/deployment/state.py), \<open>OldVpsGuard\<close> (app/replacement/safety.py).
    External services:  \<open>ProviderBase\<close>, \<open>Providers\<close> (app/providers), \<open>MasterTypes\<close>, \<open>Master\<close> (app/master),
      \<open>Health\<close>, \<open>CheckHost\<close> (app/monitoring), \<open>Deployment\<close>, \<open>HostKeys\<close> (app/deployment).
    Workflow:  \<open>OrchCore\<close>, \<open>OrchStages\<close>, \<open>OrchMaster\<close>, \<open>Orchestrator\<close> (app/replacement/orchestrator.py,
      reachability.py, locks.py), \<open>ReplWorker\<close>, \<open>MonWorker\<close> (app/workers).
    Operators:  \<open>Registry\<close>, \<open>Discovery\<close>, \<open>Management\<close> (app/registry), \<open>Control\<close> (app/control), \<open>Diagnostics\<close>
      (app/diagnostics), \<open>Cli\<close> (scripts/registry_cli.py, scripts/runtime_control_cli.py), \<open>Backup\<close> (app/backup,
      scripts/backup_db.py, scripts/restore_db.py), \<open>Service\<close> (schedulers, app/runtime.py, health endpoint,
      scripts/security_review.py), \<open>Logging\<close> (app/core/logging.py).
    Bot (app/bot):  \<open>Callbacks\<close> (callbacks.py, auth.py), \<open>Formatters\<close>, \<open>Telegram\<close> (updates and messages),
      \<open>Wizard\<close>, \<open>RegistryUi\<close>, \<open>WizardSteps\<close> (registry_ui.py), \<open>RuntimeUi\<close>, \<open>HealthUi\<close>, \<open>Application\<close>
      (application.py), \<open>Dispatch\<close> (which handler takes an update), \<open>Notifier\<close>.

  \<^bold>\<open>What the lemmas show.\<close>

    \<open>JobInv\<close>, \<open>StageInv\<close>, \<open>SwitchInv\<close>, \<open>WorkflowProps\<close>: one invariant of the world through every stage,
      failure path, resume and cancel of a job; from it the properties of the workflow (C1 to C4): what is
      deleted and when, that the registry stays consistent, that a simulated job stays inside.
    \<open>ComponentProps\<close>, \<open>PlatformProps\<close>, \<open>Polling\<close>: the components on their own (guard, chain of checkpoints,
      debouncing, quorum, leases, attempts, polling, snapshots, provisioning limits, names, secrets, quoting).
    \<open>RegistryProps\<close>, \<open>ControlProps\<close>, \<open>HostKeyProps\<close>: registration, removal, admission and cancellation.
    \<open>CallbackProps\<close>, \<open>Frames\<close>, \<open>BotFrames\<close>, \<open>BotProps\<close>, \<open>PressProps\<close>, \<open>NotifierProps\<close>, \<open>CliProps\<close>: what a user of
      the bot can change and with which button, that a confirmation counts once, that no event is lost or
      repeated in the chat, and what a command line may do. \<open>Frames\<close> shows once, for every construct and for
      each operation, what it leaves alone; the properties are instances of it.
    \<open>Logging\<close>: a line of the log does not depend on what is stored under secret names.
    \<open>Backup\<close>, \<open>Migrations\<close>, \<open>Service\<close> and the state machines carry their lemmas with them. The enumerations
      that the checks of the database repeat are instances of the class \<open>enum\<close>, with which the two are compared.

  \<^bold>\<open>Interfaces.\<close> Each locale states a contract that is proved for the model's own definitions:
  \<open>state_machine\<close> and \<open>ranked_machine\<close> (node, replacement and deployment states), \<open>lease\<close> (the leases of jobs
  and nodes), \<open>provider_adapter\<close> (Hetzner, Linode, the simulation and the adapter a job is given), \<open>polling\<close>
  (waiting for a server, for SSH and for a check result), \<open>world_inv\<close> with \<open>job_inv\<close> and \<open>job_run\<close> (an
  invariant of one job against what other processes may do) and \<open>bystander\<close> (operations that keep a
  property of the registry or of the log).

  \<^bold>\<open>Bounds and fuel.\<close> \<open>resume\<close> makes at most 64 steps in one call because the source does. The polling loops
  end in the source at a deadline of the monotonic clock; their fuel, \<open>ready_fuel\<close> and \<open>poll_fuel\<close>, is the
  timeout divided by the interval, plus two, and \<open>Polling\<close> shows that it never runs out when the clock
  does not go back and a sleep lasts as long as it was asked to. Everything else is total.

  \<^bold>\<open>Parameters.\<close> What is not code of the repository is an argument: the answers of HTTP, SSH and TCP, the
  clocks, the random identifiers, the environment variables, the faults of the file system, the chat and
  the commits of other processes (\<open>env_others\<close>, applied when a session opens) are functions of
  \<open>env\<close>; the key functions of the SSH library, the local time zone, the text of floating-point numbers and
  the causes of an exception are fields of \<open>bot_libs\<close>; how \<open>argparse\<close> splits the words, \<open>pg_dump\<close>,
  \<open>pg_restore\<close> and the parsing of the database URL are arguments of \<open>Cli\<close> and \<open>Backup\<close>. What a theorem needs
  of them it says in its hypotheses, and a concrete instance follows it.

  \<^bold>\<open>Not modelled.\<close> The handlers of the log and the start-up of the processes (runner.py, signals, the
  scheduling library, the web framework): they keep no state of their own. The scripts that validate a
  release, which only read the text of the repository. The interleaving of the checks that
  \<open>asyncio.gather\<close> runs together, and of the task that shows the progress of a replacement with the
  workflow it follows: they run one after the other here, while other processes may interleave at every
  session, though not between the statements of one. The cancellation of a diagnostic check in the
  middle, which is decided from its duration. The column types and relationships of the ORM classes (the
  columns are those of \<open>Migrations\<close>), and the primary key of the events, which the program only ever
  inserts with a fresh identifier. Texts outside ASCII. The TLS context and the connection pools. Of the
  migrations, Alembic's own connection (\<open>env.py\<close>).
\<close>

end
